(* ===== verification/Prelude.thy ===== *)
theory Prelude
  imports Complex_Main "HOL-Library.Word" "HOL-Library.List_Lexorder" "HOL-Library.Char_ord"
begin

text \<open>
  Vocabulary shared by every component: the types of identifiers, byte sequences and fallible
  results, the decimal and hexadecimal printers of Go's \<open>fmt\<close> and \<open>encoding/hex\<close> packages, the
  conversions between Go's integer widths, small list functions that the SQL statements use, and
  the generic locale of a system whose operations keep an invariant.

  Named theorem collections:
  \<^item> \<open>go_defs\<close>: definitions that evaluation unfolds;
  \<^item> \<open>sql_defs\<close>: definitions of the SQL statements;
  \<^item> \<open>frame\<close>: equations saying which part of a state an operation leaves alone.
\<close>

named_theorems go_defs
named_theorems sql_defs
named_theorems frame

subsection \<open>Types\<close>

type_synonym uuid = "128 word"
type_synonym bytes = "8 word list"

text \<open>The outcome of a Go call that may panic.\<close>

datatype 'a go_result = Returns 'a | Panics string

text \<open>\<open>uuid.Nil\<close>: sixteen zero bytes.\<close>

definition nil_uuid :: uuid where
  [go_defs]: "nil_uuid = 0"

subsection \<open>Printing numbers and bytes\<close>

definition digit_char :: "nat \<Rightarrow> char" where
  [go_defs]: "digit_char n = ''0123456789abcdef'' ! n"

fun dec_nat :: "nat \<Rightarrow> string" where
  "dec_nat n = (if n < 10 then [digit_char n] else dec_nat (n div 10) @ [digit_char (n mod 10)])"

declare dec_nat.simps [simp del]

text \<open>The verb \<open>%d\<close> of \<open>fmt.Sprintf\<close>, also \<open>strconv.Itoa\<close>.\<close>

definition dec_int :: "int \<Rightarrow> string" where
  [go_defs]: "dec_int i = (if i < 0 then CHR ''-'' # dec_nat (nat (- i)) else dec_nat (nat i))"

text \<open>\<open>hex.EncodeToString\<close>: two lower case digits for each byte.\<close>

fun hex_encode :: "bytes \<Rightarrow> string" where
  "hex_encode [] = []"
| "hex_encode (b # bs) =
     digit_char (unat b div 16) # digit_char (unat b mod 16) # hex_encode bs"

lemma length_hex_encode [simp]: "length (hex_encode bs) = 2 * length bs"
  by (induction bs) auto

lemma dec_nat_not_Nil [simp]: "dec_nat n \<noteq> []"
  by (subst dec_nat.simps) simp

lemma digit_char_is_digit: "n < 10 \<Longrightarrow> digit_char n \<in> set ''0123456789''"
proof -
  assume "n < 10"
  then have "digit_char n = ''0123456789'' ! n"
    by (simp add: digit_char_def nth_Cons' numeral_eq_Suc)
  moreover have "''0123456789'' ! n \<in> set ''0123456789''"
    using \<open>n < 10\<close> by (intro nth_mem) simp
  ultimately show ?thesis by simp
qed

lemma dec_nat_digits: "set (dec_nat n) \<subseteq> set ''0123456789''"
proof (induction n rule: dec_nat.induct)
  case (1 n)
  show ?case
  proof (cases "n < 10")
    case True
    then show ?thesis using digit_char_is_digit [OF True] by (subst dec_nat.simps) simp
  next
    case False
    with "1.IH" digit_char_is_digit [of "n mod 10"] show ?thesis
      by (subst dec_nat.simps) simp
  qed
qed

definition ascii :: "string \<Rightarrow> bool" where
  "ascii s \<longleftrightarrow> (\<forall>c \<in> set s. of_char c < (128::nat))"

lemma ascii_simps [simp]: "ascii []" "ascii (c # s) \<longleftrightarrow> of_char c < (128::nat) \<and> ascii s"
  "ascii (s @ t) \<longleftrightarrow> ascii s \<and> ascii t"
  by (auto simp: ascii_def)

lemma ascii_take_drop [simp]: "ascii s \<Longrightarrow> ascii (take n s)" "ascii s \<Longrightarrow> ascii (drop n s)"
  by (auto simp: ascii_def dest: in_set_takeD in_set_dropD)

lemma ascii_digits [simp]: "ascii (dec_nat n)"
proof -
  have "\<forall>c \<in> set ''0123456789''. of_char c < (128::nat)" by simp
  then show ?thesis using dec_nat_digits [of n] unfolding ascii_def by blast
qed

lemma ascii_dec_int [simp]: "ascii (dec_int i)"
  by (simp add: dec_int_def)

lemma digit_char_ascii: "n < 16 \<Longrightarrow> of_char (digit_char n) < (128::nat)"
proof -
  assume "n < 16"
  then have "digit_char n \<in> set ''0123456789abcdef''" unfolding digit_char_def by (intro nth_mem) simp
  moreover have "\<forall>c \<in> set ''0123456789abcdef''. of_char c < (128::nat)" by simp
  ultimately show ?thesis by blast
qed

subsection \<open>Integer widths\<close>

text \<open>Go's conversions \<open>int32(x)\<close> and \<open>int64(x)\<close> keep the low bits, in two's complement.\<close>

definition to_i32 :: "int \<Rightarrow> int" where
  [go_defs]: "to_i32 x = sint (word_of_int x :: 32 word)"

definition to_i64 :: "int \<Rightarrow> int" where
  [go_defs]: "to_i64 x = sint (word_of_int x :: 64 word)"

lemma to_i32_id: "- (2 ^ 31) \<le> x \<Longrightarrow> x < 2 ^ 31 \<Longrightarrow> to_i32 x = x"
  by (simp add: to_i32_def sint_sbintrunc' signed_take_bit_int_eq_self)

lemma to_i64_id: "- (2 ^ 63) \<le> x \<Longrightarrow> x < 2 ^ 63 \<Longrightarrow> to_i64 x = x"
  by (simp add: to_i64_def sint_sbintrunc' signed_take_bit_int_eq_self)

subsection \<open>Lists of rows\<close>

fun somes :: "'a option list \<Rightarrow> 'a list" where
  "somes [] = []"
| "somes (None # xs) = somes xs"
| "somes (Some x # xs) = x # somes xs"

lemma set_somes [simp]: "set (somes xs) = {x. Some x \<in> set xs}"
  by (induction xs rule: somes.induct) auto

lemma somes_append [simp]: "somes (xs @ ys) = somes xs @ somes ys"
  by (induction xs rule: somes.induct) auto

lemma distinct_map_filter: "distinct (map f xs) \<Longrightarrow> distinct (map f (filter P xs))"
  by (induction xs) auto

text \<open>\<open>LIMIT l OFFSET o\<close>, for numbers that are not negative.\<close>

definition page :: "int \<Rightarrow> int \<Rightarrow> 'a list \<Rightarrow> 'a list" where
  [go_defs]: "page l ofs xs = take (nat l) (drop (nat ofs) xs)"

lemma set_page: "set (page l ofs xs) \<subseteq> set xs"
  unfolding page_def by (meson set_drop_subset set_take_subset subset_trans)

lemma length_page: "0 \<le> l \<Longrightarrow> int (length (page l ofs xs)) \<le> l"
  by (simp add: page_def)

text \<open>
  \<open>ORDER BY k DESC\<close>. SQL leaves the order of rows with equal keys open; the model keeps the
  order of the table.
\<close>

definition order_desc :: "('a \<Rightarrow> int) \<Rightarrow> 'a list \<Rightarrow> 'a list" where
  [go_defs]: "order_desc k xs = sort_key (\<lambda>x. - k x) xs"

lemma set_order_desc [simp]: "set (order_desc k xs) = set xs"
  by (simp add: order_desc_def)

lemma length_order_desc [simp]: "length (order_desc k xs) = length xs"
  by (simp add: order_desc_def)

lemma sorted_order_desc: "sorted (map (\<lambda>x. - k x) (order_desc k xs))"
  by (simp add: order_desc_def)

text \<open>A text column of type \<open>VARCHAR(n)\<close> counts characters: the bytes that start one in UTF-8.\<close>

definition char_count :: "string \<Rightarrow> nat" where
  [go_defs]: "char_count s = length (filter (\<lambda>c. of_char c < (128::nat) \<or> 192 \<le> (of_char c :: nat)) s)"

definition varchar_ok :: "nat \<Rightarrow> string \<Rightarrow> bool" where
  [go_defs]: "varchar_ok n s \<longleftrightarrow> char_count s \<le> n"

definition varchar_opt_ok :: "nat \<Rightarrow> string option \<Rightarrow> bool" where
  [go_defs]: "varchar_opt_ok n s \<longleftrightarrow> (case s of None \<Rightarrow> True | Some t \<Rightarrow> varchar_ok n t)"

lemma char_count_le: "char_count s \<le> length s"
  by (simp add: char_count_def)

text \<open>\<open>sql.NullString{String: s, Valid: s != \"\"}\<close>, and the field \<open>String\<close> of a null string.\<close>

definition null_if_empty :: "string \<Rightarrow> string option" where
  [go_defs]: "null_if_empty s = (if s = '''' then None else Some s)"

definition null_string :: "string option \<Rightarrow> string" where
  [go_defs]: "null_string s = (case s of None \<Rightarrow> '''' | Some t \<Rightarrow> t)"

subsection \<open>Systems that keep an invariant\<close>

text \<open>
  A system is a step function on states, driven by a list of inputs. If every step keeps the
  invariant, every run does.
\<close>

locale invariant_system =
  fixes step :: "'i \<Rightarrow> 's \<Rightarrow> 's"
    and inv :: "'s \<Rightarrow> bool"
  assumes inv_step: "inv s \<Longrightarrow> inv (step i s)"
begin

lemma inv_run: "inv s \<Longrightarrow> inv (fold step is s)"
  by (induction "is" arbitrary: s) (auto intro: inv_step)

lemma inv_prefix: "inv s \<Longrightarrow> inv (fold step (take n is) s)"
  by (rule inv_run)

end

end
