(* ===== verification/GoStd.thy ===== *)
theory GoStd
  imports Prelude
begin

text \<open>
  The fragments of Go's standard library that the handlers use: \<open>strconv.ParseInt\<close> and
  \<open>strconv.Atoi\<close> (scanned left to right, with the value that is returned next to a range
  error, because some callers ignore the error), \<open>strings.SplitN\<close> at the first space, and
  \<open>strings.EqualFold\<close> against a word of ASCII letters that fold to nothing else.
\<close>

subsection \<open>strconv\<close>

datatype num_error = ErrSyntax | ErrRange

definition is_digit :: "char \<Rightarrow> bool" where
  [go_defs]: "is_digit c \<longleftrightarrow> 48 \<le> (of_char c :: nat) \<and> of_char c \<le> (57 :: nat)"

definition digit_val :: "char \<Rightarrow> nat" where
  [go_defs]: "digit_val c = of_char c - 48"

fun scan_uint :: "nat \<Rightarrow> nat \<Rightarrow> string \<Rightarrow> num_error + nat" where
  "scan_uint mx acc [] = Inr acc"
| "scan_uint mx acc (c # cs) =
     (if \<not> is_digit c then Inl ErrSyntax
      else let n = acc * 10 + digit_val c in
           if mx < n then Inl ErrRange else scan_uint mx n cs)"

text \<open>\<open>strconv.ParseUint(s, 10, bits)\<close>.\<close>

definition parse_uint :: "nat \<Rightarrow> string \<Rightarrow> num_error + nat" where
  [go_defs]: "parse_uint bits s = (if s = [] then Inl ErrSyntax else scan_uint (2 ^ bits - 1) 0 s)"

text \<open>\<open>strconv.ParseInt(s, 10, bits)\<close>: the returned number and the error, if any.\<close>

definition parse_int :: "nat \<Rightarrow> string \<Rightarrow> int \<times> num_error option" where
  [go_defs]: "parse_int bits s =
     (let neg = (case s of c # _ \<Rightarrow> c = CHR ''-'' | [] \<Rightarrow> False);
          rest = (case s of c # cs \<Rightarrow> if c = CHR ''-'' \<or> c = CHR ''+'' then cs else s | [] \<Rightarrow> s);
          cutoff = (2::nat) ^ (bits - 1);
          clamp = (if neg then - int cutoff else int cutoff - 1)
      in case parse_uint bits rest of
           Inl ErrSyntax \<Rightarrow> (0, Some ErrSyntax)
         | Inl ErrRange \<Rightarrow> (clamp, Some ErrRange)
         | Inr un \<Rightarrow>
             if \<not> neg \<and> cutoff \<le> un then (clamp, Some ErrRange)
             else if neg \<and> cutoff < un then (clamp, Some ErrRange)
             else (if neg then - int un else int un, None))"

text \<open>\<open>strconv.Atoi\<close> on a 64-bit machine.\<close>

definition atoi :: "string \<Rightarrow> int \<times> num_error option" where
  [go_defs]: "atoi s = parse_int 64 s"

lemma int_less_power: "int x < 2 ^ k \<longleftrightarrow> x < 2 ^ k"
  by (metis of_nat_less_iff of_nat_numeral of_nat_power)

lemma int_le_power: "int x \<le> 2 ^ k \<longleftrightarrow> x \<le> 2 ^ k"
  by (metis of_nat_le_iff of_nat_numeral of_nat_power)

lemma neg_int_less_power: "- int x < 2 ^ k"
  by (rule le_less_trans [of _ 0]) simp_all

lemma neg_power_le_int: "- (2 ^ k) \<le> int x"
  by (rule order_trans [of _ 0]) simp_all

lemmas int_power_simps = int_less_power int_le_power neg_int_less_power neg_power_le_int

lemma parse_int_bounds:
  "0 < bits \<Longrightarrow> - (2 ^ (bits - 1)) \<le> fst (parse_int bits s) \<and> fst (parse_int bits s) < 2 ^ (bits - 1)"
  by (auto simp: parse_int_def Let_def int_power_simps split: sum.splits num_error.splits)

lemma atoi_bounds: "- (2 ^ 63) \<le> fst (atoi s) \<and> fst (atoi s) < 2 ^ 63"
  using parse_int_bounds [of 64 s] by (simp add: atoi_def)

subsection \<open>strings\<close>

definition to_lower :: "char \<Rightarrow> char" where
  [go_defs]: "to_lower c =
     (if 65 \<le> (of_char c :: nat) \<and> of_char c \<le> (90 :: nat) then char_of (of_char c + 32 :: nat) else c)"

definition equal_fold :: "string \<Rightarrow> string \<Rightarrow> bool" where
  [go_defs]: "equal_fold s t \<longleftrightarrow> map to_lower s = map to_lower t"

text \<open>\<open>strings.SplitN(s, \" \", 2)\<close>: one part without a space, else the parts around the first.\<close>

definition split_space2 :: "string \<Rightarrow> string list" where
  [go_defs]: "split_space2 s =
     (case dropWhile (\<lambda>c. c \<noteq> CHR '' '') s of
        [] \<Rightarrow> [s]
      | _ # rest \<Rightarrow> [takeWhile (\<lambda>c. c \<noteq> CHR '' '') s, rest])"

lemma split_space2_bearer:
  "CHR '' '' \<notin> set w \<Longrightarrow> split_space2 (w @ CHR '' '' # t) = [w, t]"
proof -
  assume "CHR '' '' \<notin> set w"
  then have w: "\<And>c. c \<in> set w \<Longrightarrow> c \<noteq> CHR '' ''" by auto
  show ?thesis
    by (simp add: split_space2_def w dropWhile_append2 takeWhile_append2)
qed

end
