(* ===== verification/Errors.thy ===== *)
theory Errors
  imports GoStd
begin

text \<open>
  \<open>internal/core/errors\<close>: the error codes, \<open>AppError\<close> with its HTTP status, and the response
  writer of the HTTP handlers. A Go \<open>error\<close> is either an \<open>*AppError\<close> or a plain one made by
  \<open>fmt.Errorf\<close>, whose text no caller looks at. A response is the status, the headers and one of
  the bodies the handlers write; \<open>OkBody x\<close> is the envelope \<open>{"ok":true,"data":x}\<close> and
  \<open>ErrBody e\<close> the envelope \<open>{"ok":false,"error":e}\<close>.
\<close>

subsection \<open>Codes\<close>

definition ErrInternal :: string where [go_defs]: "ErrInternal = ''INTERNAL_ERROR''"
definition ErrBadRequest :: string where [go_defs]: "ErrBadRequest = ''BAD_REQUEST''"
definition ErrUnauthorized :: string where [go_defs]: "ErrUnauthorized = ''UNAUTHORIZED''"
definition ErrForbidden :: string where [go_defs]: "ErrForbidden = ''FORBIDDEN''"
definition ErrNotFound :: string where [go_defs]: "ErrNotFound = ''NOT_FOUND''"
definition ErrConflict :: string where [go_defs]: "ErrConflict = ''CONFLICT''"
definition ErrRateLimited :: string where [go_defs]: "ErrRateLimited = ''RATE_LIMITED''"
definition ErrTimeout :: string where [go_defs]: "ErrTimeout = ''TIMEOUT''"
definition ErrNotImplemented :: string where [go_defs]: "ErrNotImplemented = ''NOT_IMPLEMENTED''"
definition ErrInvalidCredentials :: string where
  [go_defs]: "ErrInvalidCredentials = ''INVALID_CREDENTIALS''"
definition ErrTokenExpired :: string where [go_defs]: "ErrTokenExpired = ''TOKEN_EXPIRED''"
definition ErrTokenInvalid :: string where [go_defs]: "ErrTokenInvalid = ''TOKEN_INVALID''"
definition ErrSessionRevoked :: string where [go_defs]: "ErrSessionRevoked = ''SESSION_REVOKED''"
definition ErrOTPInvalid :: string where [go_defs]: "ErrOTPInvalid = ''OTP_INVALID''"
definition ErrOTPExpired :: string where [go_defs]: "ErrOTPExpired = ''OTP_EXPIRED''"
definition ErrUserExists :: string where [go_defs]: "ErrUserExists = ''USER_EXISTS''"
definition ErrUserBanned :: string where [go_defs]: "ErrUserBanned = ''USER_BANNED''"
definition ErrPlatformNotSupported :: string where
  [go_defs]: "ErrPlatformNotSupported = ''PLATFORM_NOT_SUPPORTED''"
definition ErrPlatformAuthFailed :: string where
  [go_defs]: "ErrPlatformAuthFailed = ''PLATFORM_AUTH_FAILED''"
definition ErrPlatformBindingExists :: string where
  [go_defs]: "ErrPlatformBindingExists = ''PLATFORM_BINDING_EXISTS''"
definition ErrPlatformNotBound :: string where
  [go_defs]: "ErrPlatformNotBound = ''PLATFORM_NOT_BOUND''"
definition ErrLastCredential :: string where [go_defs]: "ErrLastCredential = ''LAST_CREDENTIAL''"

subsection \<open>AppError\<close>

text \<open>The values of \<open>Details\<close> are kept as their JSON text.\<close>

record app_error =
  ae_code :: string
  ae_message :: string
  ae_details :: "string \<rightharpoonup> string"
  ae_request_id :: string

definition errors_New :: "string \<Rightarrow> string \<Rightarrow> app_error" where
  [go_defs]: "errors_New code message =
     \<lparr>ae_code = code, ae_message = message, ae_details = Map.empty, ae_request_id = ''''\<rparr>"

definition app_error_Error :: "app_error \<Rightarrow> string" where
  [go_defs]: "app_error_Error e = ''['' @ ae_code e @ ''] '' @ ae_message e"

definition HTTPStatus :: "app_error \<Rightarrow> nat" where
  "HTTPStatus e =
     (let c = ae_code e in
      if c = ErrBadRequest \<or> c = ErrInvalidCredentials \<or> c = ErrOTPInvalid \<or> c = ErrOTPExpired
        then 400
      else if c = ErrUnauthorized \<or> c = ErrTokenExpired \<or> c = ErrTokenInvalid \<or> c = ErrSessionRevoked
        then 401
      else if c = ErrForbidden \<or> c = ErrUserBanned then 403
      else if c = ErrNotFound \<or> c = ErrPlatformNotSupported then 404
      else if c = ErrConflict \<or> c = ErrUserExists \<or> c = ErrPlatformBindingExists then 409
      else if c = ErrTimeout then 503
      else if c = ErrRateLimited then 429
      else if c = ErrPlatformNotBound then 404
      else if c = ErrLastCredential then 409
      else 500)"

definition WithDetail :: "string \<Rightarrow> string \<Rightarrow> app_error \<Rightarrow> app_error" where
  [go_defs]: "WithDetail key val e = e\<lparr>ae_details := (ae_details e)(key \<mapsto> val)\<rparr>"

definition WithRequestID :: "string \<Rightarrow> app_error \<Rightarrow> app_error" where
  [go_defs]: "WithRequestID rid e = e\<lparr>ae_request_id := rid\<rparr>"

datatype go_error = AppErr app_error | PlainErr string

text \<open>The error \<open>errors.New(code, message)\<close> as the result of a fallible call.\<close>

abbreviation app_err :: "string \<Rightarrow> string \<Rightarrow> go_error" where
  "app_err code message \<equiv> AppErr (errors_New code message)"

fun err_code :: "go_error \<Rightarrow> string option" where
  "err_code (AppErr e) = Some (ae_code e)"
| "err_code (PlainErr _) = None"

lemma HTTPStatus_WithRequestID [simp]: "HTTPStatus (WithRequestID rid e) = HTTPStatus e"
  by (simp add: HTTPStatus_def WithRequestID_def)

lemma HTTPStatus_WithDetail [simp]: "HTTPStatus (WithDetail k v e) = HTTPStatus e"
  by (simp add: HTTPStatus_def WithDetail_def)

lemma errors_New_code [simp]: "ae_code (errors_New c m) = c"
  by (simp add: errors_New_def)

lemma errors_New_inject [simp]: "errors_New c m = errors_New c' m' \<longleftrightarrow> c = c' \<and> m = m'"
  by (simp add: errors_New_def)

subsection \<open>HTTP requests and responses\<close>

text \<open>
  What a handler reads of \<open>*http.Request\<close>: headers, query values and route parameters (the empty
  string where there is none), the remote address, and the context values that the guard sets.
  The decoded JSON body is an argument of the handlers that read one, \<open>None\<close> where decoding fails.
\<close>

record request =
  rq_header :: "string \<Rightarrow> string"
  rq_query :: "string \<Rightarrow> string"
  rq_param :: "string \<Rightarrow> string"
  rq_remote :: string
  rq_user :: "string option"
  rq_session :: "string option"
  rq_role :: "string option"

type_synonym headers = "string \<rightharpoonup> string"

definition header_get :: "headers \<Rightarrow> string \<Rightarrow> string" where
  [go_defs]: "header_get h k = null_string (h k)"

datatype 'a body = OkBody 'a | JsonBody 'a | ErrBody app_error | TextBody string | NoBody

record 'a response =
  rs_status :: nat
  rs_headers :: headers
  rs_body :: "'a body"

definition WriteHTTP :: "app_error \<Rightarrow> headers \<Rightarrow> 'a response" where
  "WriteHTTP e h =
     \<lparr>rs_status = HTTPStatus e,
      rs_headers = h(''Content-Type'' \<mapsto> ''application/json''),
      rs_body = ErrBody e\<rparr>"

text \<open>\<open>writeJSON\<close> of the handler packages.\<close>

definition writeJSON :: "nat \<Rightarrow> 'a \<Rightarrow> headers \<Rightarrow> 'a response" where
  "writeJSON status data h =
     \<lparr>rs_status = status,
      rs_headers = h(''Content-Type'' \<mapsto> ''application/json''),
      rs_body = OkBody data\<rparr>"

text \<open>\<open>writeAppError\<close> of \<open>auth\<close>, \<open>friends\<close> and \<open>admin\<close>, which copies the request id.\<close>

definition writeAppError :: "go_error \<Rightarrow> headers \<Rightarrow> 'a response" where
  "writeAppError err h =
     (case err of
        AppErr e \<Rightarrow> WriteHTTP (WithRequestID (header_get h ''X-Request-ID'') e) h
      | PlainErr _ \<Rightarrow> WriteHTTP (errors_New ErrInternal ''internal error'') h)"

text \<open>\<open>writeAppError\<close> of \<open>users\<close>, \<open>writeLBError\<close> and \<open>writePlatformAppError\<close>, which do not.\<close>

definition writeAppError_plain :: "go_error \<Rightarrow> headers \<Rightarrow> 'a response" where
  "writeAppError_plain err h =
     (case err of
        AppErr e \<Rightarrow> WriteHTTP e h
      | PlainErr _ \<Rightarrow> WriteHTTP (errors_New ErrInternal ''internal error'') h)"

text \<open>\<open>http.Error\<close> of \<open>net/http\<close>.\<close>

definition http_Error :: "string \<Rightarrow> nat \<Rightarrow> headers \<Rightarrow> 'a response" where
  "http_Error msg status h =
     \<lparr>rs_status = status,
      rs_headers = (h(''Content-Length'' := None))
        (''Content-Type'' \<mapsto> ''text/plain; charset=utf-8'',
         ''X-Content-Type-Options'' \<mapsto> ''nosniff''),
      rs_body = TextBody (msg @ [CHR 0x0A])\<rparr>"

lemmas http_defs = WriteHTTP_def writeJSON_def writeAppError_def writeAppError_plain_def http_Error_def

definition client_error :: "nat \<Rightarrow> bool" where
  "client_error n \<longleftrightarrow> 400 \<le> n \<and> n < 500"

lemma HTTPStatus_range: "HTTPStatus e \<in> {400, 401, 403, 404, 409, 429, 500, 503}"
  by (simp add: HTTPStatus_def Let_def)

lemma writeAppError_status:
  "rs_status (writeAppError err h) = (case err of AppErr e \<Rightarrow> HTTPStatus e | PlainErr _ \<Rightarrow> 500)"
  by (auto simp: writeAppError_def WriteHTTP_def HTTPStatus_def go_defs split: go_error.splits)

lemma writeAppError_plain_status:
  "rs_status (writeAppError_plain err h) = (case err of AppErr e \<Rightarrow> HTTPStatus e | PlainErr _ \<Rightarrow> 500)"
  by (auto simp: writeAppError_plain_def WriteHTTP_def HTTPStatus_def go_defs split: go_error.splits)

end
