(* ===== verification/Json.thy ===== *)
theory Json
  imports GoStd
begin

text \<open>
  JSON texts, as \<open>encoding/json\<close> reads and writes them. A string is a list of bytes. The decoder first
  looks for the end of a value and checks its syntax, with nested values up to a given depth
  (10000 in the library), then unquotes the strings: escapes are replaced, and what is not UTF-8
  becomes the replacement character. A number keeps its text. The reader runs on fuel; two units
  for every byte and two more are enough (\<open>json_fuel\<close>).
\<close>

subsection \<open>Hexadecimal digits and characters of a string\<close>

definition hex_val :: "char \<Rightarrow> nat option" where
  "hex_val c =
     (let n = of_char c in
      if 48 \<le> n \<and> n \<le> 57 then Some (n - 48)
      else if 97 \<le> n \<and> n \<le> 102 then Some (n - 87)
      else if 65 \<le> n \<and> n \<le> 70 then Some (n - 55)
      else None)"

fun hex_parse :: "nat \<Rightarrow> string \<Rightarrow> nat option" where
  "hex_parse acc [] = Some acc"
| "hex_parse acc (c # cs) =
     (case hex_val c of None \<Rightarrow> None | Some v \<Rightarrow> hex_parse (acc * 16 + v) cs)"

lemma hex_val_digit_char: "v < 16 \<Longrightarrow> hex_val (digit_char v) = Some v"
proof -
  assume "v < 16"
  then have "v \<in> {0, 1, 2, 3, 4, 5, 6, 7, 8, 9, 10, 11, 12, 13, 14, 15}"
    by (simp only: insert_iff empty_iff) arith
  then show ?thesis by (auto simp: hex_val_def digit_char_def)
qed

lemma hex_parse_append:
  "hex_parse acc (s @ t) = (case hex_parse acc s of None \<Rightarrow> None | Some a \<Rightarrow> hex_parse a t)"
  by (induction s arbitrary: acc) (auto split: option.split)

text \<open>
  How \<open>encoding/json\<close> writes a character of a string: quotes, backslashes and control characters
  are escaped, and so are the characters with a meaning in HTML. Bytes of multi-byte UTF-8
  sequences are written as they are; the library escapes two of them (U+2028 and U+2029), which a
  reader turns back into the same bytes.
\<close>

definition hex_escape :: "nat \<Rightarrow> string" where
  "hex_escape n = [CHR 0x5C, CHR ''u'', CHR ''0'', CHR ''0'', digit_char (n div 16), digit_char (n mod 16)]"

definition json_char :: "char \<Rightarrow> string" where
  "json_char c =
     (let n = of_char c in
      if n = 34 \<or> n = 92 then [CHR 0x5C, c]
      else if n = 8 then [CHR 0x5C, CHR ''b'']
      else if n = 12 then [CHR 0x5C, CHR ''f'']
      else if n = 10 then [CHR 0x5C, CHR ''n'']
      else if n = 13 then [CHR 0x5C, CHR ''r'']
      else if n = 9 then [CHR 0x5C, CHR ''t'']
      else if n < 32 \<or> n = 60 \<or> n = 62 \<or> n = 38 then hex_escape n
      else [c])"

definition json_string :: "string \<Rightarrow> string" where
  "json_string s = CHR 0x22 # concat (map json_char s) @ [CHR 0x22]"

text \<open>The character after a backslash, except \<open>u\<close>.\<close>

definition unescape :: "char \<Rightarrow> char option" where
  "unescape c =
     (if c = CHR 0x22 \<or> c = CHR 0x5C \<or> c = CHR ''/'' then Some c
      else if c = CHR ''b'' then Some (char_of (8::nat))
      else if c = CHR ''f'' then Some (char_of (12::nat))
      else if c = CHR ''n'' then Some (char_of (10::nat))
      else if c = CHR ''r'' then Some (char_of (13::nat))
      else if c = CHR ''t'' then Some (char_of (9::nat))
      else None)"

lemma char_codes:
  "char_of (34::nat) = CHR 0x22" "char_of (92::nat) = CHR 0x5C" "char_of (8::nat) = CHR 0x08"
  "char_of (12::nat) = CHR 0x0C" "char_of (10::nat) = CHR 0x0A" "char_of (13::nat) = CHR 0x0D"
  "char_of (9::nat) = CHR 0x09"
  by (simp_all add: char_of_def bit_iff_odd)

subsection \<open>UTF-8\<close>

definition cont_byte :: "nat \<Rightarrow> bool" where
  "cont_byte b \<longleftrightarrow> 128 \<le> b \<and> b < 192"

text \<open>The length of the UTF-8 sequence at the head of some bytes, 0 if there is none.\<close>

fun seq_len :: "nat list \<Rightarrow> nat" where
  "seq_len [] = 0"
| "seq_len (a # bs) =
     (if a < 128 then 1
      else if 194 \<le> a \<and> a < 224 then (case bs of b # _ \<Rightarrow> if cont_byte b then 2 else 0 | _ \<Rightarrow> 0)
      else if 224 \<le> a \<and> a < 240 then
        (case bs of
           b # c # _ \<Rightarrow>
             if cont_byte b \<and> (a = 224 \<longrightarrow> 160 \<le> b) \<and> (a = 237 \<longrightarrow> b < 160) \<and> cont_byte c then 3 else 0
         | _ \<Rightarrow> 0)
      else if 240 \<le> a \<and> a < 245 then
        (case bs of
           b # c # d # _ \<Rightarrow>
             if cont_byte b \<and> (a = 240 \<longrightarrow> 144 \<le> b) \<and> (a = 244 \<longrightarrow> b < 144) \<and> cont_byte c \<and> cont_byte d then 4 else 0
         | _ \<Rightarrow> 0)
      else 0)"

definition rune_len :: "string \<Rightarrow> nat" where
  "rune_len s = seq_len (map of_char (take 4 s))"

definition utf8_enc :: "nat \<Rightarrow> string" where
  "utf8_enc r =
     map char_of
       (if r < 128 then [r]
        else if r < 2048 then [192 + r div 64, 128 + r mod 64]
        else if r < 65536 then [224 + r div 4096, 128 + r div 64 mod 64, 128 + r mod 64]
        else [240 + r div 262144, 128 + r div 4096 mod 64, 128 + r div 64 mod 64, 128 + r mod 64])"

text \<open>U+FFFD\<close>

definition replacement :: string where
  "replacement = map char_of [239, 191, 189 :: nat]"

function utf8_ok :: "string \<Rightarrow> bool" where
  "utf8_ok s = (if s = [] then True else if rune_len s = 0 then False else utf8_ok (drop (rune_len s) s))"
  by auto
termination by (relation "measure length") auto

declare utf8_ok.simps [simp del]

subsection \<open>Strings\<close>

text \<open>From after the opening quote: the raw text up to the closing quote, and what follows it.\<close>

definition push :: "string \<Rightarrow> (string \<times> string) option \<Rightarrow> (string \<times> string) option" where
  "push p x = map_option (\<lambda>(s, r). (p @ s, r)) x"

fun str_scan :: "string \<Rightarrow> (string \<times> string) option" where
  "str_scan [] = None"
| "str_scan (c # cs) =
     (if c = CHR 0x22 then Some ([], cs)
      else if c = CHR 0x5C then
        (case cs of
           [] \<Rightarrow> None
         | e # es \<Rightarrow>
             if e = CHR ''u'' then
               (case es of
                  h1 # h2 # h3 # h4 # hs \<Rightarrow>
                    if hex_parse 0 [h1, h2, h3, h4] = None then None else push [c, e, h1, h2, h3, h4] (str_scan hs)
                | _ \<Rightarrow> None)
             else if unescape e = None then None else push [c, e] (str_scan es))
      else if of_char c < (32::nat) then None
      else push [c] (str_scan cs))"

text \<open>\<open>utf16.IsSurrogate\<close> and \<open>utf16.DecodeRune\<close>.\<close>

definition surrogate :: "nat \<Rightarrow> bool" where
  "surrogate r \<longleftrightarrow> 0xD800 \<le> r \<and> r < 0xE000"

definition surrogate_pair :: "nat \<Rightarrow> nat \<Rightarrow> nat option" where
  "surrogate_pair a b =
     (if 0xD800 \<le> a \<and> a < 0xDC00 \<and> 0xDC00 \<le> b \<and> b < 0xE000
      then Some ((a - 0xD800) * 1024 + (b - 0xDC00) + 0x10000) else None)"

text \<open>The rune of a second escape, if one follows.\<close>

definition second_escape :: "string \<Rightarrow> nat option" where
  "second_escape s =
     (case s of
        c # e # h1 # h2 # h3 # h4 # _ \<Rightarrow>
          if c = CHR 0x5C \<and> e = CHR ''u'' then hex_parse 0 [h1, h2, h3, h4] else None
      | _ \<Rightarrow> None)"

definition unquote_u :: "nat \<Rightarrow> string \<Rightarrow> string \<times> nat" where
  "unquote_u r rest =
     (if surrogate r then
        (case second_escape rest of
           None \<Rightarrow> (replacement, 0)
         | Some r2 \<Rightarrow> (case surrogate_pair r r2 of None \<Rightarrow> (replacement, 0) | Some x \<Rightarrow> (utf8_enc x, 6)))
      else (utf8_enc r, 0))"

text \<open>The string that a raw text stands for.\<close>

function unquote :: "string \<Rightarrow> string" where
  "unquote [] = []"
| "unquote (c # cs) =
     (if c = CHR 0x5C then
        (case cs of
           [] \<Rightarrow> []
         | e # es \<Rightarrow>
             if e = CHR ''u'' then
               (case hex_parse 0 (take 4 es) of
                  None \<Rightarrow> []
                | Some r \<Rightarrow>
                    fst (unquote_u r (drop 4 es)) @ unquote (drop (snd (unquote_u r (drop 4 es))) (drop 4 es)))
             else (case unescape e of None \<Rightarrow> [] | Some x \<Rightarrow> x # unquote es))
      else if rune_len (c # cs) = 0 then replacement @ unquote cs
      else take (rune_len (c # cs)) (c # cs) @ unquote (drop (rune_len (c # cs) - 1) cs))"
  by pat_completeness auto
termination by (relation "measure length") auto

definition str_rest :: "string \<Rightarrow> (string \<times> string) option" where
  "str_rest s = map_option (\<lambda>(raw, r). (unquote raw, r)) (str_scan s)"

subsection \<open>Numbers\<close>

text \<open>\<open>-?(0|[1-9][0-9]*)([.][0-9]+)?([eE][+-]?[0-9]+)?\<close>: the text of a number and what follows it.\<close>

definition digits1 :: "string \<Rightarrow> (string \<times> string) option" where
  "digits1 s = (if takeWhile is_digit s = [] then None else Some (takeWhile is_digit s, dropWhile is_digit s))"

definition sign_part :: "string \<Rightarrow> string \<Rightarrow> string \<times> string" where
  "sign_part signs s = (case s of [] \<Rightarrow> ([], []) | c # cs \<Rightarrow> if c \<in> set signs then ([c], cs) else ([], s))"

definition int_part :: "string \<Rightarrow> (string \<times> string) option" where
  "int_part s = (case s of [] \<Rightarrow> None | c # cs \<Rightarrow> if c = CHR ''0'' then Some ([c], cs) else digits1 s)"

definition frac_part :: "string \<Rightarrow> (string \<times> string) option" where
  "frac_part s = (case s of [] \<Rightarrow> Some ([], []) | c # cs \<Rightarrow> if c = CHR ''.'' then push [c] (digits1 cs) else Some ([], s))"

definition exp_part :: "string \<Rightarrow> (string \<times> string) option" where
  "exp_part s =
     (case s of
        [] \<Rightarrow> Some ([], [])
      | c # cs \<Rightarrow>
          if c = CHR ''e'' \<or> c = CHR ''E'' then
            (let (sg, r) = sign_part ''+-'' cs in push (c # sg) (digits1 r))
          else Some ([], s))"

definition num_scan :: "string \<Rightarrow> (string \<times> string) option" where
  "num_scan s =
     (let (sg, s1) = sign_part ''-'' s in
      case int_part s1 of
        None \<Rightarrow> None
      | Some (ip, s2) \<Rightarrow>
     (case frac_part s2 of
        None \<Rightarrow> None
      | Some (fp, s3) \<Rightarrow> push (sg @ ip @ fp) (exp_part s3)))"

text \<open>The number that a text stands for, without rounding.\<close>

definition nat_of :: "string \<Rightarrow> nat" where
  "nat_of ds = fold (\<lambda>c n. n * 10 + digit_val c) ds 0"

definition num_value :: "string \<Rightarrow> rat" where
  "num_value l =
     (let (sg, s1) = sign_part ''-'' l;
          ip = takeWhile is_digit s1; s2 = dropWhile is_digit s1;
          fp = (case s2 of [] \<Rightarrow> [] | c # cs \<Rightarrow> if c = CHR ''.'' then takeWhile is_digit cs else []);
          s3 = (case s2 of [] \<Rightarrow> [] | c # cs \<Rightarrow> if c = CHR ''.'' then dropWhile is_digit cs else s2);
          (esg, ed) = sign_part ''+-'' (drop 1 s3);
          e = int (nat_of ed);
          m = of_nat (nat_of (ip @ fp)) / 10 ^ length fp
      in (if sg = [] then 1 else - 1) * m * (if esg = ''-'' then 1 / 10 ^ nat e else 10 ^ nat e))"

subsection \<open>Values\<close>

datatype json =
    JNull
  | JBool bool
  | JNum string
  | JStr string
  | JArr "json list"
  | JObj "(string \<times> json) list"

definition is_ws :: "char \<Rightarrow> bool" where
  "is_ws c \<longleftrightarrow> c = CHR '' '' \<or> c = CHR 0x09 \<or> c = CHR 0x0A \<or> c = CHR 0x0D"

definition skip_ws :: "string \<Rightarrow> string" where
  "skip_ws s = dropWhile is_ws s"

fun json_word :: "string \<Rightarrow> json \<Rightarrow> string \<Rightarrow> (json \<times> string) option" where
  "json_word [] v s = Some (v, s)"
| "json_word (p # ps) v [] = None"
| "json_word (p # ps) v (c # cs) = (if c = p then json_word ps v cs else None)"

text \<open>
  A value, the rest of the elements of an array, and the rest of the members of an object. The first
  argument is the fuel, the second the number of levels that may still be opened.
\<close>

fun json_val :: "nat \<Rightarrow> nat \<Rightarrow> string \<Rightarrow> (json \<times> string) option"
  and json_elems :: "nat \<Rightarrow> nat \<Rightarrow> string \<Rightarrow> (json list \<times> string) option"
  and json_members :: "nat \<Rightarrow> nat \<Rightarrow> string \<Rightarrow> ((string \<times> json) list \<times> string) option" where
  "json_val 0 d s = None"
| "json_val (Suc k) d s =
     (case skip_ws s of
        [] \<Rightarrow> None
      | c # cs \<Rightarrow>
          if c = CHR 0x22 then map_option (\<lambda>(x, r). (JStr x, r)) (str_rest cs)
          else if c = CHR ''['' then
            (if d = 0 then None
             else case skip_ws cs of
               [] \<Rightarrow> None
             | e # es \<Rightarrow> if e = CHR '']'' then Some (JArr [], es)
                         else map_option (\<lambda>(vs, r). (JArr vs, r)) (json_elems k (d - 1) cs))
          else if c = CHR ''{'' then
            (if d = 0 then None
             else case skip_ws cs of
               [] \<Rightarrow> None
             | e # es \<Rightarrow> if e = CHR ''}'' then Some (JObj [], es)
                         else map_option (\<lambda>(ms, r). (JObj ms, r)) (json_members k (d - 1) cs))
          else if c = CHR ''n'' then json_word ''null'' JNull (c # cs)
          else if c = CHR ''t'' then json_word ''true'' (JBool True) (c # cs)
          else if c = CHR ''f'' then json_word ''false'' (JBool False) (c # cs)
          else map_option (\<lambda>(l, r). (JNum l, r)) (num_scan (c # cs)))"
| "json_elems 0 d s = None"
| "json_elems (Suc k) d s =
     (case json_val k d s of
        None \<Rightarrow> None
      | Some (v, r) \<Rightarrow>
     (case skip_ws r of
        [] \<Rightarrow> None
      | c # cs \<Rightarrow>
          if c = CHR '','' then map_option (\<lambda>(vs, t). (v # vs, t)) (json_elems k d cs)
          else if c = CHR '']'' then Some ([v], cs)
          else None))"
| "json_members 0 d s = None"
| "json_members (Suc k) d s =
     (case skip_ws s of
        [] \<Rightarrow> None
      | q # qs \<Rightarrow>
     (if q \<noteq> CHR 0x22 then None
      else case str_rest qs of
        None \<Rightarrow> None
      | Some (key, r) \<Rightarrow>
     (case skip_ws r of
        [] \<Rightarrow> None
      | c # cs \<Rightarrow>
     (if c \<noteq> CHR '':'' then None
      else case json_val k d cs of
        None \<Rightarrow> None
      | Some (v, r2) \<Rightarrow>
     (case skip_ws r2 of
        [] \<Rightarrow> None
      | e # es \<Rightarrow>
          if e = CHR '','' then map_option (\<lambda>(ms, t). ((key, v) # ms, t)) (json_members k d es)
          else if e = CHR ''}'' then Some ([(key, v)], es)
          else None)))))"

text \<open>
  \<open>json.NewDecoder(r).Decode\<close> reads one value and ignores what follows it; a whole text is valid if
  only white space follows.
\<close>

definition json_decode :: "string \<Rightarrow> json option" where
  "json_decode s = map_option fst (json_val (2 * length s + 2) 10000 s)"

definition json_valid :: "string \<Rightarrow> bool" where
  "json_valid s \<longleftrightarrow> (case json_val (2 * length s + 2) 10000 s of None \<Rightarrow> False | Some (_, r) \<Rightarrow> skip_ws r = [])"

fun commas :: "string list \<Rightarrow> string" where
  "commas [] = []"
| "commas [x] = x"
| "commas (x # y # zs) = x @ '','' @ commas (y # zs)"

text \<open>The text that \<open>json.Marshal\<close> writes.\<close>

fun json_print :: "json \<Rightarrow> string" where
  "json_print JNull = ''null''"
| "json_print (JBool b) = (if b then ''true'' else ''false'')"
| "json_print (JNum l) = l"
| "json_print (JStr s) = json_string s"
| "json_print (JArr vs) = ''['' @ commas (map json_print vs) @ '']''"
| "json_print (JObj ms) = ''{'' @ commas (map (\<lambda>(k, v). json_string k @ '':'' @ json_print v) ms) @ ''}''"

lemma json_valid_empty [simp]: "json_valid ''{}''"
proof -
  have "(2::nat) * length ''{}'' + 2 = Suc 5" by simp
  then show ?thesis by (simp only: json_valid_def json_val.simps) (simp add: skip_ws_def is_ws_def)
qed

end
