(* ===== verification/Schema.thy ===== *)
theory Schema
  imports Errors Json
begin

text \<open>
  The database of \<open>internal/db\<close>: the row types of \<open>models.go\<close>, the tables of \<open>migrations/\<close> with
  their constraints, and the way a statement is executed. A nullable column is an option. A table
  is the list of its rows; the list order stands for the order in which the engine happens to
  return rows, which SQL leaves open.

  What the engine decides outside the statements is an oracle of the state, indexed by the number
  of the statement: the identifier that \<open>gen_random_uuid()\<close> draws, the time in microseconds that \<open>now()\<close> returns,
  and whether the statement fails for a reason that is not in the SQL text (a lost connection, a
  value the engine refuses). A failing statement is either refused, with no effect, or its effect
  is committed and only the reply is lost.
\<close>

subsection \<open>Column types\<close>

text \<open>
  A value of a \<open>JSONB\<close> column: null, or a JSON text. The engine refuses some texts more, such as a
  string with \<open>\u0000\<close>; these belong to the failures of the oracle.
\<close>

definition json_opt_ok :: "string option \<Rightarrow> bool" where
  "json_opt_ok x \<longleftrightarrow> (case x of None \<Rightarrow> True | Some t \<Rightarrow> json_valid t)"

lemma json_opt_ok_simps [simp]: "json_opt_ok None" "json_opt_ok (Some t) = json_valid t"
  by (simp_all add: json_opt_ok_def)

subsection \<open>Rows\<close>

record user_row =
  u_id :: uuid
  u_username :: string
  u_email :: "string option"
  u_phone :: "string option"
  u_display_name :: "string option"
  u_avatar_url :: "string option"
  u_status :: string
  u_metadata :: "string option"
  u_created_at :: int
  u_updated_at :: int

record credential_row =
  cr_id :: uuid
  cr_user_id :: uuid
  cr_type :: string
  cr_identifier :: string
  cr_secret_hash :: "string option"
  cr_verified :: bool
  cr_created_at :: int

record session_row =
  se_id :: uuid
  se_user_id :: uuid
  se_refresh_token_hash :: string
  se_device_id :: "string option"
  se_ip_address :: "string option"
  se_user_agent :: "string option"
  se_expires_at :: int
  se_revoked_at :: "int option"
  se_created_at :: int

record binding_row =
  pb_id :: uuid
  pb_user_id :: uuid
  pb_platform :: string
  pb_platform_user_id :: string
  pb_access_token :: string
  pb_refresh_token :: string
  pb_expires_at :: "int option"
  pb_metadata :: "string option"
  pb_created_at :: int
  pb_updated_at :: int

text \<open>
  A \<open>float64\<close>: not a number, the infinities, and the finite values, which are rational. The two
  zeros compare equal and are one value here.
\<close>

datatype f64 = NaN | PosInf | NegInf | Fin rat

record board_row =
  lb_id :: uuid
  lb_code :: string
  lb_name :: string
  lb_update_strategy :: string
  lb_max_entries :: "int option"
  lb_metadata :: "string option"
  lb_created_at :: int
  lb_updated_at :: int

record score_row =
  sc_id :: uuid
  sc_board_id :: uuid
  sc_user_id :: uuid
  sc_score :: f64
  sc_submitted_at :: int

record room_row =
  ro_id :: uuid
  ro_type :: string
  ro_name :: "string option"
  ro_metadata :: "string option"
  ro_created_at :: int

record member_row =
  me_id :: uuid
  me_room_id :: uuid
  me_user_id :: uuid
  me_role :: string
  me_joined_at :: int

record message_row =
  ms_id :: uuid
  ms_room_id :: uuid
  ms_sender_id :: uuid
  ms_content :: string
  ms_type :: string
  ms_created_at :: int

record admin_row =
  ad_id :: uuid
  ad_username :: string
  ad_password_hash :: string
  ad_role :: string
  ad_status :: string
  ad_created_at :: int
  ad_updated_at :: int

record audit_row =
  au_id :: uuid
  au_operator_id :: "uuid option"
  au_action :: string
  au_target_type :: string
  au_target_id :: string
  au_before_value :: "string option"
  au_after_value :: "string option"
  au_reason :: "string option"
  au_ip :: "string option"
  au_created_at :: int

record friendship_row =
  fr_id :: uuid
  fr_user_id :: uuid
  fr_friend_id :: uuid
  fr_status :: string
  fr_created_at :: int
  fr_updated_at :: int

record block_row =
  bl_id :: uuid
  bl_blocker_id :: uuid
  bl_blocked_id :: uuid
  bl_reason :: "string option"
  bl_created_at :: int

subsection \<open>The database state\<close>

datatype stmt_fault = NoFault | Refused | LostReply

text \<open>\<open>sql.ErrNoRows\<close>, and every other error a query can return.\<close>

datatype db_error = NoRows | QueryFailed

record db_env =
  env_fault :: "nat \<Rightarrow> stmt_fault"
  env_fresh :: "nat \<Rightarrow> uuid"
  env_now :: "nat \<Rightarrow> int"

record db =
  users :: "user_row list"
  credentials :: "credential_row list"
  user_sessions :: "session_row list"
  platform_bindings :: "binding_row list"
  leaderboard_configs :: "board_row list"
  leaderboard_scores :: "score_row list"
  chat_rooms :: "room_row list"
  chat_room_members :: "member_row list"
  chat_messages :: "message_row list"
  admin_users :: "admin_row list"
  audit_logs :: "audit_row list"
  friendships :: "friendship_row list"
  block_relations :: "block_row list"
  db_calls :: nat
  db_env :: db_env

definition empty_db :: "db_env \<Rightarrow> db" where
  [go_defs]: "empty_db env =
     \<lparr>users = [], credentials = [], user_sessions = [], platform_bindings = [],
      leaderboard_configs = [], leaderboard_scores = [], chat_rooms = [],
      chat_room_members = [], chat_messages = [], admin_users = [], audit_logs = [],
      friendships = [], block_relations = [], db_calls = 0, db_env = env\<rparr>"

type_synonym 'a query = "db \<Rightarrow> (db_error + 'a) \<times> db"

text \<open>
  Executing one statement: \<open>f id now\<close> is its effect as the SQL text gives it, \<open>id\<close> the identifier
  of a row it may insert and \<open>now\<close> the time of the transaction.
\<close>

definition stmt :: "(uuid \<Rightarrow> int \<Rightarrow> db \<Rightarrow> (db_error + 'a) \<times> db) \<Rightarrow> 'a query" where
  "stmt f d =
     (let n = db_calls d;
          d' = d\<lparr>db_calls := Suc n\<rparr>;
          r = f (env_fresh (db_env d) n) (env_now (db_env d) n) d'
      in case env_fault (db_env d) n of
           NoFault \<Rightarrow> r
         | Refused \<Rightarrow> (Inl QueryFailed, d')
         | LostReply \<Rightarrow> (Inl QueryFailed, snd r))"

text \<open>The next statement is executed and its reply arrives.\<close>

definition db_up :: "db \<Rightarrow> bool" where
  "db_up d \<longleftrightarrow> env_fault (db_env d) (db_calls d) = NoFault"

text \<open>The row of a \<open>:one\<close> query: the first one, or \<open>sql.ErrNoRows\<close>.\<close>

definition one_row :: "'a list \<Rightarrow> db_error + 'a" where
  [go_defs]: "one_row xs = (case xs of [] \<Rightarrow> Inl NoRows | x # _ \<Rightarrow> Inr x)"

text \<open>A read-only statement: it returns a value computed from the tables.\<close>

definition select :: "(db \<Rightarrow> db_error + 'a) \<Rightarrow> 'a query" where
  "select f = stmt (\<lambda>_ _ d. (f d, d))"

lemma stmt_ok:
  "db_up d \<Longrightarrow> stmt f d =
     f (env_fresh (db_env d) (db_calls d)) (env_now (db_env d) (db_calls d)) (d\<lparr>db_calls := Suc (db_calls d)\<rparr>)"
  by (simp add: stmt_def db_up_def Let_def)

lemma select_ok: "db_up d \<Longrightarrow> select f d = (f (d\<lparr>db_calls := Suc (db_calls d)\<rparr>), d\<lparr>db_calls := Suc (db_calls d)\<rparr>)"
  by (simp add: select_def stmt_ok)

lemma select_state [simp]: "snd (select f d) = d\<lparr>db_calls := Suc (db_calls d)\<rparr>"
  by (simp add: select_def stmt_def Let_def split: stmt_fault.split)

lemma select_state_eq: "select f d = (r, d') \<Longrightarrow> d' = d\<lparr>db_calls := Suc (db_calls d)\<rparr>"
  using select_state [of f d] by simp

lemma select_Inr: "select f d = (Inr x, d') \<Longrightarrow> f (d\<lparr>db_calls := Suc (db_calls d)\<rparr>) = Inr x"
  by (auto simp: select_def stmt_def Let_def split: stmt_fault.splits)

lemma select_NoRows: "select f d = (Inl NoRows, d') \<Longrightarrow> f (d\<lparr>db_calls := Suc (db_calls d)\<rparr>) = Inl NoRows"
  by (auto simp: select_def stmt_def Let_def split: stmt_fault.splits)

text \<open>
  Whatever holds of the tables and is kept by the effect of a statement is kept by executing it,
  whether it succeeds or fails. \<open>same_tables\<close> says that two states differ at most in the number of
  executed statements.
\<close>

definition same_tables :: "db \<Rightarrow> db \<Rightarrow> bool" where
  "same_tables d d' \<longleftrightarrow> d'\<lparr>db_calls := db_calls d\<rparr> = d"

lemma same_tables_refl [simp]: "same_tables d d"
  by (simp add: same_tables_def)

lemma same_tables_calls [simp]: "same_tables d (d\<lparr>db_calls := n\<rparr>)"
  by (simp add: same_tables_def)

lemma same_tables_trans: "same_tables a b \<Longrightarrow> same_tables b c \<Longrightarrow> same_tables a c"
  by (cases a, cases b, cases c) (auto simp: same_tables_def)

lemma same_tables_iff:
  "same_tables d d' \<longleftrightarrow>
     users d' = users d \<and> credentials d' = credentials d \<and> user_sessions d' = user_sessions d \<and>
     platform_bindings d' = platform_bindings d \<and> leaderboard_configs d' = leaderboard_configs d \<and>
     leaderboard_scores d' = leaderboard_scores d \<and> chat_rooms d' = chat_rooms d \<and>
     chat_room_members d' = chat_room_members d \<and> chat_messages d' = chat_messages d \<and>
     admin_users d' = admin_users d \<and> audit_logs d' = audit_logs d \<and>
     friendships d' = friendships d \<and> block_relations d' = block_relations d \<and>
     db_env d' = db_env d"
  by (cases d, cases d') (auto simp: same_tables_def)

lemma same_tables_select [simp]: "same_tables d (snd (select f d))"
  by simp

lemma same_tables_select_eq: "select f d = (r, d') \<Longrightarrow> same_tables d d'"
  using same_tables_select [of d f] by simp

lemma stmt_keeps:
  assumes "\<And>id now. P (snd (f id now (d\<lparr>db_calls := Suc (db_calls d)\<rparr>)))"
    and "P (d\<lparr>db_calls := Suc (db_calls d)\<rparr>)"
  shows "P (snd (stmt f d))"
  using assms by (simp add: stmt_def Let_def split: stmt_fault.split)

lemma stmt_Inr:
  assumes "stmt f d = (Inr x, d')"
  shows "\<exists>id now. f id now (d\<lparr>db_calls := Suc (db_calls d)\<rparr>) = (Inr x, d')"
  using assms by (auto simp: stmt_def Let_def split: stmt_fault.splits)

lemma stmt_NoRows:
  assumes "stmt f d = (Inl NoRows, d')"
  shows "\<exists>id now. f id now (d\<lparr>db_calls := Suc (db_calls d)\<rparr>) = (Inl NoRows, d')"
  using assms by (auto simp: stmt_def Let_def split: stmt_fault.splits)

end
