(* ===== verification/SqlAccounts.thy ===== *)
theory SqlAccounts
  imports Schema
begin

text \<open>
  The statements of \<open>users.sql.go\<close>, \<open>credentials.sql.go\<close>, \<open>sessions.sql.go\<close>,
  \<open>platform_bindings.sql.go\<close>, \<open>admin.sql.go\<close> and \<open>leaderboard.sql.go\<close>, with the constraints that
  \<open>migrations/\<close> puts on their tables: an insertion that repeats a primary key, breaks a \<open>UNIQUE\<close>
  index, names a row that is not there or overflows a \<open>VARCHAR\<close> is an error and changes nothing.
\<close>

subsection \<open>Users\<close>

definition user_ids :: "db \<Rightarrow> uuid set" where
  "user_ids d = u_id ` set (users d)"

definition CreateUser_sql :: "string \<Rightarrow> string option \<Rightarrow> string option \<Rightarrow> user_row query" where
  [sql_defs]: "CreateUser_sql username email display_name = stmt (\<lambda>id now d.
     let row = \<lparr>u_id = id, u_username = username, u_email = email, u_phone = None,
                u_display_name = display_name, u_avatar_url = None, u_status = ''active'',
                u_metadata = Some ''{}'', u_created_at = now, u_updated_at = now\<rparr>
     in if id \<in> u_id ` set (users d) \<or> username \<in> u_username ` set (users d)
           \<or> (email \<noteq> None \<and> email \<in> u_email ` set (users d))
           \<or> \<not> varchar_ok 64 username \<or> \<not> varchar_opt_ok 255 email \<or> \<not> varchar_opt_ok 128 display_name
        then (Inl QueryFailed, d)
        else (Inr row, d\<lparr>users := users d @ [row]\<rparr>))"

definition GetUserByID_sql :: "uuid \<Rightarrow> user_row query" where
  [sql_defs]: "GetUserByID_sql rid = select (\<lambda>d. one_row (filter (\<lambda>u. u_id u = rid) (users d)))"

definition GetUserByUsername_sql :: "string \<Rightarrow> user_row query" where
  [sql_defs]: "GetUserByUsername_sql username =
     select (\<lambda>d. one_row (filter (\<lambda>u. u_username u = username) (users d)))"

text \<open>
  \<open>s ILIKE p\<close>: \<open>%\<close> matches any characters, \<open>_\<close> one, a backslash takes the next character
  literally; letters match in either case. A pattern that ends in a lone backslash is an error of
  the engine and belongs to the failures of the oracle; here it matches nothing.
\<close>

fun ilike :: "string \<Rightarrow> string \<Rightarrow> bool" where
  "ilike [] s = (s = [])"
| "ilike (p # ps) s =
     (if p = CHR ''%'' then ilike ps s \<or> (case s of [] \<Rightarrow> False | _ # cs \<Rightarrow> ilike (p # ps) cs)
      else if p = CHR ''_'' then (case s of [] \<Rightarrow> False | _ # cs \<Rightarrow> ilike ps cs)
      else if p = CHR 0x5C then
        (case ps of [] \<Rightarrow> False
         | q # qs \<Rightarrow> (case s of [] \<Rightarrow> False | c # cs \<Rightarrow> to_lower c = to_lower q \<and> ilike qs cs))
      else (case s of [] \<Rightarrow> False | c # cs \<Rightarrow> to_lower c = to_lower p \<and> ilike ps cs))"

text \<open>\<open>ORDER BY username\<close> is the order of the bytes; the collation of a deployment may differ.\<close>

definition SearchUsers_sql :: "string \<Rightarrow> int \<Rightarrow> int \<Rightarrow> user_row list query" where
  [sql_defs]: "SearchUsers_sql pat lmt ofs = select (\<lambda>d.
     if lmt < 0 \<or> ofs < 0 then Inl QueryFailed
     else Inr (page lmt ofs (sort_key u_username
       (filter (\<lambda>u. (ilike pat (u_username u)
                     \<or> (case u_display_name u of None \<Rightarrow> False | Some n \<Rightarrow> ilike pat n))
                    \<and> u_status u = ''active'') (users d)))))"

text \<open>\<open>COALESCE(x, y)\<close>\<close>

definition coalesce :: "'a option \<Rightarrow> 'a option \<Rightarrow> 'a option" where
  [go_defs]: "coalesce x y = (case x of None \<Rightarrow> y | Some v \<Rightarrow> Some v)"

definition UpdateUserProfile_sql ::
    "uuid \<Rightarrow> string option \<Rightarrow> string option \<Rightarrow> string option \<Rightarrow> user_row query" where
  [sql_defs]: "UpdateUserProfile_sql rid display_name avatar_url metadata = stmt (\<lambda>_ now d.
     let upd = (\<lambda>u. if u_id u = rid then
                 u\<lparr>u_display_name := coalesce display_name (u_display_name u),
                   u_avatar_url := coalesce avatar_url (u_avatar_url u),
                   u_metadata := coalesce metadata (u_metadata u), u_updated_at := now\<rparr> else u);
         us = map upd (users d)
     in case filter (\<lambda>u. u_id u = rid) us of
          [] \<Rightarrow> (Inl NoRows, d)
        | u # _ \<Rightarrow> if \<not> varchar_opt_ok 128 display_name \<or> \<not> varchar_opt_ok 512 avatar_url \<or> \<not> json_opt_ok metadata
                   then (Inl QueryFailed, d)
                   else (Inr u, d\<lparr>users := us\<rparr>))"

definition UpdateUserStatus_sql :: "uuid \<Rightarrow> string \<Rightarrow> user_row query" where
  [sql_defs]: "UpdateUserStatus_sql rid status = stmt (\<lambda>_ now d.
     let us = map (\<lambda>u. if u_id u = rid then u\<lparr>u_status := status, u_updated_at := now\<rparr> else u) (users d)
     in case filter (\<lambda>u. u_id u = rid) us of
          [] \<Rightarrow> (Inl NoRows, d)
        | u # _ \<Rightarrow> if \<not> varchar_ok 16 status then (Inl QueryFailed, d)
                   else (Inr u, d\<lparr>users := us\<rparr>))"

subsection \<open>Credentials\<close>

definition CreateCredential_sql ::
    "uuid \<Rightarrow> string \<Rightarrow> string \<Rightarrow> string option \<Rightarrow> bool \<Rightarrow> credential_row query" where
  [sql_defs]: "CreateCredential_sql user_id type identifier secret_hash verified = stmt (\<lambda>id now d.
     let row = \<lparr>cr_id = id, cr_user_id = user_id, cr_type = type, cr_identifier = identifier,
                cr_secret_hash = secret_hash, cr_verified = verified, cr_created_at = now\<rparr>
     in if id \<in> cr_id ` set (credentials d) \<or> user_id \<notin> user_ids d
           \<or> (type, identifier) \<in> (\<lambda>c. (cr_type c, cr_identifier c)) ` set (credentials d)
           \<or> \<not> varchar_ok 16 type \<or> \<not> varchar_ok 255 identifier \<or> \<not> varchar_opt_ok 255 secret_hash
        then (Inl QueryFailed, d)
        else (Inr row, d\<lparr>credentials := credentials d @ [row]\<rparr>))"

definition GetCredentialByTypeIdentifier_sql :: "string \<Rightarrow> string \<Rightarrow> credential_row query" where
  [sql_defs]: "GetCredentialByTypeIdentifier_sql type identifier = select (\<lambda>d.
     one_row (filter (\<lambda>c. cr_type c = type \<and> cr_identifier c = identifier) (credentials d)))"

definition GetCredentialsByUserID_sql :: "uuid \<Rightarrow> credential_row list query" where
  [sql_defs]: "GetCredentialsByUserID_sql user_id =
     select (\<lambda>d. Inr (filter (\<lambda>c. cr_user_id c = user_id) (credentials d)))"

definition CountUserCredentials_sql :: "uuid \<Rightarrow> int query" where
  [sql_defs]: "CountUserCredentials_sql user_id =
     select (\<lambda>d. Inr (int (length (filter (\<lambda>c. cr_user_id c = user_id) (credentials d)))))"

subsection \<open>Sessions kept in SQL\<close>

definition CreateSession_sql ::
    "uuid \<Rightarrow> string \<Rightarrow> string option \<Rightarrow> string option \<Rightarrow> string option \<Rightarrow> int \<Rightarrow> session_row query" where
  [sql_defs]: "CreateSession_sql user_id hash device ip agent expires = stmt (\<lambda>id now d.
     let row = \<lparr>se_id = id, se_user_id = user_id, se_refresh_token_hash = hash, se_device_id = device,
                se_ip_address = ip, se_user_agent = agent, se_expires_at = expires,
                se_revoked_at = None, se_created_at = now\<rparr>
     in if id \<in> se_id ` set (user_sessions d) \<or> user_id \<notin> user_ids d
           \<or> \<not> varchar_ok 255 hash \<or> \<not> varchar_opt_ok 128 device \<or> \<not> varchar_opt_ok 45 ip
           \<or> \<not> varchar_opt_ok 512 agent
        then (Inl QueryFailed, d)
        else (Inr row, d\<lparr>user_sessions := user_sessions d @ [row]\<rparr>))"

definition GetSessionByID_sql :: "uuid \<Rightarrow> session_row query" where
  [sql_defs]: "GetSessionByID_sql rid = select (\<lambda>d. one_row (filter (\<lambda>s. se_id s = rid) (user_sessions d)))"

text \<open>The rows an \<open>UPDATE .. SET revoked_at = now() WHERE .. AND revoked_at IS NULL\<close> selects.\<close>

definition revoke_rows :: "(session_row \<Rightarrow> bool) \<Rightarrow> int \<Rightarrow> db \<Rightarrow> session_row list \<times> db" where
  [sql_defs]: "revoke_rows sel now d =
     (let hit = (\<lambda>s. sel s \<and> se_revoked_at s = None)
      in (map (\<lambda>s. s\<lparr>se_revoked_at := Some now\<rparr>) (filter hit (user_sessions d)),
          d\<lparr>user_sessions := map (\<lambda>s. if hit s then s\<lparr>se_revoked_at := Some now\<rparr> else s) (user_sessions d)\<rparr>))"

definition RevokeSession_sql :: "uuid \<Rightarrow> session_row query" where
  [sql_defs]: "RevokeSession_sql rid = stmt (\<lambda>_ now d.
     let (hit, d') = revoke_rows (\<lambda>s. se_id s = rid) now d in (one_row hit, d'))"

definition RevokeSessionsByUserID_sql :: "uuid \<Rightarrow> session_row list query" where
  [sql_defs]: "RevokeSessionsByUserID_sql user_id = stmt (\<lambda>_ now d.
     let (hit, d') = revoke_rows (\<lambda>s. se_user_id s = user_id) now d in (Inr hit, d'))"

subsection \<open>Platform bindings\<close>

definition CreatePlatformBinding_sql ::
    "uuid \<Rightarrow> string \<Rightarrow> string \<Rightarrow> string \<Rightarrow> string \<Rightarrow> int option \<Rightarrow> string option \<Rightarrow> binding_row query" where
  [sql_defs]: "CreatePlatformBinding_sql user_id platform puid access refresh expires metadata =
     stmt (\<lambda>id now d.
       let row = \<lparr>pb_id = id, pb_user_id = user_id, pb_platform = platform, pb_platform_user_id = puid,
                  pb_access_token = access, pb_refresh_token = refresh, pb_expires_at = expires,
                  pb_metadata = metadata, pb_created_at = now, pb_updated_at = now\<rparr>
       in if id \<in> pb_id ` set (platform_bindings d) \<or> user_id \<notin> user_ids d
             \<or> (platform, puid) \<in> (\<lambda>b. (pb_platform b, pb_platform_user_id b)) ` set (platform_bindings d)
             \<or> \<not> varchar_ok 32 platform \<or> \<not> varchar_ok 255 puid \<or> \<not> json_opt_ok metadata
          then (Inl QueryFailed, d)
          else (Inr row, d\<lparr>platform_bindings := platform_bindings d @ [row]\<rparr>))"

definition DeletePlatformBinding_sql :: "uuid \<Rightarrow> string \<Rightarrow> binding_row query" where
  [sql_defs]: "DeletePlatformBinding_sql user_id platform = stmt (\<lambda>_ _ d.
     let hit = (\<lambda>b. pb_user_id b = user_id \<and> pb_platform b = platform)
     in (one_row (filter hit (platform_bindings d)),
         d\<lparr>platform_bindings := filter (\<lambda>b. \<not> hit b) (platform_bindings d)\<rparr>))"

definition GetPlatformBinding_sql :: "string \<Rightarrow> string \<Rightarrow> binding_row query" where
  [sql_defs]: "GetPlatformBinding_sql platform puid = select (\<lambda>d.
     one_row (filter (\<lambda>b. pb_platform b = platform \<and> pb_platform_user_id b = puid) (platform_bindings d)))"

definition GetPlatformBindingsByUserID_sql :: "uuid \<Rightarrow> binding_row list query" where
  [sql_defs]: "GetPlatformBindingsByUserID_sql user_id =
     select (\<lambda>d. Inr (filter (\<lambda>b. pb_user_id b = user_id) (platform_bindings d)))"

subsection \<open>Administrators and the audit log\<close>

definition CreateAdminUser_sql :: "string \<Rightarrow> string \<Rightarrow> string \<Rightarrow> admin_row query" where
  [sql_defs]: "CreateAdminUser_sql username hash role = stmt (\<lambda>id now d.
     let row = \<lparr>ad_id = id, ad_username = username, ad_password_hash = hash, ad_role = role,
                ad_status = ''active'', ad_created_at = now, ad_updated_at = now\<rparr>
     in if id \<in> ad_id ` set (admin_users d) \<or> username \<in> ad_username ` set (admin_users d)
           \<or> \<not> varchar_ok 64 username \<or> \<not> varchar_ok 255 hash \<or> \<not> varchar_ok 16 role
        then (Inl QueryFailed, d)
        else (Inr row, d\<lparr>admin_users := admin_users d @ [row]\<rparr>))"

definition GetAdminByUsername_sql :: "string \<Rightarrow> admin_row query" where
  [sql_defs]: "GetAdminByUsername_sql username =
     select (\<lambda>d. one_row (filter (\<lambda>a. ad_username a = username) (admin_users d)))"

text \<open>The parameters of \<open>CreateAuditLog\<close>.\<close>

record audit_params =
  ap_operator_id :: "uuid option"
  ap_action :: string
  ap_target_type :: string
  ap_target_id :: string
  ap_before_value :: "string option"
  ap_after_value :: "string option"
  ap_reason :: "string option"
  ap_ip :: "string option"

definition CreateAuditLog_sql :: "audit_params \<Rightarrow> audit_row query" where
  [sql_defs]: "CreateAuditLog_sql p = stmt (\<lambda>id now d.
     let row = \<lparr>au_id = id, au_operator_id = ap_operator_id p, au_action = ap_action p,
                au_target_type = ap_target_type p, au_target_id = ap_target_id p,
                au_before_value = ap_before_value p, au_after_value = ap_after_value p,
                au_reason = ap_reason p, au_ip = ap_ip p, au_created_at = now\<rparr>
     in if id \<in> au_id ` set (audit_logs d)
           \<or> (case ap_operator_id p of None \<Rightarrow> False | Some u \<Rightarrow> u \<notin> ad_id ` set (admin_users d))
           \<or> \<not> varchar_ok 64 (ap_action p) \<or> \<not> varchar_ok 32 (ap_target_type p)
           \<or> \<not> varchar_ok 255 (ap_target_id p) \<or> \<not> varchar_opt_ok 45 (ap_ip p)
           \<or> \<not> json_opt_ok (ap_before_value p) \<or> \<not> json_opt_ok (ap_after_value p)
        then (Inl QueryFailed, d)
        else (Inr row, d\<lparr>audit_logs := audit_logs d @ [row]\<rparr>))"

definition ListAuditLogs_sql :: "int \<Rightarrow> int \<Rightarrow> audit_row list query" where
  [sql_defs]: "ListAuditLogs_sql lmt ofs = select (\<lambda>d.
     if lmt < 0 \<or> ofs < 0 then Inl QueryFailed
     else Inr (page lmt ofs (order_desc au_created_at (audit_logs d))))"

subsection \<open>Leaderboards\<close>

definition CreateLeaderboardConfig_sql ::
    "string \<Rightarrow> string \<Rightarrow> string \<Rightarrow> int option \<Rightarrow> string option \<Rightarrow> board_row query" where
  [sql_defs]: "CreateLeaderboardConfig_sql code name strategy max_entries metadata = stmt (\<lambda>id now d.
     let row = \<lparr>lb_id = id, lb_code = code, lb_name = name, lb_update_strategy = strategy,
                lb_max_entries = max_entries, lb_metadata = metadata, lb_created_at = now,
                lb_updated_at = now\<rparr>
     in if id \<in> lb_id ` set (leaderboard_configs d) \<or> code \<in> lb_code ` set (leaderboard_configs d)
           \<or> \<not> varchar_ok 64 code \<or> \<not> varchar_ok 128 name \<or> \<not> varchar_ok 16 strategy
           \<or> \<not> json_opt_ok metadata
        then (Inl QueryFailed, d)
        else (Inr row, d\<lparr>leaderboard_configs := leaderboard_configs d @ [row]\<rparr>))"

definition CreateScore_sql :: "uuid \<Rightarrow> uuid \<Rightarrow> f64 \<Rightarrow> score_row query" where
  [sql_defs]: "CreateScore_sql board_id user_id score = stmt (\<lambda>id now d.
     let row = \<lparr>sc_id = id, sc_board_id = board_id, sc_user_id = user_id, sc_score = score,
                sc_submitted_at = now\<rparr>
     in if id \<in> sc_id ` set (leaderboard_scores d) \<or> board_id \<notin> lb_id ` set (leaderboard_configs d)
           \<or> user_id \<notin> user_ids d
        then (Inl QueryFailed, d)
        else (Inr row, d\<lparr>leaderboard_scores := leaderboard_scores d @ [row]\<rparr>))"

definition GetLeaderboardConfig_sql :: "string \<Rightarrow> board_row query" where
  [sql_defs]: "GetLeaderboardConfig_sql code =
     select (\<lambda>d. one_row (filter (\<lambda>b. lb_code b = code) (leaderboard_configs d)))"

definition ListLeaderboardConfigs_sql :: "board_row list query" where
  [sql_defs]: "ListLeaderboardConfigs_sql =
     select (\<lambda>d. Inr (sort_key lb_name (leaderboard_configs d)))"

end
