(* ===== verification/SqlSocial.thy ===== *)
theory SqlSocial
  imports SqlAccounts
begin

text \<open>
  The statements of \<open>friends.sql.go\<close> and \<open>chat.sql.go\<close>. \<open>friendships\<close> has no unique index: nothing
  in the database stops a second row for the same two users. \<open>block_relations\<close> has one on
  \<open>(blocker_id, blocked_id)\<close> and \<open>chat_room_members\<close> one on \<open>(room_id, user_id)\<close>.
\<close>

subsection \<open>Friendships\<close>

definition CreateFriendship_sql :: "uuid \<Rightarrow> uuid \<Rightarrow> string \<Rightarrow> friendship_row query" where
  [sql_defs]: "CreateFriendship_sql user_id friend_id status = stmt (\<lambda>id now d.
     let row = \<lparr>fr_id = id, fr_user_id = user_id, fr_friend_id = friend_id, fr_status = status,
                fr_created_at = now, fr_updated_at = now\<rparr>
     in if id \<in> fr_id ` set (friendships d) \<or> user_id \<notin> user_ids d \<or> friend_id \<notin> user_ids d
           \<or> \<not> varchar_ok 16 status
        then (Inl QueryFailed, d)
        else (Inr row, d\<lparr>friendships := friendships d @ [row]\<rparr>))"

definition DeleteFriendship_sql :: "uuid \<Rightarrow> friendship_row query" where
  [sql_defs]: "DeleteFriendship_sql rid = stmt (\<lambda>_ _ d.
     (one_row (filter (\<lambda>f. fr_id f = rid) (friendships d)),
      d\<lparr>friendships := filter (\<lambda>f. fr_id f \<noteq> rid) (friendships d)\<rparr>))"

text \<open>\<open>(user_id = $1 AND friend_id = $2) OR (user_id = $2 AND friend_id = $1)\<close>\<close>

definition between :: "uuid \<Rightarrow> uuid \<Rightarrow> friendship_row \<Rightarrow> bool" where
  [sql_defs]: "between a b f \<longleftrightarrow>
     (fr_user_id f = a \<and> fr_friend_id f = b) \<or> (fr_user_id f = b \<and> fr_friend_id f = a)"

definition DeleteFriendshipByUsers_sql :: "uuid \<Rightarrow> uuid \<Rightarrow> friendship_row query" where
  [sql_defs]: "DeleteFriendshipByUsers_sql a b = stmt (\<lambda>_ _ d.
     (one_row (filter (between a b) (friendships d)),
      d\<lparr>friendships := filter (\<lambda>f. \<not> between a b f) (friendships d)\<rparr>))"

definition GetFriendship_sql :: "uuid \<Rightarrow> friendship_row query" where
  [sql_defs]: "GetFriendship_sql rid = select (\<lambda>d. one_row (filter (\<lambda>f. fr_id f = rid) (friendships d)))"

definition GetFriendshipByUsers_sql :: "uuid \<Rightarrow> uuid \<Rightarrow> friendship_row query" where
  [sql_defs]: "GetFriendshipByUsers_sql a b = select (\<lambda>d. one_row (filter (between a b) (friendships d)))"

definition ListFriends_sql :: "uuid \<Rightarrow> friendship_row list query" where
  [sql_defs]: "ListFriends_sql a = select (\<lambda>d. Inr (order_desc fr_updated_at
     (filter (\<lambda>f. (fr_user_id f = a \<or> fr_friend_id f = a) \<and> fr_status f = ''accepted'') (friendships d))))"

definition ListPendingRequests_sql :: "uuid \<Rightarrow> friendship_row list query" where
  [sql_defs]: "ListPendingRequests_sql a = select (\<lambda>d. Inr (order_desc fr_created_at
     (filter (\<lambda>f. fr_friend_id f = a \<and> fr_status f = ''pending'') (friendships d))))"

definition UpdateFriendshipStatus_sql :: "uuid \<Rightarrow> string \<Rightarrow> friendship_row query" where
  [sql_defs]: "UpdateFriendshipStatus_sql rid status = stmt (\<lambda>_ now d.
     let fs = map (\<lambda>f. if fr_id f = rid then f\<lparr>fr_status := status, fr_updated_at := now\<rparr> else f)
                (friendships d)
     in case filter (\<lambda>f. fr_id f = rid) fs of
          [] \<Rightarrow> (Inl NoRows, d)
        | f # _ \<Rightarrow> if \<not> varchar_ok 16 status then (Inl QueryFailed, d)
                   else (Inr f, d\<lparr>friendships := fs\<rparr>))"

subsection \<open>Block relations\<close>

definition blocks :: "uuid \<Rightarrow> uuid \<Rightarrow> block_row \<Rightarrow> bool" where
  [sql_defs]: "blocks a b r \<longleftrightarrow> bl_blocker_id r = a \<and> bl_blocked_id r = b"

definition CreateBlockRelation_sql :: "uuid \<Rightarrow> uuid \<Rightarrow> string option \<Rightarrow> block_row query" where
  [sql_defs]: "CreateBlockRelation_sql blocker blocked reason = stmt (\<lambda>id now d.
     let row = \<lparr>bl_id = id, bl_blocker_id = blocker, bl_blocked_id = blocked, bl_reason = reason,
                bl_created_at = now\<rparr>
     in if id \<in> bl_id ` set (block_relations d) \<or> blocker \<notin> user_ids d \<or> blocked \<notin> user_ids d
           \<or> (\<exists>r \<in> set (block_relations d). blocks blocker blocked r)
        then (Inl QueryFailed, d)
        else (Inr row, d\<lparr>block_relations := block_relations d @ [row]\<rparr>))"

definition DeleteBlockRelation_sql :: "uuid \<Rightarrow> uuid \<Rightarrow> block_row query" where
  [sql_defs]: "DeleteBlockRelation_sql blocker blocked = stmt (\<lambda>_ _ d.
     (one_row (filter (blocks blocker blocked) (block_relations d)),
      d\<lparr>block_relations := filter (\<lambda>r. \<not> blocks blocker blocked r) (block_relations d)\<rparr>))"

definition IsBlockedBy_sql :: "uuid \<Rightarrow> uuid \<Rightarrow> uuid query" where
  [sql_defs]: "IsBlockedBy_sql blocker blocked = select (\<lambda>d.
     one_row (map bl_id (filter (blocks blocker blocked) (block_relations d))))"

definition ListAllBlockRelations_sql :: "block_row list query" where
  [sql_defs]: "ListAllBlockRelations_sql = select (\<lambda>d. Inr (order_desc bl_created_at (block_relations d)))"

definition ListBlockedUsers_sql :: "uuid \<Rightarrow> block_row list query" where
  [sql_defs]: "ListBlockedUsers_sql blocker = select (\<lambda>d. Inr (order_desc bl_created_at
     (filter (\<lambda>r. bl_blocker_id r = blocker) (block_relations d))))"

subsection \<open>Chat rooms\<close>

definition CreateChatRoom_sql :: "string \<Rightarrow> string option \<Rightarrow> string option \<Rightarrow> room_row query" where
  [sql_defs]: "CreateChatRoom_sql type name metadata = stmt (\<lambda>id now d.
     let row = \<lparr>ro_id = id, ro_type = type, ro_name = name, ro_metadata = metadata, ro_created_at = now\<rparr>
     in if id \<in> ro_id ` set (chat_rooms d) \<or> \<not> varchar_ok 16 type \<or> \<not> varchar_opt_ok 128 name
           \<or> \<not> json_opt_ok metadata
        then (Inl QueryFailed, d)
        else (Inr row, d\<lparr>chat_rooms := chat_rooms d @ [row]\<rparr>))"

definition GetChatRoom_sql :: "uuid \<Rightarrow> room_row query" where
  [sql_defs]: "GetChatRoom_sql rid = select (\<lambda>d. one_row (filter (\<lambda>r. ro_id r = rid) (chat_rooms d)))"

text \<open>Room \<open>r\<close> has user \<open>u\<close> as a member.\<close>

definition member_of :: "uuid \<Rightarrow> uuid \<Rightarrow> member_row \<Rightarrow> bool" where
  [sql_defs]: "member_of r u m \<longleftrightarrow> me_room_id m = r \<and> me_user_id m = u"

definition AddRoomMember_sql :: "uuid \<Rightarrow> uuid \<Rightarrow> string \<Rightarrow> member_row query" where
  [sql_defs]: "AddRoomMember_sql room user role = stmt (\<lambda>id now d.
     let row = \<lparr>me_id = id, me_room_id = room, me_user_id = user, me_role = role, me_joined_at = now\<rparr>
     in if id \<in> me_id ` set (chat_room_members d) \<or> room \<notin> ro_id ` set (chat_rooms d)
           \<or> user \<notin> user_ids d \<or> (\<exists>m \<in> set (chat_room_members d). member_of room user m)
           \<or> \<not> varchar_ok 16 role
        then (Inl QueryFailed, d)
        else (Inr row, d\<lparr>chat_room_members := chat_room_members d @ [row]\<rparr>))"

definition RemoveRoomMember_sql :: "uuid \<Rightarrow> uuid \<Rightarrow> member_row query" where
  [sql_defs]: "RemoveRoomMember_sql room user = stmt (\<lambda>_ _ d.
     (one_row (filter (member_of room user) (chat_room_members d)),
      d\<lparr>chat_room_members := filter (\<lambda>m. \<not> member_of room user m) (chat_room_members d)\<rparr>))"

definition GetRoomMembers_sql :: "uuid \<Rightarrow> member_row list query" where
  [sql_defs]: "GetRoomMembers_sql room =
     select (\<lambda>d. Inr (filter (\<lambda>m. me_room_id m = room) (chat_room_members d)))"

text \<open>The join of rooms and members, one result row for each matching pair.\<close>

definition ListRoomsByUser_sql :: "uuid \<Rightarrow> room_row list query" where
  [sql_defs]: "ListRoomsByUser_sql user = select (\<lambda>d. Inr (order_desc ro_created_at
     (concat (map (\<lambda>r. map (\<lambda>_. r) (filter (member_of (ro_id r) user) (chat_room_members d)))
       (chat_rooms d)))))"

definition CreateChatMessage_sql :: "uuid \<Rightarrow> uuid \<Rightarrow> string \<Rightarrow> string \<Rightarrow> message_row query" where
  [sql_defs]: "CreateChatMessage_sql room sender content type = stmt (\<lambda>id now d.
     let row = \<lparr>ms_id = id, ms_room_id = room, ms_sender_id = sender, ms_content = content,
                ms_type = type, ms_created_at = now\<rparr>
     in if id \<in> ms_id ` set (chat_messages d) \<or> room \<notin> ro_id ` set (chat_rooms d)
           \<or> sender \<notin> user_ids d \<or> \<not> varchar_ok 16 type
        then (Inl QueryFailed, d)
        else (Inr row, d\<lparr>chat_messages := chat_messages d @ [row]\<rparr>))"

definition GetChatMessages_sql :: "uuid \<Rightarrow> int \<Rightarrow> int \<Rightarrow> message_row list query" where
  [sql_defs]: "GetChatMessages_sql room lmt ofs = select (\<lambda>d.
     if lmt < 0 \<or> ofs < 0 then Inl QueryFailed
     else Inr (page lmt ofs (order_desc ms_created_at
       (filter (\<lambda>m. ms_room_id m = room) (chat_messages d)))))"

end
