(* ===== verification/Integrity.thy ===== *)
theory Integrity
  imports SqlSocial
begin

text \<open>
  The integrity of the database: the primary keys, the \<open>UNIQUE\<close> indexes and the foreign keys of
  \<open>migrations/\<close>, and the fact that every method of the \<open>Querier\<close> interface keeps them, whatever
  the engine's faults. \<open>run_query\<close> dispatches a call of the interface to its statement and forgets
  the result, so a list of calls is a history of the database.
\<close>

subsection \<open>What the schema promises\<close>

definition users_wf :: "db \<Rightarrow> bool" where
  "users_wf d \<longleftrightarrow> distinct (map u_id (users d)) \<and> distinct (map u_username (users d))
     \<and> distinct (somes (map u_email (users d))) \<and> distinct (somes (map u_phone (users d)))"

definition credentials_wf :: "db \<Rightarrow> bool" where
  "credentials_wf d \<longleftrightarrow> distinct (map cr_id (credentials d))
     \<and> distinct (map (\<lambda>c. (cr_type c, cr_identifier c)) (credentials d))
     \<and> cr_user_id ` set (credentials d) \<subseteq> user_ids d"

definition sessions_wf :: "db \<Rightarrow> bool" where
  "sessions_wf d \<longleftrightarrow> distinct (map se_id (user_sessions d))
     \<and> se_user_id ` set (user_sessions d) \<subseteq> user_ids d"

definition bindings_wf :: "db \<Rightarrow> bool" where
  "bindings_wf d \<longleftrightarrow> distinct (map pb_id (platform_bindings d))
     \<and> distinct (map (\<lambda>b. (pb_platform b, pb_platform_user_id b)) (platform_bindings d))
     \<and> pb_user_id ` set (platform_bindings d) \<subseteq> user_ids d"

definition boards_wf :: "db \<Rightarrow> bool" where
  "boards_wf d \<longleftrightarrow> distinct (map lb_id (leaderboard_configs d))
     \<and> distinct (map lb_code (leaderboard_configs d))
     \<and> distinct (map sc_id (leaderboard_scores d))
     \<and> sc_board_id ` set (leaderboard_scores d) \<subseteq> lb_id ` set (leaderboard_configs d)
     \<and> sc_user_id ` set (leaderboard_scores d) \<subseteq> user_ids d"

definition rooms_wf :: "db \<Rightarrow> bool" where
  "rooms_wf d \<longleftrightarrow> distinct (map ro_id (chat_rooms d)) \<and> distinct (map me_id (chat_room_members d))
     \<and> distinct (map (\<lambda>m. (me_room_id m, me_user_id m)) (chat_room_members d))
     \<and> me_room_id ` set (chat_room_members d) \<subseteq> ro_id ` set (chat_rooms d)
     \<and> me_user_id ` set (chat_room_members d) \<subseteq> user_ids d
     \<and> distinct (map ms_id (chat_messages d))
     \<and> ms_room_id ` set (chat_messages d) \<subseteq> ro_id ` set (chat_rooms d)
     \<and> ms_sender_id ` set (chat_messages d) \<subseteq> user_ids d"

definition admins_wf :: "db \<Rightarrow> bool" where
  "admins_wf d \<longleftrightarrow> distinct (map ad_id (admin_users d)) \<and> distinct (map ad_username (admin_users d))
     \<and> distinct (map au_id (audit_logs d))
     \<and> set (somes (map au_operator_id (audit_logs d))) \<subseteq> ad_id ` set (admin_users d)"

definition social_wf :: "db \<Rightarrow> bool" where
  "social_wf d \<longleftrightarrow> distinct (map fr_id (friendships d))
     \<and> fr_user_id ` set (friendships d) \<subseteq> user_ids d \<and> fr_friend_id ` set (friendships d) \<subseteq> user_ids d
     \<and> distinct (map bl_id (block_relations d))
     \<and> distinct (map (\<lambda>r. (bl_blocker_id r, bl_blocked_id r)) (block_relations d))
     \<and> bl_blocker_id ` set (block_relations d) \<subseteq> user_ids d
     \<and> bl_blocked_id ` set (block_relations d) \<subseteq> user_ids d"

definition db_wf :: "db \<Rightarrow> bool" where
  "db_wf d \<longleftrightarrow> users_wf d \<and> credentials_wf d \<and> sessions_wf d \<and> bindings_wf d \<and> boards_wf d
     \<and> rooms_wf d \<and> admins_wf d \<and> social_wf d"

lemmas wf_defs = users_wf_def credentials_wf_def sessions_wf_def bindings_wf_def boards_wf_def
  rooms_wf_def admins_wf_def social_wf_def user_ids_def

lemma db_wf_empty: "db_wf (empty_db env)"
  by (simp add: db_wf_def wf_defs empty_db_def)

lemma db_wf_same_tables: "same_tables d d' \<Longrightarrow> db_wf d \<Longrightarrow> db_wf d'"
  by (simp add: same_tables_iff db_wf_def wf_defs)

lemma db_wf_calls [simp]: "db_wf (d\<lparr>db_calls := n\<rparr>) = db_wf d"
  by (simp add: db_wf_def wf_defs)

lemma db_wf_stmt:
  assumes "db_wf d" and "\<And>id now d. db_wf d \<Longrightarrow> db_wf (snd (f id now d))"
  shows "db_wf (snd (stmt f d))"
  by (rule stmt_keeps) (simp_all add: assms)

lemma db_wf_select: "db_wf d \<Longrightarrow> db_wf (snd (select f d))"
  by simp

subsection \<open>Every statement keeps it\<close>

text \<open>Each part of the integrity looks at its own tables only.\<close>

lemma user_ids_frame [frame]:
  "user_ids (d\<lparr>credentials := x_credentials\<rparr>) = user_ids d"
  "user_ids (d\<lparr>user_sessions := x_user_sessions\<rparr>) = user_ids d"
  "user_ids (d\<lparr>platform_bindings := x_platform_bindings\<rparr>) = user_ids d"
  "user_ids (d\<lparr>leaderboard_configs := x_leaderboard_configs\<rparr>) = user_ids d"
  "user_ids (d\<lparr>leaderboard_scores := x_leaderboard_scores\<rparr>) = user_ids d"
  "user_ids (d\<lparr>chat_rooms := x_chat_rooms\<rparr>) = user_ids d"
  "user_ids (d\<lparr>chat_room_members := x_chat_room_members\<rparr>) = user_ids d"
  "user_ids (d\<lparr>chat_messages := x_chat_messages\<rparr>) = user_ids d"
  "user_ids (d\<lparr>admin_users := x_admin_users\<rparr>) = user_ids d"
  "user_ids (d\<lparr>audit_logs := x_audit_logs\<rparr>) = user_ids d"
  "user_ids (d\<lparr>friendships := x_friendships\<rparr>) = user_ids d"
  "user_ids (d\<lparr>block_relations := x_block_relations\<rparr>) = user_ids d"
  "user_ids (d\<lparr>db_calls := x_db_calls\<rparr>) = user_ids d"
  by (simp_all add: user_ids_def)

lemma users_wf_frame [frame]:
  "users_wf (d\<lparr>credentials := x_credentials\<rparr>) = users_wf d"
  "users_wf (d\<lparr>user_sessions := x_user_sessions\<rparr>) = users_wf d"
  "users_wf (d\<lparr>platform_bindings := x_platform_bindings\<rparr>) = users_wf d"
  "users_wf (d\<lparr>leaderboard_configs := x_leaderboard_configs\<rparr>) = users_wf d"
  "users_wf (d\<lparr>leaderboard_scores := x_leaderboard_scores\<rparr>) = users_wf d"
  "users_wf (d\<lparr>chat_rooms := x_chat_rooms\<rparr>) = users_wf d"
  "users_wf (d\<lparr>chat_room_members := x_chat_room_members\<rparr>) = users_wf d"
  "users_wf (d\<lparr>chat_messages := x_chat_messages\<rparr>) = users_wf d"
  "users_wf (d\<lparr>admin_users := x_admin_users\<rparr>) = users_wf d"
  "users_wf (d\<lparr>audit_logs := x_audit_logs\<rparr>) = users_wf d"
  "users_wf (d\<lparr>friendships := x_friendships\<rparr>) = users_wf d"
  "users_wf (d\<lparr>block_relations := x_block_relations\<rparr>) = users_wf d"
  "users_wf (d\<lparr>db_calls := x_db_calls\<rparr>) = users_wf d"
  by (simp_all add: users_wf_def user_ids_def)

lemma credentials_wf_frame [frame]:
  "credentials_wf (d\<lparr>user_sessions := x_user_sessions\<rparr>) = credentials_wf d"
  "credentials_wf (d\<lparr>platform_bindings := x_platform_bindings\<rparr>) = credentials_wf d"
  "credentials_wf (d\<lparr>leaderboard_configs := x_leaderboard_configs\<rparr>) = credentials_wf d"
  "credentials_wf (d\<lparr>leaderboard_scores := x_leaderboard_scores\<rparr>) = credentials_wf d"
  "credentials_wf (d\<lparr>chat_rooms := x_chat_rooms\<rparr>) = credentials_wf d"
  "credentials_wf (d\<lparr>chat_room_members := x_chat_room_members\<rparr>) = credentials_wf d"
  "credentials_wf (d\<lparr>chat_messages := x_chat_messages\<rparr>) = credentials_wf d"
  "credentials_wf (d\<lparr>admin_users := x_admin_users\<rparr>) = credentials_wf d"
  "credentials_wf (d\<lparr>audit_logs := x_audit_logs\<rparr>) = credentials_wf d"
  "credentials_wf (d\<lparr>friendships := x_friendships\<rparr>) = credentials_wf d"
  "credentials_wf (d\<lparr>block_relations := x_block_relations\<rparr>) = credentials_wf d"
  "credentials_wf (d\<lparr>db_calls := x_db_calls\<rparr>) = credentials_wf d"
  by (simp_all add: credentials_wf_def user_ids_def)

lemma sessions_wf_frame [frame]:
  "sessions_wf (d\<lparr>credentials := x_credentials\<rparr>) = sessions_wf d"
  "sessions_wf (d\<lparr>platform_bindings := x_platform_bindings\<rparr>) = sessions_wf d"
  "sessions_wf (d\<lparr>leaderboard_configs := x_leaderboard_configs\<rparr>) = sessions_wf d"
  "sessions_wf (d\<lparr>leaderboard_scores := x_leaderboard_scores\<rparr>) = sessions_wf d"
  "sessions_wf (d\<lparr>chat_rooms := x_chat_rooms\<rparr>) = sessions_wf d"
  "sessions_wf (d\<lparr>chat_room_members := x_chat_room_members\<rparr>) = sessions_wf d"
  "sessions_wf (d\<lparr>chat_messages := x_chat_messages\<rparr>) = sessions_wf d"
  "sessions_wf (d\<lparr>admin_users := x_admin_users\<rparr>) = sessions_wf d"
  "sessions_wf (d\<lparr>audit_logs := x_audit_logs\<rparr>) = sessions_wf d"
  "sessions_wf (d\<lparr>friendships := x_friendships\<rparr>) = sessions_wf d"
  "sessions_wf (d\<lparr>block_relations := x_block_relations\<rparr>) = sessions_wf d"
  "sessions_wf (d\<lparr>db_calls := x_db_calls\<rparr>) = sessions_wf d"
  by (simp_all add: sessions_wf_def user_ids_def)

lemma bindings_wf_frame [frame]:
  "bindings_wf (d\<lparr>credentials := x_credentials\<rparr>) = bindings_wf d"
  "bindings_wf (d\<lparr>user_sessions := x_user_sessions\<rparr>) = bindings_wf d"
  "bindings_wf (d\<lparr>leaderboard_configs := x_leaderboard_configs\<rparr>) = bindings_wf d"
  "bindings_wf (d\<lparr>leaderboard_scores := x_leaderboard_scores\<rparr>) = bindings_wf d"
  "bindings_wf (d\<lparr>chat_rooms := x_chat_rooms\<rparr>) = bindings_wf d"
  "bindings_wf (d\<lparr>chat_room_members := x_chat_room_members\<rparr>) = bindings_wf d"
  "bindings_wf (d\<lparr>chat_messages := x_chat_messages\<rparr>) = bindings_wf d"
  "bindings_wf (d\<lparr>admin_users := x_admin_users\<rparr>) = bindings_wf d"
  "bindings_wf (d\<lparr>audit_logs := x_audit_logs\<rparr>) = bindings_wf d"
  "bindings_wf (d\<lparr>friendships := x_friendships\<rparr>) = bindings_wf d"
  "bindings_wf (d\<lparr>block_relations := x_block_relations\<rparr>) = bindings_wf d"
  "bindings_wf (d\<lparr>db_calls := x_db_calls\<rparr>) = bindings_wf d"
  by (simp_all add: bindings_wf_def user_ids_def)

lemma boards_wf_frame [frame]:
  "boards_wf (d\<lparr>credentials := x_credentials\<rparr>) = boards_wf d"
  "boards_wf (d\<lparr>user_sessions := x_user_sessions\<rparr>) = boards_wf d"
  "boards_wf (d\<lparr>platform_bindings := x_platform_bindings\<rparr>) = boards_wf d"
  "boards_wf (d\<lparr>chat_rooms := x_chat_rooms\<rparr>) = boards_wf d"
  "boards_wf (d\<lparr>chat_room_members := x_chat_room_members\<rparr>) = boards_wf d"
  "boards_wf (d\<lparr>chat_messages := x_chat_messages\<rparr>) = boards_wf d"
  "boards_wf (d\<lparr>admin_users := x_admin_users\<rparr>) = boards_wf d"
  "boards_wf (d\<lparr>audit_logs := x_audit_logs\<rparr>) = boards_wf d"
  "boards_wf (d\<lparr>friendships := x_friendships\<rparr>) = boards_wf d"
  "boards_wf (d\<lparr>block_relations := x_block_relations\<rparr>) = boards_wf d"
  "boards_wf (d\<lparr>db_calls := x_db_calls\<rparr>) = boards_wf d"
  by (simp_all add: boards_wf_def user_ids_def)

lemma rooms_wf_frame [frame]:
  "rooms_wf (d\<lparr>credentials := x_credentials\<rparr>) = rooms_wf d"
  "rooms_wf (d\<lparr>user_sessions := x_user_sessions\<rparr>) = rooms_wf d"
  "rooms_wf (d\<lparr>platform_bindings := x_platform_bindings\<rparr>) = rooms_wf d"
  "rooms_wf (d\<lparr>leaderboard_configs := x_leaderboard_configs\<rparr>) = rooms_wf d"
  "rooms_wf (d\<lparr>leaderboard_scores := x_leaderboard_scores\<rparr>) = rooms_wf d"
  "rooms_wf (d\<lparr>admin_users := x_admin_users\<rparr>) = rooms_wf d"
  "rooms_wf (d\<lparr>audit_logs := x_audit_logs\<rparr>) = rooms_wf d"
  "rooms_wf (d\<lparr>friendships := x_friendships\<rparr>) = rooms_wf d"
  "rooms_wf (d\<lparr>block_relations := x_block_relations\<rparr>) = rooms_wf d"
  "rooms_wf (d\<lparr>db_calls := x_db_calls\<rparr>) = rooms_wf d"
  by (simp_all add: rooms_wf_def user_ids_def)

lemma admins_wf_frame [frame]:
  "admins_wf (d\<lparr>users := x_users\<rparr>) = admins_wf d"
  "admins_wf (d\<lparr>credentials := x_credentials\<rparr>) = admins_wf d"
  "admins_wf (d\<lparr>user_sessions := x_user_sessions\<rparr>) = admins_wf d"
  "admins_wf (d\<lparr>platform_bindings := x_platform_bindings\<rparr>) = admins_wf d"
  "admins_wf (d\<lparr>leaderboard_configs := x_leaderboard_configs\<rparr>) = admins_wf d"
  "admins_wf (d\<lparr>leaderboard_scores := x_leaderboard_scores\<rparr>) = admins_wf d"
  "admins_wf (d\<lparr>chat_rooms := x_chat_rooms\<rparr>) = admins_wf d"
  "admins_wf (d\<lparr>chat_room_members := x_chat_room_members\<rparr>) = admins_wf d"
  "admins_wf (d\<lparr>chat_messages := x_chat_messages\<rparr>) = admins_wf d"
  "admins_wf (d\<lparr>friendships := x_friendships\<rparr>) = admins_wf d"
  "admins_wf (d\<lparr>block_relations := x_block_relations\<rparr>) = admins_wf d"
  "admins_wf (d\<lparr>db_calls := x_db_calls\<rparr>) = admins_wf d"
  by (simp_all add: admins_wf_def user_ids_def)

lemma social_wf_frame [frame]:
  "social_wf (d\<lparr>credentials := x_credentials\<rparr>) = social_wf d"
  "social_wf (d\<lparr>user_sessions := x_user_sessions\<rparr>) = social_wf d"
  "social_wf (d\<lparr>platform_bindings := x_platform_bindings\<rparr>) = social_wf d"
  "social_wf (d\<lparr>leaderboard_configs := x_leaderboard_configs\<rparr>) = social_wf d"
  "social_wf (d\<lparr>leaderboard_scores := x_leaderboard_scores\<rparr>) = social_wf d"
  "social_wf (d\<lparr>chat_rooms := x_chat_rooms\<rparr>) = social_wf d"
  "social_wf (d\<lparr>chat_room_members := x_chat_room_members\<rparr>) = social_wf d"
  "social_wf (d\<lparr>chat_messages := x_chat_messages\<rparr>) = social_wf d"
  "social_wf (d\<lparr>admin_users := x_admin_users\<rparr>) = social_wf d"
  "social_wf (d\<lparr>audit_logs := x_audit_logs\<rparr>) = social_wf d"
  "social_wf (d\<lparr>db_calls := x_db_calls\<rparr>) = social_wf d"
  by (simp_all add: social_wf_def user_ids_def)

lemma wf_CreateUser: "db_wf d \<Longrightarrow> db_wf (snd (CreateUser_sql a b c d))"
  unfolding CreateUser_sql_def
  by (erule db_wf_stmt) (cases b; auto simp: db_wf_def wf_defs Let_def image_iff)

lemma wf_CreateCredential: "db_wf d \<Longrightarrow> db_wf (snd (CreateCredential_sql a b c e f d))"
  unfolding CreateCredential_sql_def
  by (erule db_wf_stmt) (auto simp: db_wf_def frame credentials_wf_def Let_def image_iff)

lemma wf_CreateSession: "db_wf d \<Longrightarrow> db_wf (snd (CreateSession_sql a b c e f g d))"
  unfolding CreateSession_sql_def
  by (erule db_wf_stmt) (auto simp: db_wf_def frame sessions_wf_def Let_def image_iff)

lemma wf_CreatePlatformBinding: "db_wf d \<Longrightarrow> db_wf (snd (CreatePlatformBinding_sql a b c e f g h d))"
  unfolding CreatePlatformBinding_sql_def
  by (erule db_wf_stmt) (auto simp: db_wf_def frame bindings_wf_def Let_def image_iff)

lemma wf_CreateAdminUser: "db_wf d \<Longrightarrow> db_wf (snd (CreateAdminUser_sql a b c d))"
  unfolding CreateAdminUser_sql_def
  by (erule db_wf_stmt) (auto simp: db_wf_def frame admins_wf_def Let_def image_iff)

lemma wf_CreateLeaderboardConfig: "db_wf d \<Longrightarrow> db_wf (snd (CreateLeaderboardConfig_sql a b c e f d))"
  unfolding CreateLeaderboardConfig_sql_def
  by (erule db_wf_stmt) (auto simp: db_wf_def frame boards_wf_def Let_def image_iff)

lemma wf_CreateScore: "db_wf d \<Longrightarrow> db_wf (snd (CreateScore_sql a b c d))"
  unfolding CreateScore_sql_def
  by (erule db_wf_stmt) (auto simp: db_wf_def frame boards_wf_def Let_def image_iff)

lemma wf_CreateFriendship: "db_wf d \<Longrightarrow> db_wf (snd (CreateFriendship_sql a b c d))"
  unfolding CreateFriendship_sql_def
  by (erule db_wf_stmt) (auto simp: db_wf_def frame social_wf_def Let_def image_iff)

lemma wf_CreateChatRoom: "db_wf d \<Longrightarrow> db_wf (snd (CreateChatRoom_sql a b c d))"
  unfolding CreateChatRoom_sql_def
  by (erule db_wf_stmt) (auto simp: db_wf_def frame rooms_wf_def Let_def image_iff)

lemma wf_CreateChatMessage: "db_wf d \<Longrightarrow> db_wf (snd (CreateChatMessage_sql a b c e d))"
  unfolding CreateChatMessage_sql_def
  by (erule db_wf_stmt) (auto simp: db_wf_def frame rooms_wf_def Let_def image_iff)

lemma wf_CreateAuditLog: "db_wf d \<Longrightarrow> db_wf (snd (CreateAuditLog_sql p d))"
  unfolding CreateAuditLog_sql_def
  by (erule db_wf_stmt) (auto simp: db_wf_def frame admins_wf_def Let_def image_iff split: option.splits)

lemma wf_AddRoomMember: "db_wf d \<Longrightarrow> db_wf (snd (AddRoomMember_sql a b c d))"
  unfolding AddRoomMember_sql_def
  by (erule db_wf_stmt) (auto simp: db_wf_def frame rooms_wf_def Let_def image_iff member_of_def)

lemma wf_CreateBlockRelation: "db_wf d \<Longrightarrow> db_wf (snd (CreateBlockRelation_sql a b c d))"
  unfolding CreateBlockRelation_sql_def
  by (erule db_wf_stmt) (auto simp: db_wf_def frame social_wf_def Let_def image_iff blocks_def)

lemma wf_DeletePlatformBinding: "db_wf d \<Longrightarrow> db_wf (snd (DeletePlatformBinding_sql a b d))"
  unfolding DeletePlatformBinding_sql_def
  by (erule db_wf_stmt) (auto simp: db_wf_def frame bindings_wf_def Let_def image_iff distinct_map_filter)

lemma wf_DeleteFriendship: "db_wf d \<Longrightarrow> db_wf (snd (DeleteFriendship_sql a d))"
  unfolding DeleteFriendship_sql_def
  by (erule db_wf_stmt) (auto simp: db_wf_def frame social_wf_def Let_def image_iff distinct_map_filter)

lemma wf_DeleteFriendshipByUsers: "db_wf d \<Longrightarrow> db_wf (snd (DeleteFriendshipByUsers_sql a b d))"
  unfolding DeleteFriendshipByUsers_sql_def
  by (erule db_wf_stmt) (auto simp: db_wf_def frame social_wf_def Let_def image_iff distinct_map_filter)

lemma wf_DeleteBlockRelation: "db_wf d \<Longrightarrow> db_wf (snd (DeleteBlockRelation_sql a b d))"
  unfolding DeleteBlockRelation_sql_def
  by (erule db_wf_stmt) (auto simp: db_wf_def frame social_wf_def Let_def image_iff distinct_map_filter)

lemma wf_RemoveRoomMember: "db_wf d \<Longrightarrow> db_wf (snd (RemoveRoomMember_sql a b d))"
  unfolding RemoveRoomMember_sql_def
  by (erule db_wf_stmt) (auto simp: db_wf_def frame rooms_wf_def Let_def image_iff distinct_map_filter)

lemma wf_map_users:
  assumes "db_wf d" and "\<And>u. u_id (g u) = u_id u" and "\<And>u. u_username (g u) = u_username u"
    and "\<And>u. u_email (g u) = u_email u" and "\<And>u. u_phone (g u) = u_phone u"
  shows "db_wf (d\<lparr>users := map g (users d)\<rparr>)"
  using assms by (simp add: db_wf_def wf_defs comp_def image_image)

lemma wf_UpdateUserProfile: "db_wf d \<Longrightarrow> db_wf (snd (UpdateUserProfile_sql a b c e d))"
  unfolding UpdateUserProfile_sql_def
  by (erule db_wf_stmt) (auto simp: Let_def intro!: wf_map_users split: list.split)

lemma wf_UpdateUserStatus: "db_wf d \<Longrightarrow> db_wf (snd (UpdateUserStatus_sql a b d))"
  unfolding UpdateUserStatus_sql_def
  by (erule db_wf_stmt) (auto simp: Let_def intro!: wf_map_users split: list.split)

lemma wf_map_sessions:
  assumes "db_wf d" and "\<And>u. se_id (g u) = se_id u" and "\<And>u. se_user_id (g u) = se_user_id u"
  shows "db_wf (d\<lparr>user_sessions := map g (user_sessions d)\<rparr>)"
  using assms by (simp add: db_wf_def frame sessions_wf_def comp_def image_image)

lemma wf_revoke_rows: "db_wf d \<Longrightarrow> db_wf (snd (revoke_rows sel now d))"
  by (auto simp: revoke_rows_def Let_def intro!: wf_map_sessions)

lemma wf_RevokeSession: "db_wf d \<Longrightarrow> db_wf (snd (RevokeSession_sql a d))"
  unfolding RevokeSession_sql_def
  by (erule db_wf_stmt) (auto simp: case_prod_beta intro: wf_revoke_rows)

lemma wf_RevokeSessionsByUserID: "db_wf d \<Longrightarrow> db_wf (snd (RevokeSessionsByUserID_sql a d))"
  unfolding RevokeSessionsByUserID_sql_def
  by (erule db_wf_stmt) (auto simp: case_prod_beta intro: wf_revoke_rows)

lemma wf_map_friendships:
  assumes "db_wf d" and "\<And>f. fr_id (g f) = fr_id f" and "\<And>f. fr_user_id (g f) = fr_user_id f"
    and "\<And>f. fr_friend_id (g f) = fr_friend_id f"
  shows "db_wf (d\<lparr>friendships := map g (friendships d)\<rparr>)"
  using assms by (simp add: db_wf_def frame social_wf_def comp_def image_image)

lemma wf_UpdateFriendshipStatus: "db_wf d \<Longrightarrow> db_wf (snd (UpdateFriendshipStatus_sql a b d))"
  unfolding UpdateFriendshipStatus_sql_def
  by (erule db_wf_stmt) (auto simp: Let_def intro!: wf_map_friendships split: list.split)

subsection \<open>The Querier interface as a machine\<close>

datatype (plugins only: size) querier_call =
    Q_AddRoomMember uuid uuid string
  | Q_CountUserCredentials uuid
  | Q_CreateAdminUser string string string
  | Q_CreateAuditLog audit_params
  | Q_CreateBlockRelation uuid uuid "string option"
  | Q_CreateChatMessage uuid uuid string string
  | Q_CreateChatRoom string "string option" "string option"
  | Q_CreateCredential uuid string string "string option" bool
  | Q_CreateFriendship uuid uuid string
  | Q_CreateLeaderboardConfig string string string "int option" "string option"
  | Q_CreatePlatformBinding uuid string string string string "int option" "string option"
  | Q_CreateScore uuid uuid f64
  | Q_CreateSession uuid string "string option" "string option" "string option" int
  | Q_CreateUser string "string option" "string option"
  | Q_DeleteBlockRelation uuid uuid
  | Q_DeleteFriendship uuid
  | Q_DeleteFriendshipByUsers uuid uuid
  | Q_DeletePlatformBinding uuid string
  | Q_GetAdminByUsername string
  | Q_GetChatMessages uuid int int
  | Q_GetChatRoom uuid
  | Q_GetCredentialByTypeIdentifier string string
  | Q_GetCredentialsByUserID uuid
  | Q_GetFriendship uuid
  | Q_GetFriendshipByUsers uuid uuid
  | Q_GetLeaderboardConfig string
  | Q_GetPlatformBinding string string
  | Q_GetPlatformBindingsByUserID uuid
  | Q_GetRoomMembers uuid
  | Q_GetSessionByID uuid
  | Q_GetUserByID uuid
  | Q_GetUserByUsername string
  | Q_IsBlockedBy uuid uuid
  | Q_ListAllBlockRelations
  | Q_ListAuditLogs int int
  | Q_ListBlockedUsers uuid
  | Q_ListFriends uuid
  | Q_ListLeaderboardConfigs
  | Q_ListPendingRequests uuid
  | Q_ListRoomsByUser uuid
  | Q_RemoveRoomMember uuid uuid
  | Q_RevokeSession uuid
  | Q_RevokeSessionsByUserID uuid
  | Q_SearchUsers string int int
  | Q_UpdateFriendshipStatus uuid string
  | Q_UpdateUserProfile uuid "string option" "string option" "string option"
  | Q_UpdateUserStatus uuid string

primrec run_query :: "querier_call \<Rightarrow> db \<Rightarrow> db" where
  "run_query (Q_AddRoomMember a b c) d = snd (AddRoomMember_sql a b c d)"
| "run_query (Q_CountUserCredentials a) d = snd (CountUserCredentials_sql a d)"
| "run_query (Q_CreateAdminUser a b c) d = snd (CreateAdminUser_sql a b c d)"
| "run_query (Q_CreateAuditLog p) d = snd (CreateAuditLog_sql p d)"
| "run_query (Q_CreateBlockRelation a b c) d = snd (CreateBlockRelation_sql a b c d)"
| "run_query (Q_CreateChatMessage a b c e) d = snd (CreateChatMessage_sql a b c e d)"
| "run_query (Q_CreateChatRoom a b c) d = snd (CreateChatRoom_sql a b c d)"
| "run_query (Q_CreateCredential a b c e f) d = snd (CreateCredential_sql a b c e f d)"
| "run_query (Q_CreateFriendship a b c) d = snd (CreateFriendship_sql a b c d)"
| "run_query (Q_CreateLeaderboardConfig a b c e f) d = snd (CreateLeaderboardConfig_sql a b c e f d)"
| "run_query (Q_CreatePlatformBinding a b c e f g h) d = snd (CreatePlatformBinding_sql a b c e f g h d)"
| "run_query (Q_CreateScore a b c) d = snd (CreateScore_sql a b c d)"
| "run_query (Q_CreateSession a b c e f g) d = snd (CreateSession_sql a b c e f g d)"
| "run_query (Q_CreateUser a b c) d = snd (CreateUser_sql a b c d)"
| "run_query (Q_DeleteBlockRelation a b) d = snd (DeleteBlockRelation_sql a b d)"
| "run_query (Q_DeleteFriendship a) d = snd (DeleteFriendship_sql a d)"
| "run_query (Q_DeleteFriendshipByUsers a b) d = snd (DeleteFriendshipByUsers_sql a b d)"
| "run_query (Q_DeletePlatformBinding a b) d = snd (DeletePlatformBinding_sql a b d)"
| "run_query (Q_GetAdminByUsername a) d = snd (GetAdminByUsername_sql a d)"
| "run_query (Q_GetChatMessages a b c) d = snd (GetChatMessages_sql a b c d)"
| "run_query (Q_GetChatRoom a) d = snd (GetChatRoom_sql a d)"
| "run_query (Q_GetCredentialByTypeIdentifier a b) d = snd (GetCredentialByTypeIdentifier_sql a b d)"
| "run_query (Q_GetCredentialsByUserID a) d = snd (GetCredentialsByUserID_sql a d)"
| "run_query (Q_GetFriendship a) d = snd (GetFriendship_sql a d)"
| "run_query (Q_GetFriendshipByUsers a b) d = snd (GetFriendshipByUsers_sql a b d)"
| "run_query (Q_GetLeaderboardConfig a) d = snd (GetLeaderboardConfig_sql a d)"
| "run_query (Q_GetPlatformBinding a b) d = snd (GetPlatformBinding_sql a b d)"
| "run_query (Q_GetPlatformBindingsByUserID a) d = snd (GetPlatformBindingsByUserID_sql a d)"
| "run_query (Q_GetRoomMembers a) d = snd (GetRoomMembers_sql a d)"
| "run_query (Q_GetSessionByID a) d = snd (GetSessionByID_sql a d)"
| "run_query (Q_GetUserByID a) d = snd (GetUserByID_sql a d)"
| "run_query (Q_GetUserByUsername a) d = snd (GetUserByUsername_sql a d)"
| "run_query (Q_IsBlockedBy a b) d = snd (IsBlockedBy_sql a b d)"
| "run_query Q_ListAllBlockRelations d = snd (ListAllBlockRelations_sql d)"
| "run_query (Q_ListAuditLogs a b) d = snd (ListAuditLogs_sql a b d)"
| "run_query (Q_ListBlockedUsers a) d = snd (ListBlockedUsers_sql a d)"
| "run_query (Q_ListFriends a) d = snd (ListFriends_sql a d)"
| "run_query Q_ListLeaderboardConfigs d = snd (ListLeaderboardConfigs_sql d)"
| "run_query (Q_ListPendingRequests a) d = snd (ListPendingRequests_sql a d)"
| "run_query (Q_ListRoomsByUser a) d = snd (ListRoomsByUser_sql a d)"
| "run_query (Q_RemoveRoomMember a b) d = snd (RemoveRoomMember_sql a b d)"
| "run_query (Q_RevokeSession a) d = snd (RevokeSession_sql a d)"
| "run_query (Q_RevokeSessionsByUserID a) d = snd (RevokeSessionsByUserID_sql a d)"
| "run_query (Q_SearchUsers a b c) d = snd (SearchUsers_sql a b c d)"
| "run_query (Q_UpdateFriendshipStatus a b) d = snd (UpdateFriendshipStatus_sql a b d)"
| "run_query (Q_UpdateUserProfile a b c e) d = snd (UpdateUserProfile_sql a b c e d)"
| "run_query (Q_UpdateUserStatus a b) d = snd (UpdateUserStatus_sql a b d)"

lemmas query_wf =
  wf_AddRoomMember wf_CreateAdminUser wf_CreateAuditLog wf_CreateBlockRelation
  wf_CreateChatMessage wf_CreateChatRoom wf_CreateCredential wf_CreateFriendship
  wf_CreateLeaderboardConfig wf_CreatePlatformBinding wf_CreateScore wf_CreateSession
  wf_CreateUser wf_DeleteBlockRelation wf_DeleteFriendship wf_DeleteFriendshipByUsers
  wf_DeletePlatformBinding wf_RemoveRoomMember wf_RevokeSession wf_RevokeSessionsByUserID
  wf_UpdateFriendshipStatus wf_UpdateUserProfile wf_UpdateUserStatus

lemmas select_sql_defs =
  CountUserCredentials_sql_def GetAdminByUsername_sql_def GetChatMessages_sql_def
  GetChatRoom_sql_def GetCredentialByTypeIdentifier_sql_def GetCredentialsByUserID_sql_def
  GetFriendship_sql_def GetFriendshipByUsers_sql_def GetLeaderboardConfig_sql_def
  GetPlatformBinding_sql_def GetPlatformBindingsByUserID_sql_def GetRoomMembers_sql_def
  GetSessionByID_sql_def GetUserByID_sql_def GetUserByUsername_sql_def
  IsBlockedBy_sql_def ListAllBlockRelations_sql_def ListAuditLogs_sql_def
  ListBlockedUsers_sql_def ListFriends_sql_def ListLeaderboardConfigs_sql_def
  ListPendingRequests_sql_def ListRoomsByUser_sql_def SearchUsers_sql_def

lemma run_query_wf: "db_wf d \<Longrightarrow> db_wf (run_query q d)"
  by (cases q) (simp_all add: query_wf select_sql_defs)

interpretation querier: invariant_system run_query db_wf
  by unfold_locales (rule run_query_wf)

subsection \<open>Property\<close>



end
