(* ===== verification/Columns.thy ===== *)
theory Columns
  imports Integrity
begin

text \<open>
  The column types of \<open>migrations/\<close>: every \<open>VARCHAR(n)\<close> and \<open>JSONB\<close> column of a row, as a predicate of the row,
  and the fact that the \<open>Querier\<close> interface keeps every row of every table typed, whatever the
  engine's faults. The statements check the columns they write and no others, so the invariant
  says that no column was forgotten.
\<close>

subsection \<open>Typed rows\<close>

definition user_typed :: "user_row \<Rightarrow> bool" where
  "user_typed u \<longleftrightarrow> varchar_ok 64 (u_username u) \<and> varchar_opt_ok 255 (u_email u)
     \<and> varchar_opt_ok 32 (u_phone u) \<and> varchar_opt_ok 128 (u_display_name u)
     \<and> varchar_opt_ok 512 (u_avatar_url u) \<and> varchar_ok 16 (u_status u) \<and> json_opt_ok (u_metadata u)"

definition credential_typed :: "credential_row \<Rightarrow> bool" where
  "credential_typed c \<longleftrightarrow> varchar_ok 16 (cr_type c) \<and> varchar_ok 255 (cr_identifier c)
     \<and> varchar_opt_ok 255 (cr_secret_hash c)"

definition session_typed :: "session_row \<Rightarrow> bool" where
  "session_typed s \<longleftrightarrow> varchar_ok 255 (se_refresh_token_hash s) \<and> varchar_opt_ok 128 (se_device_id s)
     \<and> varchar_opt_ok 45 (se_ip_address s) \<and> varchar_opt_ok 512 (se_user_agent s)"

definition binding_typed :: "binding_row \<Rightarrow> bool" where
  "binding_typed b \<longleftrightarrow> varchar_ok 32 (pb_platform b) \<and> varchar_ok 255 (pb_platform_user_id b) \<and> json_opt_ok (pb_metadata b)"

definition board_typed :: "board_row \<Rightarrow> bool" where
  "board_typed b \<longleftrightarrow> varchar_ok 64 (lb_code b) \<and> varchar_ok 128 (lb_name b)
     \<and> varchar_ok 16 (lb_update_strategy b) \<and> json_opt_ok (lb_metadata b)"

definition room_typed :: "room_row \<Rightarrow> bool" where
  "room_typed r \<longleftrightarrow> varchar_ok 16 (ro_type r) \<and> varchar_opt_ok 128 (ro_name r) \<and> json_opt_ok (ro_metadata r)"

definition member_typed :: "member_row \<Rightarrow> bool" where
  "member_typed m \<longleftrightarrow> varchar_ok 16 (me_role m)"

definition message_typed :: "message_row \<Rightarrow> bool" where
  "message_typed m \<longleftrightarrow> varchar_ok 16 (ms_type m)"

definition admin_typed :: "admin_row \<Rightarrow> bool" where
  "admin_typed a \<longleftrightarrow> varchar_ok 64 (ad_username a) \<and> varchar_ok 255 (ad_password_hash a)
     \<and> varchar_ok 16 (ad_role a) \<and> varchar_ok 16 (ad_status a)"

definition audit_typed :: "audit_row \<Rightarrow> bool" where
  "audit_typed a \<longleftrightarrow> varchar_ok 64 (au_action a) \<and> varchar_ok 32 (au_target_type a)
     \<and> varchar_ok 255 (au_target_id a) \<and> varchar_opt_ok 45 (au_ip a)
     \<and> json_opt_ok (au_before_value a) \<and> json_opt_ok (au_after_value a)"

definition friendship_typed :: "friendship_row \<Rightarrow> bool" where
  "friendship_typed f \<longleftrightarrow> varchar_ok 16 (fr_status f)"

definition db_typed :: "db \<Rightarrow> bool" where
  "db_typed d \<longleftrightarrow> list_all user_typed (users d) \<and> list_all credential_typed (credentials d)
     \<and> list_all session_typed (user_sessions d) \<and> list_all binding_typed (platform_bindings d)
     \<and> list_all board_typed (leaderboard_configs d) \<and> list_all room_typed (chat_rooms d)
     \<and> list_all member_typed (chat_room_members d) \<and> list_all message_typed (chat_messages d)
     \<and> list_all admin_typed (admin_users d) \<and> list_all audit_typed (audit_logs d)
     \<and> list_all friendship_typed (friendships d)"

lemmas row_typed = user_typed_def credential_typed_def session_typed_def binding_typed_def
  board_typed_def room_typed_def member_typed_def message_typed_def admin_typed_def
  audit_typed_def friendship_typed_def

lemma db_typed_empty: "db_typed (empty_db env)"
  by (simp add: db_typed_def empty_db_def)

lemma db_typed_same_tables: "same_tables d d' \<Longrightarrow> db_typed d \<Longrightarrow> db_typed d'"
  by (simp add: same_tables_iff db_typed_def)

lemma db_typed_calls [simp]: "db_typed (d\<lparr>db_calls := n\<rparr>) = db_typed d"
  by (simp add: db_typed_def)

lemma db_typed_stmt:
  assumes "db_typed d" and "\<And>id now d. db_typed d \<Longrightarrow> db_typed (snd (f id now d))"
  shows "db_typed (snd (stmt f d))"
  by (rule stmt_keeps) (simp_all add: assms)

subsection \<open>Every statement keeps them\<close>

text \<open>An insertion adds one row, a deletion removes rows, an update maps one table.\<close>

lemma list_all_filter [simp]: "list_all P xs \<Longrightarrow> list_all P (filter Q xs)"
  by (simp add: list_all_iff)

lemma list_all_map_if:
  "list_all P xs \<Longrightarrow> (\<And>x. P x \<Longrightarrow> P (g x)) \<Longrightarrow> list_all P (map g xs)"
  by (simp add: list_all_iff)

lemmas insert_defs = AddRoomMember_sql_def CreateAdminUser_sql_def CreateAuditLog_sql_def
  CreateBlockRelation_sql_def CreateChatMessage_sql_def CreateChatRoom_sql_def
  CreateCredential_sql_def CreateFriendship_sql_def CreateLeaderboardConfig_sql_def
  CreatePlatformBinding_sql_def CreateScore_sql_def CreateSession_sql_def CreateUser_sql_def

lemma active_typed [simp]: "varchar_ok 16 ''active''"
  by code_simp

lemma null_typed [simp]: "varchar_opt_ok n None"
  by (simp add: varchar_opt_ok_def)

lemma inserts_typed:
  assumes "db_typed d"
  shows "db_typed (snd (AddRoomMember_sql i j s d))" "db_typed (snd (CreateAdminUser_sql s t v d))"
    "db_typed (snd (CreateAuditLog_sql p d))" "db_typed (snd (CreateBlockRelation_sql i j os d))"
    "db_typed (snd (CreateChatMessage_sql i j s t d))" "db_typed (snd (CreateChatRoom_sql s os ot d))"
    "db_typed (snd (CreateCredential_sql i s t os b d))" "db_typed (snd (CreateFriendship_sql i j s d))"
    "db_typed (snd (CreateLeaderboardConfig_sql s t v on os d))"
    "db_typed (snd (CreatePlatformBinding_sql i s t v w on os d))"
    "db_typed (snd (CreateScore_sql i j x d))" "db_typed (snd (CreateSession_sql i s os ot ou n d))"
    "db_typed (snd (CreateUser_sql s os ot d))"
  unfolding insert_defs
  by (rule db_typed_stmt [OF assms], simp add: Let_def, simp add: db_typed_def row_typed)+

lemma deletes_typed:
  assumes "db_typed d"
  shows "db_typed (snd (DeleteBlockRelation_sql i j d))" "db_typed (snd (DeleteFriendship_sql i d))"
    "db_typed (snd (DeleteFriendshipByUsers_sql i j d))"
    "db_typed (snd (DeletePlatformBinding_sql i s d))" "db_typed (snd (RemoveRoomMember_sql i j d))"
  unfolding DeleteBlockRelation_sql_def DeleteFriendship_sql_def DeleteFriendshipByUsers_sql_def
    DeletePlatformBinding_sql_def RemoveRoomMember_sql_def
  by (rule db_typed_stmt [OF assms], simp add: Let_def, simp add: db_typed_def)+

lemma revoke_rows_typed: "db_typed d \<Longrightarrow> db_typed (snd (revoke_rows sel now d))"
  by (auto simp: revoke_rows_def Let_def db_typed_def session_typed_def intro!: list_all_map_if)

lemma coalesce_typed: "varchar_opt_ok n x \<Longrightarrow> varchar_opt_ok n y \<Longrightarrow> varchar_opt_ok n (coalesce x y)"
  by (cases x) (simp_all add: coalesce_def)

lemma coalesce_json: "json_opt_ok x \<Longrightarrow> json_opt_ok y \<Longrightarrow> json_opt_ok (coalesce x y)"
  by (cases x) (simp_all add: coalesce_def)

lemma users_map_typed:
  assumes "db_typed d" and "\<And>u. user_typed u \<Longrightarrow> user_typed (g u)"
  shows "db_typed (d\<lparr>users := map g (users d)\<rparr>)"
  using assms by (simp add: db_typed_def list_all_map_if)

lemma friendships_map_typed:
  assumes "db_typed d" and "\<And>f. friendship_typed f \<Longrightarrow> friendship_typed (g f)"
  shows "db_typed (d\<lparr>friendships := map g (friendships d)\<rparr>)"
  using assms by (simp add: db_typed_def list_all_map_if)

lemma revocations_typed:
  assumes "db_typed d"
  shows "db_typed (snd (RevokeSession_sql i d))" "db_typed (snd (RevokeSessionsByUserID_sql i d))"
  unfolding RevokeSession_sql_def RevokeSessionsByUserID_sql_def
  by (rule db_typed_stmt [OF assms], simp add: case_prod_beta revoke_rows_typed)+

lemma updates_typed:
  assumes "db_typed d"
  shows "db_typed (snd (UpdateFriendshipStatus_sql i s d))"
    "db_typed (snd (UpdateUserProfile_sql i os ot ou d))" "db_typed (snd (UpdateUserStatus_sql i s d))"
  unfolding UpdateFriendshipStatus_sql_def UpdateUserProfile_sql_def UpdateUserStatus_sql_def
  by (rule db_typed_stmt [OF assms];
      auto simp: Let_def row_typed coalesce_typed coalesce_json
        intro!: users_map_typed friendships_map_typed split: list.split)+

lemma selects_typed: "db_typed d \<Longrightarrow> db_typed (snd (select f d))"
  by (erule db_typed_same_tables [rotated]) simp

lemma run_query_typed: "db_typed d \<Longrightarrow> db_typed (run_query q d)"
  by (cases q) (simp_all add: inserts_typed deletes_typed revocations_typed updates_typed select_sql_defs selects_typed)

interpretation typed: invariant_system run_query db_typed
  by unfold_locales (rule run_query_typed)

subsection \<open>Property\<close>



end
