(* ===== verification/Codec.thy ===== *)
theory Codec
  imports Prelude
begin

text \<open>
  The framing of the chat protocol (\<open>internal/chat/codec.go\<close>): two bytes of type, four bytes of
  length, both big endian, then the value. A reader is the sequence of bytes it still delivers
  before the end of the stream. A generic locale of self-delimiting codes lifts the round trip of
  one frame to a stream of frames, the way the read loop of the server consumes them.
\<close>

unbundle bit_operations_syntax

subsection \<open>Big endian integers\<close>

definition PutUint16 :: "16 word \<Rightarrow> bytes" where
  "PutUint16 w = [ucast (drop_bit 8 w), ucast w]"

definition PutUint32 :: "32 word \<Rightarrow> bytes" where
  "PutUint32 w = [ucast (drop_bit 24 w), ucast (drop_bit 16 w), ucast (drop_bit 8 w), ucast w]"

fun Uint16 :: "bytes \<Rightarrow> 16 word" where
  "Uint16 (a # b # _) = ucast b OR push_bit 8 (ucast a)"
| "Uint16 _ = 0"

fun Uint32 :: "bytes \<Rightarrow> 32 word" where
  "Uint32 (a # b # c # d # _) =
     ucast d OR push_bit 8 (ucast c) OR push_bit 16 (ucast b) OR push_bit 24 (ucast a)"
| "Uint32 _ = 0"

lemma length_PutUint [simp]: "length (PutUint16 w) = 2" "length (PutUint32 x) = 4"
  by (simp_all add: PutUint16_def PutUint32_def)

lemma byte_bit: "8 \<le> n \<Longrightarrow> \<not> bit (b :: 8 word) n"
  using bit_imp_le_length [of b n] by auto

lemma Uint16_PutUint16 [simp]: "Uint16 (PutUint16 w @ r) = w"
  unfolding PutUint16_def
  by (simp, rule bit_word_eqI) (auto simp: bit_simps)

lemma Uint32_PutUint32 [simp]: "Uint32 (PutUint32 w @ r) = w"
proof -
  have "bit (Uint32 (PutUint32 w @ r)) n = bit w n" if "n < 32" for n
    using that by (cases "n < 16"; cases "n < 24") (auto simp: PutUint32_def bit_simps)
  then show ?thesis by (intro bit_word_eqI) simp
qed

lemma PutUint16_Uint16: "length bs = 2 \<Longrightarrow> PutUint16 (Uint16 bs) = bs"
proof -
  assume "length bs = 2"
  then obtain a b where bs: "bs = [a, b]" by (auto simp: numeral_2_eq_2 length_Suc_conv)
  show ?thesis
    unfolding bs PutUint16_def
    by (simp, intro conjI; rule bit_word_eqI) (auto simp: bit_simps byte_bit)
qed

lemma PutUint32_Uint32: "length bs = 4 \<Longrightarrow> PutUint32 (Uint32 bs) = bs"
proof -
  assume "length bs = 4"
  then obtain a b c d where bs: "bs = [a, b, c, d]"
    by (auto simp: numeral_eq_Suc length_Suc_conv)
  show ?thesis
    unfolding bs PutUint32_def
    by (simp, intro conjI; rule bit_word_eqI) (auto simp: bit_simps byte_bit)
qed

subsection \<open>Frames\<close>

definition HeadLen :: nat where [go_defs]: "HeadLen = 2 + 4"

record frame =
  f_Type :: "16 word"
  f_Length :: "32 word"
  f_Value :: bytes

text \<open>\<open>Frame{Type: t, Value: v}\<close>; the field \<open>Length\<close> stays zero.\<close>

definition mk_frame :: "16 word \<Rightarrow> bytes \<Rightarrow> frame" where
  [go_defs]: "mk_frame t v = \<lparr>f_Type = t, f_Length = 0, f_Value = v\<rparr>"

text \<open>The length on the wire is that of the value, cut to 32 bits; the field is not looked at.\<close>

definition EncodeFrame :: "frame \<Rightarrow> bytes" where
  "EncodeFrame f = PutUint16 (f_Type f) @ PutUint32 (of_nat (length (f_Value f))) @ f_Value f"

datatype io_error = EOF | UnexpectedEOF

datatype decode_error = ReadHeader io_error | FrameTooLarge "32 word" | ReadValue io_error

text \<open>\<open>io.ReadFull(r, buf)\<close> with a buffer of \<open>n > 0\<close> bytes.\<close>

definition ReadFull :: "nat \<Rightarrow> bytes \<Rightarrow> (io_error + bytes) \<times> bytes" where
  "ReadFull n r =
     (if n \<le> length r then (Inr (take n r), drop n r)
      else (Inl (if r = [] then EOF else UnexpectedEOF), []))"

definition DecodeFrame :: "bytes \<Rightarrow> (decode_error + frame) \<times> bytes" where
  "DecodeFrame r =
     (case ReadFull HeadLen r of
        (Inl e, r') \<Rightarrow> (Inl (ReadHeader e), r')
      | (Inr header, r') \<Rightarrow>
          (let f = \<lparr>f_Type = Uint16 (take 2 header), f_Length = Uint32 (drop 2 header), f_Value = []\<rparr> in
           if push_bit 20 1 < f_Length f then (Inl (FrameTooLarge (f_Length f)), r')
           else if 0 < f_Length f then
             (case ReadFull (unat (f_Length f)) r' of
                (Inl e, r'') \<Rightarrow> (Inl (ReadValue e), r'')
              | (Inr v, r'') \<Rightarrow> (Inr (f\<lparr>f_Value := v\<rparr>), r''))
           else (Inr f, r')))"

text \<open>A frame as the decoder delivers it: the length field agrees with the value, at most 1 MB.\<close>

definition wire_frame :: "frame \<Rightarrow> bool" where
  "wire_frame f \<longleftrightarrow> length (f_Value f) \<le> 2 ^ 20 \<and> f_Length f = of_nat (length (f_Value f))"

definition fix_length :: "frame \<Rightarrow> frame" where
  "fix_length f = f\<lparr>f_Length := of_nat (length (f_Value f))\<rparr>"

lemma EncodeFrame_fix_length [simp]: "EncodeFrame (fix_length f) = EncodeFrame f"
  by (simp add: EncodeFrame_def fix_length_def)

lemma wire_fix_length: "length (f_Value f) \<le> 2 ^ 20 \<Longrightarrow> wire_frame (fix_length f)"
  by (simp add: wire_frame_def fix_length_def)

lemma unat_length: "length v \<le> 2 ^ 20 \<Longrightarrow> unat (of_nat (length v) :: 32 word) = length v"
  by (simp add: unat_of_nat)

lemma length_le_limit: "length v \<le> 2 ^ 20 \<Longrightarrow> \<not> push_bit 20 1 < (of_nat (length v) :: 32 word)"
  by (simp add: word_less_nat_alt unat_length)

lemma ReadFull_append: "ReadFull (length xs) (xs @ ys) = (Inr xs, ys)"
  by (simp add: ReadFull_def)

lemma ReadFull_Inr: "ReadFull n r = (Inr v, r') \<Longrightarrow> r = v @ r' \<and> length v = n"
  by (auto simp: ReadFull_def split: if_splits)

lemma Decode_Encode: "wire_frame f \<Longrightarrow> DecodeFrame (EncodeFrame f @ r) = (Inr f, r)"
proof -
  assume w: "wire_frame f"
  define h where "h = PutUint16 (f_Type f) @ PutUint32 (f_Length f)"
  have len: "length h = HeadLen" by (simp add: h_def HeadLen_def)
  have enc: "EncodeFrame f @ r = h @ f_Value f @ r"
    using w by (simp add: EncodeFrame_def h_def wire_frame_def)
  have head: "ReadFull HeadLen (h @ f_Value f @ r) = (Inr h, f_Value f @ r)"
    using ReadFull_append [of h] by (simp add: len)
  have parts: "Uint16 (take 2 h) = f_Type f" "Uint32 (drop 2 h) = f_Length f"
    using Uint16_PutUint16 [of _ "[]"] Uint32_PutUint32 [of _ "[]"] by (simp_all add: h_def)
  have lim: "\<not> push_bit 20 1 < f_Length f" and ul: "unat (f_Length f) = length (f_Value f)"
    using w length_le_limit [of "f_Value f"] unat_length [of "f_Value f"] by (simp_all add: wire_frame_def)
  show ?thesis
  proof (cases "f_Value f")
    case Nil
    with w have "f_Length f = 0"
      by (simp add: wire_frame_def)
    with Nil have "DecodeFrame (EncodeFrame f @ r) = (Inr \<lparr>f_Type = f_Type f, f_Length = 0, f_Value = []\<rparr>, r)"
      using enc head by (simp add: DecodeFrame_def parts Let_def)
    also have "\<lparr>f_Type = f_Type f, f_Length = 0, f_Value = []\<rparr> = f"
      using Nil \<open>f_Length f = 0\<close> by simp
    finally show ?thesis .
  next
    case (Cons b bs)
    then have "unat (f_Length f) \<noteq> 0" using ul by simp
    then have pos: "0 < f_Length f" by (simp only: word_greater_zero_iff unat_eq_zero) simp
    show ?thesis
      using lim pos ReadFull_append [of "f_Value f" r]
      by (simp add: DecodeFrame_def enc head parts Let_def ul)
  qed
qed

lemma DecodeFrame_Inr:
  assumes "DecodeFrame r = (Inr f, r')"
  shows "wire_frame f \<and> r = EncodeFrame f @ r'"
proof -
  obtain h r1 where h: "ReadFull HeadLen r = (Inr h, r1)"
    using assms by (auto simp: DecodeFrame_def split: sum.splits prod.splits)
  have r: "r = h @ r1" "length h = 6" using ReadFull_Inr [OF h] by (simp_all add: HeadLen_def)
  have parts: "h = PutUint16 (Uint16 (take 2 h)) @ PutUint32 (Uint32 (drop 2 h))"
    by (simp add: PutUint16_Uint16 PutUint32_Uint32 r)
  define l where "l = Uint32 (drop 2 h)"
  have small: "\<not> push_bit 20 1 < l"
    using assms by (auto simp: DecodeFrame_def h l_def Let_def split: if_splits)
  then have le: "unat l \<le> 2 ^ 20" by (simp add: word_less_nat_alt)
  show ?thesis
  proof (cases "0 < l")
    case True
    with small assms obtain v where v: "ReadFull (unat l) r1 = (Inr v, r')"
      and f: "f = \<lparr>f_Type = Uint16 (take 2 h), f_Length = l, f_Value = v\<rparr>"
      by (auto simp: DecodeFrame_def h l_def Let_def split: sum.splits prod.splits)
    have r1: "r1 = v @ r'" and lv: "length v = unat l" using ReadFull_Inr [OF v] by simp_all
    have "of_nat (length v) = l" by (simp add: lv)
    then show ?thesis
      using parts le by (simp add: f wire_frame_def EncodeFrame_def lv r r1 l_def [symmetric])
  next
    case False
    with small assms have f: "f = \<lparr>f_Type = Uint16 (take 2 h), f_Length = l, f_Value = []\<rparr>" and "r' = r1"
      by (simp_all add: DecodeFrame_def h l_def Let_def)
    moreover have "l = 0" using False by (simp add: word_greater_zero_iff)
    ultimately show ?thesis
      using parts by (simp add: wire_frame_def EncodeFrame_def r l_def [symmetric])
  qed
qed

lemma length_EncodeFrame: "length (EncodeFrame f) = HeadLen + length (f_Value f)"
  by (simp add: EncodeFrame_def HeadLen_def)

lemma DecodeFrame_shorter: "DecodeFrame r = (Inr f, r') \<Longrightarrow> length r' < length r"
  by (drule DecodeFrame_Inr) (auto simp: length_EncodeFrame HeadLen_def)

subsection \<open>Streams of self-delimiting codes\<close>

locale stream_code =
  fixes enc :: "'a \<Rightarrow> 'b list" and dec :: "'b list \<Rightarrow> ('e + 'a) \<times> 'b list" and valid :: "'a \<Rightarrow> bool"
  assumes dec_enc: "valid x \<Longrightarrow> dec (enc x @ r) = (Inr x, r)"
    and enc_dec: "dec r = (Inr x, r') \<Longrightarrow> valid x \<and> r = enc x @ r'"
    and enc_nonempty: "valid x \<Longrightarrow> enc x \<noteq> []"
begin

lemma dec_iff: "dec r = (Inr x, r') \<longleftrightarrow> valid x \<and> r = enc x @ r'"
proof
  assume "dec r = (Inr x, r')"
  then show "valid x \<and> r = enc x @ r'" by (rule enc_dec)
next
  assume "valid x \<and> r = enc x @ r'"
  then show "dec r = (Inr x, r')" by (simp only: dec_enc)
qed

lemma enc_inject: "valid x \<Longrightarrow> valid y \<Longrightarrow> enc x @ r = enc y @ s \<longleftrightarrow> x = y \<and> r = s"
  by (metis Inr_inject Pair_inject dec_enc)

lemma enc_stream_inject:
  "list_all valid xs \<Longrightarrow> list_all valid ys \<Longrightarrow> concat (map enc xs) = concat (map enc ys) \<longleftrightarrow> xs = ys"
proof (induction xs arbitrary: ys)
  case Nil
  then show ?case by (cases ys) (use enc_nonempty in auto)
next
  case (Cons x xs)
  then show ?case using enc_nonempty [of x] enc_inject [of x] by (cases ys) auto
qed

end

interpretation frame_code: stream_code EncodeFrame DecodeFrame wire_frame
proof unfold_locales
  show "EncodeFrame f \<noteq> []" for f
    by (simp add: EncodeFrame_def PutUint16_def)
qed (simp_all add: Decode_Encode DecodeFrame_Inr)

text \<open>
  The frames that the loop \<open>for { frame, err := DecodeFrame(conn) ... }\<close> delivers from a stream,
  and the error that ends it.
\<close>

function read_frames :: "bytes \<Rightarrow> frame list \<times> decode_error" where
  "read_frames r =
     (case DecodeFrame r of
        (Inl e, _) \<Rightarrow> ([], e)
      | (Inr f, r') \<Rightarrow> (let (fs, e) = read_frames r' in (f # fs, e)))"
  by auto
termination
  by (relation "measure length") (auto dest!: DecodeFrame_shorter [OF sym])

declare read_frames.simps [simp del]

lemma read_frames_Cons: "wire_frame f \<Longrightarrow>
    read_frames (EncodeFrame f @ r) = (f # fst (read_frames r), snd (read_frames r))"
  by (subst read_frames.simps) (simp add: Decode_Encode split_beta)

lemma read_frames_stream: "list_all wire_frame fs \<Longrightarrow>
    read_frames (concat (map EncodeFrame fs) @ r) = (fs @ fst (read_frames r), snd (read_frames r))"
  by (induction fs) (simp_all add: read_frames_Cons)

lemma read_frames_Nil: "read_frames [] = ([], ReadHeader EOF)"
  by (subst read_frames.simps) (simp add: DecodeFrame_def ReadFull_def HeadLen_def)

subsection \<open>Properties\<close>

text \<open>
  C35. The decoder accepts exactly what the encoder writes: it delivers a frame and leaves a rest of
  the stream if and only if the stream is the encoding of that frame followed by the rest, the
  length field agrees with the value and the value has at most 1 MB.
\<close>

theorem DecodeFrame_exact:
  "DecodeFrame r = (Inr f, r') \<longleftrightarrow> wire_frame f \<and> r = EncodeFrame f @ r'"
  by (rule frame_code.dec_iff)

text \<open>
  A stream of encoded frames of at most 1 MB each is read back frame by frame, in order, with
  the length fields filled in, until the end of the stream ends the loop.
\<close>

theorem frame_stream_roundtrip:
  assumes "list_all (\<lambda>f. length (f_Value f) \<le> 2 ^ 20) fs"
  shows "read_frames (concat (map EncodeFrame fs)) = (map fix_length fs, ReadHeader EOF)"
proof -
  have "list_all wire_frame (map fix_length fs)"
    using assms by (simp add: list_all_iff wire_fix_length)
  from read_frames_stream [OF this, of "[]"] show ?thesis
    by (simp add: comp_def read_frames_Nil)
qed

theorem frame_stream_roundtrip_witness:
  "read_frames (concat (map EncodeFrame [mk_frame 16 [], mk_frame 272 [1, 2, 3]])) =
     (map fix_length [mk_frame 16 [], mk_frame 272 [1, 2, 3]], ReadHeader EOF)"
  by (rule frame_stream_roundtrip) (simp add: mk_frame_def)

text \<open>
  The encoder does not enforce the limit: a frame whose value exceeds 1 MB, and is shorter than
  4 GB, is written in full and the decoder of the peer rejects it after the header.
\<close>

theorem oversized_frame_rejected:
  assumes "2 ^ 20 < length (f_Value f)" and "length (f_Value f) < 2 ^ 32"
  shows "DecodeFrame (EncodeFrame f @ r) = (Inl (FrameTooLarge (of_nat (length (f_Value f)))), f_Value f @ r)"
proof -
  let ?n = "of_nat (length (f_Value f)) :: 32 word"
  define h where "h = PutUint16 (f_Type f) @ PutUint32 ?n"
  have len: "length h = HeadLen" by (simp add: h_def HeadLen_def)
  have "ReadFull HeadLen (EncodeFrame f @ r) = (Inr h, f_Value f @ r)"
    using ReadFull_append [of h "f_Value f @ r"] by (simp add: len) (simp add: EncodeFrame_def h_def)
  moreover have "Uint32 (drop 2 h) = ?n"
    using Uint32_PutUint32 [of _ "[]"] by (simp add: h_def)
  moreover have "push_bit 20 1 < ?n"
    using assms by (simp add: word_less_nat_alt unat_of_nat)
  ultimately show ?thesis by (simp add: DecodeFrame_def Let_def)
qed

theorem oversized_frame_rejected_witness:
  "DecodeFrame (EncodeFrame (mk_frame 273 (replicate 1048577 0)) @ []) = (Inl (FrameTooLarge 1048577), replicate 1048577 0)"
  using oversized_frame_rejected [of "mk_frame 273 (replicate 1048577 0)" "[]"] by (simp add: mk_frame_def)

end
