(* ===== verification/Envelope.thy ===== *)
theory Envelope
  imports Codec
begin

text \<open>
  The messages of \<open>api/proto/chat/v1\<close>: the message types, the payloads of the \<open>oneof\<close> and the
  envelope. A \<open>MessageType\<close> is an open \<open>int32\<close>: a value without a name is possible. The accessors
  \<open>GetXxx\<close> return the payload of one constructor and nil for every other. Encoding and decoding
  are done by the protobuf library, a parameter.
\<close>

subsection \<open>Message types\<close>

type_synonym message_type = "32 word"

definition MessageType_AUTH :: message_type where [go_defs]: "MessageType_AUTH = 1"
definition MessageType_AUTH_OK :: message_type where [go_defs]: "MessageType_AUTH_OK = 2"
definition MessageType_HEARTBEAT :: message_type where [go_defs]: "MessageType_HEARTBEAT = 16"
definition MessageType_HEARTBEAT_ACK :: message_type where [go_defs]: "MessageType_HEARTBEAT_ACK = 17"
definition MessageType_JOIN_ROOM :: message_type where [go_defs]: "MessageType_JOIN_ROOM = 256"
definition MessageType_JOIN_ROOM_OK :: message_type where [go_defs]: "MessageType_JOIN_ROOM_OK = 257"
definition MessageType_LEAVE_ROOM :: message_type where [go_defs]: "MessageType_LEAVE_ROOM = 258"
definition MessageType_LEAVE_ROOM_OK :: message_type where [go_defs]: "MessageType_LEAVE_ROOM_OK = 259"
definition MessageType_SEND_MSG :: message_type where [go_defs]: "MessageType_SEND_MSG = 272"
definition MessageType_RECV_MSG :: message_type where [go_defs]: "MessageType_RECV_MSG = 273"
definition MessageType_PRESENCE_ONLINE :: message_type where [go_defs]: "MessageType_PRESENCE_ONLINE = 320"
definition MessageType_PRESENCE_OFFLINE :: message_type where [go_defs]: "MessageType_PRESENCE_OFFLINE = 321"
definition MessageType_FRIEND_REMOVED :: message_type where [go_defs]: "MessageType_FRIEND_REMOVED = 322"
definition MessageType_BLOCK_NOTIFY :: message_type where [go_defs]: "MessageType_BLOCK_NOTIFY = 323"
definition MessageType_INVITE_ROOM :: message_type where [go_defs]: "MessageType_INVITE_ROOM = 336"
definition MessageType_ERROR :: message_type where [go_defs]: "MessageType_ERROR = 65535"

subsection \<open>Payloads\<close>

record auth_request =
  ar_access_token :: string
  ar_username :: string

record send_message_request =
  smr_room_id :: string
  smr_content :: string
  smr_type :: string

record receive_message =
  rm_room_id :: string
  rm_sender_id :: string
  rm_content :: string
  rm_type :: string
  rm_timestamp :: int
  rm_message_id :: string

text \<open>
  The alternatives of the \<open>oneof\<close>, with the fields of their messages; \<open>NoPayload\<close> is the unset one.
\<close>

datatype (plugins only: size) payload =
    NoPayload
  | P_AuthRequest auth_request
  | P_AuthResponse (P_user_id: string) (P_session_id: string)
  | P_Heartbeat
  | P_HeartbeatAck
  | P_JoinRoomRequest string
  | P_JoinRoomResponse string
  | P_LeaveRoomRequest string
  | P_LeaveRoomResponse string
  | P_SendMessageRequest send_message_request
  | P_ReceiveMessage receive_message
  | P_Error string string
  | P_PresenceOnline string string string
  | P_PresenceOffline string
  | P_FriendRemoved string
  | P_BlockNotify string
  | P_InviteRoomRequest string string
  | P_InviteRoomNotify string string string
  | P_InviteRoomAccept string
  | P_InviteRoomReject string

record chat_envelope =
  e_Type :: message_type
  e_Sequence :: "32 word"
  e_Payload :: payload

text \<open>\<open>&ChatEnvelope{Type: t, Payload: p}\<close>\<close>

definition envelope :: "message_type \<Rightarrow> payload \<Rightarrow> chat_envelope" where
  [go_defs]: "envelope t p = \<lparr>e_Type = t, e_Sequence = 0, e_Payload = p\<rparr>"

definition GetAuthRequest :: "chat_envelope \<Rightarrow> auth_request option" where
  [go_defs]: "GetAuthRequest e = (case e_Payload e of P_AuthRequest r \<Rightarrow> Some r | _ \<Rightarrow> None)"

definition GetJoinRoomRequest :: "chat_envelope \<Rightarrow> string option" where
  [go_defs]: "GetJoinRoomRequest e = (case e_Payload e of P_JoinRoomRequest r \<Rightarrow> Some r | _ \<Rightarrow> None)"

definition GetLeaveRoomRequest :: "chat_envelope \<Rightarrow> string option" where
  [go_defs]: "GetLeaveRoomRequest e = (case e_Payload e of P_LeaveRoomRequest r \<Rightarrow> Some r | _ \<Rightarrow> None)"

definition GetSendMessageRequest :: "chat_envelope \<Rightarrow> send_message_request option" where
  [go_defs]: "GetSendMessageRequest e = (case e_Payload e of P_SendMessageRequest r \<Rightarrow> Some r | _ \<Rightarrow> None)"

definition GetInviteRoomRequest :: "chat_envelope \<Rightarrow> (string \<times> string) option" where
  [go_defs]: "GetInviteRoomRequest e = (case e_Payload e of P_InviteRoomRequest r t \<Rightarrow> Some (r, t) | _ \<Rightarrow> None)"

subsection \<open>The protobuf library\<close>

text \<open>
  \<open>proto.Marshal\<close> returns bytes and an error; callers that ignore the error use the bytes that came
  with it. \<open>proto.Unmarshal\<close> fails on malformed input.
\<close>

record proto_lib =
  proto_Marshal :: "chat_envelope \<Rightarrow> bytes \<times> bool"
  proto_Unmarshal :: "bytes \<Rightarrow> chat_envelope option"

end
