(* ===== verification/Externals.thy ===== *)
theory Externals
  imports Schema
begin

text \<open>
  The packages and services the program calls and that are not part of the repository:
  \<open>google/uuid\<close> and Redis through \<open>go-redis\<close>. Each is a record of functions, a parameter of the
  definitions that call it, and a locale with the behaviour its documentation promises and the
  code relies on. The reference implementations at the end satisfy the locales; the program's
  theorems are stated for every implementation that does, and the witnesses use the references.
\<close>

subsection \<open>UUIDs\<close>

record uuid_lib =
  uuid_Parse :: "string \<Rightarrow> uuid option"
  uuid_String :: "uuid \<Rightarrow> string"

text \<open>\<open>id, _ := uuid.Parse(s)\<close>: the nil UUID when parsing fails.\<close>

definition parse_or_nil :: "uuid_lib \<Rightarrow> string \<Rightarrow> uuid" where
  [go_defs]: "parse_or_nil U s = (case uuid_Parse U s of None \<Rightarrow> nil_uuid | Some u \<Rightarrow> u)"

locale uuid_pkg =
  fixes U :: uuid_lib
  assumes parse_string: "uuid_Parse U (uuid_String U u) = Some u"
    and string_length: "length (uuid_String U u) = 36"
    and string_ascii: "ascii (uuid_String U u)"
begin

lemma string_inject: "uuid_String U a = uuid_String U b \<longleftrightarrow> a = b"
  by (metis option.inject parse_string)

lemma string_nonempty: "uuid_String U a \<noteq> []"
  using string_length [of a] by auto

lemma parse_or_nil_string: "parse_or_nil U (uuid_String U a) = a"
  by (simp add: parse_or_nil_def parse_string)

end

subsection \<open>Redis\<close>

text \<open>
  \<open>RedisNil\<close> is the reply for a missing key (\<open>redis.Nil\<close>), \<open>RedisErr\<close> any other error: a lost
  connection, a timeout, a key that holds another type.
\<close>

datatype redis_error = RedisNil | RedisErr

type_synonym ('r, 'a) redis_cmd = "'r \<Rightarrow> (redis_error + 'a) \<times> 'r"

text \<open>The commands, with their arguments in the order of \<open>go-redis\<close>; times to live in seconds.\<close>

record 'r redis_client =
  rc_Set :: "string \<Rightarrow> string \<Rightarrow> int \<Rightarrow> ('r, unit) redis_cmd"
  rc_Get :: "string \<Rightarrow> ('r, string) redis_cmd"
  rc_Del :: "string \<Rightarrow> ('r, int) redis_cmd"
  rc_Exists :: "string \<Rightarrow> ('r, int) redis_cmd"
  rc_SetNX :: "string \<Rightarrow> string \<Rightarrow> int \<Rightarrow> ('r, bool) redis_cmd"
  rc_Expire :: "string \<Rightarrow> int \<Rightarrow> ('r, bool) redis_cmd"
  rc_Incr :: "string \<Rightarrow> ('r, int) redis_cmd"
  rc_SAdd :: "string \<Rightarrow> string \<Rightarrow> ('r, int) redis_cmd"
  rc_SRem :: "string \<Rightarrow> string \<Rightarrow> ('r, int) redis_cmd"
  rc_SIsMember :: "string \<Rightarrow> string \<Rightarrow> ('r, bool) redis_cmd"
  rc_ZAdd :: "string \<Rightarrow> f64 \<Rightarrow> string \<Rightarrow> ('r, int) redis_cmd"
  rc_ZRevRangeWithScores :: "string \<Rightarrow> int \<Rightarrow> int \<Rightarrow> ('r, (string \<times> f64) list) redis_cmd"
  rc_ZRevRank :: "string \<Rightarrow> string \<Rightarrow> ('r, int) redis_cmd"
  rc_ZScore :: "string \<Rightarrow> string \<Rightarrow> ('r, f64) redis_cmd"
  rc_ZRemRangeByScore :: "string \<Rightarrow> string \<Rightarrow> string \<Rightarrow> ('r, int) redis_cmd"
  rc_ZRevRangeByScore :: "string \<Rightarrow> string \<Rightarrow> string \<Rightarrow> int \<Rightarrow> int \<Rightarrow> ('r, string list) redis_cmd"

text \<open>
  The documented keyspace: a key holds a string, a set or a sorted set, or is absent. A sorted set
  is listed from the highest to the lowest position of \<open>ZREVRANGE\<close>: by score, members with
  equal scores by the order of their bytes.
\<close>

datatype redis_value = RStr string | RSet "string set" | RZSet "(string \<times> f64) list"

type_synonym keyspace = "string \<Rightarrow> redis_value option"

fun set_members :: "redis_value option \<Rightarrow> string set" where
  "set_members (Some (RSet A)) = A"
| "set_members _ = {}"

text \<open>Redis removes a key whose set becomes empty.\<close>

definition set_or_none :: "string set \<Rightarrow> redis_value option" where
  "set_or_none A = (if A = {} then None else Some (RSet A))"

lemma set_members_set_or_none [simp]: "set_members (set_or_none A) = A"
  by (simp add: set_or_none_def)

fun zset_list :: "redis_value option \<Rightarrow> (string \<times> f64) list" where
  "zset_list (Some (RZSet zs)) = zs"
| "zset_list _ = []"

text \<open>The order of float64 scores; Redis refuses a score that is not a number.\<close>

fun f64_less :: "f64 \<Rightarrow> f64 \<Rightarrow> bool" where
  "f64_less (Fin a) (Fin b) = (a < b)"
| "f64_less NegInf (Fin _) = True"
| "f64_less NegInf PosInf = True"
| "f64_less (Fin _) PosInf = True"
| "f64_less _ _ = False"

definition z_before :: "string \<times> f64 \<Rightarrow> string \<times> f64 \<Rightarrow> bool" where
  "z_before p q \<longleftrightarrow> f64_less (snd q) (snd p) \<or> (snd p = snd q \<and> fst q < fst p)"

fun z_insert :: "string \<times> f64 \<Rightarrow> (string \<times> f64) list \<Rightarrow> (string \<times> f64) list" where
  "z_insert p [] = [p]"
| "z_insert p (q # qs) = (if z_before p q then p # q # qs else q # z_insert p qs)"

text \<open>\<open>ZADD key score member\<close>: an old entry of the member is replaced.\<close>

definition z_add :: "string \<Rightarrow> f64 \<Rightarrow> (string \<times> f64) list \<Rightarrow> (string \<times> f64) list" where
  "z_add m s zs = z_insert (m, s) (filter (\<lambda>p. fst p \<noteq> m) zs)"

text \<open>The positions from \<open>start\<close> to \<open>stop\<close>, both inclusive, negative ones from the end.\<close>

definition z_slice :: "int \<Rightarrow> int \<Rightarrow> 'a list \<Rightarrow> 'a list" where
  "z_slice start stop xs =
     (let n = int (length xs);
          a = max 0 (if start < 0 then n + start else start);
          b = min (n - 1) (if stop < 0 then n + stop else stop)
      in if b < a then [] else take (nat (b - a + 1)) (drop (nat a) xs))"

text \<open>
  What the documentation of the commands promises, with the keyspace \<open>K r\<close> of a server state \<open>r\<close>.
  A command that returns an error may or may not have been executed.
\<close>

locale redis =
  fixes R :: "'r redis_client" and K :: "'r \<Rightarrow> keyspace"
  assumes set_ok: "rc_Set R k v ttl r = (Inr u, r') \<Longrightarrow> K r' = (K r)(k \<mapsto> RStr v)"
    and set_err: "rc_Set R k v ttl r = (Inl e, r') \<Longrightarrow> K r' = K r \<or> K r' = (K r)(k \<mapsto> RStr v)"
    and get_ok: "rc_Get R k r = (Inr v, r') \<Longrightarrow> K r k = Some (RStr v)"
    and get_nil: "rc_Get R k r = (Inl RedisNil, r') \<Longrightarrow> K r k = None"
    and get_keeps: "rc_Get R k r = (res, r') \<Longrightarrow> K r' = K r"
    and del_ok: "rc_Del R k r = (Inr n, r') \<Longrightarrow> K r' = (K r)(k := None)"
    and del_err: "rc_Del R k r = (Inl e, r') \<Longrightarrow> K r' = K r \<or> K r' = (K r)(k := None)"
    and exists_ok: "rc_Exists R k r = (Inr n, r') \<Longrightarrow> n = (if K r k = None then 0 else 1)"
    and exists_keeps: "rc_Exists R k r = (nres, r') \<Longrightarrow> K r' = K r"
    and setnx_ok: "rc_SetNX R k v ttl r = (Inr b, r') \<Longrightarrow>
      b = (K r k = None) \<and> K r' = (if b then (K r)(k \<mapsto> RStr v) else K r)"
    and setnx_err: "rc_SetNX R k v ttl r = (Inl e, r') \<Longrightarrow>
      K r' = K r \<or> (K r k = None \<and> K r' = (K r)(k \<mapsto> RStr v))"
    and expire_keeps: "0 < ttl \<Longrightarrow> rc_Expire R k ttl r = (bres, r') \<Longrightarrow> K r' = K r"
    and incr_first: "rc_Incr R k r = (Inr n, r') \<Longrightarrow> K r k = None \<Longrightarrow> n = 1"
    and incr_next: "rc_Incr R k r = (Inr n, r') \<Longrightarrow> K r k = Some (RStr (dec_int i)) \<Longrightarrow> n = i + 1"
    and incr_ok: "rc_Incr R k r = (Inr n, r') \<Longrightarrow> K r' = (K r)(k \<mapsto> RStr (dec_int n))"
    and sadd_ok: "rc_SAdd R k v r = (Inr n, r') \<Longrightarrow>
      K r' = (K r)(k \<mapsto> RSet (insert v (set_members (K r k))))"
    and sadd_err: "rc_SAdd R k v r = (Inl e, r') \<Longrightarrow>
      K r' = K r \<or> K r' = (K r)(k \<mapsto> RSet (insert v (set_members (K r k))))"
    and srem_ok: "rc_SRem R k v r = (Inr n, r') \<Longrightarrow> K r' = (K r)(k := set_or_none (set_members (K r k) - {v}))"
    and srem_err: "rc_SRem R k v r = (Inl e, r') \<Longrightarrow>
      K r' = K r \<or> K r' = (K r)(k := set_or_none (set_members (K r k) - {v}))"
    and sismember_ok: "rc_SIsMember R k v r = (Inr b, r') \<Longrightarrow> b = (v \<in> set_members (K r k))"
    and sismember_keeps: "rc_SIsMember R k v r = (bres, r') \<Longrightarrow> K r' = K r"
    and zadd_ok: "rc_ZAdd R k s v r = (Inr n, r') \<Longrightarrow>
      K r' = (K r)(k \<mapsto> RZSet (z_add v s (zset_list (K r k))))"
    and zadd_err: "rc_ZAdd R k s v r = (Inl e, r') \<Longrightarrow>
      K r' = K r \<or> K r' = (K r)(k \<mapsto> RZSet (z_add v s (zset_list (K r k))))"
    and zrevrange_ok: "rc_ZRevRangeWithScores R k lo hi r = (Inr zs, r') \<Longrightarrow>
      zs = z_slice lo hi (zset_list (K r k))"
    and zrevrange_keeps: "rc_ZRevRangeWithScores R k lo hi r = (zres, r') \<Longrightarrow> K r' = K r"
    and zrevrank_ok: "rc_ZRevRank R k v r = (Inr i, r') \<Longrightarrow>
      0 \<le> i \<and> nat i < length (zset_list (K r k)) \<and> fst (zset_list (K r k) ! nat i) = v"
    and zrevrank_nil: "rc_ZRevRank R k v r = (Inl RedisNil, r') \<Longrightarrow> v \<notin> fst ` set (zset_list (K r k))"
    and zrevrank_keeps: "rc_ZRevRank R k v r = (nres, r') \<Longrightarrow> K r' = K r"
    and zscore_ok: "rc_ZScore R k v r = (Inr s, r') \<Longrightarrow> (v, s) \<in> set (zset_list (K r k))"
    and zscore_nil: "rc_ZScore R k v r = (Inl RedisNil, r') \<Longrightarrow> v \<notin> fst ` set (zset_list (K r k))"
    and zscore_keeps: "rc_ZScore R k v r = (sres, r') \<Longrightarrow> K r' = K r"
    and zremrange_absent: "rc_ZRemRangeByScore R k v v' r = (nres, r') \<Longrightarrow> K r k = None \<Longrightarrow> K r' = K r"
    and zremrange_others: "rc_ZRemRangeByScore R k v v' r = (nres, r') \<Longrightarrow> k' \<noteq> k \<Longrightarrow> K r' k' = K r k'"
    and zrevrangebyscore_absent: "rc_ZRevRangeByScore R k v v' lo hi r = (Inr vs, r') \<Longrightarrow>
      K r k = None \<Longrightarrow> vs = []"
    and zrevrangebyscore_keeps: "rc_ZRevRangeByScore R k v v' lo hi r = (vres, r') \<Longrightarrow> K r' = K r"

subsection \<open>The reference UUID package\<close>

text \<open>Fixed-width hexadecimal, the 8-4-4-4-12 text form, and a parser that accepts either case.\<close>

fun hex_fixed :: "nat \<Rightarrow> nat \<Rightarrow> string" where
  "hex_fixed 0 n = []"
| "hex_fixed (Suc k) n = hex_fixed k (n div 16) @ [digit_char (n mod 16)]"

definition add_hyphens :: "string \<Rightarrow> string" where
  "add_hyphens h = take 8 h @ ''-'' @ take 4 (drop 8 h) @ ''-'' @ take 4 (drop 12 h) @ ''-''
     @ take 4 (drop 16 h) @ ''-'' @ drop 20 h"

definition remove_hyphens :: "string \<Rightarrow> string option" where
  "remove_hyphens s =
     (if length s = 36 \<and> s ! 8 = CHR ''-'' \<and> s ! 13 = CHR ''-'' \<and> s ! 18 = CHR ''-'' \<and> s ! 23 = CHR ''-''
      then Some (take 8 s @ take 4 (drop 9 s) @ take 4 (drop 14 s) @ take 4 (drop 19 s) @ drop 24 s)
      else None)"

definition ref_uuid :: uuid_lib where
  "ref_uuid =
     \<lparr>uuid_Parse = (\<lambda>s. case remove_hyphens s of None \<Rightarrow> None | Some h \<Rightarrow> map_option of_nat (hex_parse 0 h)),
      uuid_String = (\<lambda>u. add_hyphens (hex_fixed 32 (unat u)))\<rparr>"

lemma length_hex_fixed [simp]: "length (hex_fixed k n) = k"
  by (induction k arbitrary: n) auto

lemma hex_parse_fixed: "hex_parse acc (hex_fixed k n) = Some (acc * 16 ^ k + n mod 16 ^ k)"
proof (induction k arbitrary: n)
  case (Suc k)
  have "n mod 16 ^ Suc k = 16 * (n div 16 mod 16 ^ k) + n mod 16"
    by (simp add: mod_mult2_eq)
  then show ?case
    by (simp add: Suc hex_parse_append hex_val_digit_char algebra_simps)
qed simp

lemma length_add_hyphens: "length h = 32 \<Longrightarrow> length (add_hyphens h) = 36"
  by (simp add: add_hyphens_def)

lemma split_at: "length h = n + m \<Longrightarrow> \<exists>a b. h = a @ b \<and> length a = n \<and> length b = m"
  by (rule exI [of _ "take n h"], rule exI [of _ "drop n h"]) simp

lemma remove_add_hyphens: "length h = 32 \<Longrightarrow> remove_hyphens (add_hyphens h) = Some h"
proof -
  assume "length h = 32"
  then obtain a r1 where a: "h = a @ r1" "length a = 8" "length r1 = 24" using split_at [of h 8 24] by auto
  obtain b r2 where b: "r1 = b @ r2" "length b = 4" "length r2 = 20" using split_at [of r1 4 20] a by auto
  obtain c r3 where c: "r2 = c @ r3" "length c = 4" "length r3 = 16" using split_at [of r2 4 16] b by auto
  obtain d e where d: "r3 = d @ e" "length d = 4" "length e = 12" using split_at [of r3 4 12] c by auto
  have h: "h = a @ b @ c @ d @ e" using a b c d by simp
  have "add_hyphens h = a @ ''-'' @ b @ ''-'' @ c @ ''-'' @ d @ ''-'' @ e"
    using a b c d by (simp add: h add_hyphens_def)
  then show ?thesis
    using a b c d by (simp add: h remove_hyphens_def nth_append)
qed

interpretation uuid_ref: uuid_pkg ref_uuid
proof unfold_locales
  fix u :: uuid
  have "unat u < 16 ^ 32" using unsigned_less [of u, where 'a = nat] by simp
  then show "uuid_Parse ref_uuid (uuid_String ref_uuid u) = Some u"
    by (simp add: ref_uuid_def remove_add_hyphens hex_parse_fixed)
  show "length (uuid_String ref_uuid u) = 36"
    by (simp add: ref_uuid_def length_add_hyphens)
  have "ascii (hex_fixed k n)" for k n by (induction k arbitrary: n) (simp_all add: digit_char_ascii)
  then show "ascii (uuid_String ref_uuid u)"
    by (simp add: ref_uuid_def add_hyphens_def)
qed

subsection \<open>The reference Redis server\<close>

text \<open>
  Decimal printing and scanning are inverse, which the counter command needs.
\<close>

lemma scan_uint_value:
  "scan_uint mx acc s = Inr n \<Longrightarrow> n = foldl (\<lambda>a c. a * 10 + digit_val c) acc s"
  by (induction s arbitrary: acc) (auto simp: Let_def split: if_splits)

lemma digit_val_digit_char: "n < 10 \<Longrightarrow> digit_val (digit_char n) = n"
proof -
  assume "n < 10"
  then have "n \<in> {0, 1, 2, 3, 4, 5, 6, 7, 8, 9}"
    by (simp only: insert_iff empty_iff) arith
  then show ?thesis by (auto simp: digit_val_def digit_char_def)
qed

lemma foldl_dec_nat: "foldl (\<lambda>a c. a * 10 + digit_val c) 0 (dec_nat n) = n"
proof (induction n rule: dec_nat.induct)
  case (1 n)
  show ?case
  proof (cases "n < 10")
    case True
    then show ?thesis by (subst dec_nat.simps) (simp add: digit_val_digit_char)
  next
    case False
    with 1 show ?thesis by (subst dec_nat.simps) (simp add: digit_val_digit_char)
  qed
qed

lemma scan_dec_nat: "scan_uint mx 0 (dec_nat n) = Inr m \<Longrightarrow> m = n"
  using scan_uint_value foldl_dec_nat by metis

lemma scan_uint_append:
  "scan_uint mx acc (s @ t) = (case scan_uint mx acc s of Inl e \<Rightarrow> Inl e | Inr a \<Rightarrow> scan_uint mx a t)"
  by (induction s arbitrary: acc) (simp_all add: Let_def)

lemma is_digit_digit_char: "n < 10 \<Longrightarrow> is_digit (digit_char n)"
  using digit_char_is_digit [of n] by (auto simp: is_digit_def)

lemma scan_uint_dec_nat: "n \<le> mx \<Longrightarrow> scan_uint mx 0 (dec_nat n) = Inr n"
proof (induction n rule: dec_nat.induct)
  case (1 n)
  have d: "n mod 10 < 10" by simp
  show ?case
  proof (cases "n < 10")
    case True
    then show ?thesis
      using "1.prems" by (subst dec_nat.simps) (simp add: is_digit_digit_char digit_val_digit_char)
  next
    case False
    then have "scan_uint mx 0 (dec_nat (n div 10)) = Inr (n div 10)" using 1 by simp
    then show ?thesis
      using False "1.prems" is_digit_digit_char [OF d] digit_val_digit_char [OF d]
      by (subst dec_nat.simps) (simp add: scan_uint_append)
  qed
qed

lemma dec_nat_head: "\<exists>c cs. dec_nat n = c # cs \<and> c \<noteq> CHR ''-'' \<and> c \<noteq> CHR ''+''"
  using dec_nat_digits [of n] by (cases "dec_nat n") auto

lemma parse_int_dec_int:
  assumes "- (2 ^ 63) \<le> i" and "i < 2 ^ 63"
  shows "parse_int 64 (dec_int i) = (i, None)"
proof (cases "i < 0")
  case True
  then have "parse_uint 64 (dec_nat (nat (- i))) = Inr (nat (- i))"
    using assms by (simp add: parse_uint_def scan_uint_dec_nat nat_le_iff)
  then show ?thesis
    using True assms by (simp add: parse_int_def dec_int_def Let_def zless_nat_eq_int_zless not_less nat_le_iff)
next
  case False
  then have "parse_uint 64 (dec_nat (nat i)) = Inr (nat i)"
    using assms by (simp add: parse_uint_def scan_uint_dec_nat nat_le_iff)
  moreover obtain c cs where "dec_nat (nat i) = c # cs" "c \<noteq> CHR ''-''" "c \<noteq> CHR ''+''"
    using dec_nat_head by blast
  ultimately show ?thesis
    using False assms by (simp add: parse_int_def dec_int_def Let_def not_le nat_less_iff)
qed

lemma dec_int_no_brace: "CHR ''}'' \<notin> set (dec_int i)"
proof -
  have "CHR ''}'' \<notin> set (dec_nat n)" for n using subsetD [OF dec_nat_digits, of "CHR ''}''" n] by auto
  then show ?thesis by (simp add: dec_int_def)
qed

definition ref_incr :: "string \<Rightarrow> (keyspace, int) redis_cmd" where
  "ref_incr k r =
     (case r k of
        None \<Rightarrow> (Inr 1, r(k \<mapsto> RStr (dec_int 1)))
      | Some (RStr s) \<Rightarrow>
          (case scan_uint (2 ^ 63 - 2) 0 s of
             Inl _ \<Rightarrow> (Inl RedisErr, r)
           | Inr n \<Rightarrow> (Inr (int n + 1), r(k \<mapsto> RStr (dec_int (int n + 1)))))
      | Some _ \<Rightarrow> (Inl RedisErr, r))"

text \<open>A command on the set or the sorted set of a key; a key of another type is an error.\<close>

definition on_set :: "string \<Rightarrow> (string set \<Rightarrow> (redis_error + 'a) \<times> string set) \<Rightarrow> (keyspace, 'a) redis_cmd" where
  "on_set k f r =
     (case r k of
        None \<Rightarrow> (let (x, A) = f {} in (x, r(k := set_or_none A)))
      | Some (RSet A) \<Rightarrow> (let (x, B) = f A in (x, r(k := set_or_none B)))
      | Some _ \<Rightarrow> (Inl RedisErr, r))"

definition read_zset :: "string \<Rightarrow> ((string \<times> f64) list \<Rightarrow> redis_error + 'a) \<Rightarrow> (keyspace, 'a) redis_cmd" where
  "read_zset k f r =
     (case r k of
        None \<Rightarrow> (f [], r)
      | Some (RZSet zs) \<Rightarrow> (f zs, r)
      | Some _ \<Rightarrow> (Inl RedisErr, r))"

fun z_rank :: "string \<Rightarrow> (string \<times> f64) list \<Rightarrow> int option" where
  "z_rank m [] = None"
| "z_rank m (p # ps) = (if fst p = m then Some 0 else map_option (\<lambda>i. i + 1) (z_rank m ps))"

text \<open>
  The range commands by score are only answered on absent keys; on others the reference server
  is unavailable.
\<close>

definition ref_redis :: "keyspace redis_client" where
  "ref_redis =
     \<lparr>rc_Set = (\<lambda>k v _ r. (Inr (), r(k \<mapsto> RStr v))),
      rc_Get = (\<lambda>k r. (case r k of None \<Rightarrow> Inl RedisNil | Some (RStr v) \<Rightarrow> Inr v | Some _ \<Rightarrow> Inl RedisErr, r)),
      rc_Del = (\<lambda>k r. (Inr (if r k = None then 0 else 1), r(k := None))),
      rc_Exists = (\<lambda>k r. (Inr (if r k = None then 0 else 1), r)),
      rc_SetNX = (\<lambda>k v _ r. if r k = None then (Inr True, r(k \<mapsto> RStr v)) else (Inr False, r)),
      rc_Expire = (\<lambda>k _ r. (Inr (r k \<noteq> None), r)),
      rc_Incr = ref_incr,
      rc_SAdd = (\<lambda>k m. on_set k (\<lambda>A. (Inr (if m \<in> A then 0 else 1), insert m A))),
      rc_SRem = (\<lambda>k m. on_set k (\<lambda>A. (Inr (if m \<in> A then 1 else 0), A - {m}))),
      rc_SIsMember = (\<lambda>k m r. (case r k of None \<Rightarrow> Inr False | Some (RSet A) \<Rightarrow> Inr (m \<in> A)
                                | Some _ \<Rightarrow> Inl RedisErr, r)),
      rc_ZAdd = (\<lambda>k s m r. case r k of
          None \<Rightarrow> (Inr 1, r(k \<mapsto> RZSet (z_add m s [])))
        | Some (RZSet zs) \<Rightarrow> (Inr (if m \<in> fst ` set zs then 0 else 1), r(k \<mapsto> RZSet (z_add m s zs)))
        | Some _ \<Rightarrow> (Inl RedisErr, r)),
      rc_ZRevRangeWithScores = (\<lambda>k a b. read_zset k (\<lambda>zs. Inr (z_slice a b zs))),
      rc_ZRevRank = (\<lambda>k m. read_zset k (\<lambda>zs. case z_rank m zs of None \<Rightarrow> Inl RedisNil | Some i \<Rightarrow> Inr i)),
      rc_ZScore = (\<lambda>k m. read_zset k (\<lambda>zs. case map_of zs m of None \<Rightarrow> Inl RedisNil | Some s \<Rightarrow> Inr s)),
      rc_ZRemRangeByScore = (\<lambda>k _ _ r. (if r k = None then Inr 0 else Inl RedisErr, r)),
      rc_ZRevRangeByScore = (\<lambda>k _ _ _ _ r. (if r k = None then Inr [] else Inl RedisErr, r))\<rparr>"

lemma z_rank_Some:
  "z_rank m zs = Some i \<Longrightarrow> 0 \<le> i \<and> nat i < length zs \<and> fst (zs ! nat i) = m"
proof (induction zs arbitrary: i)
  case (Cons p ps)
  show ?case
  proof (cases "fst p = m")
    case False
    with Cons.prems obtain j where j: "z_rank m ps = Some j" "i = j + 1" by auto
    with Cons.IH [of j] show ?thesis by (simp add: nat_add_distrib)
  qed (use Cons.prems in simp)
qed simp

lemma z_rank_None: "z_rank m zs = None \<Longrightarrow> m \<notin> fst ` set zs"
  by (induction zs) (auto split: if_splits)

lemma zset_mem: "(m, s) \<in> set zs \<Longrightarrow> z_rank m zs \<noteq> None \<and> map_of zs m \<noteq> None"
  using z_rank_None [of m zs] by (force simp: map_of_eq_None_iff)

lemma read_zset_state [simp]: "snd (read_zset k f r) = r"
  by (simp add: read_zset_def split: option.split redis_value.split)

lemma read_zset_state_eq: "read_zset k f r = (x, r') \<Longrightarrow> r' = r"
  using read_zset_state [of k f r] by simp

lemma read_zset_Inr: "read_zset k f r = (Inr x, r') \<Longrightarrow> f (zset_list (r k)) = Inr x"
  by (auto simp: read_zset_def split: option.splits redis_value.splits)

lemma read_zset_Nil: "read_zset k f r = (Inl RedisNil, r') \<Longrightarrow> f (zset_list (r k)) = Inl RedisNil"
  by (auto simp: read_zset_def split: option.splits redis_value.splits)

lemma ref_sadd: "rc_SAdd ref_redis k v r = (Inr n, r') \<Longrightarrow> r' = r(k \<mapsto> RSet (insert v (set_members (r k))))"
  by (auto simp: ref_redis_def on_set_def set_or_none_def Let_def split: option.splits redis_value.splits)

lemma ref_srem: "rc_SRem ref_redis k v r = (Inr n, r') \<Longrightarrow> r' = r(k := set_or_none (set_members (r k) - {v}))"
  by (auto simp: ref_redis_def on_set_def Let_def split: option.splits redis_value.splits)

lemma ref_set_errors:
  "rc_SAdd ref_redis k v r = (Inl e, r') \<Longrightarrow> r' = r"
  "rc_SRem ref_redis k v r = (Inl e, r') \<Longrightarrow> r' = r"
  by (auto simp: ref_redis_def on_set_def Let_def split: option.splits redis_value.splits)

lemma ref_incr_laws:
  assumes "ref_incr k r = (Inr n, r')"
  shows "r k = None \<Longrightarrow> n = 1"
    and "r k = Some (RStr (dec_int i)) \<Longrightarrow> n = i + 1"
    and "r' = r(k \<mapsto> RStr (dec_int n))"
proof -
  show "r k = None \<Longrightarrow> n = 1" and "r' = r(k \<mapsto> RStr (dec_int n))"
    using assms by (auto simp: ref_incr_def split: option.splits redis_value.splits sum.splits)
  show "n = i + 1" if k: "r k = Some (RStr (dec_int i))"
  proof (cases "i < 0")
    case True
    then have "scan_uint (2 ^ 63 - 2) 0 (dec_int i) = Inl ErrSyntax"
      by (simp add: dec_int_def is_digit_def)
    with k assms show ?thesis by (simp add: ref_incr_def)
  next
    case False
    with k assms show ?thesis
      by (auto simp: ref_incr_def dec_int_def split: sum.splits dest!: scan_dec_nat)
  qed
qed

interpretation redis_ref: redis ref_redis "\<lambda>r. r"
proof (unfold_locales, goal_cases)
  case (16 k v r n r')
  then show ?case by (rule ref_sadd)
next
  case (17 k v r e r')
  then show ?case by (simp add: ref_set_errors)
next
  case (18 k v r n r')
  then show ?case by (rule ref_srem)
next
  case (19 k v r e r')
  then show ?case by (simp add: ref_set_errors)
qed (auto simp: ref_redis_def ref_incr_laws
       dest!: read_zset_state_eq read_zset_Inr read_zset_Nil map_of_SomeD
       dest: z_rank_Some zset_mem
       split: option.splits redis_value.splits if_splits)

end
