(* ===== verification/World.thy ===== *)
theory World
  imports Integrity Externals
begin

text \<open>
  The state that the services share: the database, the Redis server and the network, which is the
  state of the TCP chat server where presence events are pushed. A service call takes the world
  and returns its result with the new world.
\<close>

record ('r, 'n) world =
  w_db :: db
  w_redis :: 'r
  w_net :: 'n

type_synonym ('r, 'n, 'a) svc = "('r, 'n) world \<Rightarrow> (go_error + 'a) \<times> ('r, 'n) world"

definition on_db :: "'a query \<Rightarrow> ('r, 'n) world \<Rightarrow> (db_error + 'a) \<times> ('r, 'n) world" where
  "on_db q w = (let (x, d) = q (w_db w) in (x, w\<lparr>w_db := d\<rparr>))"

definition on_redis :: "('r, 'a) redis_cmd \<Rightarrow> ('r, 'n) world \<Rightarrow> (redis_error + 'a) \<times> ('r, 'n) world" where
  "on_redis c w = (let (x, r) = c (w_redis w) in (x, w\<lparr>w_redis := r\<rparr>))"

definition on_net :: "('n \<Rightarrow> 'n) \<Rightarrow> ('r, 'n) world \<Rightarrow> ('r, 'n) world" where
  "on_net f w = w\<lparr>w_net := f (w_net w)\<rparr>"

lemma on_db_world [simp]:
  "w_redis (snd (on_db q w)) = w_redis w" "w_net (snd (on_db q w)) = w_net w"
  "w_db (snd (on_db q w)) = snd (q (w_db w))" "fst (on_db q w) = fst (q (w_db w))"
  by (simp_all add: on_db_def split_beta)

lemma on_redis_world [simp]:
  "w_db (snd (on_redis c w)) = w_db w" "w_net (snd (on_redis c w)) = w_net w"
  "w_redis (snd (on_redis c w)) = snd (c (w_redis w))" "fst (on_redis c w) = fst (c (w_redis w))"
  by (simp_all add: on_redis_def split_beta)

lemma on_net_world [simp]:
  "w_db (on_net f w) = w_db w" "w_redis (on_net f w) = w_redis w" "w_net (on_net f w) = f (w_net w)"
  by (simp_all add: on_net_def)

lemma on_db_eq: "on_db q w = (x, w') \<longleftrightarrow> (\<exists>d. q (w_db w) = (x, d) \<and> w' = w\<lparr>w_db := d\<rparr>)"
  by (cases "q (w_db w)") (auto simp: on_db_def)

lemma on_redis_eq: "on_redis c w = (x, w') \<longleftrightarrow> (\<exists>r. c (w_redis w) = (x, r) \<and> w' = w\<lparr>w_redis := r\<rparr>)"
  by (cases "c (w_redis w)") (auto simp: on_redis_def)

text \<open>Two worlds whose databases differ at most in the number of executed statements.\<close>

definition only_reads :: "('r, 'n) world \<Rightarrow> ('r, 'n) world \<Rightarrow> bool" where
  "only_reads w w' \<longleftrightarrow>
     same_tables (w_db w) (w_db w') \<and> w_redis w' = w_redis w \<and> w_net w' = w_net w"

lemma only_reads_refl [simp]: "only_reads w w"
  by (simp add: only_reads_def)

lemma only_reads_trans: "only_reads a b \<Longrightarrow> only_reads b c \<Longrightarrow> only_reads a c"
  by (auto simp: only_reads_def intro: same_tables_trans)

lemma on_db_select_reads: "on_db (select f) w = (x, w') \<Longrightarrow> only_reads w w'"
  by (auto simp: on_db_eq only_reads_def dest: same_tables_select_eq)

subsection \<open>Running without engine faults\<close>

definition no_faults :: "db \<Rightarrow> bool" where
  "no_faults d \<longleftrightarrow> (\<forall>n. env_fault (db_env d) n = NoFault)"

abbreviation tick :: "db \<Rightarrow> db" where
  "tick d \<equiv> d\<lparr>db_calls := Suc (db_calls d)\<rparr>"

lemma no_faults_up: "no_faults d \<Longrightarrow> db_up d"
  by (simp add: no_faults_def db_up_def)

lemma no_faults_calls [simp]: "no_faults (d\<lparr>db_calls := n\<rparr>) = no_faults d"
  by (simp add: no_faults_def)

lemma no_faults_env: "db_env d' = db_env d \<Longrightarrow> no_faults d \<Longrightarrow> no_faults d'"
  by (simp add: no_faults_def)

lemma no_faults_tables: "same_tables d d' \<Longrightarrow> no_faults d \<Longrightarrow> no_faults d'"
  by (simp add: no_faults_def same_tables_iff)

lemma stmt_nf: "no_faults d \<Longrightarrow> stmt f d = f (env_fresh (db_env d) (db_calls d)) (env_now (db_env d) (db_calls d)) (tick d)"
  by (simp add: stmt_ok no_faults_up)

lemma select_nf: "no_faults d \<Longrightarrow> select f d = (f (tick d), tick d)"
  by (simp add: select_ok no_faults_up)

lemma one_row_Inr: "one_row xs = Inr x \<Longrightarrow> x \<in> set xs"
  by (cases xs) (auto simp: one_row_def)

lemma one_row_filter: "one_row (filter P xs) = Inr x \<Longrightarrow> x \<in> set xs \<and> P x"
  using one_row_Inr [of "filter P xs" x] by simp

lemma one_row_cases: "one_row xs = (if xs = [] then Inl NoRows else Inr (hd xs))"
  by (simp add: one_row_def split: list.split)

end
