(* ===== verification/Server.thy ===== *)
theory Server
  imports Envelope World
begin

text \<open>
  The TCP server of \<open>internal/chat/server.go\<close> and the presence notifier of \<open>presence.go\<close>. The
  goroutines hold pointers to connections: the server state has a heap of them, and the map
  \<open>conns\<close> from connection identifiers to pointers. The list of its entries stands for the order in
  which a \<open>range\<close> loop visits them, which Go leaves open. A connection keeps the chunks that were
  written to its socket, oldest first; a write to a closed socket fails. The empty set of rooms and
  the nil map behave alike. The listener is nil, open (\<open>Some True\<close>) or closed (\<open>Some False\<close>);
  \<open>t_hooks\<close> says that the three callbacks have been set, which the chat service does at once.
\<close>

record connection =
  c_ID :: string
  c_UserID :: string
  c_Username :: string
  c_rooms :: "string set"
  c_out :: "bytes list"
  c_open :: bool

record tcp_server =
  t_addr :: string
  t_listener :: "bool option"
  t_hooks :: bool
  t_heap :: "nat \<Rightarrow> connection"
  t_next :: nat
  t_conns :: "(string \<times> nat) list"
  t_authTimeout :: int
  t_heartbeatTimeout :: int

definition new_connection :: "string \<Rightarrow> connection" where
  [go_defs]: "new_connection cid =
     \<lparr>c_ID = cid, c_UserID = '''', c_Username = '''', c_rooms = {}, c_out = [], c_open = True\<rparr>"

definition NewTCPServer :: "string \<Rightarrow> int \<Rightarrow> int \<Rightarrow> tcp_server" where
  [go_defs]: "NewTCPServer addr authTimeout heartbeatTimeout =
     \<lparr>t_addr = addr, t_listener = None, t_hooks = False,
      t_heap = (\<lambda>_. new_connection ''''), t_next = 0, t_conns = [],
      t_authTimeout = authTimeout, t_heartbeatTimeout = heartbeatTimeout\<rparr>"

definition upd_conn :: "nat \<Rightarrow> (connection \<Rightarrow> connection) \<Rightarrow> tcp_server \<Rightarrow> tcp_server" where
  "upd_conn p f s = s\<lparr>t_heap := (t_heap s)(p := f (t_heap s p))\<rparr>"

subsection \<open>One connection\<close>

definition JoinRoom :: "string \<Rightarrow> connection \<Rightarrow> connection" where
  "JoinRoom roomID c = c\<lparr>c_rooms := insert roomID (c_rooms c)\<rparr>"

definition LeaveRoom :: "string \<Rightarrow> connection \<Rightarrow> connection" where
  "LeaveRoom roomID c = c\<lparr>c_rooms := c_rooms c - {roomID}\<rparr>"

definition IsInRoom :: "string \<Rightarrow> connection \<Rightarrow> bool" where
  "IsInRoom roomID c \<longleftrightarrow> roomID \<in> c_rooms c"

definition conn_Write :: "bytes \<Rightarrow> connection \<Rightarrow> connection" where
  "conn_Write b c = (if c_open c then c\<lparr>c_out := c_out c @ [b]\<rparr> else c)"

definition Send :: "frame \<Rightarrow> connection \<Rightarrow> connection" where
  "Send f c = conn_Write (EncodeFrame f) c"

definition close_conn :: "connection \<Rightarrow> connection" where
  "close_conn c = c\<lparr>c_open := False\<rparr>"

subsection \<open>The server\<close>

text \<open>\<open>s.conns[id] = c\<close> and \<open>delete(s.conns, id)\<close>.\<close>

fun conns_set :: "string \<Rightarrow> nat \<Rightarrow> (string \<times> nat) list \<Rightarrow> (string \<times> nat) list" where
  "conns_set k p [] = [(k, p)]"
| "conns_set k p ((k', q) # es) = (if k' = k then (k, p) # es else (k', q) # conns_set k p es)"

definition conns_delete :: "string \<Rightarrow> (string \<times> nat) list \<Rightarrow> (string \<times> nat) list" where
  "conns_delete k es = filter (\<lambda>e. fst e \<noteq> k) es"

text \<open>
  One turn of \<open>acceptLoop\<close>: a socket is accepted and the clock gives its identifier. The callback
  \<open>onConnect\<close> of the chat service only logs. The new pointer is returned to the goroutines.
\<close>

definition generateConnID :: "int \<Rightarrow> string" where
  [go_defs]: "generateConnID nanos = ''conn_'' @ dec_int nanos"

definition accept_conn :: "int \<Rightarrow> tcp_server \<Rightarrow> nat \<times> tcp_server" where
  "accept_conn nanos s =
     (let p = t_next s; c = new_connection (generateConnID nanos) in
      (p, s\<lparr>t_heap := (t_heap s)(p := c), t_next := Suc p, t_conns := conns_set (c_ID c) p (t_conns s)\<rparr>))"

text \<open>
  \<open>Start\<close> and \<open>Close\<close>; \<open>binds\<close> says whether \<open>net.Listen\<close> gets the address. Closing a listener twice is
  an error. Connections stay open when the listener is closed.
\<close>

definition server_Start :: "(string \<Rightarrow> bool) \<Rightarrow> tcp_server \<Rightarrow> go_error option \<times> tcp_server" where
  "server_Start binds s =
     (if binds (t_addr s) then (None, s\<lparr>t_listener := Some True\<rparr>) else (Some (PlainErr ''listen''), s))"

definition server_Close :: "tcp_server \<Rightarrow> go_error option \<times> tcp_server" where
  "server_Close s =
     (case t_listener s of
        None \<Rightarrow> (None, s)
      | Some True \<Rightarrow> (None, s\<lparr>t_listener := Some False\<rparr>)
      | Some False \<Rightarrow> (Some (PlainErr ''use of closed network connection''), s))"

text \<open>One round of \<open>acceptLoop\<close>: \<open>Accept\<close> fails once the listener is closed, and the loop ends.\<close>

definition acceptLoop :: "int \<Rightarrow> tcp_server \<Rightarrow> tcp_server" where
  "acceptLoop nanos s = (if t_listener s = Some True then snd (accept_conn nanos s) else s)"

text \<open>The goroutine of \<open>acceptLoop\<close> that wakes up after \<open>authTimeout\<close>.\<close>

definition auth_timer :: "nat \<Rightarrow> tcp_server \<Rightarrow> tcp_server" where
  "auth_timer p s =
     (if 0 < t_authTimeout s \<and> c_UserID (t_heap s p) = '''' then upd_conn p close_conn s else s)"

text \<open>The deferred part of \<open>readLoop\<close>, before \<open>onDisconnect\<close>.\<close>

definition drop_conn :: "nat \<Rightarrow> tcp_server \<Rightarrow> tcp_server" where
  "drop_conn p s =
     (let s' = upd_conn p close_conn s in
      s'\<lparr>t_conns := conns_delete (c_ID (t_heap s' p)) (t_conns s')\<rparr>)"

fun broadcast_loop :: "nat list \<Rightarrow> string \<Rightarrow> frame \<Rightarrow> string \<Rightarrow> tcp_server \<Rightarrow> tcp_server" where
  "broadcast_loop [] roomID f exclude s = s"
| "broadcast_loop (p # ps) roomID f exclude s =
     (let c = t_heap s p in
      broadcast_loop ps roomID f exclude
        (if c_ID c \<noteq> exclude \<and> c_UserID c \<noteq> '''' \<and> IsInRoom roomID c then upd_conn p (Send f) s else s))"

definition Broadcast :: "string \<Rightarrow> frame \<Rightarrow> string \<Rightarrow> tcp_server \<Rightarrow> tcp_server" where
  "Broadcast roomID f exclude s = broadcast_loop (map snd (t_conns s)) roomID f exclude s"

definition GetConnection :: "string \<Rightarrow> tcp_server \<Rightarrow> nat option" where
  "GetConnection userID s =
     (case filter (\<lambda>e. c_UserID (t_heap s (snd e)) = userID) (t_conns s) of
        [] \<Rightarrow> None
      | (_, p) # _ \<Rightarrow> Some p)"

definition SendToUser :: "proto_lib \<Rightarrow> string \<Rightarrow> chat_envelope \<Rightarrow> tcp_server \<Rightarrow> tcp_server" where
  "SendToUser P userID msg s =
     (case GetConnection userID s of
        None \<Rightarrow> s
      | Some p \<Rightarrow>
          (case proto_Marshal P msg of
             (_, True) \<Rightarrow> s
           | (data, False) \<Rightarrow> upd_conn p (Send (mk_frame (ucast (e_Type msg)) data)) s))"

subsection \<open>The presence notifier\<close>

definition NotifyOnline :: "proto_lib \<Rightarrow> string \<Rightarrow> string \<Rightarrow> string list \<Rightarrow> tcp_server \<Rightarrow> tcp_server" where
  "NotifyOnline P userID username friendIDs s =
     fold (\<lambda>fid. SendToUser P fid
             (envelope MessageType_PRESENCE_ONLINE (P_PresenceOnline userID username ''''))) friendIDs s"

definition NotifyOffline :: "proto_lib \<Rightarrow> string \<Rightarrow> string list \<Rightarrow> tcp_server \<Rightarrow> tcp_server" where
  "NotifyOffline P userID friendIDs s =
     fold (\<lambda>fid. SendToUser P fid (envelope MessageType_PRESENCE_OFFLINE (P_PresenceOffline userID)))
       friendIDs s"

definition NotifyFriendRemoved :: "proto_lib \<Rightarrow> string \<Rightarrow> string \<Rightarrow> tcp_server \<Rightarrow> tcp_server" where
  "NotifyFriendRemoved P targetUserID removedByID s =
     SendToUser P targetUserID (envelope MessageType_FRIEND_REMOVED (P_FriendRemoved removedByID)) s"

definition NotifyBlocked :: "proto_lib \<Rightarrow> string \<Rightarrow> string \<Rightarrow> tcp_server \<Rightarrow> tcp_server" where
  "NotifyBlocked P blockedUserID blockerID s =
     SendToUser P blockedUserID (envelope MessageType_BLOCK_NOTIFY (P_BlockNotify blockerID)) s"

text \<open>The interface \<open>PresenceNotifier\<close> of the friends module, over any network state.\<close>

record 'n notifier =
  n_NotifyOnline :: "string \<Rightarrow> string \<Rightarrow> string list \<Rightarrow> 'n \<Rightarrow> 'n"
  n_NotifyOffline :: "string \<Rightarrow> string list \<Rightarrow> 'n \<Rightarrow> 'n"
  n_NotifyFriendRemoved :: "string \<Rightarrow> string \<Rightarrow> 'n \<Rightarrow> 'n"
  n_NotifyBlocked :: "string \<Rightarrow> string \<Rightarrow> 'n \<Rightarrow> 'n"

definition ChatPresenceNotifier :: "proto_lib \<Rightarrow> tcp_server notifier" where
  "ChatPresenceNotifier P =
     \<lparr>n_NotifyOnline = NotifyOnline P, n_NotifyOffline = NotifyOffline P,
      n_NotifyFriendRemoved = NotifyFriendRemoved P, n_NotifyBlocked = NotifyBlocked P\<rparr>"

subsection \<open>What the operations do to the connections\<close>

lemma upd_conn_simps [simp]:
  "t_heap (upd_conn p f s) = (t_heap s)(p := f (t_heap s p))"
  "t_next (upd_conn p f s) = t_next s" "t_conns (upd_conn p f s) = t_conns s"
  "t_authTimeout (upd_conn p f s) = t_authTimeout s"
  by (simp_all add: upd_conn_def)

lemma Send_simps [simp]:
  "c_ID (Send f c) = c_ID c" "c_UserID (Send f c) = c_UserID c" "c_Username (Send f c) = c_Username c"
  "c_rooms (Send f c) = c_rooms c" "c_open (Send f c) = c_open c"
  by (simp_all add: Send_def conn_Write_def)

lemma Send_out: "c_out (Send f c) = (if c_open c then c_out c @ [EncodeFrame f] else c_out c)"
  by (simp add: Send_def conn_Write_def)

text \<open>The connections that \<open>Broadcast\<close> selects.\<close>

definition audience :: "string \<Rightarrow> string \<Rightarrow> connection \<Rightarrow> bool" where
  "audience roomID exclude c \<longleftrightarrow> c_ID c \<noteq> exclude \<and> c_UserID c \<noteq> '''' \<and> IsInRoom roomID c"

lemma audience_Send [simp]: "audience r x (Send f c) = audience r x c"
  by (simp add: audience_def IsInRoom_def)

lemma broadcast_loop_conns [simp]:
  "t_conns (broadcast_loop ps r f x s) = t_conns s" "t_next (broadcast_loop ps r f x s) = t_next s"
  by (induction ps arbitrary: s) (simp_all add: Let_def)

lemma broadcast_loop_heap:
  "distinct ps \<Longrightarrow> t_heap (broadcast_loop ps r f x s) q =
     (if q \<in> set ps \<and> audience r x (t_heap s q) then Send f (t_heap s q) else t_heap s q)"
  by (induction ps arbitrary: s) (auto simp: Let_def audience_def)

lemma broadcast_loop_ID [simp]: "c_ID (t_heap (broadcast_loop ps r f x s) q) = c_ID (t_heap s q)"
  by (induction ps arbitrary: s) (auto simp: Let_def)

lemma GetConnection_Some:
  assumes "GetConnection u s = Some p"
  shows "p \<in> snd ` set (t_conns s) \<and> c_UserID (t_heap s p) = u"
proof -
  obtain k es where "filter (\<lambda>e. c_UserID (t_heap s (snd e)) = u) (t_conns s) = (k, p) # es"
    using assms by (auto simp: GetConnection_def split: list.splits)
  then have "(k, p) \<in> set (filter (\<lambda>e. c_UserID (t_heap s (snd e)) = u) (t_conns s))" by simp
  then show ?thesis by force
qed

lemma GetConnection_None:
  "GetConnection u s = None \<longleftrightarrow> (\<forall>p \<in> snd ` set (t_conns s). c_UserID (t_heap s p) \<noteq> u)"
proof -
  have "GetConnection u s = None \<longleftrightarrow> filter (\<lambda>e. c_UserID (t_heap s (snd e)) = u) (t_conns s) = []"
    by (auto simp: GetConnection_def split: list.split)
  then show ?thesis by (auto simp: filter_empty_conv)
qed

text \<open>\<open>SendToUser\<close> touches at most one connection, a registered one of that user.\<close>

lemma SendToUser_cases:
  "SendToUser P u m s = s \<or>
   (\<exists>p b. GetConnection u s = Some p \<and> proto_Marshal P m = (b, False) \<and>
      SendToUser P u m s = upd_conn p (Send (mk_frame (ucast (e_Type m)) b)) s)"
  by (auto simp: SendToUser_def split: option.split prod.split bool.split)

lemma SendToUser_simps [simp]:
  "t_conns (SendToUser P u m s) = t_conns s" "t_next (SendToUser P u m s) = t_next s"
  "c_ID (t_heap (SendToUser P u m s) q) = c_ID (t_heap s q)"
  "c_UserID (t_heap (SendToUser P u m s) q) = c_UserID (t_heap s q)"
  "c_rooms (t_heap (SendToUser P u m s) q) = c_rooms (t_heap s q)"
  "c_open (t_heap (SendToUser P u m s) q) = c_open (t_heap s q)"
  using SendToUser_cases [of P u m s] by (auto split: if_splits)

lemma GetConnection_SendToUser [simp]: "GetConnection u (SendToUser P v m s) = GetConnection u s"
  by (simp add: GetConnection_def)

lemma SendToUser_others: "c_UserID (t_heap s q) \<noteq> u \<Longrightarrow> t_heap (SendToUser P u m s) q = t_heap s q"
  using SendToUser_cases [of P u m s] GetConnection_Some [of u s] by auto

subsection \<open>The registry of connections stays consistent\<close>

definition server_wf :: "tcp_server \<Rightarrow> bool" where
  "server_wf s \<longleftrightarrow>
     distinct (map fst (t_conns s)) \<and> distinct (map snd (t_conns s)) \<and>
     (\<forall>(k, p) \<in> set (t_conns s). p < t_next s \<and> c_ID (t_heap s p) = k)"

lemma server_wf_New: "server_wf (NewTCPServer ad a h)"
  by (simp add: server_wf_def NewTCPServer_def)

lemma server_wf_cong:
  assumes "t_conns s' = t_conns s" "t_next s' = t_next s" "\<And>p. c_ID (t_heap s' p) = c_ID (t_heap s p)"
  shows "server_wf s' = server_wf s"
  using assms by (simp add: server_wf_def)

lemma server_wf_upd: "(\<And>c. c_ID (f c) = c_ID c) \<Longrightarrow> server_wf (upd_conn p f s) = server_wf s"
  by (rule server_wf_cong) auto

lemma server_wf_SendToUser [simp]: "server_wf (SendToUser P u m s) = server_wf s"
  by (rule server_wf_cong) auto

lemma server_wf_Broadcast [simp]: "server_wf (Broadcast r f x s) = server_wf s"
  by (rule server_wf_cong) (auto simp: Broadcast_def)

lemma conns_set_keys: "distinct (map fst es) \<Longrightarrow>
    distinct (map fst (conns_set k p es)) \<and> set (map fst (conns_set k p es)) = insert k (fst ` set es)"
  by (induction k p es rule: conns_set.induct) auto

lemma conns_set_vals: "distinct (map snd es) \<Longrightarrow> p \<notin> snd ` set es \<Longrightarrow>
    distinct (map snd (conns_set k p es)) \<and> set (map snd (conns_set k p es)) \<subseteq> insert p (snd ` set es)"
  by (induction k p es rule: conns_set.induct) auto

lemma conns_set_mem: "distinct (map fst es) \<Longrightarrow>
    set (conns_set k p es) = insert (k, p) {e \<in> set es. fst e \<noteq> k}"
  by (induction k p es rule: conns_set.induct) (auto simp: image_iff)

lemma server_wf_accept: "server_wf s \<Longrightarrow> server_wf (snd (accept_conn nanos s))"
  using conns_set_keys [of "t_conns s"] conns_set_vals [of "t_conns s" "t_next s"]
  by (force simp: server_wf_def accept_conn_def Let_def conns_set_mem new_connection_def)

lemma server_wf_acceptLoop: "server_wf s \<Longrightarrow> server_wf (acceptLoop nanos s)"
  by (simp add: acceptLoop_def server_wf_accept)

lemma server_wf_Start: "server_wf (snd (server_Start binds s)) = server_wf s"
  by (simp add: server_Start_def server_wf_def)

lemma server_wf_Close: "server_wf (snd (server_Close s)) = server_wf s"
  by (simp add: server_Close_def server_wf_def split: option.split bool.split)

lemma server_wf_drop: "server_wf s \<Longrightarrow> server_wf (drop_conn p s)"
  by (auto simp: server_wf_def drop_conn_def Let_def conns_delete_def close_conn_def
      intro: distinct_map_filter)

lemma server_wf_auth_timer: "server_wf s \<Longrightarrow> server_wf (auth_timer p s)"
  by (simp add: auth_timer_def server_wf_upd close_conn_def)

text \<open>After \<open>readLoop\<close> ends, no registered connection has that pointer's identifier.\<close>

lemma drop_conn_gone: "k = c_ID (t_heap s p) \<Longrightarrow> k \<notin> fst ` set (t_conns (drop_conn p s))"
  by (auto simp: drop_conn_def Let_def conns_delete_def close_conn_def)

end
