(* ===== verification/Friends.thy ===== *)
theory Friends
  imports Server
begin

text \<open>
  The friends service (\<open>internal/friends/service.go\<close>): friend requests, blocking with its Redis
  cache, presence and recent contacts. The configuration holds what \<open>NewFriendsService\<close> receives:
  the Redis client and the notifier may be nil.
\<close>

record ('r, 'n) friends_svc =
  fs_uuid :: uuid_lib
  fs_rdb :: "'r redis_client option"
  fs_notifier :: "'n notifier option"

definition blocked_key :: "string \<Rightarrow> string" where
  [go_defs]: "blocked_key u = ''friends:blocked:'' @ u"

definition online_key :: "string \<Rightarrow> string" where
  [go_defs]: "online_key u = ''friends:online:'' @ u"

definition recent_key :: "string \<Rightarrow> string" where
  [go_defs]: "recent_key u = ''friends:recent:'' @ u"

text \<open>A call on the notifier, which may be nil, and a Redis command whose reply is not looked at.\<close>

definition notify :: "('r, 'n) friends_svc \<Rightarrow> ('n notifier \<Rightarrow> 'n \<Rightarrow> 'n) \<Rightarrow> ('r, 'n) world \<Rightarrow> ('r, 'n) world" where
  "notify F f w = (case fs_notifier F of None \<Rightarrow> w | Some n \<Rightarrow> on_net (f n) w)"

definition redis_do :: "('r, 'n) friends_svc \<Rightarrow> ('r redis_client \<Rightarrow> ('r, 'a) redis_cmd) \<Rightarrow> ('r, 'n) world \<Rightarrow> ('r, 'n) world" where
  "redis_do F c w = (case fs_rdb F of None \<Rightarrow> w | Some R \<Rightarrow> snd (on_redis (c R) w))"

subsection \<open>Blocking\<close>

text \<open>Whether \<open>targetUserID\<close> has blocked \<open>byUserID\<close>: the cache first, the database if it fails.\<close>

definition IsBlocked :: "('r, 'n) friends_svc \<Rightarrow> string \<Rightarrow> string \<Rightarrow> ('r, 'n, bool) svc" where
  "IsBlocked F targetUserID byUserID w =
     (let (cached, w1) =
        (case fs_rdb F of
           None \<Rightarrow> (None, w)
         | Some R \<Rightarrow>
             (case on_redis (rc_SIsMember R (blocked_key targetUserID) byUserID) w of
                (Inr isMember, w') \<Rightarrow> (Some isMember, w')
              | (Inl _, w') \<Rightarrow> (None, w')))
      in case cached of
           Some b \<Rightarrow> (Inr b, w1)
         | None \<Rightarrow>
             (case uuid_Parse (fs_uuid F) targetUserID of
                None \<Rightarrow> (Inl (app_err ErrBadRequest ''invalid target user id''), w1)
              | Some tid \<Rightarrow>
             (case uuid_Parse (fs_uuid F) byUserID of
                None \<Rightarrow> (Inl (app_err ErrBadRequest ''invalid by user id''), w1)
              | Some bid \<Rightarrow>
             (case on_db (IsBlockedBy_sql tid bid) w1 of
                (Inl NoRows, w2) \<Rightarrow> (Inr False, w2)
              | (Inl QueryFailed, w2) \<Rightarrow> (Inl (app_err ErrInternal ''failed to check block relation''), w2)
              | (Inr _, w2) \<Rightarrow> (Inr True, w2)))))"

definition Block :: "('r, 'n) friends_svc \<Rightarrow> string \<Rightarrow> string \<Rightarrow> string \<Rightarrow> ('r, 'n, unit) svc" where
  "Block F blockerID blockedID reason w =
     (case uuid_Parse (fs_uuid F) blockerID of
        None \<Rightarrow> (Inl (app_err ErrBadRequest ''invalid blocker id''), w)
      | Some bid \<Rightarrow>
     (case uuid_Parse (fs_uuid F) blockedID of
        None \<Rightarrow> (Inl (app_err ErrBadRequest ''invalid blocked id''), w)
      | Some blid \<Rightarrow>
     (if blockerID = blockedID then (Inl (app_err ErrBadRequest ''cannot block yourself''), w)
      else
     (case on_db (CreateBlockRelation_sql bid blid (null_if_empty reason)) w of
        (Inl _, w1) \<Rightarrow> (Inl (app_err ErrInternal ''failed to create block relation''), w1)
      | (Inr _, w1) \<Rightarrow>
          (let w3 = (case on_db (GetFriendshipByUsers_sql bid blid) w1 of
                 (Inr existing, w2) \<Rightarrow>
                   snd (on_db (DeleteFriendshipByUsers_sql (fr_user_id existing) (fr_friend_id existing)) w2)
               | (Inl _, w2) \<Rightarrow> w2);
               w4 = redis_do F (\<lambda>R. rc_SAdd R (blocked_key blockerID) blockedID) w3;
               w5 = notify F (\<lambda>n. n_NotifyBlocked n blockedID blockerID) w4
           in (Inr (), w5))))))"

definition Unblock :: "('r, 'n) friends_svc \<Rightarrow> string \<Rightarrow> string \<Rightarrow> ('r, 'n, unit) svc" where
  "Unblock F blockerID blockedID w =
     (case uuid_Parse (fs_uuid F) blockerID of
        None \<Rightarrow> (Inl (app_err ErrBadRequest ''invalid blocker id''), w)
      | Some bid \<Rightarrow>
     (case uuid_Parse (fs_uuid F) blockedID of
        None \<Rightarrow> (Inl (app_err ErrBadRequest ''invalid blocked id''), w)
      | Some blid \<Rightarrow>
     (case on_db (DeleteBlockRelation_sql bid blid) w of
        (Inl _, w1) \<Rightarrow> (Inl (app_err ErrInternal ''failed to delete block relation''), w1)
      | (Inr _, w1) \<Rightarrow> (Inr (), redis_do F (\<lambda>R. rc_SRem R (blocked_key blockerID) blockedID) w1))))"

definition db_err :: "db_error \<Rightarrow> go_error" where
  "db_err e = PlainErr (case e of NoRows \<Rightarrow> ''sql: no rows in result set'' | QueryFailed \<Rightarrow> ''query failed'')"

definition ListBlockedUsers :: "('r, 'n) friends_svc \<Rightarrow> string \<Rightarrow> ('r, 'n, block_row list) svc" where
  "ListBlockedUsers F userID w =
     (case uuid_Parse (fs_uuid F) userID of
        None \<Rightarrow> (Inl (app_err ErrBadRequest ''invalid user id''), w)
      | Some uid \<Rightarrow>
     (case on_db (ListBlockedUsers_sql uid) w of
        (Inl e, w1) \<Rightarrow> (Inl (db_err e), w1)
      | (Inr rows, w1) \<Rightarrow> (Inr rows, w1)))"

definition LoadBlockCache :: "('r, 'n) friends_svc \<Rightarrow> ('r, 'n, unit) svc" where
  "LoadBlockCache F w =
     (case fs_rdb F of
        None \<Rightarrow> (Inr (), w)
      | Some R \<Rightarrow>
     (case on_db ListAllBlockRelations_sql w of
        (Inl e, w1) \<Rightarrow> (Inl (db_err e), w1)
      | (Inr rows, w1) \<Rightarrow>
          (Inr (), fold (\<lambda>b w'. snd (on_redis (rc_SAdd R
              (blocked_key (uuid_String (fs_uuid F) (bl_blocker_id b)))
              (uuid_String (fs_uuid F) (bl_blocked_id b))) w')) rows w1)))"

subsection \<open>Friend requests\<close>

definition SendRequest :: "('r, 'n) friends_svc \<Rightarrow> string \<Rightarrow> string \<Rightarrow> ('r, 'n, friendship_row) svc" where
  "SendRequest F fromUserID toUserID w =
     (case uuid_Parse (fs_uuid F) fromUserID of
        None \<Rightarrow> (Inl (app_err ErrBadRequest ''invalid from user ID''), w)
      | Some from \<Rightarrow>
     (case uuid_Parse (fs_uuid F) toUserID of
        None \<Rightarrow> (Inl (app_err ErrBadRequest ''invalid to user ID''), w)
      | Some to \<Rightarrow>
     (if from = to then (Inl (app_err ErrBadRequest ''cannot send friend request to yourself''), w)
      else
     (case IsBlocked F toUserID fromUserID w of
        (Inl e, w1) \<Rightarrow> (Inl e, w1)
      | (Inr True, w1) \<Rightarrow> (Inl (app_err ErrForbidden ''you are blocked by this user''), w1)
      | (Inr False, w1) \<Rightarrow>
     (case on_db (GetFriendshipByUsers_sql from to) w1 of
        (Inr _, w2) \<Rightarrow> (Inl (app_err ErrConflict ''friendship already exists''), w2)
      | (Inl _, w2) \<Rightarrow>
     (case on_db (CreateFriendship_sql from to ''pending'') w2 of
        (Inl _, w3) \<Rightarrow> (Inl (app_err ErrInternal ''failed to create friend request''), w3)
      | (Inr friendship, w3) \<Rightarrow> (Inr friendship, w3)))))))"

definition AcceptRequest :: "('r, 'n) friends_svc \<Rightarrow> string \<Rightarrow> ('r, 'n, friendship_row) svc" where
  "AcceptRequest F friendshipID w =
     (case uuid_Parse (fs_uuid F) friendshipID of
        None \<Rightarrow> (Inl (app_err ErrBadRequest ''invalid friendship ID''), w)
      | Some fid \<Rightarrow>
     (case on_db (UpdateFriendshipStatus_sql fid ''accepted'') w of
        (Inl NoRows, w1) \<Rightarrow> (Inl (app_err ErrNotFound ''friend request not found''), w1)
      | (Inl QueryFailed, w1) \<Rightarrow> (Inl (app_err ErrInternal ''failed to accept friend request''), w1)
      | (Inr friendship, w1) \<Rightarrow> (Inr friendship, w1)))"

definition RejectRequest :: "('r, 'n) friends_svc \<Rightarrow> string \<Rightarrow> ('r, 'n, unit) svc" where
  "RejectRequest F friendshipID w =
     (case uuid_Parse (fs_uuid F) friendshipID of
        None \<Rightarrow> (Inl (app_err ErrBadRequest ''invalid friendship ID''), w)
      | Some fid \<Rightarrow>
     (case on_db (DeleteFriendship_sql fid) w of
        (Inl NoRows, w1) \<Rightarrow> (Inl (app_err ErrNotFound ''friend request not found''), w1)
      | (Inl QueryFailed, w1) \<Rightarrow> (Inl (app_err ErrInternal ''failed to reject friend request''), w1)
      | (Inr _, w1) \<Rightarrow> (Inr (), w1)))"

definition ListFriends :: "('r, 'n) friends_svc \<Rightarrow> string \<Rightarrow> ('r, 'n, friendship_row list) svc" where
  "ListFriends F userID w =
     (case uuid_Parse (fs_uuid F) userID of
        None \<Rightarrow> (Inl (app_err ErrBadRequest ''invalid user ID''), w)
      | Some uid \<Rightarrow>
     (case on_db (ListFriends_sql uid) w of
        (Inl _, w1) \<Rightarrow> (Inl (app_err ErrInternal ''failed to list friends''), w1)
      | (Inr fships, w1) \<Rightarrow> (Inr fships, w1)))"

definition ListPendingRequests :: "('r, 'n) friends_svc \<Rightarrow> string \<Rightarrow> ('r, 'n, friendship_row list) svc" where
  "ListPendingRequests F userID w =
     (case uuid_Parse (fs_uuid F) userID of
        None \<Rightarrow> (Inl (app_err ErrBadRequest ''invalid user ID''), w)
      | Some uid \<Rightarrow>
     (case on_db (ListPendingRequests_sql uid) w of
        (Inl _, w1) \<Rightarrow> (Inl (app_err ErrInternal ''failed to list pending requests''), w1)
      | (Inr requests, w1) \<Rightarrow> (Inr requests, w1)))"

definition RemoveFriend :: "('r, 'n) friends_svc \<Rightarrow> string \<Rightarrow> string \<Rightarrow> ('r, 'n, unit) svc" where
  "RemoveFriend F userID friendID w =
     (case uuid_Parse (fs_uuid F) userID of
        None \<Rightarrow> (Inl (app_err ErrBadRequest ''invalid user id''), w)
      | Some uid \<Rightarrow>
     (case uuid_Parse (fs_uuid F) friendID of
        None \<Rightarrow> (Inl (app_err ErrBadRequest ''invalid friend id''), w)
      | Some fid \<Rightarrow>
     (case on_db (DeleteFriendshipByUsers_sql uid fid) w of
        (Inl _, w1) \<Rightarrow> (Inl (app_err ErrInternal ''failed to delete friendship''), w1)
      | (Inr _, w1) \<Rightarrow> (Inr (), notify F (\<lambda>n. n_NotifyFriendRemoved n friendID userID) w1))))"

subsection \<open>Presence\<close>

text \<open>\<open>uuid.MustParse\<close> panics where parsing fails; times to live are in seconds.\<close>

definition friend_side_ids :: "uuid_lib \<Rightarrow> friendship_row list \<Rightarrow> string list" where
  "friend_side_ids U fs = map (\<lambda>f. uuid_String U (fr_friend_id f)) fs"

definition SetOnline ::
    "('r, 'n) friends_svc \<Rightarrow> string \<Rightarrow> string \<Rightarrow> ('r, 'n) world \<Rightarrow> (go_error + unit) go_result \<times> ('r, 'n) world" where
  "SetOnline F userID username w =
     (case fs_rdb F of
        None \<Rightarrow> (Returns (Inr ()), w)
      | Some R \<Rightarrow>
     (case on_redis (rc_SetNX R (online_key userID) username 300) w of
        (Inl _, w1) \<Rightarrow> (Returns (Inl (app_err ErrInternal ''failed to set online'')), w1)
      | (Inr was_set, w1) \<Rightarrow>
          (let expire = (\<lambda>w'. snd (on_redis (rc_Expire R (online_key userID) 300) w')) in
           case (if was_set then fs_notifier F else None) of
             None \<Rightarrow> (Returns (Inr ()), expire w1)
           | Some n \<Rightarrow>
               (case uuid_Parse (fs_uuid F) userID of
                  None \<Rightarrow> (Panics ''uuid: Parse'', w1)
                | Some uid \<Rightarrow>
                    (let (res, w2) = on_db (ListFriends_sql uid) w1;
                         fships = (case res of Inl _ \<Rightarrow> [] | Inr fs \<Rightarrow> fs);
                         friendIDs = friend_side_ids (fs_uuid F) fships;
                         w3 = on_net (n_NotifyOnline n userID username friendIDs) w2
                     in (Returns (Inr ()), expire w3))))))"

definition SetOffline ::
    "('r, 'n) friends_svc \<Rightarrow> string \<Rightarrow> ('r, 'n) world \<Rightarrow> (go_error + unit) go_result \<times> ('r, 'n) world" where
  "SetOffline F userID w =
     (case fs_rdb F of
        None \<Rightarrow> (Returns (Inr ()), w)
      | Some R \<Rightarrow>
     (case on_redis (rc_Exists R (online_key userID)) w of
        (Inl _, w1) \<Rightarrow> (Returns (Inl (app_err ErrInternal ''failed to check online'')), w1)
      | (Inr exists, w1) \<Rightarrow>
          (let w2 = snd (on_redis (rc_Del R (online_key userID)) w1) in
           case (if 0 < exists then fs_notifier F else None) of
             None \<Rightarrow> (Returns (Inr ()), w2)
           | Some n \<Rightarrow>
               (case uuid_Parse (fs_uuid F) userID of
                  None \<Rightarrow> (Panics ''uuid: Parse'', w2)
                | Some uid \<Rightarrow>
                    (let (res, w3) = on_db (ListFriends_sql uid) w2;
                         fships = (case res of Inl _ \<Rightarrow> [] | Inr fs \<Rightarrow> fs);
                         friendIDs = friend_side_ids (fs_uuid F) fships
                     in (Returns (Inr ()), on_net (n_NotifyOffline n userID friendIDs) w3))))))"

definition other_side :: "uuid \<Rightarrow> friendship_row \<Rightarrow> uuid" where
  "other_side u f = (if fr_friend_id f = u then fr_user_id f else fr_friend_id f)"

text \<open>
  The loop over the friends, with \<open>Exists(..).Val() == 1\<close>: an error reads as zero. A nil Redis
  client panics on the first use.
\<close>

fun online_loop :: "uuid_lib \<Rightarrow> 'r redis_client \<Rightarrow> uuid \<Rightarrow> friendship_row list \<Rightarrow> ('r, 'n) world
    \<Rightarrow> string list \<times> ('r, 'n) world" where
  "online_loop U R u [] w = ([], w)"
| "online_loop U R u (f # fs) w =
     (let friendID = uuid_String U (other_side u f);
          (res, w1) = on_redis (rc_Exists R (online_key friendID)) w;
          (rest, w2) = online_loop U R u fs w1
      in (if (case res of Inl _ \<Rightarrow> 0 | Inr n \<Rightarrow> n) = 1 then friendID # rest else rest, w2))"

definition GetOnlineFriends ::
    "('r, 'n) friends_svc \<Rightarrow> string \<Rightarrow> ('r, 'n) world \<Rightarrow> (go_error + string list) go_result \<times> ('r, 'n) world" where
  "GetOnlineFriends F userID w =
     (case uuid_Parse (fs_uuid F) userID of
        None \<Rightarrow> (Returns (Inl (app_err ErrBadRequest ''invalid user ID'')), w)
      | Some uid \<Rightarrow>
     (case on_db (ListFriends_sql uid) w of
        (Inl _, w1) \<Rightarrow> (Returns (Inl (app_err ErrInternal ''failed to list friends'')), w1)
      | (Inr fships, w1) \<Rightarrow>
          (case fs_rdb F of
             None \<Rightarrow> if fships = [] then (Returns (Inr []), w1) else (Panics ''nil pointer dereference'', w1)
           | Some R \<Rightarrow>
               (let (online, w2) = online_loop (fs_uuid F) R uid fships w1
                in (Returns (Inr online), w2)))))"

subsection \<open>Recent contacts and platform friends\<close>

text \<open>\<open>%f\<close> of a whole number of seconds: six zeros after the point.\<close>

definition fmt_f :: "int \<Rightarrow> string" where
  "fmt_f n = dec_int n @ ''.000000''"

definition ListRecentContacts ::
    "('r, 'n) friends_svc \<Rightarrow> int \<Rightarrow> string \<Rightarrow> int \<Rightarrow> ('r, 'n, string list) svc" where
  "ListRecentContacts F now userID limit w =
     (case fs_rdb F of
        None \<Rightarrow> (Inl (app_err ErrInternal ''redis not available''), w)
      | Some R \<Rightarrow>
     (let cutoff = now - 30 * 24 * 3600;
          w1 = snd (on_redis (rc_ZRemRangeByScore R (recent_key userID) ''-inf'' (fmt_f cutoff)) w)
      in case on_redis (rc_ZRevRangeByScore R (recent_key userID) (fmt_f now) ''0'' 0 limit) w1 of
           (Inl _, w2) \<Rightarrow> (Inl (app_err ErrInternal ''failed to get recent contacts''), w2)
         | (Inr results, w2) \<Rightarrow> (Inr results, w2)))"

definition ImportPlatformFriends :: "string \<Rightarrow> string \<Rightarrow> (string \<times> string) list \<Rightarrow> ('r, 'n, unit) svc" where
  "ImportPlatformFriends _ _ _ w =
     (Inl (app_err ErrNotImplemented ''platform friend import is not yet available''), w)"

end
