(* ===== verification/FriendsFacts.thy ===== *)
theory FriendsFacts
  imports Friends
begin

text \<open>
  What the friends service guarantees: the block check and its cache, friend requests, presence.
  The checker of blocks is an interface of its own, which the chat service uses as well.
\<close>

subsection \<open>Checking blocks\<close>

text \<open>
  A block checker answers, in the states where it is in order, the relation it stands for, and its
  calls change neither the relation nor the order. Its answer may be missing, never wrong.
\<close>

locale block_checker =
  fixes check :: "string \<Rightarrow> string \<Rightarrow> 's \<Rightarrow> (go_error + bool) \<times> 's"
    and rel :: "'s \<Rightarrow> string \<Rightarrow> string \<Rightarrow> bool"
    and ok :: "'s \<Rightarrow> bool"
    and name :: "string \<Rightarrow> bool"
  assumes check_sound: "ok s \<Longrightarrow> name a \<Longrightarrow> name b \<Longrightarrow> check a b s = (Inr r, s') \<Longrightarrow> r = rel s a b"
    and check_rel: "ok s \<Longrightarrow> name a \<Longrightarrow> name b \<Longrightarrow> check a b s = (res, s') \<Longrightarrow> rel s' = rel s"
    and check_ok: "ok s \<Longrightarrow> name a \<Longrightarrow> name b \<Longrightarrow> check a b s = (res, s') \<Longrightarrow> ok s'"
begin

text \<open>Checking a list of users until the first hit; an error counts as not blocked.\<close>

fun check_any :: "string \<Rightarrow> string list \<Rightarrow> 's \<Rightarrow> bool \<times> 's" where
  "check_any a [] s = (False, s)"
| "check_any a (b # bs) s =
     (let (res, s') = check a b s in
      if res = Inr True then (True, s') else check_any a bs s')"

lemma check_any_hit:
  "ok s \<Longrightarrow> name a \<Longrightarrow> list_all name bs \<Longrightarrow> check_any a bs s = (True, s') \<Longrightarrow> \<exists>b \<in> set bs. rel s a b"
proof (induction bs arbitrary: s)
  case (Cons b bs)
  obtain res s1 where c: "check a b s = (res, s1)" by fastforce
  have keep: "rel s1 = rel s" "ok s1" using Cons.prems c check_rel check_ok by auto
  show ?case
  proof (cases "res = Inr True")
    case True
    then show ?thesis using check_sound [of s a b True s1] Cons.prems c by auto
  next
    case False
    then show ?thesis using Cons.IH [of s1] Cons.prems c keep by auto
  qed
qed simp

lemma check_any_keeps:
  "ok s \<Longrightarrow> name a \<Longrightarrow> list_all name bs \<Longrightarrow> check_any a bs s = (r, s') \<Longrightarrow> rel s' = rel s \<and> ok s'"
proof (induction bs arbitrary: s)
  case (Cons b bs)
  obtain res s1 where c: "check a b s = (res, s1)" by fastforce
  have keep: "rel s1 = rel s" "ok s1" using Cons.prems c check_rel check_ok by auto
  show ?case using Cons.IH [of s1] Cons.prems c keep by (auto split: if_splits)
qed simp

end

text \<open>The relation in the database, between users named by their canonical identifiers.\<close>

definition db_blocks :: "db \<Rightarrow> uuid \<Rightarrow> uuid \<Rightarrow> bool" where
  "db_blocks d a b \<longleftrightarrow> (\<exists>r \<in> set (block_relations d). blocks a b r)"

definition blocked_rel :: "uuid_lib \<Rightarrow> ('r, 'n) world \<Rightarrow> string \<Rightarrow> string \<Rightarrow> bool" where
  "blocked_rel U w a b \<longleftrightarrow>
     (case (uuid_Parse U a, uuid_Parse U b) of
        (Some x, Some y) \<Rightarrow> db_blocks (w_db w) x y
      | _ \<Rightarrow> False)"

definition canonical :: "uuid_lib \<Rightarrow> string \<Rightarrow> bool" where
  "canonical U s \<longleftrightarrow> (case uuid_Parse U s of None \<Rightarrow> False | Some u \<Rightarrow> uuid_String U u = s)"

lemma db_blocks_same: "same_tables d d' \<Longrightarrow> db_blocks d' = db_blocks d"
  by (intro ext) (simp add: same_tables_iff db_blocks_def)

lemma db_blocks_calls [simp]: "db_blocks (d\<lparr>db_calls := n\<rparr>) = db_blocks d"
  by (intro ext) (simp add: db_blocks_def)

lemma IsBlockedBy_Inr: "IsBlockedBy_sql a b d = (Inr x, d') \<Longrightarrow> db_blocks d a b"
  unfolding IsBlockedBy_sql_def
  by (drule select_Inr) (auto simp: one_row_cases db_blocks_def filter_empty_conv split: if_splits)

lemma IsBlockedBy_NoRows: "IsBlockedBy_sql a b d = (Inl NoRows, d') \<Longrightarrow> \<not> db_blocks d a b"
  unfolding IsBlockedBy_sql_def
  by (drule select_NoRows) (auto simp: one_row_cases db_blocks_def filter_empty_conv split: if_splits)

lemma IsBlockedBy_tables: "IsBlockedBy_sql a b d = (res, d') \<Longrightarrow> same_tables d d'"
  unfolding IsBlockedBy_sql_def by (rule same_tables_select_eq)

text \<open>The part of \<open>IsBlocked\<close> that asks the database.\<close>

lemma IsBlocked_uncached:
  assumes "fs_rdb F = None" and "IsBlocked F a b w = (res, w')"
  shows "only_reads w w'" and "res = Inr r \<Longrightarrow> r = blocked_rel (fs_uuid F) w a b"
  using assms
  by (auto simp: IsBlocked_def blocked_rel_def on_db_eq only_reads_def Let_def
      split: option.splits prod.splits sum.splits db_error.splits
      dest: IsBlockedBy_Inr IsBlockedBy_NoRows IsBlockedBy_tables)

lemma blocked_rel_reads: "only_reads w w' \<Longrightarrow> blocked_rel U w' = blocked_rel U w"
  by (intro ext) (auto simp: blocked_rel_def only_reads_def db_blocks_same split: option.split)

locale friends_uncached =
  fixes F :: "('r, 'n) friends_svc"
  assumes no_rdb: "fs_rdb F = None"

sublocale friends_uncached \<subseteq> uncached: block_checker "IsBlocked F" "blocked_rel (fs_uuid F)" "\<lambda>_. True" "\<lambda>_. True"
  by unfold_locales
    (auto dest: IsBlocked_uncached [OF no_rdb] blocked_rel_reads)

subsection \<open>The cache of blocks\<close>

definition holds_set :: "redis_value option \<Rightarrow> bool" where
  "holds_set v \<longleftrightarrow> (case v of None \<Rightarrow> True | Some (RSet _) \<Rightarrow> True | _ \<Rightarrow> False)"

lemma holds_set_or_none [simp]: "holds_set (set_or_none A)"
  by (simp add: holds_set_def set_or_none_def)

text \<open>
  The cache agrees with the table of blocks: for all users \<open>a\<close> and \<open>b\<close>, the set of the key of \<open>a\<close>
  contains \<open>b\<close> exactly if \<open>a\<close> has blocked \<open>b\<close>.
\<close>

definition cache_coherent :: "uuid_lib \<Rightarrow> ('r \<Rightarrow> keyspace) \<Rightarrow> ('r, 'n) world \<Rightarrow> bool" where
  "cache_coherent U K w \<longleftrightarrow>
     (\<forall>a. holds_set (K (w_redis w) (blocked_key (uuid_String U a)))) \<and>
     (\<forall>a b. uuid_String U b \<in> set_members (K (w_redis w) (blocked_key (uuid_String U a)))
        \<longleftrightarrow> db_blocks (w_db w) a b)"

lemma cache_coherent_cong:
  "same_tables (w_db w) (w_db w') \<Longrightarrow> K (w_redis w') = K (w_redis w) \<Longrightarrow>
   cache_coherent U K w' = cache_coherent U K w"
  by (simp add: cache_coherent_def db_blocks_same)

lemma blocked_key_inject [simp]: "blocked_key a = blocked_key b \<longleftrightarrow> a = b"
  by (simp add: blocked_key_def)

locale friends_cached = redis R K + uuid_pkg U
  for R :: "'r redis_client" and K :: "'r \<Rightarrow> keyspace" and U :: uuid_lib +
  fixes F :: "('r, 'n) friends_svc"
  assumes F_uuid: "fs_uuid F = U" and F_rdb: "fs_rdb F = Some R"
begin

lemma IsBlocked_keeps:
  assumes "IsBlocked F a b w = (res, w')"
  shows "same_tables (w_db w) (w_db w') \<and> K (w_redis w') = K (w_redis w) \<and> w_net w' = w_net w"
  using assms
  by (auto simp: IsBlocked_def F_rdb on_db_eq on_redis_eq Let_def
      split: option.splits prod.splits sum.splits db_error.splits
      dest: IsBlockedBy_tables sismember_keeps)

lemma IsBlocked_sound:
  assumes "cache_coherent U K w" and "canonical U a" and "canonical U b"
    and "IsBlocked F a b w = (Inr r, w')"
  shows "r = blocked_rel U w a b"
proof -
  obtain x y where x: "a = uuid_String U x" and y: "b = uuid_String U y"
    using assms(2,3) by (auto simp: canonical_def split: option.splits)
  have coh: "uuid_String U y \<in> set_members (K (w_redis w) (blocked_key (uuid_String U x))) \<longleftrightarrow> db_blocks (w_db w) x y"
    using assms(1) by (simp add: cache_coherent_def)
  have rel: "blocked_rel U w (uuid_String U x) (uuid_String U y) = db_blocks (w_db w) x y"
    by (simp add: blocked_rel_def parse_string)
  show ?thesis
    using assms(4) coh unfolding rel x y
    by (auto simp: IsBlocked_def F_rdb F_uuid on_db_eq on_redis_eq Let_def parse_string
        split: option.splits prod.splits sum.splits db_error.splits
        dest: IsBlockedBy_Inr IsBlockedBy_NoRows sismember_ok)
qed

end

sublocale friends_cached \<subseteq> cached: block_checker "IsBlocked F" "blocked_rel U" "cache_coherent U K" "canonical U"
proof unfold_locales
  show "cache_coherent U K w \<Longrightarrow> canonical U a \<Longrightarrow> canonical U b \<Longrightarrow> IsBlocked F a b w = (Inr r, w') \<Longrightarrow>
      r = blocked_rel U w a b" for w a b r w'
    by (rule IsBlocked_sound)
  show "cache_coherent U K w \<Longrightarrow> canonical U a \<Longrightarrow> canonical U b \<Longrightarrow> IsBlocked F a b w = (res, w') \<Longrightarrow>
      blocked_rel U w' = blocked_rel U w" for w a b res w'
    by (drule IsBlocked_keeps) (intro ext, auto simp: blocked_rel_def db_blocks_same split: option.split)
  show "cache_coherent U K w \<Longrightarrow> canonical U a \<Longrightarrow> canonical U b \<Longrightarrow> IsBlocked F a b w = (res, w') \<Longrightarrow>
      cache_coherent U K w'" for w a b res w'
    using IsBlocked_keeps [of a b w res w'] cache_coherent_cong [of w w' K U] by simp
qed

definition ref_friends :: "(keyspace, 'n) friends_svc" where
  "ref_friends = \<lparr>fs_uuid = ref_uuid, fs_rdb = Some ref_redis, fs_notifier = None\<rparr>"

interpretation friends_ref: friends_cached ref_redis "\<lambda>r. r" ref_uuid ref_friends
  by unfold_locales (simp_all add: ref_friends_def)

text \<open>A server that executes the set commands whenever the key holds a set or nothing.\<close>

definition sets_available :: "'r redis_client \<Rightarrow> ('r \<Rightarrow> keyspace) \<Rightarrow> bool" where
  "sets_available R K \<longleftrightarrow>
     (\<forall>k v r. holds_set (K r k) \<longrightarrow> \<not> isl (fst (rc_SAdd R k v r)) \<and> \<not> isl (fst (rc_SRem R k v r)))"

lemma ref_sets_available: "sets_available ref_redis (\<lambda>r. r)"
  by (auto simp: sets_available_def holds_set_def ref_redis_def on_set_def Let_def
      split: option.splits redis_value.splits)

context friends_cached
begin

lemma SAdd_available:
  assumes "sets_available R K" and "holds_set (K r k)" and "rc_SAdd R k v r = (res, r')"
  shows "K r' = (K r)(k \<mapsto> RSet (insert v (set_members (K r k))))"
proof -
  have "\<not> isl (fst (rc_SAdd R k v r))" using assms(1,2) by (auto simp: sets_available_def)
  then obtain n where "res = Inr n" using assms(3) by (cases res) auto
  then show ?thesis using assms(3) by (auto dest: sadd_ok)
qed

lemma SRem_available:
  assumes "sets_available R K" and "holds_set (K r k)" and "rc_SRem R k v r = (res, r')"
  shows "K r' = (K r)(k := set_or_none (set_members (K r k) - {v}))"
proof -
  have "\<not> isl (fst (rc_SRem R k v r))" using assms(1,2) by (auto simp: sets_available_def)
  then obtain n where "res = Inr n" using assms(3) by (cases res) auto
  then show ?thesis using assms(3) by (auto dest: srem_ok)
qed

end

subsection \<open>Blocking keeps the cache in step\<close>

lemma CreateBlockRelation_Inr:
  assumes "CreateBlockRelation_sql a b reason d = (Inr x, d')"
  shows "block_relations d' = block_relations d @ [x] \<and> blocks a b x \<and> \<not> db_blocks d a b
    \<and> friendships d' = friendships d \<and> users d' = users d \<and> db_env d' = db_env d"
  using assms unfolding CreateBlockRelation_sql_def
  by (auto dest!: stmt_Inr simp: Let_def db_blocks_def blocks_def split: if_splits)

lemma DeleteBlockRelation_Inr:
  assumes "DeleteBlockRelation_sql a b d = (Inr x, d')"
  shows "block_relations d' = filter (\<lambda>r. \<not> blocks a b r) (block_relations d) \<and> db_blocks d a b
    \<and> friendships d' = friendships d \<and> users d' = users d \<and> db_env d' = db_env d"
  using assms unfolding DeleteBlockRelation_sql_def
  by (auto dest!: stmt_Inr simp: one_row_cases db_blocks_def filter_empty_conv split: if_splits)

lemma DeleteFriendshipByUsers_keeps:
  assumes "DeleteFriendshipByUsers_sql a b d = (r, d')"
  shows "block_relations d' = block_relations d \<and> users d' = users d \<and> db_env d' = db_env d"
proof -
  have "block_relations (snd (DeleteFriendshipByUsers_sql a b d)) = block_relations d
      \<and> users (snd (DeleteFriendshipByUsers_sql a b d)) = users d
      \<and> db_env (snd (DeleteFriendshipByUsers_sql a b d)) = db_env d"
    unfolding DeleteFriendshipByUsers_sql_def by (rule stmt_keeps) simp_all
  then show ?thesis using assms by simp
qed

lemma GetFriendshipByUsers_tables: "GetFriendshipByUsers_sql a b d = (r, d') \<Longrightarrow> same_tables d d'"
  unfolding GetFriendshipByUsers_sql_def by (rule same_tables_select_eq)

text \<open>The deletion of friendships inside \<open>Block\<close>.\<close>

definition drop_friendship :: "uuid \<Rightarrow> uuid \<Rightarrow> ('r, 'n) world \<Rightarrow> ('r, 'n) world" where
  "drop_friendship bid blid w1 =
     (case on_db (GetFriendshipByUsers_sql bid blid) w1 of
        (Inr existing, w2) \<Rightarrow>
          snd (on_db (DeleteFriendshipByUsers_sql (fr_user_id existing) (fr_friend_id existing)) w2)
      | (Inl _, w2) \<Rightarrow> w2)"

lemma drop_friendship_keeps:
  "block_relations (w_db (drop_friendship a b w)) = block_relations (w_db w)"
  "w_redis (drop_friendship a b w) = w_redis w" "w_net (drop_friendship a b w) = w_net w"
  by (auto simp: drop_friendship_def on_db_def same_tables_iff split: prod.split sum.split
      dest!: GetFriendshipByUsers_tables DeleteFriendshipByUsers_keeps)

lemma Block_Inr:
  assumes "Block F s t reason w = (Inr (), w')"
  obtains a b x w1 where "uuid_Parse (fs_uuid F) s = Some a" "uuid_Parse (fs_uuid F) t = Some b" "s \<noteq> t"
    and "on_db (CreateBlockRelation_sql a b (null_if_empty reason)) w = (Inr x, w1)"
    and "w' = notify F (\<lambda>n. n_NotifyBlocked n t s)
                (redis_do F (\<lambda>R. rc_SAdd R (blocked_key s) t) (drop_friendship a b w1))"
proof -
  obtain a b where ab: "uuid_Parse (fs_uuid F) s = Some a" "uuid_Parse (fs_uuid F) t = Some b" "s \<noteq> t"
    using assms by (auto simp: Block_def split: option.splits if_splits)
  obtain res w1 where c: "on_db (CreateBlockRelation_sql a b (null_if_empty reason)) w = (res, w1)"
    by fastforce
  obtain x where x: "res = Inr x"
    using assms ab c by (cases res) (auto simp: Block_def)
  have "w' = notify F (\<lambda>n. n_NotifyBlocked n t s)
                (redis_do F (\<lambda>R. rc_SAdd R (blocked_key s) t) (drop_friendship a b w1))"
    using assms ab c x by (simp add: Block_def drop_friendship_def Let_def)
  with ab c x that show ?thesis by blast
qed

lemma notify_keeps [simp]: "w_db (notify F f w) = w_db w" "w_redis (notify F f w) = w_redis w"
  by (auto simp: notify_def split: option.split)

lemma redis_do_keeps [simp]: "w_db (redis_do F c w) = w_db w" "w_net (redis_do F c w) = w_net w"
  by (auto simp: redis_do_def split: option.split)

lemma db_blocks_append: "block_relations d' = block_relations d @ [x] \<Longrightarrow> blocks a b x \<Longrightarrow>
    db_blocks d' p q = (db_blocks d p q \<or> (p = a \<and> q = b))"
  by (auto simp: db_blocks_def blocks_def)

lemma db_blocks_filter: "block_relations d' = filter (\<lambda>r. \<not> blocks a b r) (block_relations d) \<Longrightarrow>
    db_blocks d' p q = (db_blocks d p q \<and> \<not> (p = a \<and> q = b))"
  by (auto simp: db_blocks_def blocks_def)

lemma db_blocks_cong: "block_relations d' = block_relations d \<Longrightarrow> db_blocks d' p q = db_blocks d p q"
  by (simp add: db_blocks_def)

context friends_cached
begin

lemma SAdd_coherent:
  assumes "sets_available R K" and "cache_coherent U K w"
    and "\<And>p q. db_blocks d' p q = (db_blocks (w_db w) p q \<or> (p = a \<and> q = b))"
    and "w_redis w' = snd (rc_SAdd R (blocked_key (uuid_String U a)) (uuid_String U b) (w_redis w))"
    and "w_db w' = d'"
  shows "cache_coherent U K w'"
proof -
  have "K (w_redis w') = (K (w_redis w))(blocked_key (uuid_String U a) \<mapsto>
      RSet (insert (uuid_String U b) (set_members (K (w_redis w) (blocked_key (uuid_String U a))))))"
    using assms(1,2,4) by (intro SAdd_available) (auto simp: cache_coherent_def prod_eq_iff)
  then show ?thesis
    using assms(2,3,5) by (auto simp: cache_coherent_def string_inject holds_set_def)
qed

lemma Block_coherent:
  assumes "sets_available R K" and "cache_coherent U K w"
    and "Block F (uuid_String U a) (uuid_String U b) reason w = (Inr (), w')"
  shows "cache_coherent U K w' \<and> db_blocks (w_db w') a b"
  using assms(3)
proof (rule Block_Inr)
  fix p q x w1
  assume pq: "uuid_Parse (fs_uuid F) (uuid_String U a) = Some p" "uuid_Parse (fs_uuid F) (uuid_String U b) = Some q"
    and c: "on_db (CreateBlockRelation_sql p q (null_if_empty reason)) w = (Inr x, w1)"
    and w': "w' = notify F (\<lambda>n. n_NotifyBlocked n (uuid_String U b) (uuid_String U a))
        (redis_do F (\<lambda>R. rc_SAdd R (blocked_key (uuid_String U a)) (uuid_String U b)) (drop_friendship p q w1))"
  have [simp]: "p = a" "q = b" using pq by (simp_all add: F_uuid parse_string)
  have rows: "block_relations (w_db w1) = block_relations (w_db w) @ [x] \<and> blocks a b x"
    and red: "w_redis w1 = w_redis w"
    using c CreateBlockRelation_Inr by (fastforce simp: on_db_eq)+
  have new: "db_blocks (w_db w') r s = (db_blocks (w_db w) r s \<or> (r = a \<and> s = b))" for r s
    using rows drop_friendship_keeps(1) [of a b w1] by (intro db_blocks_append [of _ _ x]) (simp_all add: w')
  have "w_redis w' = snd (rc_SAdd R (blocked_key (uuid_String U a)) (uuid_String U b) (w_redis w))"
    by (simp add: w' redis_do_def F_rdb drop_friendship_keeps red)
  then show ?thesis
    using SAdd_coherent [OF assms(1,2) new _ refl] new by simp
qed

lemma Unblock_coherent:
  assumes "sets_available R K" and "cache_coherent U K w"
    and "Unblock F (uuid_String U a) (uuid_String U b) w = (Inr (), w')"
  shows "cache_coherent U K w' \<and> \<not> db_blocks (w_db w') a b"
proof -
  obtain x w1 where c: "on_db (DeleteBlockRelation_sql a b) w = (Inr x, w1)"
    and w': "w' = redis_do F (\<lambda>R. rc_SRem R (blocked_key (uuid_String U a)) (uuid_String U b)) w1"
    using assms(3) by (auto simp: Unblock_def F_uuid parse_string split: prod.splits sum.splits)
  have rows: "block_relations (w_db w1) = filter (\<lambda>r. \<not> blocks a b r) (block_relations (w_db w))"
    and red: "w_redis w1 = w_redis w"
    using c DeleteBlockRelation_Inr by (fastforce simp: on_db_eq)+
  have new: "db_blocks (w_db w') r s = (db_blocks (w_db w) r s \<and> \<not> (r = a \<and> s = b))" for r s
    using rows by (intro db_blocks_filter) (simp add: w')
  have "K (w_redis w') = (K (w_redis w))(blocked_key (uuid_String U a) :=
      set_or_none (set_members (K (w_redis w) (blocked_key (uuid_String U a))) - {uuid_String U b}))"
    using assms(1,2)
    by (intro SRem_available) (auto simp: cache_coherent_def prod_eq_iff w' redis_do_def F_rdb red)
  then show ?thesis
    using assms(2) new holds_set_or_none by (auto simp: cache_coherent_def string_inject)
qed

end

text \<open>
  Loading the cache: afterwards every block is cached, and the cache is in step if it held nothing
  that is not a block before. Entries that are in the cache and not in the table stay.
\<close>

definition cache_sound :: "uuid_lib \<Rightarrow> ('r \<Rightarrow> keyspace) \<Rightarrow> ('r, 'n) world \<Rightarrow> bool" where
  "cache_sound U K w \<longleftrightarrow>
     (\<forall>a. holds_set (K (w_redis w) (blocked_key (uuid_String U a)))) \<and>
     (\<forall>a b. uuid_String U b \<in> set_members (K (w_redis w) (blocked_key (uuid_String U a)))
        \<longrightarrow> db_blocks (w_db w) a b)"

context friends_cached
begin

definition cached :: "'r \<Rightarrow> uuid \<Rightarrow> uuid \<Rightarrow> bool" where
  "cached r a b \<longleftrightarrow> uuid_String U b \<in> set_members (K r (blocked_key (uuid_String U a)))"

definition load_step :: "block_row \<Rightarrow> ('r, 'n) world \<Rightarrow> ('r, 'n) world" where
  "load_step x w = snd (on_redis (rc_SAdd R (blocked_key (uuid_String U (bl_blocker_id x)))
     (uuid_String U (bl_blocked_id x))) w)"

lemma load_step_cached:
  assumes "sets_available R K" and "\<forall>a. holds_set (K (w_redis w) (blocked_key (uuid_String U a)))"
  shows "(\<forall>a. holds_set (K (w_redis (load_step x w)) (blocked_key (uuid_String U a)))) \<and>
    (\<forall>a b. cached (w_redis (load_step x w)) a b = (cached (w_redis w) a b \<or> blocks a b x))"
proof -
  let ?k = "blocked_key (uuid_String U (bl_blocker_id x))"
  have "K (w_redis (load_step x w)) =
      (K (w_redis w))(?k \<mapsto> RSet (insert (uuid_String U (bl_blocked_id x)) (set_members (K (w_redis w) ?k))))"
    using assms by (intro SAdd_available) (auto simp: load_step_def prod_eq_iff)
  then show ?thesis
    using assms(2) by (auto simp: cached_def string_inject holds_set_def blocks_def)
qed

lemma load_steps_cached:
  assumes "sets_available R K" and "\<forall>a. holds_set (K (w_redis w) (blocked_key (uuid_String U a)))"
  shows "(\<forall>a. holds_set (K (w_redis (fold load_step xs w)) (blocked_key (uuid_String U a)))) \<and>
    (\<forall>a b. cached (w_redis (fold load_step xs w)) a b = (cached (w_redis w) a b \<or> (\<exists>x \<in> set xs. blocks a b x)))"
  using assms(2)
proof (induction xs arbitrary: w)
  case (Cons x xs)
  then show ?case using load_step_cached [OF assms(1) Cons.prems, of x] Cons.IH [of "load_step x w"] by auto
qed simp

lemma load_steps_db [simp]: "w_db (fold load_step xs w) = w_db w"
  by (induction xs arbitrary: w) (simp_all add: load_step_def)

lemma LoadBlockCache_coherent:
  assumes "sets_available R K" and "cache_sound U K w" and "LoadBlockCache F w = (Inr (), w')"
  shows "cache_coherent U K w'"
proof -
  obtain xs w1 where q: "on_db ListAllBlockRelations_sql w = (Inr xs, w1)"
    and w': "w' = fold load_step xs w1"
    using assms(3)
    by (auto simp: LoadBlockCache_def F_rdb F_uuid load_step_def [abs_def] split: prod.splits sum.splits)
  have w1: "w_redis w1 = w_redis w" "same_tables (w_db w) (w_db w1)" "set xs = set (block_relations (w_db w))"
    using q unfolding on_db_eq ListAllBlockRelations_sql_def
    by (auto dest: select_Inr same_tables_select_eq)
  have "\<forall>a. holds_set (K (w_redis w1) (blocked_key (uuid_String U a)))"
    using assms(2) by (simp add: cache_sound_def w1)
  from load_steps_cached [OF assms(1) this, of xs] show ?thesis
    using assms(2) w1 db_blocks_same [OF w1(2)]
    by (auto simp: cache_coherent_def cache_sound_def cached_def w' db_blocks_def)
qed

end

end
