(* ===== verification/Samples.thy ===== *)
theory Samples
  imports FriendsFacts
begin

text \<open>
  Small concrete states on which the theorems are applied: three users, an engine without faults
  whose identifiers and clock count the statements, and an empty Redis server.
\<close>

definition sample_env :: db_env where
  "sample_env = \<lparr>env_fault = (\<lambda>_. NoFault), env_fresh = (\<lambda>n. of_nat n + 100), env_now = (\<lambda>n. int n)\<rparr>"

definition sample_user :: "uuid \<Rightarrow> string \<Rightarrow> user_row" where
  "sample_user uid name =
     \<lparr>u_id = uid, u_username = name, u_email = None, u_phone = None, u_display_name = None,
      u_avatar_url = None, u_status = ''active'', u_metadata = None, u_created_at = 0, u_updated_at = 0\<rparr>"

definition sample_db :: db where
  "sample_db = (empty_db sample_env)\<lparr>users := [sample_user 1 ''ann'', sample_user 2 ''bob'', sample_user 3 ''eve'']\<rparr>"

definition sample_world :: "'n \<Rightarrow> (keyspace, 'n) world" where
  "sample_world n = \<lparr>w_db = sample_db, w_redis = Map.empty, w_net = n\<rparr>"

lemmas sample_defs = sample_env_def sample_user_def sample_db_def sample_world_def empty_db_def

lemma sample_no_faults [simp]: "no_faults sample_db"
  by (simp add: no_faults_def sample_defs)

lemma sample_users [simp]: "user_ids sample_db = {1, 2, 3}"
  by (simp add: user_ids_def sample_defs)

lemma sample_world_simps [simp]:
  "w_db (sample_world n) = sample_db" "w_redis (sample_world n) = Map.empty" "w_net (sample_world n) = n"
  by (simp_all add: sample_world_def)

lemma sample_tables [simp]:
  "friendships sample_db = []" "block_relations sample_db = []" "db_calls sample_db = 0"
  "db_env sample_db = sample_env" "chat_rooms sample_db = []" "chat_room_members sample_db = []"
  by (simp_all add: sample_db_def empty_db_def)

lemma sample_coherent: "cache_coherent ref_uuid (\<lambda>r. r) (sample_world n)"
  by (simp add: cache_coherent_def holds_set_def db_blocks_def)

lemma sample_wf: "db_wf sample_db"
  by (simp add: db_wf_def wf_defs sample_defs)

end
