(* ===== verification/FriendRequests.thy ===== *)
theory FriendRequests
  imports FriendsFacts Samples
begin

text \<open>
  Friend requests and blocks as operations on the table of friendships: at most one row for a pair
  of users as long as no statement fails, what a request returns in every case, and what a block
  removes.
\<close>

definition pair :: "friendship_row \<Rightarrow> uuid set" where
  "pair f = {fr_user_id f, fr_friend_id f}"

text \<open>At most one row for each unordered pair of users.\<close>

definition unique_pairs :: "db \<Rightarrow> bool" where
  "unique_pairs d \<longleftrightarrow> distinct (map pair (friendships d))"

lemma between_pair: "between a b f \<longleftrightarrow> pair f = {a, b}"
  by (auto simp: between_def pair_def doubleton_eq_iff)

lemma between_self: "between (fr_user_id f) (fr_friend_id f) g \<longleftrightarrow> pair g = pair f"
  by (simp add: between_pair pair_def)

definition related :: "db \<Rightarrow> uuid \<Rightarrow> uuid \<Rightarrow> bool" where
  "related d a b \<longleftrightarrow> (\<exists>f \<in> set (friendships d). between a b f)"

lemma related_same: "same_tables d d' \<Longrightarrow> related d' = related d"
  by (intro ext) (simp add: same_tables_iff related_def)

lemma related_iff: "related d a b \<longleftrightarrow> {a, b} \<in> pair ` set (friendships d)"
  by (auto simp: related_def between_pair)

subsection \<open>The statements, without engine faults\<close>

lemma GetFriendshipByUsers_nf:
  assumes "no_faults d"
  shows "GetFriendshipByUsers_sql a b d =
    (if related d a b then Inr (hd (filter (between a b) (friendships d))) else Inl NoRows, tick d)"
  using assms
  by (auto simp: GetFriendshipByUsers_sql_def select_nf one_row_cases related_def filter_empty_conv)

lemma CreateFriendship_nf:
  assumes "no_faults d" and "a \<in> user_ids d" and "b \<in> user_ids d" and "varchar_ok 16 status"
    and "env_fresh (db_env d) (db_calls d) \<notin> fr_id ` set (friendships d)"
  shows "\<exists>x. CreateFriendship_sql a b status d =
      (Inr x, (tick d)\<lparr>friendships := friendships d @ [x]\<rparr>) \<and>
      fr_user_id x = a \<and> fr_friend_id x = b \<and> fr_status x = status \<and> fr_id x = env_fresh (db_env d) (db_calls d)"
  using assms by (auto simp: CreateFriendship_sql_def stmt_nf user_ids_def Let_def)

lemma CreateFriendship_Inr:
  assumes "CreateFriendship_sql a b status d = (Inr x, d')"
  shows "friendships d' = friendships d @ [x] \<and> fr_user_id x = a \<and> fr_friend_id x = b \<and> fr_status x = status
    \<and> fr_id x \<notin> fr_id ` set (friendships d)
    \<and> users d' = users d \<and> block_relations d' = block_relations d \<and> db_env d' = db_env d"
  using assms unfolding CreateFriendship_sql_def
  by (auto dest!: stmt_Inr simp: Let_def split: if_splits)

lemma CreateFriendship_Inl:
  assumes "no_faults d" and "CreateFriendship_sql a b status d = (Inl e, d')"
  shows "d' = tick d"
  using assms unfolding CreateFriendship_sql_def
  by (auto simp: stmt_nf Let_def split: if_splits)

lemma DeleteFriendshipByUsers_nf:
  assumes "no_faults d"
  shows "snd (DeleteFriendshipByUsers_sql a b d) =
    (tick d)\<lparr>friendships := filter (\<lambda>f. \<not> between a b f) (friendships d)\<rparr>"
  using assms by (simp add: DeleteFriendshipByUsers_sql_def stmt_nf)

subsection \<open>One row for a pair\<close>

lemma unique_pairs_same: "same_tables d d' \<Longrightarrow> unique_pairs d' = unique_pairs d"
  by (simp add: same_tables_iff unique_pairs_def)

lemma unique_pairs_filter:
  "unique_pairs d \<Longrightarrow> friendships d' = filter Q (friendships d) \<Longrightarrow> unique_pairs d'"
  by (simp add: unique_pairs_def distinct_map_filter)

lemma unique_pairs_map:
  "unique_pairs d \<Longrightarrow> friendships d' = map g (friendships d) \<Longrightarrow> (\<And>f. pair (g f) = pair f) \<Longrightarrow> unique_pairs d'"
  by (simp add: unique_pairs_def comp_def)

lemma unique_pairs_append:
  "unique_pairs d \<Longrightarrow> friendships d' = friendships d @ [x] \<Longrightarrow> \<not> related d (fr_user_id x) (fr_friend_id x) \<Longrightarrow>
   unique_pairs d'"
  by (auto simp: unique_pairs_def related_iff pair_def)

lemma IsBlocked_tables:
  assumes "IsBlocked F a b w = (res, w')"
  shows "same_tables (w_db w) (w_db w')"
  using assms
  by (auto simp: IsBlocked_def on_db_eq on_redis_eq Let_def
      split: option.splits prod.splits sum.splits db_error.splits dest: IsBlockedBy_tables)

text \<open>The three ways through \<open>SendRequest\<close>.\<close>

definition rejected_early :: "('r, 'n) friends_svc \<Rightarrow> string \<Rightarrow> string \<Rightarrow> ('r, 'n) world \<Rightarrow> bool" where
  "rejected_early F s t w \<longleftrightarrow>
     uuid_Parse (fs_uuid F) s = None \<or> uuid_Parse (fs_uuid F) t = None \<or>
     uuid_Parse (fs_uuid F) s = uuid_Parse (fs_uuid F) t \<or> fst (IsBlocked F t s w) \<noteq> Inr False"

lemma SendRequest_early:
  "rejected_early F s t w \<Longrightarrow> SendRequest F s t w = (r, w') \<Longrightarrow>
   isl r \<and> (w' = w \<or> w' = snd (IsBlocked F t s w))"
  by (auto simp: rejected_early_def SendRequest_def split: option.splits if_splits prod.splits sum.splits bool.splits)

definition request_tail :: "uuid \<Rightarrow> uuid \<Rightarrow> ('r, 'n, friendship_row) svc" where
  "request_tail a b w1 =
     (if related (w_db w1) a b
      then (Inl (app_err ErrConflict ''friendship already exists''), w1\<lparr>w_db := tick (w_db w1)\<rparr>)
      else (case CreateFriendship_sql a b ''pending'' (tick (w_db w1)) of
          (Inl _, d) \<Rightarrow> (Inl (app_err ErrInternal ''failed to create friend request''), w1\<lparr>w_db := d\<rparr>)
        | (Inr f, d) \<Rightarrow> (Inr f, w1\<lparr>w_db := d\<rparr>)))"

lemma SendRequest_tail:
  assumes "uuid_Parse (fs_uuid F) s = Some a" "uuid_Parse (fs_uuid F) t = Some b" "a \<noteq> b"
    and "IsBlocked F t s w = (Inr False, w1)" and "no_faults (w_db w1)"
  shows "SendRequest F s t w = request_tail a b w1"
proof -
  have "on_db (GetFriendshipByUsers_sql a b) w1 =
      (if related (w_db w1) a b then Inr (hd (filter (between a b) (friendships (w_db w1)))) else Inl NoRows,
       w1\<lparr>w_db := tick (w_db w1)\<rparr>)"
    by (simp add: on_db_def GetFriendshipByUsers_nf assms)
  then show ?thesis
    by (simp add: SendRequest_def request_tail_def assms on_db_def split: prod.split sum.split)
qed

lemma SendRequest_late:
  assumes "\<not> rejected_early F s t w" and "no_faults (w_db w)"
  obtains a b w1 where "uuid_Parse (fs_uuid F) s = Some a" "uuid_Parse (fs_uuid F) t = Some b" "a \<noteq> b"
    "IsBlocked F t s w = (Inr False, w1)" "same_tables (w_db w) (w_db w1)" "no_faults (w_db w1)"
    "SendRequest F s t w = request_tail a b w1"
proof -
  obtain a b where ab: "uuid_Parse (fs_uuid F) s = Some a" "uuid_Parse (fs_uuid F) t = Some b" "a \<noteq> b"
    using assms(1) by (auto simp: rejected_early_def)
  have "fst (IsBlocked F t s w) = Inr False" using assms(1) by (auto simp: rejected_early_def)
  then obtain w1 where c: "IsBlocked F t s w = (Inr False, w1)" by (metis prod.collapse)
  have same: "same_tables (w_db w) (w_db w1)" using IsBlocked_tables [OF c] .
  have nf: "no_faults (w_db w1)" using no_faults_tables [OF same assms(2)] .
  show ?thesis using that [OF ab c same nf SendRequest_tail [OF ab c nf]] .
qed

lemma request_tail_unique:
  assumes "no_faults (w_db w)" and "unique_pairs (w_db w)" and "request_tail a b w = (res, w')"
  shows "unique_pairs (w_db w')"
proof (cases "related (w_db w) a b")
  case True
  then show ?thesis using assms by (auto simp: request_tail_def unique_pairs_def)
next
  case False
  obtain cr d2 where cr: "CreateFriendship_sql a b ''pending'' (tick (w_db w)) = (cr, d2)" by fastforce
  have w': "w_db w' = d2" using assms(3) False cr by (auto simp: request_tail_def split: sum.splits)
  show ?thesis
  proof (cases cr)
    case (Inl e)
    then have "d2 = tick (tick (w_db w))"
      using CreateFriendship_Inl [of "tick (w_db w)"] cr assms(1) by simp
    then show ?thesis using w' assms(2) by (simp add: unique_pairs_def)
  next
    case (Inr x)
    with cr have x: "friendships d2 = friendships (w_db w) @ [x]" "fr_user_id x = a" "fr_friend_id x = b"
      using CreateFriendship_Inr [of a b "''pending''" "tick (w_db w)" x d2] by simp_all
    show ?thesis
      unfolding w' by (rule unique_pairs_append [OF assms(2) x(1)]) (simp add: x False)
  qed
qed

lemma SendRequest_unique:
  assumes "no_faults (w_db w)" and "unique_pairs (w_db w)" and "SendRequest F s t w = (res, w')"
  shows "unique_pairs (w_db w')"
proof (cases "rejected_early F s t w")
  case True
  have "same_tables (w_db w) (w_db (snd (IsBlocked F t s w)))"
    by (rule IsBlocked_tables [OF prod.collapse [symmetric]])
  with SendRequest_early [OF True assms(3)] show ?thesis
    using assms(2) by (auto simp: unique_pairs_same)
next
  case False
  obtain a b w1 where "same_tables (w_db w) (w_db w1)" "no_faults (w_db w1)"
    "SendRequest F s t w = request_tail a b w1"
    using SendRequest_late [OF False assms(1)] .
  then show ?thesis
    using request_tail_unique [of w1 a b res w'] assms(2,3) by (simp add: unique_pairs_same)
qed

subsection \<open>What a request does\<close>

text \<open>The code of the application error that a call returned.\<close>

definition err_of :: "go_error + 'a \<Rightarrow> string option" where
  "err_of res = (case res of Inl e \<Rightarrow> err_code e | Inr _ \<Rightarrow> None)"

lemma CreateFriendship_tail:
  assumes "no_faults (w_db w)" and "\<not> related (w_db w) a b" and "a \<in> user_ids (w_db w)" and "b \<in> user_ids (w_db w)"
    and "env_fresh (db_env (w_db w)) (Suc (db_calls (w_db w))) \<notin> fr_id ` set (friendships (w_db w))"
    and "request_tail a b w = (res, w')"
  shows "\<exists>f. res = Inr f \<and> fr_user_id f = a \<and> fr_friend_id f = b \<and> fr_status f = ''pending''
    \<and> friendships (w_db w') = friendships (w_db w) @ [f]"
proof -
  obtain x where x: "CreateFriendship_sql a b ''pending'' (tick (w_db w)) =
      (Inr x, (tick (tick (w_db w)))\<lparr>friendships := friendships (w_db w) @ [x]\<rparr>)"
    "fr_user_id x = a" "fr_friend_id x = b" "fr_status x = ''pending''"
    using CreateFriendship_nf [of "tick (w_db w)" a b "''pending''"] assms(1,3,4,5)
    by (auto simp: varchar_ok_def char_count_def user_ids_def)
  then show ?thesis
    using assms(2,6) by (auto simp: request_tail_def)
qed

context friends_cached
begin

lemma IsBlocked_answers:
  assumes "cache_coherent U K w" and "no_faults (w_db w)"
  obtains w1 where "IsBlocked F (uuid_String U a) (uuid_String U b) w = (Inr (db_blocks (w_db w) a b), w1)"
    "same_tables (w_db w) (w_db w1)"
proof -
  obtain res w1 where c: "IsBlocked F (uuid_String U a) (uuid_String U b) w = (res, w1)" by fastforce
  have can: "canonical U (uuid_String U x)" for x by (simp add: canonical_def parse_string)
  obtain r where r: "res = Inr r"
    using c assms(2)
    by (cases res) (auto simp: IsBlocked_def F_rdb F_uuid on_db_eq on_redis_eq Let_def parse_string
        IsBlockedBy_sql_def select_nf one_row_cases split: if_splits sum.splits prod.splits)
  have "r = db_blocks (w_db w) a b"
    using IsBlocked_sound [OF assms(1) can can] c r by (simp add: blocked_rel_def parse_string)
  then show ?thesis using that [of w1] c r IsBlocked_tables [OF c] by simp
qed

lemma SendRequest_spec:
  assumes "cache_coherent U K w" and "no_faults (w_db w)" and "a \<noteq> b"
    and "{a, b} \<subseteq> user_ids (w_db w)"
    and "\<And>n. env_fresh (db_env (w_db w)) n \<notin> fr_id ` set (friendships (w_db w))"
    and "SendRequest F (uuid_String U a) (uuid_String U b) w = (res, w')"
  shows "if db_blocks (w_db w) b a then err_of res = Some ErrForbidden \<and> same_tables (w_db w) (w_db w')
    else if related (w_db w) a b then err_of res = Some ErrConflict \<and> same_tables (w_db w) (w_db w')
    else \<exists>f. res = Inr f \<and> fr_user_id f = a \<and> fr_friend_id f = b \<and> fr_status f = ''pending''
      \<and> friendships (w_db w') = friendships (w_db w) @ [f]"
proof -
  obtain w1 where c: "IsBlocked F (uuid_String U b) (uuid_String U a) w = (Inr (db_blocks (w_db w) b a), w1)"
    and same: "same_tables (w_db w) (w_db w1)"
    using IsBlocked_answers [OF assms(1,2)] .
  have same_t: "same_tables (w_db w) (tick (w_db w1))"
    using same same_tables_trans by auto
  show ?thesis
  proof (cases "db_blocks (w_db w) b a")
    case True
    then show ?thesis
      using assms(3,6) c same by (auto simp: SendRequest_def F_uuid parse_string err_of_def)
  next
    case False
    have nf: "no_faults (w_db w1)" using no_faults_tables [OF same assms(2)] .
    have tail: "request_tail a b w1 = (res, w')"
      using SendRequest_tail [of F "uuid_String U a" a "uuid_String U b" b w w1] assms(3,6) c False nf
      by (simp add: F_uuid parse_string)
    show ?thesis
    proof (cases "related (w_db w) a b")
      case True
      then have "related (w_db w1) a b" by (simp add: related_same [OF same])
      then show ?thesis
        using tail False True same_t by (auto simp: request_tail_def err_of_def)
    next
      case nrel: False
      have eqs: "friendships (w_db w1) = friendships (w_db w)" "users (w_db w1) = users (w_db w)"
        "db_env (w_db w1) = db_env (w_db w)"
        using same by (simp_all add: same_tables_iff)
      have "\<not> related (w_db w1) a b" using nrel by (simp add: related_same [OF same])
      moreover have "a \<in> user_ids (w_db w1)" "b \<in> user_ids (w_db w1)"
        using assms(4) by (simp_all add: user_ids_def eqs)
      moreover have "env_fresh (db_env (w_db w1)) (Suc (db_calls (w_db w1))) \<notin> fr_id ` set (friendships (w_db w1))"
        using assms(5) by (simp add: eqs)
      ultimately show ?thesis
        using CreateFriendship_tail [OF nf _ _ _ _ tail] False nrel by (simp add: eqs)
    qed
  qed
qed

end

end
