(* ===== verification/FriendSystem.thy ===== *)
theory FriendSystem
  imports FriendRequests
begin

text \<open>
  The friends service as a system: a call of any of its methods, in any order and with any
  arguments, keeps the integrity of the database and, while no statement fails, at most one
  friendship row for a pair of users.
\<close>

datatype (plugins only: size) friends_call =
    F_SendRequest string string
  | F_AcceptRequest string
  | F_RejectRequest string
  | F_ListFriends string
  | F_ListPendingRequests string
  | F_SetOnline string string
  | F_SetOffline string
  | F_GetOnlineFriends string
  | F_Block string string string
  | F_Unblock string string
  | F_IsBlocked string string
  | F_ListBlockedUsers string
  | F_LoadBlockCache
  | F_RemoveFriend string string
  | F_ListRecentContacts int string int

primrec run_friends :: "('r, 'n) friends_svc \<Rightarrow> friends_call \<Rightarrow> ('r, 'n) world \<Rightarrow> ('r, 'n) world" where
  "run_friends F (F_SendRequest s t) = (\<lambda>w. snd (SendRequest F s t w))"
| "run_friends F (F_AcceptRequest i) = (\<lambda>w. snd (AcceptRequest F i w))"
| "run_friends F (F_RejectRequest i) = (\<lambda>w. snd (RejectRequest F i w))"
| "run_friends F (F_ListFriends u) = (\<lambda>w. snd (ListFriends F u w))"
| "run_friends F (F_ListPendingRequests u) = (\<lambda>w. snd (ListPendingRequests F u w))"
| "run_friends F (F_SetOnline u n) = (\<lambda>w. snd (SetOnline F u n w))"
| "run_friends F (F_SetOffline u) = (\<lambda>w. snd (SetOffline F u w))"
| "run_friends F (F_GetOnlineFriends u) = (\<lambda>w. snd (GetOnlineFriends F u w))"
| "run_friends F (F_Block a b r) = (\<lambda>w. snd (Block F a b r w))"
| "run_friends F (F_Unblock a b) = (\<lambda>w. snd (Unblock F a b w))"
| "run_friends F (F_IsBlocked a b) = (\<lambda>w. snd (IsBlocked F a b w))"
| "run_friends F (F_ListBlockedUsers u) = (\<lambda>w. snd (ListBlockedUsers F u w))"
| "run_friends F F_LoadBlockCache = (\<lambda>w. snd (LoadBlockCache F w))"
| "run_friends F (F_RemoveFriend u v) = (\<lambda>w. snd (RemoveFriend F u v w))"
| "run_friends F (F_ListRecentContacts t u n) = (\<lambda>w. snd (ListRecentContacts F t u n w))"

definition social_inv :: "db \<Rightarrow> bool" where
  "social_inv d \<longleftrightarrow> db_wf d \<and> no_faults d \<and> unique_pairs d"

definition keeps :: "(db \<Rightarrow> bool) \<Rightarrow> 'a query \<Rightarrow> bool" where
  "keeps P q \<longleftrightarrow> (\<forall>d. P d \<longrightarrow> P (snd (q d)))"

lemma keeps_on_db: "keeps P q \<Longrightarrow> P (w_db w) \<Longrightarrow> P (w_db (snd (on_db q w)))"
  by (simp add: keeps_def)

lemma keeps_on_db_eq: "on_db q w = (x, w') \<Longrightarrow> keeps P q \<Longrightarrow> P (w_db w) \<Longrightarrow> P (w_db w')"
  using keeps_on_db [of P q w] by simp

lemma social_inv_same: "same_tables d d' \<Longrightarrow> social_inv d \<Longrightarrow> social_inv d'"
  using db_wf_same_tables no_faults_tables unique_pairs_same unfolding social_inv_def by blast

lemma keeps_select: "keeps social_inv (select f)"
  unfolding keeps_def using social_inv_same [OF same_tables_select] by blast

lemma keeps_stmt:
  assumes wf: "\<And>d. db_wf d \<Longrightarrow> db_wf (snd (stmt f d))"
    and env: "\<And>i n d. db_env (snd (f i n d)) = db_env d"
    and uniq: "\<And>i n d. unique_pairs d \<Longrightarrow> unique_pairs (snd (f i n d))"
  shows "keeps social_inv (stmt f)"
  unfolding keeps_def
proof (intro allI impI)
  fix d assume d: "social_inv d"
  have "db_env (snd (stmt f d)) = db_env d" by (rule stmt_keeps) (simp_all add: env)
  moreover have "unique_pairs (snd (stmt f d))"
  proof (rule stmt_keeps)
    have "unique_pairs d" using d by (simp only: social_inv_def)
    then show t: "unique_pairs (tick d)" by (simp add: unique_pairs_def)
    show "unique_pairs (snd (f i n (tick d)))" for i n by (rule uniq [OF t])
  qed
  moreover have "db_wf (snd (stmt f d))" using d wf by (simp only: social_inv_def)
  ultimately show "social_inv (snd (stmt f d))"
    using d by (simp add: social_inv_def no_faults_def)
qed

lemma unique_frame:
  "unique_pairs (d\<lparr>block_relations := x\<rparr>) = unique_pairs d"
  "unique_pairs d \<Longrightarrow> unique_pairs (d\<lparr>friendships := filter Q (friendships d)\<rparr>)"
  by (simp_all add: unique_pairs_def distinct_map_filter)

lemma unique_status:
  "unique_pairs d \<Longrightarrow> unique_pairs
     (d\<lparr>friendships := map (\<lambda>f. if fr_id f = i then f\<lparr>fr_status := s, fr_updated_at := n\<rparr> else f) (friendships d)\<rparr>)"
  by (erule unique_pairs_map [where g = "\<lambda>f. if fr_id f = i then f\<lparr>fr_status := s, fr_updated_at := n\<rparr> else f"])
     (simp_all add: pair_def)

lemma keeps_DeleteFriendship: "keeps social_inv (DeleteFriendship_sql i)"
  unfolding DeleteFriendship_sql_def
  by (rule keeps_stmt [OF wf_DeleteFriendship [unfolded DeleteFriendship_sql_def]])
     (simp_all add: unique_frame)

lemma keeps_DeleteFriendshipByUsers: "keeps social_inv (DeleteFriendshipByUsers_sql a b)"
  unfolding DeleteFriendshipByUsers_sql_def
  by (rule keeps_stmt [OF wf_DeleteFriendshipByUsers [unfolded DeleteFriendshipByUsers_sql_def]])
     (simp_all add: unique_frame)

lemma keeps_CreateBlockRelation: "keeps social_inv (CreateBlockRelation_sql a b r)"
  unfolding CreateBlockRelation_sql_def
  by (rule keeps_stmt [OF wf_CreateBlockRelation [unfolded CreateBlockRelation_sql_def]])
     (simp_all add: unique_frame Let_def)

lemma keeps_DeleteBlockRelation: "keeps social_inv (DeleteBlockRelation_sql a b)"
  unfolding DeleteBlockRelation_sql_def
  by (rule keeps_stmt [OF wf_DeleteBlockRelation [unfolded DeleteBlockRelation_sql_def]])
     (simp_all add: unique_frame)

lemma keeps_UpdateFriendshipStatus: "keeps social_inv (UpdateFriendshipStatus_sql i s)"
  unfolding UpdateFriendshipStatus_sql_def
  by (rule keeps_stmt [OF wf_UpdateFriendshipStatus [unfolded UpdateFriendshipStatus_sql_def]])
     (simp_all add: unique_status Let_def split: list.split)

lemmas social_keeps = keeps_DeleteFriendship keeps_DeleteFriendshipByUsers keeps_CreateBlockRelation
  keeps_DeleteBlockRelation keeps_UpdateFriendshipStatus

subsection \<open>Every method keeps the invariant\<close>

lemma keeps_step: "keeps P q \<Longrightarrow> on_db q w = (x, w') \<Longrightarrow> P (w_db w) \<Longrightarrow> P (w_db w')"
  using keeps_on_db [of P q w] by simp

lemma redis_step: "on_redis c w = (x, w') \<Longrightarrow> P (w_db w) \<Longrightarrow> P (w_db w')"
  using on_redis_world(1) [of c w] by simp

lemma keeps_selects:
  "keeps social_inv (ListFriends_sql u)" "keeps social_inv (ListPendingRequests_sql u)"
  "keeps social_inv (ListBlockedUsers_sql u)" "keeps social_inv ListAllBlockRelations_sql"
  "keeps social_inv (GetFriendshipByUsers_sql u v)" "keeps social_inv (IsBlockedBy_sql u v)"
  by (simp_all add: keeps_select ListFriends_sql_def ListPendingRequests_sql_def ListBlockedUsers_sql_def
      ListAllBlockRelations_sql_def GetFriendshipByUsers_sql_def IsBlockedBy_sql_def)

lemmas social_steps = social_keeps [THEN keeps_step] keeps_selects [THEN keeps_step]
  redis_step [where P = social_inv]

lemmas outcome_splits = option.splits prod.splits sum.splits db_error.splits bool.splits if_splits

lemma social_IsBlocked: "IsBlocked F a b w = (x, w') \<Longrightarrow> social_inv (w_db w) \<Longrightarrow> social_inv (w_db w')"
  by (rule social_inv_same [OF IsBlocked_tables])

definition wf_up :: "db \<Rightarrow> bool" where
  "wf_up d \<longleftrightarrow> db_wf d \<and> no_faults d"

lemma wf_up_same: "same_tables d d' \<Longrightarrow> wf_up d \<Longrightarrow> wf_up d'"
  using db_wf_same_tables no_faults_tables unfolding wf_up_def by blast

lemma keeps_wf_GetFriendshipByUsers: "keeps wf_up (GetFriendshipByUsers_sql a b)"
  unfolding keeps_def using wf_up_same [OF GetFriendshipByUsers_tables [OF prod.collapse [symmetric]]] by blast

lemma keeps_wf_CreateFriendship: "keeps wf_up (CreateFriendship_sql a b c)"
  unfolding keeps_def
proof (intro allI impI)
  fix d assume d: "wf_up d"
  have "db_env (snd (CreateFriendship_sql a b c d)) = db_env d"
    unfolding CreateFriendship_sql_def by (rule stmt_keeps) (simp_all add: Let_def)
  then show "wf_up (snd (CreateFriendship_sql a b c d))"
    using d wf_CreateFriendship [of d a b c] by (simp add: wf_up_def no_faults_def)
qed

lemma wf_IsBlocked: "IsBlocked F a b w = (x, w') \<Longrightarrow> wf_up (w_db w) \<Longrightarrow> wf_up (w_db w')"
  by (rule wf_up_same [OF IsBlocked_tables])

lemma wf_SendRequest: "SendRequest F s t w = (x, w') \<Longrightarrow> wf_up (w_db w) \<Longrightarrow> wf_up (w_db w')"
  by (auto simp: SendRequest_def split: outcome_splits
      dest: wf_IsBlocked keeps_wf_CreateFriendship [THEN keeps_step] keeps_wf_GetFriendshipByUsers [THEN keeps_step])

lemma social_SendRequest: "SendRequest F s t w = (x, w') \<Longrightarrow> social_inv (w_db w) \<Longrightarrow> social_inv (w_db w')"
  using wf_SendRequest [of F s t w x w'] SendRequest_unique [of w F s t x w']
  by (simp add: social_inv_def wf_up_def)

lemma social_requests:
  "AcceptRequest F i w = (x, w') \<Longrightarrow> social_inv (w_db w) \<Longrightarrow> social_inv (w_db w')"
  "RejectRequest F i w = (y, w') \<Longrightarrow> social_inv (w_db w) \<Longrightarrow> social_inv (w_db w')"
  "ListFriends F u w = (z, w') \<Longrightarrow> social_inv (w_db w) \<Longrightarrow> social_inv (w_db w')"
  "ListPendingRequests F u w = (z, w') \<Longrightarrow> social_inv (w_db w) \<Longrightarrow> social_inv (w_db w')"
  "RemoveFriend F u v w = (y, w') \<Longrightarrow> social_inv (w_db w) \<Longrightarrow> social_inv (w_db w')"
  by (auto simp: AcceptRequest_def RejectRequest_def ListFriends_def ListPendingRequests_def RemoveFriend_def
      split: outcome_splits dest: social_steps)

lemma keepsD: "keeps P q \<Longrightarrow> P d \<Longrightarrow> P (snd (q d))"
  by (simp add: keeps_def)

lemma social_Block: "Block F a b r w = (x, w') \<Longrightarrow> social_inv (w_db w) \<Longrightarrow> social_inv (w_db w')"
  by (auto simp: Block_def Let_def split: outcome_splits)
     (blast intro: social_steps social_keeps [THEN keepsD])+

lemma fold_redis_db: "w_db (fold (\<lambda>b w'. snd (on_redis (c b) w')) xs w) = w_db w"
  by (induction xs arbitrary: w) simp_all

lemma social_blocks:
  "Unblock F a b w = (x, w') \<Longrightarrow> social_inv (w_db w) \<Longrightarrow> social_inv (w_db w')"
  "ListBlockedUsers F a w = (y, w') \<Longrightarrow> social_inv (w_db w) \<Longrightarrow> social_inv (w_db w')"
  "LoadBlockCache F w = (x, w') \<Longrightarrow> social_inv (w_db w) \<Longrightarrow> social_inv (w_db w')"
  by (auto simp: Unblock_def ListBlockedUsers_def LoadBlockCache_def fold_redis_db
      split: outcome_splits dest: social_steps)

lemma online_loop_db: "online_loop U R u fs w = (x, w') \<Longrightarrow> w_db w' = w_db w"
proof (induction fs arbitrary: w x)
  case (Cons f fs)
  then show ?case
    using redis_step [where P = "\<lambda>d. d = w_db w"] by (auto simp: Let_def split: prod.splits)
qed simp

lemma social_presence:
  "SetOnline F u n w = (x, w') \<Longrightarrow> social_inv (w_db w) \<Longrightarrow> social_inv (w_db w')"
  "SetOffline F u w = (x, w') \<Longrightarrow> social_inv (w_db w) \<Longrightarrow> social_inv (w_db w')"
  "ListRecentContacts F t u i w = (z, w') \<Longrightarrow> social_inv (w_db w) \<Longrightarrow> social_inv (w_db w')"
  by (auto simp: SetOnline_def SetOffline_def ListRecentContacts_def Let_def
      split: outcome_splits) (fastforce dest: social_steps)+

lemma social_GetOnlineFriends:
  "GetOnlineFriends F u w = (y, w') \<Longrightarrow> social_inv (w_db w) \<Longrightarrow> social_inv (w_db w')"
  by (auto simp: GetOnlineFriends_def online_loop_db split: outcome_splits intro: social_steps)

lemmas social_calls = social_SendRequest social_requests social_Block social_blocks social_presence
  social_GetOnlineFriends social_IsBlocked

lemma run_friends_inv: "social_inv (w_db w) \<Longrightarrow> social_inv (w_db (run_friends F c w))"
  by (cases c) (simp_all add: social_calls [OF prod.collapse [symmetric]])

interpretation friends_system: invariant_system "run_friends F" "\<lambda>w. social_inv (w_db w)"
  for F :: "('r, 'n) friends_svc"
  by unfold_locales (rule run_friends_inv)

end
