(* ===== verification/FriendsProps.thy ===== *)
theory FriendsProps
  imports FriendSystem
begin

text \<open>
  The properties of the friends service, each with its witness on a sample state, and the lemmas
  about whole calls that they need.
\<close>

subsection \<open>Whole calls without engine faults\<close>

lemma CreateBlockRelation_nf:
  assumes "no_faults d" and "{a, b} \<subseteq> user_ids d" and "\<not> db_blocks d a b"
    and "env_fresh (db_env d) (db_calls d) \<notin> bl_id ` set (block_relations d)"
  shows "\<exists>x. CreateBlockRelation_sql a b reason d = (Inr x, (tick d)\<lparr>block_relations := block_relations d @ [x]\<rparr>)
    \<and> blocks a b x"
proof -
  let ?i = "env_fresh (db_env d) (db_calls d)"
  let ?x = "\<lparr>bl_id = ?i, bl_blocker_id = a, bl_blocked_id = b, bl_reason = reason,
              bl_created_at = env_now (db_env d) (db_calls d)\<rparr>"
  have free: "\<not> (\<exists>r \<in> set (block_relations d). blocks a b r)" using assms(3) by (simp add: db_blocks_def)
  have "a \<in> user_ids d" "b \<in> user_ids d" using assms(2) by simp_all
  then have "CreateBlockRelation_sql a b reason d = (Inr ?x, (tick d)\<lparr>block_relations := block_relations d @ [?x]\<rparr>)"
    using assms(4) free unfolding CreateBlockRelation_sql_def stmt_nf [OF assms(1)]
    by (simp only: Let_def user_ids_frame) simp
  then show ?thesis by (intro exI [of _ ?x]) (simp add: blocks_def)
qed

lemma drop_friendship_nf:
  assumes "no_faults (w_db w)"
  shows "friendships (w_db (drop_friendship a b w)) = filter (\<lambda>f. \<not> between a b f) (friendships (w_db w))"
proof (cases "related (w_db w) a b")
  case True
  let ?f = "hd (filter (between a b) (friendships (w_db w)))"
  have "filter (between a b) (friendships (w_db w)) \<noteq> []"
    using True by (auto simp: related_def filter_empty_conv)
  then have "between a b ?f" by (metis hd_in_set mem_Collect_eq set_filter)
  then have "between (fr_user_id ?f) (fr_friend_id ?f) = between a b"
    by (intro ext) (auto simp: between_pair pair_def)
  then show ?thesis
    using True assms
    by (simp add: drop_friendship_def on_db_def GetFriendshipByUsers_nf DeleteFriendshipByUsers_nf split_beta)
next
  case False
  then have "filter (\<lambda>f. \<not> between a b f) (friendships (w_db w)) = friendships (w_db w)"
    by (auto simp: related_def intro!: filter_True)
  then show ?thesis
    using False assms by (simp add: drop_friendship_def on_db_def GetFriendshipByUsers_nf)
qed

lemma Block_nf:
  assumes "uuid_Parse (fs_uuid F) s = Some a" "uuid_Parse (fs_uuid F) t = Some b" "s \<noteq> t"
    and "no_faults (w_db w)" and "{a, b} \<subseteq> user_ids (w_db w)" and "\<not> db_blocks (w_db w) a b"
    and "env_fresh (db_env (w_db w)) (db_calls (w_db w)) \<notin> bl_id ` set (block_relations (w_db w))"
  obtains x w' where "Block F s t reason w = (Inr (), w')" "blocks a b x"
    "block_relations (w_db w') = block_relations (w_db w) @ [x]"
    "friendships (w_db w') = filter (\<lambda>f. \<not> between a b f) (friendships (w_db w))"
proof -
  obtain x where x: "CreateBlockRelation_sql a b (null_if_empty reason) (w_db w) =
      (Inr x, (tick (w_db w))\<lparr>block_relations := block_relations (w_db w) @ [x]\<rparr>)" "blocks a b x"
    using CreateBlockRelation_nf [OF assms(4-7)] by blast
  define w1 where "w1 = w\<lparr>w_db := (tick (w_db w))\<lparr>block_relations := block_relations (w_db w) @ [x]\<rparr>\<rparr>"
  have nf: "no_faults (w_db w1)" using assms(4) by (simp add: w1_def no_faults_def)
  have "Block F s t reason w = (Inr (), notify F (\<lambda>n. n_NotifyBlocked n t s)
      (redis_do F (\<lambda>R. rc_SAdd R (blocked_key s) t) (drop_friendship a b w1)))"
    using assms(1-3) by (simp add: Block_def on_db_def x w1_def [symmetric] drop_friendship_def Let_def)
  from that [OF this x(2)] show ?thesis
    by (simp add: drop_friendship_keeps drop_friendship_nf [OF nf]) (simp add: w1_def)
qed

text \<open>The friendship of two users as both of them see it.\<close>

lemma UpdateFriendshipStatus_nf:
  assumes "no_faults d" and "f \<in> set (friendships d)" and "varchar_ok 16 status"
  shows "\<exists>g. UpdateFriendshipStatus_sql (fr_id f) status d = (Inr g, (tick d)\<lparr>friendships :=
      map (\<lambda>h. if fr_id h = fr_id f then h\<lparr>fr_status := status, fr_updated_at := env_now (db_env d) (db_calls d)\<rparr> else h)
        (friendships d)\<rparr>)"
proof -
  let ?u = "\<lambda>h. if fr_id h = fr_id f then h\<lparr>fr_status := status, fr_updated_at := env_now (db_env d) (db_calls d)\<rparr> else h"
  have "?u f \<in> set (filter (\<lambda>h. fr_id h = fr_id f) (map ?u (friendships d)))"
    using assms(2) by (simp only: set_filter set_map mem_Collect_eq) (rule conjI, rule imageI, simp_all)
  then obtain g gs where "filter (\<lambda>h. fr_id h = fr_id f) (map ?u (friendships d)) = g # gs"
    by (cases "filter (\<lambda>h. fr_id h = fr_id f) (map ?u (friendships d))") auto
  then show ?thesis
    using assms(3) unfolding UpdateFriendshipStatus_sql_def stmt_nf [OF assms(1)]
    by (simp add: Let_def)
qed

lemma ListFriends_nf:
  assumes "no_faults (w_db w)" and "uuid_Parse (fs_uuid F) s = Some a"
  obtains fs w' where "ListFriends F s w = (Inr fs, w')" "same_tables (w_db w) (w_db w')"
    "w_redis w' = w_redis w"
    "set fs = {f \<in> set (friendships (w_db w)). (fr_user_id f = a \<or> fr_friend_id f = a) \<and> fr_status f = ''accepted''}"
proof -
  let ?fs = "order_desc fr_updated_at
    (filter (\<lambda>f. (fr_user_id f = a \<or> fr_friend_id f = a) \<and> fr_status f = ''accepted'') (friendships (w_db w)))"
  have "ListFriends F s w = (Inr ?fs, w\<lparr>w_db := tick (w_db w)\<rparr>)"
    by (simp add: assms ListFriends_def on_db_def ListFriends_sql_def select_nf)
  from that [OF this] show ?thesis by auto
qed

subsection \<open>Properties\<close>

text \<open>
  Any sequence of calls of the friends service keeps the integrity of the database and at most
  one friendship row for each pair of users, as long as no statement fails.
\<close>

theorem friends_runs_keep_invariant:
  assumes "social_inv (w_db w)"
  shows "social_inv (w_db (fold (run_friends F) calls w))"
  using assms by (rule friends_system.inv_run)

lemma sample_social_inv: "social_inv sample_db"
  by (simp add: social_inv_def sample_wf unique_pairs_def)

theorem friends_runs_keep_invariant_witness:
  "social_inv (w_db (fold (run_friends ref_friends)
     [F_SendRequest (uuid_String ref_uuid 1) (uuid_String ref_uuid 2),
      F_SendRequest (uuid_String ref_uuid 2) (uuid_String ref_uuid 1)] (sample_world ())))"
  by (rule friends_runs_keep_invariant) (simp add: sample_social_inv)

text \<open>
  \<open>IsBlocked\<close> never answers wrongly: while the cache is in step with the table, an answer for
  two users is whether the first has a block on the second, from the cache or from the database.
\<close>

theorem IsBlocked_correct:
  assumes "friends_cached R K U F" and "cache_coherent U K w"
    and "IsBlocked F (uuid_String U a) (uuid_String U b) w = (Inr answer, w')"
  shows "answer \<longleftrightarrow> (\<exists>r \<in> set (block_relations (w_db w)). bl_blocker_id r = a \<and> bl_blocked_id r = b)"
proof -
  note env = friends_cached.axioms(2) [OF assms(1)]
  have can: "canonical U (uuid_String U x)" for x by (simp add: canonical_def uuid_pkg.parse_string [OF env])
  show ?thesis
    using friends_cached.IsBlocked_sound [OF assms(1,2) can can assms(3)]
    by (simp add: blocked_rel_def uuid_pkg.parse_string [OF env] db_blocks_def blocks_def)
qed

theorem IsBlocked_correct_witness:
  "\<exists>w'. IsBlocked ref_friends (uuid_String ref_uuid 1) (uuid_String ref_uuid 2) (sample_world ()) = (Inr False, w')"
proof -
  obtain w1 where "IsBlocked ref_friends (uuid_String ref_uuid 1) (uuid_String ref_uuid 2) (sample_world ()) =
      (Inr (db_blocks sample_db 1 2), w1)"
    using friends_ref.IsBlocked_answers [OF sample_coherent, of "()" 1 2] by auto
  with IsBlocked_correct [OF friends_ref.friends_cached_axioms sample_coherent this]
  show ?thesis by (simp add: db_blocks_def)
qed

text \<open>
  C16. A block in a state without faults succeeds, keeps the cache in step, adds exactly that block
  to the table and removes every friendship row of the two users, and no other row.
\<close>

theorem Block_effect:
  assumes "friends_cached R K U F" and "sets_available R K" and "cache_coherent U K w"
    and "no_faults (w_db w)" and "a \<noteq> b" and "{a, b} \<subseteq> user_ids (w_db w)" and "\<not> db_blocks (w_db w) a b"
    and "env_fresh (db_env (w_db w)) (db_calls (w_db w)) \<notin> bl_id ` set (block_relations (w_db w))"
  shows "\<exists>w'. Block F (uuid_String U a) (uuid_String U b) reason w = (Inr (), w') \<and> cache_coherent U K w' \<and>
    (\<forall>p q. db_blocks (w_db w') p q = (db_blocks (w_db w) p q \<or> p = a \<and> q = b)) \<and>
    friendships (w_db w') = filter (\<lambda>f. \<not> between a b f) (friendships (w_db w))"
proof -
  note env = friends_cached.axioms(2) [OF assms(1)]
  have U: "fs_uuid F = U" using friends_cached.F_uuid [OF assms(1)] .
  have parse: "uuid_Parse (fs_uuid F) (uuid_String U a) = Some a" "uuid_Parse (fs_uuid F) (uuid_String U b) = Some b"
    by (simp_all add: U uuid_pkg.parse_string [OF env])
  have ne: "uuid_String U a \<noteq> uuid_String U b"
    using assms(5) by (simp add: uuid_pkg.string_inject [OF env])
  obtain x w' where b: "Block F (uuid_String U a) (uuid_String U b) reason w = (Inr (), w')" "blocks a b x"
    "block_relations (w_db w') = block_relations (w_db w) @ [x]"
    "friendships (w_db w') = filter (\<lambda>f. \<not> between a b f) (friendships (w_db w))"
    using Block_nf [OF parse ne assms(4,6-8)] .
  then show ?thesis
    using friends_cached.Block_coherent [OF assms(1-3) b(1)] db_blocks_append [OF b(3,2)] by blast
qed

theorem Block_effect_witness:
  "\<exists>w'. Block ref_friends (uuid_String ref_uuid 1) (uuid_String ref_uuid 2) ''spam'' (sample_world ()) = (Inr (), w')
     \<and> cache_coherent ref_uuid (\<lambda>r. r) w'"
  using Block_effect [OF friends_ref.friends_cached_axioms ref_sets_available sample_coherent, of "()" 1 2 "''spam''"]
  by (auto simp: db_blocks_def)

text \<open>
  Unblocking a blocked user, once it reports success, leaves the cache in step and no block.
  The cache loaded at startup is in step with the table if the server held no stale entry before.
\<close>

theorem Unblock_and_load_in_step:
  assumes "friends_cached R K U F" and "sets_available R K"
  shows "(cache_coherent U K w \<longrightarrow> Unblock F (uuid_String U a) (uuid_String U b) w = (Inr (), w') \<longrightarrow>
      cache_coherent U K w' \<and> \<not> db_blocks (w_db w') a b) \<and>
    (cache_sound U K v \<longrightarrow> LoadBlockCache F v = (Inr (), v') \<longrightarrow> cache_coherent U K v')"
  using friends_cached.Unblock_coherent [OF assms] friends_cached.LoadBlockCache_coherent [OF assms] by blast

theorem Unblock_and_load_in_step_witness:
  "\<exists>v'. LoadBlockCache (ref_friends :: (keyspace, unit) friends_svc) (sample_world ()) = (Inr (), v') \<and>
     cache_coherent ref_uuid (\<lambda>r. r) v'"
proof -
  obtain v' where v': "LoadBlockCache (ref_friends :: (keyspace, unit) friends_svc) (sample_world ()) = (Inr (), v')"
    by (auto simp: LoadBlockCache_def ref_friends_def on_db_def ListAllBlockRelations_sql_def select_nf order_desc_def)
  have "cache_sound ref_uuid (\<lambda>r. r) (sample_world ())"
    by (simp add: cache_sound_def holds_set_def)
  then show ?thesis
    using v' Unblock_and_load_in_step [OF friends_ref.friends_cached_axioms ref_sets_available] by blast
qed

text \<open>
  C17. A friend request between two existing users, without faults and with the cache in step: it is
  refused with \<open>FORBIDDEN\<close> if the receiver has blocked the sender, with \<open>CONFLICT\<close> if a friendship
  row of the two exists, in both cases without a change; otherwise it adds one pending row.
\<close>

theorem SendRequest_correct:
  assumes "friends_cached R K U F" and "cache_coherent U K w" and "no_faults (w_db w)" and "a \<noteq> b"
    and "{a, b} \<subseteq> user_ids (w_db w)"
    and "\<And>n. env_fresh (db_env (w_db w)) n \<notin> fr_id ` set (friendships (w_db w))"
    and "SendRequest F (uuid_String U a) (uuid_String U b) w = (res, w')"
  shows "if db_blocks (w_db w) b a then err_of res = Some ErrForbidden \<and> same_tables (w_db w) (w_db w')
    else if related (w_db w) a b then err_of res = Some ErrConflict \<and> same_tables (w_db w) (w_db w')
    else \<exists>f. res = Inr f \<and> fr_user_id f = a \<and> fr_friend_id f = b \<and> fr_status f = ''pending''
      \<and> friendships (w_db w') = friendships (w_db w) @ [f]"
  using assms by (rule friends_cached.SendRequest_spec)

theorem SendRequest_correct_witness:
  "\<exists>f w'. SendRequest ref_friends (uuid_String ref_uuid 1) (uuid_String ref_uuid 2) (sample_world ()) = (Inr f, w') \<and>
     fr_status f = ''pending''"
proof -
  obtain res w' where r: "SendRequest ref_friends (uuid_String ref_uuid 1) (uuid_String ref_uuid 2) (sample_world ()) = (res, w')"
    by fastforce
  show ?thesis
    using SendRequest_correct [OF friends_ref.friends_cached_axioms sample_coherent _ _ _ _ r] r
    by (auto simp: db_blocks_def related_def)
qed

text \<open>A whole friendship: the request, its acceptance by its identifier, and both lists.\<close>

lemma ListFriends_mem:
  assumes "no_faults (w_db w)" and "uuid_Parse (fs_uuid F) s = Some a" and "g \<in> set (friendships (w_db w))"
    and "fr_user_id g = a \<or> fr_friend_id g = a" and "fr_status g = ''accepted''"
  shows "\<exists>fs w'. ListFriends F s w = (Inr fs, w') \<and> g \<in> set fs"
proof -
  obtain fs w' where "ListFriends F s w = (Inr fs, w')"
    "set fs = {f \<in> set (friendships (w_db w)). (fr_user_id f = a \<or> fr_friend_id f = a) \<and> fr_status f = ''accepted''}"
    using ListFriends_nf [OF assms(1,2)] by blast
  then show ?thesis using assms(3-5) by auto
qed

lemma AcceptRequest_nf:
  assumes "no_faults (w_db w)" and "f \<in> set (friendships (w_db w))" and "uuid_Parse (fs_uuid F) s = Some (fr_id f)"
  obtains g w' where "AcceptRequest F s w = (Inr g, w')" "no_faults (w_db w')"
    "f\<lparr>fr_status := ''accepted'', fr_updated_at := env_now (db_env (w_db w)) (db_calls (w_db w))\<rparr>
       \<in> set (friendships (w_db w'))"
proof -
  let ?u = "\<lambda>h. if fr_id h = fr_id f then h\<lparr>fr_status := ''accepted'',
      fr_updated_at := env_now (db_env (w_db w)) (db_calls (w_db w))\<rparr> else h"
  obtain g where g: "UpdateFriendshipStatus_sql (fr_id f) ''accepted'' (w_db w) =
      (Inr g, (tick (w_db w))\<lparr>friendships := map ?u (friendships (w_db w))\<rparr>)"
    using UpdateFriendshipStatus_nf [OF assms(1,2), of "''accepted''"]
    by (auto simp: varchar_ok_def char_count_def)
  define w' where "w' = w\<lparr>w_db := (tick (w_db w))\<lparr>friendships := map ?u (friendships (w_db w))\<rparr>\<rparr>"
  have "AcceptRequest F s w = (Inr g, w')"
    using assms(3) g by (simp add: AcceptRequest_def on_db_def w'_def)
  moreover have "no_faults (w_db w')" using assms(1) by (simp add: w'_def no_faults_def)
  moreover have "?u f \<in> set (friendships (w_db w'))" using assms(2) by (simp add: w'_def)
  ultimately show ?thesis using that by simp
qed

lemma keeps_nf_stmt: "(\<And>i n d. db_env (snd (f i n d)) = db_env d) \<Longrightarrow> keeps no_faults (stmt f)"
  unfolding keeps_def
  by (intro allI impI, erule no_faults_env [rotated], rule stmt_keeps) simp_all

lemma no_faults_IsBlocked: "IsBlocked F a b w = (x, w') \<Longrightarrow> no_faults (w_db w) \<Longrightarrow> no_faults (w_db w')"
  by (rule no_faults_tables [OF IsBlocked_tables])

lemma no_faults_SendRequest: "SendRequest F s t w = (x, w') \<Longrightarrow> no_faults (w_db w) \<Longrightarrow> no_faults (w_db w')"
proof -
  have c: "keeps no_faults (CreateFriendship_sql p q c)" for p q c
    unfolding CreateFriendship_sql_def by (rule keeps_nf_stmt) (simp add: Let_def)
  have g: "keeps no_faults (GetFriendshipByUsers_sql p q)" for p q
    unfolding GetFriendshipByUsers_sql_def select_def by (rule keeps_nf_stmt) simp
  show "SendRequest F s t w = (x, w') \<Longrightarrow> no_faults (w_db w) \<Longrightarrow> no_faults (w_db w')"
    by (auto simp: SendRequest_def split: outcome_splits
        dest: no_faults_IsBlocked c [THEN keeps_step] g [THEN keeps_step])
qed

text \<open>
  C36. After a request of \<open>a\<close> to \<open>b\<close> and an \<open>AcceptRequest\<close> with the identifier of the created row,
  without faults, the friend lists of both users contain the row of the two.
\<close>

theorem request_accept_lists_both:
  assumes "friends_cached R K U F" and "cache_coherent U K w" and "no_faults (w_db w)" and "a \<noteq> b"
    and "{a, b} \<subseteq> user_ids (w_db w)" and "\<not> db_blocks (w_db w) b a" and "\<not> related (w_db w) a b"
    and "\<And>n. env_fresh (db_env (w_db w)) n \<notin> fr_id ` set (friendships (w_db w))"
  shows "\<exists>f w1 g w2. SendRequest F (uuid_String U a) (uuid_String U b) w = (Inr f, w1) \<and>
    AcceptRequest F (uuid_String U (fr_id f)) w1 = (Inr g, w2) \<and>
    (\<forall>u \<in> {a, b}. \<exists>fs w3. ListFriends F (uuid_String U u) w2 = (Inr fs, w3) \<and> (\<exists>h \<in> set fs. between a b h))"
proof -
  note env = friends_cached.axioms(2) [OF assms(1)]
  have parse: "uuid_Parse (fs_uuid F) (uuid_String U x) = Some x" for x
    by (simp add: friends_cached.F_uuid [OF assms(1)] uuid_pkg.parse_string [OF env])
  obtain res w1 where r: "SendRequest F (uuid_String U a) (uuid_String U b) w = (res, w1)" by fastforce
  obtain f where f: "res = Inr f" "fr_user_id f = a" "fr_friend_id f = b"
    "friendships (w_db w1) = friendships (w_db w) @ [f]"
    using friends_cached.SendRequest_spec [OF assms(1-5,8) r] assms(6,7) by auto
  have nf: "no_faults (w_db w1)" using no_faults_SendRequest [OF r assms(3)] .
  obtain g w2 where g: "AcceptRequest F (uuid_String U (fr_id f)) w1 = (Inr g, w2)" "no_faults (w_db w2)"
    "f\<lparr>fr_status := ''accepted'', fr_updated_at := env_now (db_env (w_db w1)) (db_calls (w_db w1))\<rparr>
       \<in> set (friendships (w_db w2))"
    using AcceptRequest_nf [OF nf _ parse, of f] f(4) by auto
  have "\<exists>fs w3. ListFriends F (uuid_String U u) w2 = (Inr fs, w3) \<and> (\<exists>h \<in> set fs. between a b h)"
    if "u \<in> {a, b}" for u
  proof -
    let ?g = "f\<lparr>fr_status := ''accepted'', fr_updated_at := env_now (db_env (w_db w1)) (db_calls (w_db w1))\<rparr>"
    have "fr_user_id ?g = u \<or> fr_friend_id ?g = u" using that f(2,3) by auto
    then obtain fs w3 where "ListFriends F (uuid_String U u) w2 = (Inr fs, w3)" "?g \<in> set fs"
      using ListFriends_mem [OF g(2) parse g(3), of u] by auto
    moreover have "between a b ?g" using f(2,3) by (simp add: between_def)
    ultimately show ?thesis by blast
  qed
  then show ?thesis using r f(1) g(1) by blast
qed

theorem request_accept_lists_both_witness:
  "\<exists>f w1 g w2. SendRequest ref_friends (uuid_String ref_uuid 1) (uuid_String ref_uuid 2) (sample_world ()) = (Inr f, w1) \<and>
    AcceptRequest ref_friends (uuid_String ref_uuid (fr_id f)) w1 = (Inr g, w2)"
  using request_accept_lists_both [OF friends_ref.friends_cached_axioms sample_coherent, of "()" 1 2]
  by (fastforce simp: db_blocks_def related_def)

subsection \<open>Presence\<close>

definition exists_available :: "'r redis_client \<Rightarrow> bool" where
  "exists_available R \<longleftrightarrow> (\<forall>k r. \<not> isl (fst (rc_Exists R k r)))"

context friends_cached
begin

lemma online_loop_result:
  assumes "exists_available R"
  shows "fst (online_loop U R u fs w) =
    filter (\<lambda>s. K (w_redis w) (online_key s) \<noteq> None) (map (\<lambda>f. uuid_String U (other_side u f)) fs)"
proof (induction fs arbitrary: w)
  case (Cons f fs)
  let ?k = "online_key (uuid_String U (other_side u f))"
  obtain res w1 where e: "on_redis (rc_Exists R ?k) w = (res, w1)" by fastforce
  have "fst (rc_Exists R ?k (w_redis w)) = res" using e by (metis fst_conv on_redis_world(4))
  then obtain n where n: "res = Inr n" using assms by (cases res) (auto simp: exists_available_def, metis isl_def)
  obtain r where r: "rc_Exists R ?k (w_redis w) = (Inr n, r)" and w1: "w1 = w\<lparr>w_redis := r\<rparr>"
    using e n by (auto simp: on_redis_eq)
  have keep: "K (w_redis w1) = K (w_redis w)" and val: "n = (if K (w_redis w) ?k = None then 0 else 1)"
    using exists_ok [OF r] exists_keeps [OF r] by (simp_all add: w1)
  show ?case
    using Cons.IH [of w1] by (simp add: e r n keep val split_beta Let_def)
qed simp

lemma GetOnlineFriends_result:
  assumes "exists_available R" and "ListFriends F (uuid_String U u) w = (Inr fs, w1)"
  shows "fst (GetOnlineFriends F (uuid_String U u) w) = Returns (Inr
    (filter (\<lambda>s. K (w_redis w) (online_key s) \<noteq> None) (map (\<lambda>f. uuid_String U (other_side u f)) fs)))"
proof -
  have q: "on_db (ListFriends_sql u) w = (Inr fs, w1)"
    using assms(2) by (auto simp: ListFriends_def F_uuid parse_string split: prod.splits sum.splits)
  then have "w_redis w1 = w_redis w" by (auto simp: on_db_eq)
  with q online_loop_result [OF assms(1), of u fs w1] show ?thesis
    by (simp add: GetOnlineFriends_def F_uuid F_rdb parse_string split_beta)
qed

lemma SetOnline_first:
  assumes "fs_notifier F = Some n" and "K (w_redis w) (online_key (uuid_String U u)) = None"
    and "on_redis (rc_SetNX R (online_key (uuid_String U u)) name 300) w = (Inr b, w1)"
    and "ListFriends F (uuid_String U u) w1 = (Inr fs, w2)"
    and "SetOnline F (uuid_String U u) name w = (res, w')"
  shows "res = Returns (Inr ()) \<and> K (w_redis w') (online_key (uuid_String U u)) = Some (RStr name) \<and>
    w_net w' = n_NotifyOnline n (uuid_String U u) name (friend_side_ids U fs) (w_net w)"
proof -
  let ?k = "online_key (uuid_String U u)"
  have b: "b" and k1: "K (w_redis w1) = (K (w_redis w))(?k \<mapsto> RStr name)" and net: "w_net w1 = w_net w"
    using assms(2,3) setnx_ok by (auto simp: on_redis_eq split: if_splits)
  have q: "on_db (ListFriends_sql u) w1 = (Inr fs, w2)"
    using assms(4) by (auto simp: ListFriends_def F_uuid parse_string split: prod.splits sum.splits)
  then have r2: "w_redis w2 = w_redis w1" "w_net w2 = w_net w1" by (auto simp: on_db_eq)
  have "res = Returns (Inr ()) \<and> w' = snd (on_redis (rc_Expire R ?k 300)
      (on_net (n_NotifyOnline n (uuid_String U u) name (friend_side_ids U fs)) w2))"
    using assms(1,3,5) b q by (simp add: SetOnline_def F_rdb F_uuid parse_string Let_def)
  then show ?thesis
    using k1 r2 net expire_keeps [of 300 ?k "w_redis w2"] by (simp add: prod_eq_iff)
qed

end

text \<open>
  \<open>GetOnlineFriends\<close> lists, in the order of the friend list, exactly the friends whose presence
  key exists, whichever side of the friendship row they are on.
\<close>

theorem GetOnlineFriends_exact:
  assumes "friends_cached R K U F" and "exists_available R"
    and "ListFriends F (uuid_String U u) w = (Inr fs, w1)"
  shows "fst (GetOnlineFriends F (uuid_String U u) w) = Returns (Inr
    (filter (\<lambda>s. K (w_redis w) (online_key s) \<noteq> None) (map (\<lambda>f. uuid_String U (other_side u f)) fs)))"
  using assms by (rule friends_cached.GetOnlineFriends_result)

theorem GetOnlineFriends_exact_witness:
  "fst (GetOnlineFriends ref_friends (uuid_String ref_uuid 1) (sample_world ())) = Returns (Inr [])"
proof -
  have "exists_available ref_redis" by (simp add: exists_available_def ref_redis_def)
  moreover obtain w1 where "ListFriends ref_friends (uuid_String ref_uuid 1) (sample_world ()) = (Inr [], w1)"
    by (simp add: ListFriends_def ref_friends_def uuid_ref.parse_string on_db_def ListFriends_sql_def
        select_nf order_desc_def)
  ultimately show ?thesis
    using GetOnlineFriends_exact [OF friends_ref.friends_cached_axioms] by fastforce
qed

text \<open>
  \<open>SetOnline\<close> pushes the event to the \<open>friend_id\<close> side of every row. For a user who is the
  \<open>friend_id\<close> of all friendships, no friend is told: the event goes to the user, once for each row.
\<close>

theorem SetOnline_notifies_friend_side:
  assumes "friends_cached R K U F" and "fs_notifier F = Some n"
    and "K (w_redis w) (online_key (uuid_String U u)) = None"
    and "on_redis (rc_SetNX R (online_key (uuid_String U u)) name 300) w = (Inr b, w1)"
    and "ListFriends F (uuid_String U u) w1 = (Inr fs, w2)"
    and "\<forall>f \<in> set fs. fr_friend_id f = u"
    and "SetOnline F (uuid_String U u) name w = (res, w')"
  shows "K (w_redis w') (online_key (uuid_String U u)) = Some (RStr name) \<and>
    w_net w' = n_NotifyOnline n (uuid_String U u) name (replicate (length fs) (uuid_String U u)) (w_net w)"
proof -
  have "friend_side_ids U fs = replicate (length fs) (uuid_String U u)"
    using assms(6) by (induction fs) (simp_all add: friend_side_ids_def)
  then show ?thesis using friends_cached.SetOnline_first [OF assms(1-5,7)] by simp
qed

text \<open>A notifier that records the receivers, and bob's accepted request to ann.\<close>

definition log_notifier :: "string list notifier" where
  "log_notifier = \<lparr>n_NotifyOnline = (\<lambda>_ _ ids s. s @ ids), n_NotifyOffline = (\<lambda>_ ids s. s @ ids),
     n_NotifyFriendRemoved = (\<lambda>u _ s. s @ [u]), n_NotifyBlocked = (\<lambda>u _ s. s @ [u])\<rparr>"

definition sample_row :: friendship_row where
  "sample_row = \<lparr>fr_id = 50, fr_user_id = 2, fr_friend_id = 1, fr_status = ''accepted'', fr_created_at = 0, fr_updated_at = 0\<rparr>"

definition friends_world :: "'n \<Rightarrow> (keyspace, 'n) world" where
  "friends_world n = (sample_world n)\<lparr>w_db := sample_db\<lparr>friendships := [sample_row]\<rparr>\<rparr>"

lemma friends_world_simps [simp]:
  "w_redis (friends_world n) = Map.empty" "w_net (friends_world n) = n"
  "friendships (w_db (friends_world n)) = [sample_row]" "no_faults (w_db (friends_world n))"
  "db_env (w_db (friends_world n)) = sample_env" "db_calls (w_db (friends_world n)) = 0"
  "user_ids (w_db (friends_world n)) = {1, 2, 3}" "block_relations (w_db (friends_world n)) = []"
  using sample_no_faults by (simp_all add: friends_world_def no_faults_def user_ids_frame)

interpretation friends_log: friends_cached ref_redis "\<lambda>r. r" ref_uuid "ref_friends\<lparr>fs_notifier := Some log_notifier\<rparr>"
  by unfold_locales (simp_all add: ref_friends_def)

theorem SetOnline_notifies_friend_side_witness:
  "w_net (snd (SetOnline (ref_friends\<lparr>fs_notifier := Some log_notifier\<rparr>) (uuid_String ref_uuid 1) ''ann'' (friends_world []))) =
     [uuid_String ref_uuid 1]"
proof -
  let ?F = "ref_friends\<lparr>fs_notifier := Some log_notifier\<rparr>" and ?k = "online_key (uuid_String ref_uuid 1)"
  define w1 where "w1 = (friends_world [] :: (keyspace, string list) world)\<lparr>w_redis := [?k \<mapsto> RStr ''ann'']\<rparr>"
  have set: "on_redis (rc_SetNX ref_redis ?k ''ann'' 300) (friends_world []) = (Inr True, w1)"
    by (simp add: on_redis_def ref_redis_def w1_def)
  obtain w2 where list: "ListFriends ?F (uuid_String ref_uuid 1) w1 = (Inr [sample_row], w2)"
    by (simp add: ListFriends_def ref_friends_def uuid_ref.parse_string on_db_def ListFriends_sql_def
        select_nf order_desc_def w1_def sample_row_def)
  have F: "fs_notifier ?F = Some log_notifier" by simp
  have key: "w_redis (friends_world ([] :: string list)) ?k = None" by simp
  have side: "\<forall>f \<in> set [sample_row]. fr_friend_id f = 1" by (simp add: sample_row_def)
  show ?thesis
    using SetOnline_notifies_friend_side [OF friends_log.friends_cached_axioms F key set list side prod.collapse [symmetric]]
    by (simp add: log_notifier_def)
qed

subsection \<open>Where the service does not do what it means to\<close>

text \<open>
  \<open>SendRequest\<close> takes a failed lookup for a missing friendship: if only the lookup statement
  fails, a second row for the same two users is inserted and success is reported.
\<close>

theorem SendRequest_duplicates_on_failed_lookup:
  assumes "uuid_Parse (fs_uuid F) s = Some a" and "uuid_Parse (fs_uuid F) t = Some b" and "a \<noteq> b"
    and "IsBlocked F t s w = (Inr False, w1)" and "related (w_db w1) a b"
    and "env_fault (db_env (w_db w1)) (db_calls (w_db w1)) = Refused"
    and "env_fault (db_env (w_db w1)) (Suc (db_calls (w_db w1))) = NoFault"
    and "{a, b} \<subseteq> user_ids (w_db w1)"
    and "env_fresh (db_env (w_db w1)) (Suc (db_calls (w_db w1))) \<notin> fr_id ` set (friendships (w_db w1))"
  shows "\<exists>f w'. SendRequest F s t w = (Inr f, w') \<and> \<not> unique_pairs (w_db w')"
proof -
  let ?d = "w_db w1"
  have look: "GetFriendshipByUsers_sql a b ?d = (Inl QueryFailed, tick ?d)"
    using assms(6) by (simp add: GetFriendshipByUsers_sql_def select_def stmt_def Let_def)
  have up: "db_up (tick ?d)" using assms(7) by (simp add: db_up_def)
  have ids: "a \<in> user_ids ?d" "b \<in> user_ids ?d" using assms(8) by simp_all
  have v: "varchar_ok 16 ''pending''" by (simp add: varchar_ok_def char_count_def)
  obtain x d' where c: "CreateFriendship_sql a b ''pending'' (tick ?d) = (Inr x, d')"
    using assms(9) ids v unfolding CreateFriendship_sql_def stmt_ok [OF up]
    by (simp only: Let_def user_ids_frame) simp
  have rows: "friendships d' = friendships ?d @ [x]" "fr_user_id x = a" "fr_friend_id x = b"
    using CreateFriendship_Inr [OF c] by simp_all
  have "SendRequest F s t w = (Inr x, w1\<lparr>w_db := d'\<rparr>)"
    using assms(1-4) look c by (simp add: SendRequest_def on_db_def)
  moreover have "\<not> unique_pairs d'"
    using assms(5) by (auto simp: unique_pairs_def rows related_iff pair_def)
  ultimately show ?thesis by fastforce
qed

definition failing_env :: db_env where
  "failing_env = sample_env\<lparr>env_fault := (\<lambda>n. if n = 0 then Refused else NoFault)\<rparr>"

definition broken_world :: "(keyspace, unit) world" where
  "broken_world = (friends_world ())\<lparr>w_db := (w_db (friends_world ()))\<lparr>db_env := failing_env\<rparr>\<rparr>"

lemma broken_world_simps [simp]:
  "friendships (w_db broken_world) = [sample_row]" "db_env (w_db broken_world) = failing_env"
  "db_calls (w_db broken_world) = 0" "user_ids (w_db broken_world) = {1, 2, 3}"
  by (simp_all add: broken_world_def user_ids_def friends_world_def sample_defs)

theorem SendRequest_duplicates_on_failed_lookup_witness:
  "\<exists>f w'. SendRequest ref_friends (uuid_String ref_uuid 2) (uuid_String ref_uuid 1) broken_world = (Inr f, w')
     \<and> \<not> unique_pairs (w_db w')"
proof -
  have parse: "uuid_Parse (fs_uuid (ref_friends :: (keyspace, unit) friends_svc)) (uuid_String ref_uuid x) = Some x" for x
    by (simp add: ref_friends_def uuid_ref.parse_string)
  have blk: "IsBlocked ref_friends (uuid_String ref_uuid 1) (uuid_String ref_uuid 2) broken_world = (Inr False, broken_world)"
    by (simp add: IsBlocked_def ref_friends_def ref_redis_def on_redis_def broken_world_def)
  have rel: "related (w_db broken_world) 2 1" by (simp add: related_def sample_row_def between_def)
  show ?thesis
    by (rule SendRequest_duplicates_on_failed_lookup [OF parse parse _ blk rel])
       (simp_all add: failing_env_def sample_env_def sample_row_def)
qed

text \<open>
  \<open>Block\<close> compares the two identifiers as texts: with another spelling of the same UUID a user
  blocks itself, although the code refuses a block of oneself.
\<close>

theorem Block_self_other_spelling:
  assumes "uuid_Parse (fs_uuid F) s = Some a" and "uuid_Parse (fs_uuid F) t = Some a" and "s \<noteq> t"
    and "no_faults (w_db w)" and "a \<in> user_ids (w_db w)" and "\<not> db_blocks (w_db w) a a"
    and "env_fresh (db_env (w_db w)) (db_calls (w_db w)) \<notin> bl_id ` set (block_relations (w_db w))"
  shows "\<exists>w'. Block F s t reason w = (Inr (), w') \<and> db_blocks (w_db w') a a"
proof -
  have "{a, a} \<subseteq> user_ids (w_db w)" using assms(5) by simp
  from Block_nf [OF assms(1-4) this assms(6,7)] show ?thesis
    by (metis db_blocks_append)
qed

definition other_spelling :: "string" where
  "other_spelling = ''00000000-0000-0000-0000-00000000000A''"

definition hex_world :: "(keyspace, unit) world" where
  "hex_world = (sample_world ())\<lparr>w_db := sample_db\<lparr>users := [sample_user 10 ''dan'']\<rparr>\<rparr>"

lemma last_uuid_String_10: "last (uuid_String ref_uuid 10) = CHR ''a''"
proof -
  have "hex_fixed 32 10 = hex_fixed 31 0 @ ''a''"
    using hex_fixed.simps(2) [of 31 10] by (simp add: digit_char_def)
  then show ?thesis by (simp add: ref_uuid_def add_hyphens_def)
qed

theorem Block_self_other_spelling_witness:
  "\<exists>w'. Block ref_friends (uuid_String ref_uuid 10) other_spelling '''' hex_world = (Inr (), w') \<and> db_blocks (w_db w') 10 10"
proof -
  have p: "uuid_Parse ref_uuid other_spelling = Some 10"
    by (simp add: ref_uuid_def other_spelling_def remove_hyphens_def hex_val_def)
  have "last (uuid_String ref_uuid 10) \<noteq> last other_spelling"
    by (simp add: last_uuid_String_10 other_spelling_def)
  then have ne: "uuid_String ref_uuid 10 \<noteq> other_spelling" by metis
  show ?thesis
    by (rule Block_self_other_spelling [OF _ _ ne])
       (simp_all add: ref_friends_def uuid_ref.parse_string p hex_world_def user_ids_def
          sample_user_def no_faults_def sample_env_def db_blocks_def)
qed

end
