(* ===== verification/Chat.thy ===== *)
theory Chat
  imports FriendSystem
begin

text \<open>
  The chat service (\<open>internal/chat/service.go\<close>): the handlers of the TCP messages. A handler gets
  the pointer of the connection and its envelope. The configuration holds the block checker, the
  presence setter and the token validator, each of which may be nil. A panic inside the presence
  setter ends the handler.
\<close>

type_synonym 'r chat_world = "('r, tcp_server) world"

record 'r presence_setter =
  ps_SetOnline :: "string \<Rightarrow> string \<Rightarrow> 'r chat_world \<Rightarrow> (go_error + unit) go_result \<times> 'r chat_world"
  ps_SetOffline :: "string \<Rightarrow> 'r chat_world \<Rightarrow> (go_error + unit) go_result \<times> 'r chat_world"

record 'r chat_svc =
  cs_proto :: proto_lib
  cs_uuid :: uuid_lib
  cs_blockChecker :: "(string \<Rightarrow> string \<Rightarrow> ('r, tcp_server, bool) svc) option"
  cs_presenceSetter :: "'r presence_setter option"
  cs_tokenValidator :: "(string \<Rightarrow> ('r, tcp_server, string) svc) option"

definition conn_of :: "nat \<Rightarrow> 'r chat_world \<Rightarrow> connection" where
  "conn_of p w = t_heap (w_net w) p"

definition on_conn :: "nat \<Rightarrow> (connection \<Rightarrow> connection) \<Rightarrow> 'r chat_world \<Rightarrow> 'r chat_world" where
  "on_conn p f w = on_net (upd_conn p f) w"

definition sendEnvelope :: "'r chat_svc \<Rightarrow> nat \<Rightarrow> chat_envelope \<Rightarrow> 'r chat_world \<Rightarrow> 'r chat_world" where
  "sendEnvelope C p env w =
     (let (data, _) = proto_Marshal (cs_proto C) env in
      on_conn p (Send (mk_frame (ucast (e_Type env)) data)) w)"

definition broadcastEnvelope :: "'r chat_svc \<Rightarrow> string \<Rightarrow> chat_envelope \<Rightarrow> string \<Rightarrow> 'r chat_world \<Rightarrow> 'r chat_world" where
  "broadcastEnvelope C roomID env exclude w =
     (let (data, _) = proto_Marshal (cs_proto C) env in
      on_net (Broadcast roomID (mk_frame (ucast (e_Type env)) data) exclude) w)"

definition sendError :: "'r chat_svc \<Rightarrow> nat \<Rightarrow> string \<Rightarrow> string \<Rightarrow> 'r chat_world \<Rightarrow> 'r chat_world" where
  "sendError C p code message w = sendEnvelope C p (envelope MessageType_ERROR (P_Error code message)) w"

subsection \<open>Authentication\<close>

definition handleAuth :: "'r chat_svc \<Rightarrow> nat \<Rightarrow> chat_envelope \<Rightarrow> 'r chat_world \<Rightarrow> 'r chat_world" where
  "handleAuth C p env w =
     (case GetAuthRequest env of
        None \<Rightarrow> sendError C p ''BAD_REQUEST'' ''missing access token'' w
      | Some req \<Rightarrow>
          if ar_access_token req = '''' then sendError C p ''BAD_REQUEST'' ''missing access token'' w
          else
            (let (res, w1) =
               (case cs_tokenValidator C of
                  Some validate \<Rightarrow> validate (ar_access_token req) w
                | None \<Rightarrow> (Inr (ar_access_token req), w))
             in case res of
                  Inl _ \<Rightarrow> sendError C p ''AUTH_REJECTED'' ''invalid token'' w1
                | Inr userID \<Rightarrow>
                    (let w2 = on_conn p (\<lambda>c. c\<lparr>c_UserID := userID, c_Username := ar_username req\<rparr>) w1
                     in sendEnvelope C p (envelope MessageType_AUTH_OK (P_AuthResponse userID '''')) w2)))"

subsection \<open>Rooms\<close>

definition handleJoinRoom :: "'r chat_svc \<Rightarrow> nat \<Rightarrow> chat_envelope \<Rightarrow> 'r chat_world \<Rightarrow> 'r chat_world" where
  "handleJoinRoom C p env w =
     (let userID = c_UserID (conn_of p w) in
      if userID = '''' then sendError C p ''UNAUTHORIZED'' ''not authenticated'' w
      else case GetJoinRoomRequest env of
        None \<Rightarrow> sendError C p ''BAD_REQUEST'' ''missing room_id'' w
      | Some roomID \<Rightarrow>
          (let uid = parse_or_nil (cs_uuid C) userID;
               roomUID = parse_or_nil (cs_uuid C) roomID
           in case on_db (AddRoomMember_sql roomUID uid ''member'') w of
                (Inl _, w1) \<Rightarrow> sendError C p ''INTERNAL_ERROR'' ''failed to join room'' w1
              | (Inr _, w1) \<Rightarrow>
                  on_conn p (JoinRoom roomID)
                    (sendEnvelope C p (envelope MessageType_JOIN_ROOM_OK (P_JoinRoomResponse roomID)) w1)))"

definition handleLeaveRoom :: "'r chat_svc \<Rightarrow> nat \<Rightarrow> chat_envelope \<Rightarrow> 'r chat_world \<Rightarrow> 'r chat_world" where
  "handleLeaveRoom C p env w =
     (let userID = c_UserID (conn_of p w) in
      if userID = '''' then sendError C p ''UNAUTHORIZED'' ''not authenticated'' w
      else case GetLeaveRoomRequest env of
        None \<Rightarrow> sendError C p ''BAD_REQUEST'' ''missing room_id'' w
      | Some roomID \<Rightarrow>
          (let uid = parse_or_nil (cs_uuid C) userID;
               roomUID = parse_or_nil (cs_uuid C) roomID
           in case on_db (RemoveRoomMember_sql roomUID uid) w of
                (Inl _, w1) \<Rightarrow> sendError C p ''INTERNAL_ERROR'' ''failed to leave room'' w1
              | (Inr _, w1) \<Rightarrow>
                  sendEnvelope C p (envelope MessageType_LEAVE_ROOM_OK (P_LeaveRoomResponse roomID))
                    (on_conn p (LeaveRoom roomID) w1)))"

text \<open>
  The loop over the members of a room: \<open>IsBlocked(conn.UserID, member)\<close> for every other member until
  the first positive answer; an error counts as not blocked.
\<close>

fun block_loop :: "(string \<Rightarrow> string \<Rightarrow> ('r, tcp_server, bool) svc) \<Rightarrow> string \<Rightarrow> string list \<Rightarrow> 'r chat_world
    \<Rightarrow> bool \<times> 'r chat_world" where
  "block_loop check userID [] w = (False, w)"
| "block_loop check userID (m # ms) w =
     (if m = userID then block_loop check userID ms w
      else (let (res, w1) = check userID m w in
            if res = Inr True then (True, w1) else block_loop check userID ms w1))"

definition blocked_in_room :: "'r chat_svc \<Rightarrow> string \<Rightarrow> uuid \<Rightarrow> 'r chat_world \<Rightarrow> bool \<times> 'r chat_world" where
  "blocked_in_room C userID roomUID w =
     (case cs_blockChecker C of
        None \<Rightarrow> (False, w)
      | Some check \<Rightarrow>
          (let (res, w1) = on_db (GetRoomMembers_sql roomUID) w;
               members = (case res of Inl _ \<Rightarrow> [] | Inr ms \<Rightarrow> ms)
           in block_loop check userID (map (\<lambda>m. uuid_String (cs_uuid C) (me_user_id m)) members) w1))"

text \<open>\<open>Time.Unix()\<close>: whole seconds of a time of the database, which counts microseconds.\<close>

definition Unix :: "int \<Rightarrow> int" where
  [go_defs]: "Unix t = t div 1000000"

definition handleSendMessage :: "'r chat_svc \<Rightarrow> nat \<Rightarrow> chat_envelope \<Rightarrow> 'r chat_world \<Rightarrow> 'r chat_world" where
  "handleSendMessage C p env w =
     (let userID = c_UserID (conn_of p w) in
      if userID = '''' then sendError C p ''UNAUTHORIZED'' ''not authenticated'' w
      else case GetSendMessageRequest env of
        None \<Rightarrow> sendError C p ''BAD_REQUEST'' ''missing message data'' w
      | Some req \<Rightarrow>
     (case uuid_Parse (cs_uuid C) (smr_room_id req) of
        None \<Rightarrow> sendError C p ''BAD_REQUEST'' ''invalid room id'' w
      | Some roomUID \<Rightarrow>
          if \<not> IsInRoom (smr_room_id req) (conn_of p w)
          then sendError C p ''FORBIDDEN'' ''you are not in this room'' w
          else
     (case blocked_in_room C userID roomUID w of
        (True, w1) \<Rightarrow> sendError C p ''FORBIDDEN'' ''you are blocked by a room member'' w1
      | (False, w1) \<Rightarrow>
          (let uid = parse_or_nil (cs_uuid C) userID in
           case on_db (CreateChatMessage_sql roomUID uid (smr_content req) (smr_type req)) w1 of
             (Inl _, w2) \<Rightarrow> sendError C p ''INTERNAL_ERROR'' ''failed to save message'' w2
           | (Inr msg, w2) \<Rightarrow>
               broadcastEnvelope C (smr_room_id req)
                 (envelope MessageType_RECV_MSG (P_ReceiveMessage
                    \<lparr>rm_room_id = smr_room_id req, rm_sender_id = userID, rm_content = smr_content req,
                     rm_type = smr_type req, rm_timestamp = Unix (ms_created_at msg),
                     rm_message_id = uuid_String (cs_uuid C) (ms_id msg)\<rparr>))
                 (c_ID (conn_of p w2)) w2))))"

definition handleInviteRoom :: "'r chat_svc \<Rightarrow> nat \<Rightarrow> chat_envelope \<Rightarrow> 'r chat_world \<Rightarrow> 'r chat_world" where
  "handleInviteRoom C p env w =
     (let userID = c_UserID (conn_of p w) in
      if userID = '''' then sendError C p ''UNAUTHORIZED'' ''not authenticated'' w
      else case GetInviteRoomRequest env of
        None \<Rightarrow> sendError C p ''BAD_REQUEST'' ''missing invite room request'' w
      | Some (roomID, targetUserID) \<Rightarrow>
     (case uuid_Parse (cs_uuid C) roomID of
        None \<Rightarrow> sendError C p ''BAD_REQUEST'' ''invalid room id'' w
      | Some roomUID \<Rightarrow>
     (case on_db (GetRoomMembers_sql roomUID) w of
        (Inl _, w1) \<Rightarrow> sendError C p ''NOT_FOUND'' ''room not found'' w1
      | (Inr members, w1) \<Rightarrow>
          if \<not> list_ex (\<lambda>m. uuid_String (cs_uuid C) (me_user_id m) = userID) members
          then sendError C p ''FORBIDDEN'' ''you are not in this room'' w1
          else on_net (SendToUser (cs_proto C) targetUserID
                 (envelope MessageType_INVITE_ROOM
                    (P_InviteRoomNotify roomID userID (c_Username (conn_of p w1))))) w1)))"

subsection \<open>Dispatch and the life of a connection\<close>

definition handleHeartbeat :: "'r chat_svc \<Rightarrow> nat \<Rightarrow> 'r chat_world \<Rightarrow> unit go_result \<times> 'r chat_world" where
  "handleHeartbeat C p w =
     (let w1 = on_conn p (Send (mk_frame (ucast MessageType_HEARTBEAT_ACK) [])) w;
          c = conn_of p w1
      in case (if c_UserID c \<noteq> '''' then cs_presenceSetter C else None) of
           None \<Rightarrow> (Returns (), w1)
         | Some ps \<Rightarrow>
             (case ps_SetOnline ps (c_UserID c) (c_Username c) w1 of
                (Returns _, w2) \<Rightarrow> (Returns (), w2)
              | (Panics msg, w2) \<Rightarrow> (Panics msg, w2)))"

definition handleMessage :: "'r chat_svc \<Rightarrow> nat \<Rightarrow> frame \<Rightarrow> 'r chat_world \<Rightarrow> unit go_result \<times> 'r chat_world" where
  "handleMessage C p fr w =
     (case proto_Unmarshal (cs_proto C) (f_Value fr) of
        None \<Rightarrow> (Returns (), w)
      | Some env \<Rightarrow>
          if e_Type env = MessageType_AUTH then (Returns (), handleAuth C p env w)
          else if e_Type env = MessageType_HEARTBEAT then handleHeartbeat C p w
          else if e_Type env = MessageType_JOIN_ROOM then (Returns (), handleJoinRoom C p env w)
          else if e_Type env = MessageType_LEAVE_ROOM then (Returns (), handleLeaveRoom C p env w)
          else if e_Type env = MessageType_SEND_MSG then (Returns (), handleSendMessage C p env w)
          else if e_Type env = MessageType_INVITE_ROOM then (Returns (), handleInviteRoom C p env w)
          else (Returns (), w))"

definition handleDisconnect :: "'r chat_svc \<Rightarrow> nat \<Rightarrow> 'r chat_world \<Rightarrow> unit go_result \<times> 'r chat_world" where
  "handleDisconnect C p w =
     (let c = conn_of p w in
      case (if c_UserID c \<noteq> '''' then cs_presenceSetter C else None) of
        None \<Rightarrow> (Returns (), w)
      | Some ps \<Rightarrow>
          (case ps_SetOffline ps (c_UserID c) w of
             (Returns _, w1) \<Rightarrow> (Returns (), w1)
           | (Panics msg, w1) \<Rightarrow> (Panics msg, w1)))"

text \<open>
  \<open>readLoop\<close> on the bytes that a connection delivers before its stream ends: every frame is handled,
  then the connection is closed and dropped. A panic runs the deferred function and ends the process.
\<close>

fun handle_frames :: "'r chat_svc \<Rightarrow> nat \<Rightarrow> frame list \<Rightarrow> 'r chat_world \<Rightarrow> unit go_result \<times> 'r chat_world" where
  "handle_frames C p [] w = (Returns (), w)"
| "handle_frames C p (f # fs) w =
     (case handleMessage C p f w of
        (Returns _, w1) \<Rightarrow> handle_frames C p fs w1
      | (Panics msg, w1) \<Rightarrow> (Panics msg, w1))"

definition readLoop :: "'r chat_svc \<Rightarrow> nat \<Rightarrow> bytes \<Rightarrow> 'r chat_world \<Rightarrow> unit go_result \<times> 'r chat_world" where
  "readLoop C p input w =
     (let (frames, _) = read_frames input;
          (res, w1) = handle_frames C p frames w;
          (res', w2) = handleDisconnect C p (on_net (drop_conn p) w1)
      in (case res of Returns _ \<Rightarrow> res' | Panics msg \<Rightarrow> Panics msg, w2))"

end
