(* ===== verification/SocialHttp.thy ===== *)
theory SocialHttp
  imports Chat
begin

text \<open>
  The HTTP handlers of \<open>internal/friends/handler.go\<close> and \<open>internal/chat/handler.go\<close>. A handler takes
  the request, the decoded body where it reads one (\<open>None\<close> if decoding fails), the headers already
  set by the middleware, and the world. The data of a response is one of the values the handlers
  encode.
\<close>

datatype social_data =
    D_Friendship friendship_row
  | D_Friendships "friendship_row list"
  | D_Status string
  | D_Users "string list"
  | D_Blocks "block_row list"
  | D_Rooms "room_row list"
  | D_Room room_row
  | D_Messages "message_row list"

type_synonym ('r, 'n) handler = "('r, 'n) world \<Rightarrow> social_data response \<times> ('r, 'n) world"

text \<open>\<open>auth.UserIDFromContext\<close>: the empty string without a user in the context.\<close>

definition UserIDFromContext :: "request \<Rightarrow> string" where
  "UserIDFromContext rq = null_string (rq_user rq)"

text \<open>\<open>w.WriteHeader(http.StatusNoContent)\<close>\<close>

definition no_content :: "headers \<Rightarrow> 'a response" where
  "no_content h = \<lparr>rs_status = 204, rs_headers = h, rs_body = NoBody\<rparr>"

definition bad_body :: "headers \<Rightarrow> 'a response" where
  "bad_body h = WriteHTTP (errors_New ErrBadRequest ''invalid request body'') h"

text \<open>The common end of a handler: an error response, or the data in the envelope.\<close>

definition respond :: "nat \<Rightarrow> ('b \<Rightarrow> 'a) \<Rightarrow> headers \<Rightarrow> (go_error + 'b) \<times> 'w \<Rightarrow> 'a response \<times> 'w" where
  "respond status f h r =
     (case r of
        (Inl err, w) \<Rightarrow> (writeAppError err h, w)
      | (Inr x, w) \<Rightarrow> (writeJSON status (f x) h, w))"

definition respond_empty :: "headers \<Rightarrow> (go_error + unit) \<times> 'w \<Rightarrow> 'a response \<times> 'w" where
  "respond_empty h r =
     (case r of
        (Inl err, w) \<Rightarrow> (writeAppError err h, w)
      | (Inr _, w) \<Rightarrow> (no_content h, w))"

subsection \<open>Friends\<close>

definition SendRequest_h :: "('r, 'n) friends_svc \<Rightarrow> request \<Rightarrow> string option \<Rightarrow> headers \<Rightarrow> ('r, 'n) handler" where
  "SendRequest_h F rq body h w =
     (case body of
        None \<Rightarrow> (bad_body h, w)
      | Some toUserID \<Rightarrow> respond 201 D_Friendship h (SendRequest F (UserIDFromContext rq) toUserID w))"

definition AcceptRequest_h :: "('r, 'n) friends_svc \<Rightarrow> request \<Rightarrow> headers \<Rightarrow> ('r, 'n) handler" where
  "AcceptRequest_h F rq h w = respond 200 D_Friendship h (AcceptRequest F (rq_param rq ''id'') w)"

definition RejectRequest_h :: "('r, 'n) friends_svc \<Rightarrow> request \<Rightarrow> headers \<Rightarrow> ('r, 'n) handler" where
  "RejectRequest_h F rq h w = respond 200 (\<lambda>_. D_Status ''rejected'') h (RejectRequest F (rq_param rq ''id'') w)"

definition ListFriends_h :: "('r, 'n) friends_svc \<Rightarrow> request \<Rightarrow> headers \<Rightarrow> ('r, 'n) handler" where
  "ListFriends_h F rq h w = respond 200 D_Friendships h (ListFriends F (UserIDFromContext rq) w)"

definition ListPendingRequests_h :: "('r, 'n) friends_svc \<Rightarrow> request \<Rightarrow> headers \<Rightarrow> ('r, 'n) handler" where
  "ListPendingRequests_h F rq h w = respond 200 D_Friendships h (ListPendingRequests F (UserIDFromContext rq) w)"

text \<open>A panic is turned into a response by the recovery middleware, or ends the process.\<close>

definition GetOnlineFriends_h ::
    "('r, 'n) friends_svc \<Rightarrow> request \<Rightarrow> headers \<Rightarrow> ('r, 'n) world \<Rightarrow> social_data response go_result \<times> ('r, 'n) world" where
  "GetOnlineFriends_h F rq h w =
     (case GetOnlineFriends F (UserIDFromContext rq) w of
        (Panics msg, w1) \<Rightarrow> (Panics msg, w1)
      | (Returns res, w1) \<Rightarrow> (Returns (fst (respond 200 D_Users h (res, w1))), w1))"

definition Block_h :: "('r, 'n) friends_svc \<Rightarrow> request \<Rightarrow> (string \<times> string) option \<Rightarrow> headers \<Rightarrow> ('r, 'n) handler" where
  "Block_h F rq body h w =
     (case body of
        None \<Rightarrow> (bad_body h, w)
      | Some (userID, reason) \<Rightarrow> respond_empty h (Block F (UserIDFromContext rq) userID reason w))"

definition Unblock_h :: "('r, 'n) friends_svc \<Rightarrow> request \<Rightarrow> headers \<Rightarrow> ('r, 'n) handler" where
  "Unblock_h F rq h w = respond_empty h (Unblock F (UserIDFromContext rq) (rq_param rq ''userID'') w)"

definition ListBlocked_h :: "('r, 'n) friends_svc \<Rightarrow> request \<Rightarrow> headers \<Rightarrow> ('r, 'n) handler" where
  "ListBlocked_h F rq h w = respond 200 D_Blocks h (ListBlockedUsers F (UserIDFromContext rq) w)"

definition RemoveFriend_h :: "('r, 'n) friends_svc \<Rightarrow> request \<Rightarrow> headers \<Rightarrow> ('r, 'n) handler" where
  "RemoveFriend_h F rq h w = respond_empty h (RemoveFriend F (UserIDFromContext rq) (rq_param rq ''userID'') w)"

definition recent_limit :: "string \<Rightarrow> int" where
  "recent_limit l =
     (if l = '''' then 20
      else (case atoi l of
              (v, None) \<Rightarrow> if 0 < v \<and> v \<le> 100 then v else 20
            | _ \<Rightarrow> 20))"

definition ListRecentContacts_h :: "('r, 'n) friends_svc \<Rightarrow> int \<Rightarrow> request \<Rightarrow> headers \<Rightarrow> ('r, 'n) handler" where
  "ListRecentContacts_h F now rq h w =
     respond 200 D_Users h
       (ListRecentContacts F now (UserIDFromContext rq) (recent_limit (rq_query rq ''limit'')) w)"

subsection \<open>Chat rooms\<close>

text \<open>A response that encodes a value without the envelope.\<close>

definition encode_json :: "nat \<Rightarrow> 'a \<Rightarrow> headers \<Rightarrow> 'a response" where
  "encode_json status x h =
     \<lparr>rs_status = status, rs_headers = h(''Content-Type'' \<mapsto> ''application/json''), rs_body = JsonBody x\<rparr>"

definition listRooms_h :: "uuid_lib \<Rightarrow> request \<Rightarrow> headers \<Rightarrow> ('r, 'n) handler" where
  "listRooms_h U rq h w =
     (let userID = UserIDFromContext rq in
      if userID = '''' then (http_Error ''{\"error\":\"unauthorized\"}'' 401 h, w)
      else case uuid_Parse U userID of
        None \<Rightarrow> (http_Error ''{\"error\":\"invalid user id\"}'' 400 h, w)
      | Some uid \<Rightarrow>
     (case on_db (ListRoomsByUser_sql uid) w of
        (Inl _, w1) \<Rightarrow> (http_Error ''{\"error\":\"failed to list rooms\"}'' 500 h, w1)
      | (Inr rooms, w1) \<Rightarrow> (encode_json 200 (D_Rooms rooms) h, w1)))"

record create_room_request =
  crr_type :: string
  crr_name :: string
  crr_metadata :: string

definition createRoom_h ::
    "uuid_lib \<Rightarrow> request \<Rightarrow> create_room_request option \<Rightarrow> headers \<Rightarrow> ('r, 'n) handler" where
  "createRoom_h U rq body h w =
     (let userID = UserIDFromContext rq in
      if userID = '''' then (http_Error ''{\"error\":\"unauthorized\"}'' 401 h, w)
      else case body of
        None \<Rightarrow> (http_Error ''{\"error\":\"invalid request body\"}'' 400 h, w)
      | Some req \<Rightarrow>
     (case on_db (CreateChatRoom_sql (crr_type req) (null_if_empty (crr_name req)) (null_if_empty (crr_metadata req))) w of
        (Inl _, w1) \<Rightarrow> (http_Error ''{\"error\":\"failed to create room\"}'' 500 h, w1)
      | (Inr room, w1) \<Rightarrow>
          (case on_db (AddRoomMember_sql (ro_id room) (parse_or_nil U userID) ''owner'') w1 of
             (Inl _, w2) \<Rightarrow> (http_Error ''{\"error\":\"failed to add room member\"}'' 500 h, w2)
           | (Inr _, w2) \<Rightarrow> (encode_json 201 (D_Room room) h, w2))))"

definition messages_limit :: "string \<Rightarrow> int" where
  "messages_limit s =
     (case parse_int 32 s of
        (l, None) \<Rightarrow> if 0 < l then (if 200 < l then 200 else l) else 50
      | _ \<Rightarrow> 50)"

definition messages_offset :: "string \<Rightarrow> int" where
  "messages_offset s = (case parse_int 32 s of (v, None) \<Rightarrow> if 0 \<le> v then v else 0 | _ \<Rightarrow> 0)"

definition getMessages_h :: "uuid_lib \<Rightarrow> request \<Rightarrow> headers \<Rightarrow> ('r, 'n) handler" where
  "getMessages_h U rq h w =
     (let userID = UserIDFromContext rq in
      if userID = '''' then (http_Error ''{\"error\":\"unauthorized\"}'' 401 h, w)
      else case uuid_Parse U (rq_param rq ''roomID'') of
        None \<Rightarrow> (http_Error ''{\"error\":\"invalid room id\"}'' 400 h, w)
      | Some roomUID \<Rightarrow>
     (case on_db (GetRoomMembers_sql roomUID) w of
        (Inl _, w1) \<Rightarrow> (http_Error ''{\"error\":\"room not found\"}'' 404 h, w1)
      | (Inr members, w1) \<Rightarrow>
          if \<not> list_ex (\<lambda>m. uuid_String U (me_user_id m) = userID) members
          then (http_Error ''{\"error\":\"forbidden\"}'' 403 h, w1)
          else
            (case on_db (GetChatMessages_sql roomUID (messages_limit (rq_query rq ''limit''))
                           (messages_offset (rq_query rq ''offset''))) w1 of
               (Inl _, w2) \<Rightarrow> (http_Error ''{\"error\":\"failed to get messages\"}'' 500 h, w2)
             | (Inr messages, w2) \<Rightarrow> (encode_json 200 (D_Messages messages) h, w2))))"

lemma messages_limit_bounds: "1 \<le> messages_limit s \<and> messages_limit s \<le> 200"
  by (auto simp: messages_limit_def split: prod.split option.split)

lemma messages_offset_bounds: "0 \<le> messages_offset s \<and> messages_offset s < 2 ^ 31"
  using parse_int_bounds [of 32 s] by (auto simp: messages_offset_def split: prod.split option.split)

lemma recent_limit_bounds: "1 \<le> recent_limit l \<and> recent_limit l \<le> 100"
  by (auto simp: recent_limit_def split: prod.split option.split)

end
