(* ===== verification/ChatFacts.thy ===== *)
theory ChatFacts
  imports Chat FriendsProps
begin

text \<open>
  What the chat handlers change. The collaborators of the service (block checker, presence setter,
  token validator) are the interface \<open>chat_env\<close>: they may write to sockets but leave the identity,
  the rooms and the registration of every connection alone. The services that \<open>cmd/server/main.go\<close>
  wires in provide it.
\<close>

subsection \<open>Leaving identities alone\<close>

definition same_ids :: "tcp_server \<Rightarrow> tcp_server \<Rightarrow> bool" where
  "same_ids s s' \<longleftrightarrow> t_conns s' = t_conns s \<and> t_next s' = t_next s \<and>
     (\<forall>q. c_ID (t_heap s' q) = c_ID (t_heap s q) \<and> c_UserID (t_heap s' q) = c_UserID (t_heap s q) \<and>
          c_rooms (t_heap s' q) = c_rooms (t_heap s q) \<and> c_open (t_heap s' q) = c_open (t_heap s q))"

lemma same_ids_refl [simp]: "same_ids s s"
  by (simp add: same_ids_def)

lemma same_ids_trans: "same_ids a b \<Longrightarrow> same_ids b c \<Longrightarrow> same_ids a c"
  by (simp add: same_ids_def)

lemma same_ids_Send [simp]: "same_ids s (upd_conn p (Send f) s)"
  by (simp add: same_ids_def)

lemma same_ids_SendToUser [simp]: "same_ids s (SendToUser P u m s)"
  by (simp add: same_ids_def)

lemma broadcast_loop_same: "same_ids s (broadcast_loop ps r f x s)"
  by (induction ps arbitrary: s) (auto simp: Let_def intro: same_ids_trans [OF same_ids_Send])

lemma same_ids_Broadcast [simp]: "same_ids s (Broadcast r f x s)"
  by (simp add: Broadcast_def broadcast_loop_same)

lemma same_ids_fold: "(\<And>x s. same_ids s (g x s)) \<Longrightarrow> same_ids s (fold g xs s)"
  by (induction xs arbitrary: s) (auto intro: same_ids_trans)

lemma same_ids_server_wf: "same_ids s s' \<Longrightarrow> server_wf s' = server_wf s"
  by (rule server_wf_cong) (simp_all add: same_ids_def)

definition quiet :: "('r chat_world \<Rightarrow> 'a \<times> 'r chat_world) \<Rightarrow> bool" where
  "quiet f \<longleftrightarrow> (\<forall>w. same_ids (w_net w) (w_net (snd (f w))) \<and> (db_wf (w_db w) \<longrightarrow> db_wf (w_db (snd (f w)))))"

lemma quietD: "quiet f \<Longrightarrow> f w = (x, w') \<Longrightarrow> same_ids (w_net w) (w_net w')"
  "quiet f \<Longrightarrow> f w = (x, w') \<Longrightarrow> db_wf (w_db w) \<Longrightarrow> db_wf (w_db w')"
  unfolding quiet_def by (metis snd_conv)+

locale chat_env =
  fixes C :: "'r chat_svc"
  assumes checker_quiet: "cs_blockChecker C = Some check \<Longrightarrow> quiet (check a b)"
    and online_quiet: "cs_presenceSetter C = Some ps \<Longrightarrow> quiet (ps_SetOnline ps a b)"
    and offline_quiet: "cs_presenceSetter C = Some ps \<Longrightarrow> quiet (ps_SetOffline ps a)"
    and validator_quiet: "cs_tokenValidator C = Some validate \<Longrightarrow> quiet (validate a)"

subsection \<open>Effects of the small operations\<close>

lemma on_conn_simps [simp]:
  "w_db (on_conn p f w) = w_db w" "w_redis (on_conn p f w) = w_redis w"
  "w_net (on_conn p f w) = upd_conn p f (w_net w)"
  by (simp_all add: on_conn_def)

lemma sendEnvelope_simps [simp]:
  "w_db (sendEnvelope C p e w) = w_db w" "w_redis (sendEnvelope C p e w) = w_redis w"
  "same_ids (w_net w) (w_net (sendEnvelope C p e w))"
  by (simp_all add: sendEnvelope_def split_beta)

lemma sendError_simps [simp]:
  "w_db (sendError C p c m w) = w_db w" "w_redis (sendError C p c m w) = w_redis w"
  "same_ids (w_net w) (w_net (sendError C p c m w))"
  by (simp_all add: sendError_def)

lemma broadcastEnvelope_simps [simp]:
  "w_db (broadcastEnvelope C r e x w) = w_db w" "w_redis (broadcastEnvelope C r e x w) = w_redis w"
  "same_ids (w_net w) (w_net (broadcastEnvelope C r e x w))"
  by (simp_all add: broadcastEnvelope_def split_beta)

lemma sendError_others: "q \<noteq> p \<Longrightarrow> t_heap (w_net (sendError C p c m w)) q = t_heap (w_net w) q"
  by (simp add: sendError_def sendEnvelope_def split_beta)

definition wf_keep :: "'r chat_world \<Rightarrow> 'r chat_world \<Rightarrow> bool" where
  "wf_keep w w' \<longleftrightarrow> (db_wf (w_db w) \<longrightarrow> db_wf (w_db w'))"

lemma wf_on_db: "on_db q w = (x, w') \<Longrightarrow> (\<And>d. db_wf d \<Longrightarrow> db_wf (snd (q d))) \<Longrightarrow> wf_keep w w'"
  by (auto simp: on_db_eq wf_keep_def) (metis snd_conv)

lemma net_on_db: "on_db q w = (x, w') \<Longrightarrow> w_net w' = w_net w"
  by (auto simp: on_db_eq)

lemma wf_on_db_select: "on_db (select f) w = (x, w') \<Longrightarrow> wf_keep w w'"
  by (erule wf_on_db) (rule db_wf_select)

lemma wf_keep_trans: "wf_keep a b \<Longrightarrow> wf_keep b c \<Longrightarrow> wf_keep a c"
  by (simp add: wf_keep_def)

lemma wf_keep_refl [simp]: "wf_keep w w"
  by (simp add: wf_keep_def)

lemma wf_keep_db: "w_db w' = w_db w \<Longrightarrow> wf_keep w w'"
  by (simp add: wf_keep_def)

text \<open>A calm change: identities stay and the integrity of the database is kept.\<close>

definition calm :: "'r chat_world \<Rightarrow> 'r chat_world \<Rightarrow> bool" where
  "calm w w' \<longleftrightarrow> same_ids (w_net w) (w_net w') \<and> wf_keep w w'"

lemma calm_refl [simp]: "calm w w"
  by (simp add: calm_def)

lemma calm_trans: "calm a b \<Longrightarrow> calm b c \<Longrightarrow> calm a c"
  unfolding calm_def using same_ids_trans wf_keep_trans by blast

lemma calm_sends [simp]:
  "calm w (sendError C p c m w)" "calm w (sendEnvelope C p e w)" "calm w (broadcastEnvelope C r e x w)"
  "calm w (on_conn p (Send f) w)" "calm w (on_net (SendToUser P u msg) w)"
  by (simp_all add: calm_def wf_keep_db)

lemma calm_quiet: "quiet f \<Longrightarrow> f w = (x, w') \<Longrightarrow> calm w w'"
  by (simp add: calm_def wf_keep_def quietD)

lemma calm_on_db: "on_db q w = (x, w') \<Longrightarrow> (\<And>d. db_wf d \<Longrightarrow> db_wf (snd (q d))) \<Longrightarrow> calm w w'"
  by (simp add: calm_def wf_on_db net_on_db)

lemma calm_select: "on_db (select f) w = (x, w') \<Longrightarrow> calm w w'"
  by (simp add: calm_def wf_on_db_select net_on_db)

lemma calm_GetRoomMembers: "on_db (GetRoomMembers_sql r) w = (x, w') \<Longrightarrow> calm w w'"
  unfolding GetRoomMembers_sql_def by (rule calm_select)

lemmas calm_dbs = calm_on_db [where q = "AddRoomMember_sql a b c" for a b c, OF _ wf_AddRoomMember]
  calm_on_db [where q = "RemoveRoomMember_sql a b" for a b, OF _ wf_RemoveRoomMember]
  calm_on_db [where q = "CreateChatMessage_sql a b c e" for a b c e, OF _ wf_CreateChatMessage]
  calm_GetRoomMembers

context chat_env
begin

lemma block_loop_calm:
  assumes "cs_blockChecker C = Some check" and "block_loop check u ms w = (b, w')"
  shows "calm w w'"
  using assms(2)
proof (induction ms arbitrary: w)
  case (Cons m ms)
  show ?case
  proof (cases "m = u")
    case False
    obtain res w1 where c: "check u m w = (res, w1)" by fastforce
    have "calm w w1" using calm_quiet [OF checker_quiet [OF assms(1)] c] .
    then show ?thesis
      using Cons.IH [of w1] Cons.prems False c calm_trans by (auto split: if_splits)
  qed (use Cons in simp)
qed simp

lemma blocked_in_room_calm: "blocked_in_room C u r w = (b, w') \<Longrightarrow> calm w w'"
proof (cases "cs_blockChecker C")
  case (Some check)
  obtain res w1 where q: "on_db (GetRoomMembers_sql r) w = (res, w1)" by fastforce
  assume "blocked_in_room C u r w = (b, w')"
  then have "calm w1 w'"
    using Some q block_loop_calm [OF Some] by (simp add: blocked_in_room_def Let_def)
  then show ?thesis using calm_GetRoomMembers [OF q] calm_trans by blast
qed (simp add: blocked_in_room_def)

lemma handleSendMessage_calm: "calm w (handleSendMessage C p env w)"
proof -
  have step: "calm w w2" if "blocked_in_room C u r w = (False, w1)" "on_db (CreateChatMessage_sql a b c t) w1 = (x, w2)"
    for u r w1 a b c t x w2
    using calm_trans [OF blocked_in_room_calm [OF that(1)]] calm_on_db [OF that(2) wf_CreateChatMessage] by blast
  show ?thesis
    by (auto simp: handleSendMessage_def Let_def split: option.split prod.split sum.split bool.split
        intro: calm_trans [OF blocked_in_room_calm calm_sends(1)] calm_trans [OF step calm_sends(1)]
          calm_trans [OF step calm_sends(3)])
qed

lemma handleInviteRoom_calm: "calm w (handleInviteRoom C p env w)"
  by (auto simp: handleInviteRoom_def Let_def split: option.split prod.split sum.split
      intro: calm_trans [OF calm_GetRoomMembers calm_sends(1)] calm_trans [OF calm_GetRoomMembers calm_sends(5)])

lemma handleHeartbeat_calm: "handleHeartbeat C p w = (res, w') \<Longrightarrow> calm w w'"
  by (auto simp: handleHeartbeat_def Let_def split: option.splits prod.splits go_result.splits if_splits
      intro: calm_trans [OF calm_sends(4) calm_quiet [OF online_quiet]])

lemma handleDisconnect_calm: "handleDisconnect C p w = (res, w') \<Longrightarrow> calm w w'"
  by (auto simp: handleDisconnect_def Let_def split: option.splits prod.splits go_result.splits if_splits
      intro: calm_quiet [OF offline_quiet])

end

subsection \<open>What a message may change\<close>

text \<open>Only the user and the rooms of the connection that sent the message may change.\<close>

definition steady :: "nat \<Rightarrow> 'r chat_world \<Rightarrow> 'r chat_world \<Rightarrow> bool" where
  "steady p w w' \<longleftrightarrow> wf_keep w w' \<and>
     t_conns (w_net w') = t_conns (w_net w) \<and> t_next (w_net w') = t_next (w_net w) \<and>
     (\<forall>q. c_ID (conn_of q w') = c_ID (conn_of q w) \<and> c_open (conn_of q w') = c_open (conn_of q w) \<and>
       (q \<noteq> p \<longrightarrow> c_UserID (conn_of q w') = c_UserID (conn_of q w) \<and> c_rooms (conn_of q w') = c_rooms (conn_of q w)))"

lemma calm_steady: "calm w w' \<Longrightarrow> steady p w w'"
  by (auto simp: calm_def steady_def same_ids_def conn_of_def)

lemma calm_user: "calm w w' \<Longrightarrow> c_UserID (conn_of q w') = c_UserID (conn_of q w)"
  by (auto simp: calm_def same_ids_def conn_of_def)

lemma calm_rooms: "calm w w' \<Longrightarrow> c_rooms (conn_of q w') = c_rooms (conn_of q w)"
  by (auto simp: calm_def same_ids_def conn_of_def)

lemma steady_trans: "steady p a b \<Longrightarrow> steady p b c \<Longrightarrow> steady p a c"
  by (auto simp: steady_def wf_keep_def)

lemma steady_upd:
  "(\<And>c. c_ID (f c) = c_ID c) \<Longrightarrow> (\<And>c. c_open (f c) = c_open c) \<Longrightarrow> steady p w (on_conn p f w)"
  by (auto simp: steady_def conn_of_def wf_keep_def)

lemma steady_server_wf: "steady p w w' \<Longrightarrow> server_wf (w_net w') = server_wf (w_net w)"
  by (rule server_wf_cong) (auto simp: steady_def conn_of_def)

lemma steady_rooms [simp]: "steady p w (on_conn p (JoinRoom r) w)" "steady p w (on_conn p (LeaveRoom r) w)"
  by (rule steady_upd; simp add: JoinRoom_def LeaveRoom_def)+

lemma conn_of_simps [simp]:
  "conn_of q (on_conn p f w) = (if q = p then f (conn_of p w) else conn_of q w)"
  by (simp add: conn_of_def)

lemma sends_user [simp]:
  "c_UserID (conn_of q (sendError C p c m w)) = c_UserID (conn_of q w)"
  "c_UserID (conn_of q (sendEnvelope C p e w)) = c_UserID (conn_of q w)"
  "c_UserID (conn_of q (broadcastEnvelope C r e x w)) = c_UserID (conn_of q w)"
  by (rule calm_user, simp)+

context chat_env
begin

lemma handleJoinRoom_effect:
  "steady p w (handleJoinRoom C p env w) \<and>
   c_UserID (conn_of q (handleJoinRoom C p env w)) = c_UserID (conn_of q w)"
proof -
  have db: "calm w w1" if "on_db (AddRoomMember_sql a b c) w = (x, w1)" for a b c x w1
    using calm_on_db [OF that wf_AddRoomMember] .
  have a: "calm w (sendError C p s t w1)" if "on_db (AddRoomMember_sql a b c) w = (x, w1)" for a b c x w1 s t
    using calm_trans [OF db [OF that] calm_sends(1)] .
  have b: "steady p w (on_conn p (JoinRoom r) (sendEnvelope C p e w1)) \<and>
      c_UserID (conn_of q (on_conn p (JoinRoom r) (sendEnvelope C p e w1))) = c_UserID (conn_of q w)"
    if "on_db (AddRoomMember_sql a b c) w = (x, w1)" for a b c x w1 r e
    using steady_trans [OF calm_steady [OF calm_trans [OF db [OF that] calm_sends(2)]] steady_rooms(1)]
      calm_user [OF db [OF that]] by (simp add: JoinRoom_def)
  have c: "c_UserID (conn_of q w1) = c_UserID (conn_of q w)" if "on_db (AddRoomMember_sql a b c) w = (x, w1)" for a b c x w1
    using calm_user [OF db [OF that]] .
  show ?thesis
    using b c by (auto simp: handleJoinRoom_def Let_def split: option.split prod.split sum.split
        intro: calm_steady [OF a] calm_steady)
qed

lemma handleLeaveRoom_effect:
  "steady p w (handleLeaveRoom C p env w) \<and>
   c_UserID (conn_of q (handleLeaveRoom C p env w)) = c_UserID (conn_of q w)"
proof -
  have db: "calm w w1" if "on_db (RemoveRoomMember_sql a b) w = (x, w1)" for a b x w1
    using calm_on_db [OF that wf_RemoveRoomMember] .
  have a: "calm w (sendError C p s t w1)" if "on_db (RemoveRoomMember_sql a b) w = (x, w1)" for a b x w1 s t
    using calm_trans [OF db [OF that] calm_sends(1)] .
  have b: "steady p w (sendEnvelope C p e (on_conn p (LeaveRoom r) w1)) \<and>
      c_UserID (conn_of q (sendEnvelope C p e (on_conn p (LeaveRoom r) w1))) = c_UserID (conn_of q w)"
    if "on_db (RemoveRoomMember_sql a b) w = (x, w1)" for a b x w1 r e
    using steady_trans [OF calm_steady [OF db [OF that]] steady_trans [OF steady_rooms(2) calm_steady [OF calm_sends(2)]]]
      calm_user [OF db [OF that], of q] calm_user [OF calm_sends(2), of q C p e "on_conn p (LeaveRoom r) w1"]
    by (auto simp: LeaveRoom_def split: if_splits)
  have c: "c_UserID (conn_of q w1) = c_UserID (conn_of q w)" if "on_db (RemoveRoomMember_sql a b) w = (x, w1)" for a b x w1
    using calm_user [OF db [OF that]] .
  show ?thesis
    using b c by (auto simp: handleLeaveRoom_def Let_def split: option.split prod.split sum.split
        intro: calm_steady [OF a] calm_steady)
qed

lemma handleAuth_effect:
  assumes "w' = handleAuth C p env w"
  shows "steady p w w' \<and> (c_UserID (conn_of q w') \<noteq> c_UserID (conn_of q w) \<longrightarrow> q = p \<and>
    (\<exists>req. GetAuthRequest env = Some req \<and>
       (case cs_tokenValidator C of
          Some validate \<Rightarrow> fst (validate (ar_access_token req) w) = Inr (c_UserID (conn_of p w'))
        | None \<Rightarrow> c_UserID (conn_of p w') = ar_access_token req)))"
proof (cases "GetAuthRequest env = None \<or> (\<exists>r. GetAuthRequest env = Some r \<and> ar_access_token r = '''')")
  case True
  then have "calm w w'" using assms by (auto simp: handleAuth_def)
  then show ?thesis using calm_steady calm_user by blast
next
  case False
  then obtain req where req: "GetAuthRequest env = Some req" "ar_access_token req \<noteq> ''''" by auto
  define res w1 where "res = fst (case cs_tokenValidator C of
       Some validate \<Rightarrow> validate (ar_access_token req) w | None \<Rightarrow> (Inr (ar_access_token req), w))"
    and "w1 = snd (case cs_tokenValidator C of
       Some validate \<Rightarrow> validate (ar_access_token req) w | None \<Rightarrow> (Inr (ar_access_token req), w))"
  have q: "calm w w1"
    by (auto simp: w1_def split: option.split intro: calm_quiet [OF validator_quiet prod.collapse [symmetric]])
  show ?thesis
  proof (cases res)
    case (Inl e)
    then have "w' = sendError C p ''AUTH_REJECTED'' ''invalid token'' w1"
      using assms req by (simp add: handleAuth_def res_def w1_def split_beta)
    then have "calm w w'" using calm_trans [OF q] by simp
    then show ?thesis using calm_steady calm_user by blast
  next
    case (Inr u)
    let ?f = "\<lambda>c. c\<lparr>c_UserID := u, c_Username := ar_username req\<rparr>"
    have w': "w' = sendEnvelope C p (envelope MessageType_AUTH_OK (P_AuthResponse u '''')) (on_conn p ?f w1)"
      using assms req Inr by (simp add: handleAuth_def res_def w1_def split_beta Let_def)
    have "steady p w1 (on_conn p ?f w1)" by (rule steady_upd) simp_all
    then have "steady p w w'"
      using steady_trans [OF calm_steady [OF q]] steady_trans [OF _ calm_steady [OF calm_sends(2)]] w' by blast
    moreover have "c_UserID (conn_of q w') = c_UserID (conn_of q (on_conn p ?f w1))"
      unfolding w' by (rule calm_user) simp
    moreover have "c_UserID (conn_of p w') = u"
      unfolding w' using calm_user [OF calm_sends(2), of p C p _ "on_conn p ?f w1"] by simp
    ultimately show ?thesis
      using req Inr calm_user [OF q, of q] by (auto simp: res_def split: option.splits if_splits)
  qed
qed

end

subsection \<open>Histories of the server\<close>

text \<open>
  What can happen to the server, in any order: a client connects, an authentication timer fires, a
  frame of a connection is handled, a stream ends. A panic ends the process; the model goes on from
  the state it left.
\<close>

datatype chat_event = Connect int | AuthTimeout nat | FrameIn nat frame | StreamEnd nat

primrec chat_step :: "'r chat_svc \<Rightarrow> chat_event \<Rightarrow> 'r chat_world \<Rightarrow> 'r chat_world" where
  "chat_step C (Connect nanos) = on_net (acceptLoop nanos)"
| "chat_step C (AuthTimeout p) = (\<lambda>w. on_net (auth_timer p) w)"
| "chat_step C (FrameIn p f) = (\<lambda>w. snd (handleMessage C p f w))"
| "chat_step C (StreamEnd p) = (\<lambda>w. snd (handleDisconnect C p (on_net (drop_conn p) w)))"

definition chat_inv :: "'r chat_world \<Rightarrow> bool" where
  "chat_inv w \<longleftrightarrow> db_wf (w_db w) \<and> server_wf (w_net w)"

lemma steady_inv: "steady p w w' \<Longrightarrow> chat_inv w \<Longrightarrow> chat_inv w'"
  using steady_server_wf by (auto simp: chat_inv_def steady_def wf_keep_def)

text \<open>The user that an authentication message may set, as the token validator tells it.\<close>

definition accepted_user :: "'r chat_svc \<Rightarrow> frame \<Rightarrow> 'r chat_world \<Rightarrow> string \<Rightarrow> bool" where
  "accepted_user C f w u \<longleftrightarrow>
     (\<exists>env req. proto_Unmarshal (cs_proto C) (f_Value f) = Some env \<and> e_Type env = MessageType_AUTH \<and>
        GetAuthRequest env = Some req \<and>
        (case cs_tokenValidator C of
           Some validate \<Rightarrow> fst (validate (ar_access_token req) w) = Inr u
         | None \<Rightarrow> u = ar_access_token req))"

context chat_env
begin

lemma handleMessage_effect:
  assumes "handleMessage C p f w = (res, w')"
  shows "steady p w w' \<and> (c_UserID (conn_of q w') \<noteq> c_UserID (conn_of q w) \<longrightarrow>
    q = p \<and> accepted_user C f w (c_UserID (conn_of p w')))"
proof (cases "proto_Unmarshal (cs_proto C) (f_Value f)")
  case None
  then show ?thesis using assms calm_steady [OF calm_refl] by (simp add: handleMessage_def)
next
  case (Some env)
  show ?thesis
  proof (cases "e_Type env = MessageType_AUTH")
    case True
    then have "w' = handleAuth C p env w" using assms Some by (simp add: handleMessage_def)
    from handleAuth_effect [OF this, of q] show ?thesis
      using Some True by (auto simp: accepted_user_def split: option.splits)
  next
    case False
    have "steady p w w' \<and> c_UserID (conn_of q w') = c_UserID (conn_of q w)"
      using assms Some False
        handleJoinRoom_effect [of p w env q] handleLeaveRoom_effect [of p w env q]
        calm_steady [OF handleSendMessage_calm, where p1 = p] calm_steady [OF handleInviteRoom_calm, where p1 = p]
        calm_user [OF handleSendMessage_calm] calm_user [OF handleInviteRoom_calm]
        calm_steady [OF calm_refl, of p w]
        calm_steady [OF handleHeartbeat_calm [of p w res w'], of p] calm_user [OF handleHeartbeat_calm [of p w res w'], of q]
      by (simp add: handleMessage_def split: if_splits) auto
    then show ?thesis by simp
  qed
qed

lemma chat_step_inv: "chat_inv w \<Longrightarrow> chat_inv (chat_step C ev w)"
proof (cases ev)
  case (FrameIn p f)
  assume "chat_inv w"
  obtain res w' where "handleMessage C p f w = (res, w')" by fastforce
  with handleMessage_effect [OF this] steady_inv \<open>chat_inv w\<close> show ?thesis by (auto simp: FrameIn)
next
  case (StreamEnd p)
  assume "chat_inv w"
  then have "chat_inv (on_net (drop_conn p) w)" by (simp add: chat_inv_def server_wf_drop)
  obtain res w' where d: "handleDisconnect C p (on_net (drop_conn p) w) = (res, w')" by fastforce
  from steady_inv [OF calm_steady [OF handleDisconnect_calm [OF d]] \<open>chat_inv (on_net (drop_conn p) w)\<close>]
  show ?thesis by (simp add: StreamEnd d)
qed (simp_all add: chat_inv_def server_wf_acceptLoop server_wf_auth_timer)

end

subsection \<open>The services wired in by the program\<close>

text \<open>The configuration of \<open>cmd/server/main.go\<close>; the validator only looks at the token.\<close>

definition wired_friends :: "proto_lib \<Rightarrow> uuid_lib \<Rightarrow> 'r redis_client \<Rightarrow> ('r, tcp_server) friends_svc" where
  "wired_friends P U R = \<lparr>fs_uuid = U, fs_rdb = Some R, fs_notifier = Some (ChatPresenceNotifier P)\<rparr>"

definition wired_chat :: "proto_lib \<Rightarrow> uuid_lib \<Rightarrow> 'r redis_client \<Rightarrow> (string \<Rightarrow> go_error + string) \<Rightarrow> 'r chat_svc" where
  "wired_chat P U R validate =
     \<lparr>cs_proto = P, cs_uuid = U,
      cs_blockChecker = Some (IsBlocked (wired_friends P U R)),
      cs_presenceSetter = Some \<lparr>ps_SetOnline = SetOnline (wired_friends P U R),
                                ps_SetOffline = SetOffline (wired_friends P U R)\<rparr>,
      cs_tokenValidator = Some (\<lambda>token w. (validate token, w))\<rparr>"

lemma IsBlocked_net: "IsBlocked F a b w = (res, w') \<Longrightarrow> w_net w' = w_net w"
  by (auto simp: IsBlocked_def on_db_eq on_redis_eq Let_def
      split: option.splits prod.splits sum.splits db_error.splits)

lemma quiet_IsBlocked: "quiet (IsBlocked F a b)"
  unfolding quiet_def
  using IsBlocked_net [OF prod.collapse [symmetric]] db_wf_same_tables [OF IsBlocked_tables [OF prod.collapse [symmetric]]]
  by (metis same_ids_refl)

lemma keeps_wf_ListFriends: "keeps db_wf (ListFriends_sql u)"
  by (simp add: keeps_def ListFriends_sql_def)

lemma ListFriends_net: "on_db q w = (x, w') \<Longrightarrow> w_net w' = w_net w"
  by (auto simp: on_db_eq)

lemma redis_net: "on_redis c w = (x, w') \<Longrightarrow> w_net w' = w_net w"
  by (auto simp: on_redis_eq)

lemma notifier_same:
  "same_ids s (n_NotifyOnline (ChatPresenceNotifier P) u n ids s)"
  "same_ids s (n_NotifyOffline (ChatPresenceNotifier P) u ids s)"
  by (simp_all add: ChatPresenceNotifier_def NotifyOnline_def NotifyOffline_def same_ids_fold)

lemma quiet_SetOnline: "quiet (SetOnline (wired_friends P U R) u n)"
proof -
  have "same_ids (w_net w) (w_net w') \<and> (db_wf (w_db w) \<longrightarrow> db_wf (w_db w'))"
    if "SetOnline (wired_friends P U R) u n w = (x, w')" for w w' x
    using that
    by (auto simp: SetOnline_def wired_friends_def Let_def notifier_same ListFriends_net redis_net
        split: outcome_splits dest: redis_step [where P = db_wf] keeps_wf_ListFriends [THEN keeps_step])
  then show ?thesis unfolding quiet_def by (metis prod.collapse)
qed

lemma quiet_SetOffline: "quiet (SetOffline (wired_friends P U R) u)"
proof -
  have "same_ids (w_net w) (w_net w') \<and> (db_wf (w_db w) \<longrightarrow> db_wf (w_db w'))"
    if "SetOffline (wired_friends P U R) u w = (x, w')" for w w' x
    using that
    by (auto simp: SetOffline_def wired_friends_def Let_def notifier_same ListFriends_net redis_net
        split: outcome_splits dest: redis_step [where P = db_wf])
       (fastforce dest: redis_step [where P = db_wf] keeps_wf_ListFriends [THEN keeps_step])+
  then show ?thesis unfolding quiet_def by (metis prod.collapse)
qed

lemma quiet_pure: "quiet (\<lambda>w. (x, w))"
  by (simp add: quiet_def)

interpretation wired: chat_env "wired_chat P U R validate"
  for P :: proto_lib and U :: uuid_lib and R :: "'r redis_client" and validate :: "string \<Rightarrow> go_error + string"
  by unfold_locales (auto simp: wired_chat_def quiet_IsBlocked quiet_SetOnline quiet_SetOffline quiet_pure)

interpretation wired_server: invariant_system "chat_step (wired_chat P U R validate)" chat_inv
  for P :: proto_lib and U :: uuid_lib and R :: "'r redis_client" and validate :: "string \<Rightarrow> go_error + string"
  by unfold_locales (rule wired.chat_step_inv)

end
