(* ===== verification/ChatProps.thy ===== *)
theory ChatProps
  imports ChatFacts
begin

text \<open>
  The properties of the chat service and its TCP server, with witnesses on sample states.
\<close>

subsection \<open>Delivery of a message\<close>

lemma block_loop_net:
  assumes "block_loop (IsBlocked F) u ms w = (b, w')"
  shows "w_net w' = w_net w"
  using assms
proof (induction ms arbitrary: w)
  case (Cons m ms)
  obtain res w1 where c: "IsBlocked F u m w = (res, w1)" by fastforce
  show ?case using Cons IsBlocked_net [OF c] c by (auto split: if_splits)
qed simp

lemma blocked_in_room_net: "blocked_in_room (wired_chat P U R V) u r w = (b, w') \<Longrightarrow> w_net w' = w_net w"
  using block_loop_net net_on_db
  by (fastforce simp: blocked_in_room_def wired_chat_def Let_def split: prod.splits)

lemma Broadcast_out:
  assumes "server_wf s"
  shows "c_out (t_heap (Broadcast r f x s) q) = c_out (t_heap s q) @
    (if q \<in> snd ` set (t_conns s) \<and> audience r x (t_heap s q) \<and> c_open (t_heap s q) then [EncodeFrame f] else [])"
proof -
  have "distinct (map snd (t_conns s))" using assms by (simp add: server_wf_def)
  then show ?thesis by (simp add: Broadcast_def broadcast_loop_heap Send_out)
qed

text \<open>The envelope of a delivered message.\<close>

definition delivery :: "uuid_lib \<Rightarrow> send_message_request \<Rightarrow> string \<Rightarrow> message_row \<Rightarrow> chat_envelope" where
  "delivery U req u msg = envelope MessageType_RECV_MSG (P_ReceiveMessage
     \<lparr>rm_room_id = smr_room_id req, rm_sender_id = u, rm_content = smr_content req, rm_type = smr_type req,
      rm_timestamp = Unix (ms_created_at msg), rm_message_id = uuid_String U (ms_id msg)\<rparr>)"

definition marshalled :: "proto_lib \<Rightarrow> chat_envelope \<Rightarrow> frame" where
  "marshalled P e = mk_frame (ucast (e_Type e)) (fst (proto_Marshal P e))"

lemma handleSendMessage_ok:
  assumes "c_UserID (conn_of p w) = u" "u \<noteq> ''''" "GetSendMessageRequest env = Some req"
    and "uuid_Parse (cs_uuid C) (smr_room_id req) = Some r" "IsInRoom (smr_room_id req) (conn_of p w)"
    and "blocked_in_room C u r w = (False, w1)"
    and "CreateChatMessage_sql r (parse_or_nil (cs_uuid C) u) (smr_content req) (smr_type req) (w_db w1) = (Inr msg, d)"
  shows "handleSendMessage C p env w = on_net (Broadcast (smr_room_id req)
     (marshalled (cs_proto C) (delivery (cs_uuid C) req u msg)) (c_ID (conn_of p w1))) (w1\<lparr>w_db := d\<rparr>)"
  using assms
  by (simp add: handleSendMessage_def on_db_def broadcastEnvelope_def marshalled_def delivery_def split_beta conn_of_def)

text \<open>
  C13. A message that passes the checks is saved and sent exactly once to every registered, open and
  authenticated connection that joined the room, except the sender's, and nothing else is sent.
\<close>

theorem message_delivered_once:
  assumes "server_wf (w_net w)" and "c_UserID (conn_of p w) = u" and "u \<noteq> ''''"
    and "GetSendMessageRequest env = Some req" and "uuid_Parse U (smr_room_id req) = Some r"
    and "IsInRoom (smr_room_id req) (conn_of p w)"
    and "blocked_in_room (wired_chat P U R validate) u r w = (False, w1)"
    and "CreateChatMessage_sql r (parse_or_nil U u) (smr_content req) (smr_type req) (w_db w1) = (Inr msg, d)"
    and "w' = handleSendMessage (wired_chat P U R validate) p env w"
  shows "w_db w' = d \<and> (\<forall>q. c_out (conn_of q w') = c_out (conn_of q w) @
    (if q \<in> snd ` set (t_conns (w_net w)) \<and> c_open (conn_of q w) \<and> c_UserID (conn_of q w) \<noteq> '''' \<and>
        smr_room_id req \<in> c_rooms (conn_of q w) \<and> c_ID (conn_of q w) \<noteq> c_ID (conn_of p w)
     then [EncodeFrame (marshalled P (delivery U req u msg))] else []))"
proof -
  have net: "w_net w1 = w_net w" using blocked_in_room_net [OF assms(7)] .
  have w': "w' = on_net (Broadcast (smr_room_id req) (marshalled P (delivery U req u msg))
      (c_ID (conn_of p w1))) (w1\<lparr>w_db := d\<rparr>)"
    using handleSendMessage_ok [OF assms(2-4) _ assms(6,7), of msg d] assms(5,8,9)
    by (simp add: wired_chat_def)
  show ?thesis
    using Broadcast_out [OF assms(1)]
    by (simp add: w' conn_of_def net audience_def IsInRoom_def)
qed

text \<open>A room with the members ann and bob, both connected and in the room.\<close>

definition chat_name :: "uuid \<Rightarrow> string" where
  "chat_name x = uuid_String ref_uuid x"

definition chat_net :: tcp_server where
  "chat_net = (NewTCPServer '':9091'' 30 90)\<lparr>
     t_heap := (\<lambda>q. \<lparr>c_ID = (if q = 0 then ''a'' else ''b''), c_UserID = chat_name (if q = 0 then 1 else 2),
                     c_Username = '''', c_rooms = {chat_name 7}, c_out = [], c_open = True\<rparr>),
     t_next := 2, t_conns := [(''a'', 0), (''b'', 1)]\<rparr>"

definition member_row_of :: "uuid \<Rightarrow> uuid \<Rightarrow> member_row" where
  "member_row_of i u = \<lparr>me_id = i, me_room_id = 7, me_user_id = u, me_role = ''member'', me_joined_at = 0\<rparr>"

definition chat_db :: db where
  "chat_db = sample_db\<lparr>
     chat_rooms := [\<lparr>ro_id = 7, ro_type = ''group'', ro_name = None, ro_metadata = None, ro_created_at = 0\<rparr>],
     chat_room_members := [member_row_of 21 1, member_row_of 22 2]\<rparr>"

definition chat_world :: "keyspace chat_world" where
  "chat_world = \<lparr>w_db = chat_db, w_redis = Map.empty, w_net = chat_net\<rparr>"

definition sample_proto :: proto_lib where
  "sample_proto = \<lparr>proto_Marshal = (\<lambda>e. ([ucast (e_Type e)], False)),
     proto_Unmarshal = (\<lambda>b. if b = [1] then Some (envelope MessageType_AUTH (P_AuthRequest \<lparr>ar_access_token = ''t'', ar_username = ''''\<rparr>))
       else if b = [2] then Some (envelope MessageType_JOIN_ROOM (P_JoinRoomRequest (chat_name 7)))
       else Some (envelope MessageType_SEND_MSG
         (P_SendMessageRequest \<lparr>smr_room_id = chat_name 7, smr_content = ''hi'', smr_type = ''text''\<rparr>)))\<rparr>"

abbreviation sample_chat :: "keyspace chat_svc" where
  "sample_chat \<equiv> wired_chat sample_proto ref_uuid ref_redis (\<lambda>t. Inr (chat_name 1))"

lemma chat_db_simps [simp]:
  "no_faults chat_db" "user_ids chat_db = {1, 2, 3}" "db_env chat_db = sample_env" "db_calls chat_db = 0"
  "chat_room_members chat_db = [member_row_of 21 1, member_row_of 22 2]"
  "block_relations chat_db = []" "chat_messages chat_db = []" "ro_id ` set (chat_rooms chat_db) = {7}"
  by (simp_all add: chat_db_def no_faults_def user_ids_def sample_defs)

lemma chat_net_simps [simp]:
  "server_wf chat_net" "t_conns chat_net = [(''a'', 0), (''b'', 1)]"
  "c_UserID (t_heap chat_net q) = chat_name (if q = 0 then 1 else 2)" "c_rooms (t_heap chat_net q) = {chat_name 7}"
  "c_open (t_heap chat_net q)" "c_out (t_heap chat_net q) = []" "c_ID (t_heap chat_net q) = (if q = 0 then ''a'' else ''b'')"
  by (simp_all add: chat_net_def server_wf_def NewTCPServer_def)

lemma chat_name_simps [simp]: "chat_name x \<noteq> []" "uuid_Parse ref_uuid (chat_name x) = Some x"
  "chat_name x = chat_name y \<longleftrightarrow> x = y"
  by (simp_all add: chat_name_def uuid_ref.string_nonempty uuid_ref.parse_string uuid_ref.string_inject)

lemma chat_world_simps [simp]: "w_db chat_world = chat_db" "w_redis chat_world = Map.empty" "w_net chat_world = chat_net"
  by (simp_all add: chat_world_def)

subsection \<open>Who is refused because of a block\<close>

lemma GetRoomMembers_nf: "no_faults d \<Longrightarrow>
    GetRoomMembers_sql r d = (Inr (filter (\<lambda>m. me_room_id m = r) (chat_room_members d)), tick d)"
  by (simp add: GetRoomMembers_sql_def select_nf)

lemma block_loop_answer:
  assumes F: "friends_cached R K U F" and "cache_coherent U K w" and "no_faults (w_db w)"
    and "block_loop (IsBlocked F) (uuid_String U a) (map (uuid_String U) bs) w = (b, w')"
  shows "b \<longleftrightarrow> (\<exists>m \<in> set bs. m \<noteq> a \<and> db_blocks (w_db w) a m)"
  using assms(2-4)
proof (induction bs arbitrary: w)
  case (Cons m ms)
  obtain w1 where c: "IsBlocked F (uuid_String U a) (uuid_String U m) w = (Inr (db_blocks (w_db w) a m), w1)"
    and same: "same_tables (w_db w) (w_db w1)"
    using friends_cached.IsBlocked_answers [OF F Cons.prems(1,2)] .
  have coh: "cache_coherent U K w1"
    using friends_cached.IsBlocked_keeps [OF F c] cache_coherent_cong [OF same] Cons.prems(1) by simp
  have nf: "no_faults (w_db w1)" using no_faults_tables [OF same Cons.prems(2)] .
  show ?case
    using Cons.IH [OF Cons.prems(1,2)] Cons.IH [OF coh nf] Cons.prems(3) c db_blocks_same [OF same]
      uuid_pkg.string_inject [OF friends_cached.axioms(2) [OF F]]
    by (auto split: if_splits)
qed simp

interpretation friends_wired: friends_cached ref_redis "\<lambda>r. r" ref_uuid "wired_friends P ref_uuid ref_redis"
  for P :: proto_lib
  by unfold_locales (simp_all add: wired_friends_def)

text \<open>
  The check of \<open>SEND_MSG\<close> refuses a sender exactly if the sender has blocked another member of
  the room; that a member has blocked the sender does not matter. The code calls
  \<open>IsBlocked(sender, member)\<close>, which asks whether its first argument has blocked the second.
\<close>

theorem send_refused_iff_sender_blocks:
  assumes "friends_cached R K U (wired_friends P U R)" and "cache_coherent U K w" and "no_faults (w_db w)"
  shows "fst (blocked_in_room (wired_chat P U R validate) (uuid_String U a) r w) \<longleftrightarrow>
    (\<exists>m \<in> set (chat_room_members (w_db w)). me_room_id m = r \<and> me_user_id m \<noteq> a \<and> db_blocks (w_db w) a (me_user_id m))"
proof -
  let ?ms = "map me_user_id (filter (\<lambda>m. me_room_id m = r) (chat_room_members (w_db w)))"
  let ?w = "w\<lparr>w_db := tick (w_db w)\<rparr>"
  have coh: "cache_coherent U K ?w" using assms(2) cache_coherent_cong [of w ?w K U] by simp
  have nf: "no_faults (w_db ?w)" using assms(3) by simp
  have "fst (block_loop (IsBlocked (wired_friends P U R)) (uuid_String U a) (map (uuid_String U) ?ms) ?w) \<longleftrightarrow>
      (\<exists>m \<in> set ?ms. m \<noteq> a \<and> db_blocks (w_db ?w) a m)"
    by (rule block_loop_answer [OF assms(1) coh nf prod.collapse [symmetric]])
  then show ?thesis
    by (simp add: blocked_in_room_def wired_chat_def on_db_def GetRoomMembers_nf [OF assms(3)] comp_def) auto
qed

definition bob_blocks_ann :: block_row where
  "bob_blocks_ann = \<lparr>bl_id = 60, bl_blocker_id = 2, bl_blocked_id = 1, bl_reason = None, bl_created_at = 0\<rparr>"

text \<open>Bob has blocked ann, in the table and in the cache.\<close>

definition blocked_world :: "keyspace chat_world" where
  "blocked_world = chat_world\<lparr>w_db := chat_db\<lparr>block_relations := [bob_blocks_ann]\<rparr>,
     w_redis := [blocked_key (chat_name 2) \<mapsto> RSet {chat_name 1}]\<rparr>"

lemma blocked_world_coherent: "cache_coherent ref_uuid (\<lambda>r. r) blocked_world"
  by (auto simp: cache_coherent_def holds_set_def blocked_world_def db_blocks_def bob_blocks_ann_def blocks_def
      chat_name_def uuid_ref.string_inject)

theorem send_refused_iff_sender_blocks_witness:
  "db_blocks (w_db blocked_world) 2 1 \<and> \<not> fst (blocked_in_room sample_chat (uuid_String ref_uuid 1) 7 blocked_world)"
proof -
  have "no_faults (w_db blocked_world)" by (simp add: blocked_world_def no_faults_def sample_env_def)
  from send_refused_iff_sender_blocks [OF friends_wired.friends_cached_axioms blocked_world_coherent this]
  show ?thesis
    by (auto simp: blocked_world_def db_blocks_def blocks_def bob_blocks_ann_def member_row_of_def)
qed

subsection \<open>Authentication\<close>

text \<open>
  The user of a connection changes only while an authentication message of that connection is
  handled, and then to the user that the token validator returned for the message's token.
\<close>

theorem user_only_from_validator:
  assumes "handleMessage (wired_chat P U R validate) p f w = (res, w')"
    and "c_UserID (conn_of q w') \<noteq> c_UserID (conn_of q w)"
  shows "q = p \<and> (\<exists>env req. proto_Unmarshal P (f_Value f) = Some env \<and> e_Type env = MessageType_AUTH \<and>
     GetAuthRequest env = Some req \<and> validate (ar_access_token req) = Inr (c_UserID (conn_of p w')))"
  using wired.handleMessage_effect [OF assms(1), of q] assms(2)
  by (simp add: accepted_user_def wired_chat_def)

definition fresh_world :: "keyspace chat_world" where
  "fresh_world = chat_world\<lparr>w_net := NewTCPServer '':9091'' 30 90\<rparr>"

lemma fresh_world_user: "c_UserID (conn_of q fresh_world) = ''''"
  by (simp add: fresh_world_def conn_of_def NewTCPServer_def new_connection_def)

theorem user_only_from_validator_witness:
  "\<exists>res w' env req. handleMessage sample_chat 0 (mk_frame 1 [1]) fresh_world = (res, w') \<and>
     c_UserID (conn_of 0 w') = chat_name 1 \<and>
     proto_Unmarshal sample_proto [1] = Some env \<and> GetAuthRequest env = Some req"
proof -
  obtain res w' where h: "handleMessage sample_chat 0 (mk_frame 1 [1]) fresh_world = (res, w')" by fastforce
  then have u: "c_UserID (conn_of 0 w') = chat_name 1"
    by (auto simp: handleMessage_def wired_chat_def sample_proto_def go_defs handleAuth_def Let_def)
  then have "c_UserID (conn_of 0 w') \<noteq> c_UserID (conn_of 0 fresh_world)" by (simp add: fresh_world_user)
  from user_only_from_validator [OF h this] obtain env req where
    "proto_Unmarshal sample_proto (f_Value (mk_frame 1 [1])) = Some env" "GetAuthRequest env = Some req" by blast
  with h u show ?thesis by (auto simp: mk_frame_def)
qed

text \<open>
  C18. On a connection without a user, the room and message commands do nothing but send one
  \<open>UNAUTHORIZED\<close> error to that connection.
\<close>

theorem commands_need_authentication:
  assumes "proto_Unmarshal (cs_proto C) (f_Value f) = Some env"
    and "e_Type env \<in> {MessageType_JOIN_ROOM, MessageType_LEAVE_ROOM, MessageType_SEND_MSG, MessageType_INVITE_ROOM}"
    and "c_UserID (conn_of p w) = ''''"
  shows "handleMessage C p f w = (Returns (),
    on_conn p (Send (marshalled (cs_proto C) (envelope MessageType_ERROR (P_Error ''UNAUTHORIZED'' ''not authenticated'')))) w)"
  using assms
  by (auto simp: handleMessage_def handleJoinRoom_def handleLeaveRoom_def handleSendMessage_def handleInviteRoom_def
      sendError_def sendEnvelope_def marshalled_def split_beta Let_def go_defs)

theorem commands_need_authentication_witness:
  "handleMessage sample_chat 5 (mk_frame 256 [2]) fresh_world = (Returns (),
    on_conn 5 (Send (marshalled sample_proto (envelope MessageType_ERROR (P_Error ''UNAUTHORIZED'' ''not authenticated''))))
      fresh_world)"
  using commands_need_authentication [of sample_chat "mk_frame 256 [2]"
      "envelope MessageType_JOIN_ROOM (P_JoinRoomRequest (chat_name 7))" 5 fresh_world]
  by (simp add: wired_chat_def sample_proto_def go_defs fresh_world_user)

lemma sample_unblocked: "blocked_in_room sample_chat (chat_name 1) 7 chat_world = (False, chat_world\<lparr>w_db := tick chat_db\<rparr>)"
proof -
  have "IsBlocked (wired_friends P ref_uuid ref_redis) u m w = (Inr False, w)"
    if "w_redis w = Map.empty" for P u m and w :: "keyspace chat_world"
    using that by (cases w) (simp add: IsBlocked_def wired_friends_def ref_redis_def on_redis_def)
  then show ?thesis
    by (simp add: blocked_in_room_def wired_chat_def on_db_def GetRoomMembers_nf member_row_of_def chat_name_def
        uuid_ref.string_inject)
qed

lemma sample_message: "\<exists>msg d. CreateChatMessage_sql 7 1 ''hi'' ''text'' (chat_db\<lparr>db_calls := Suc 0\<rparr>) = (Inr msg, d)"
  by (simp add: CreateChatMessage_sql_def stmt_nf Let_def user_ids_frame varchar_ok_def char_count_def)

theorem message_delivered_once_witness:
  "\<exists>msg. c_out (conn_of 1 (handleSendMessage sample_chat 0
        (envelope MessageType_SEND_MSG (P_SendMessageRequest \<lparr>smr_room_id = chat_name 7, smr_content = ''hi'', smr_type = ''text''\<rparr>))
        chat_world)) =
     [EncodeFrame (marshalled sample_proto
        (delivery ref_uuid \<lparr>smr_room_id = chat_name 7, smr_content = ''hi'', smr_type = ''text''\<rparr> (chat_name 1) msg))]"
proof -
  obtain msg d where c: "CreateChatMessage_sql 7 1 ''hi'' ''text'' (chat_db\<lparr>db_calls := Suc 0\<rparr>) = (Inr msg, d)"
    using sample_message by blast
  let ?req = "\<lparr>smr_room_id = chat_name 7, smr_content = ''hi'', smr_type = ''text''\<rparr>"
  have "\<forall>q. c_out (conn_of q (handleSendMessage sample_chat 0 (envelope MessageType_SEND_MSG (P_SendMessageRequest ?req)) chat_world)) =
     c_out (conn_of q chat_world) @
      (if q \<in> snd ` set (t_conns (w_net chat_world)) \<and> c_open (conn_of q chat_world) \<and> c_UserID (conn_of q chat_world) \<noteq> '''' \<and>
        smr_room_id ?req \<in> c_rooms (conn_of q chat_world) \<and> c_ID (conn_of q chat_world) \<noteq> c_ID (conn_of 0 chat_world)
     then [EncodeFrame (marshalled sample_proto (delivery ref_uuid ?req (chat_name 1) msg))] else [])"
    by (rule message_delivered_once [where r = 7 and d = d and R = ref_redis
          and ?w1.0 = "chat_world\<lparr>w_db := tick chat_db\<rparr>", THEN conjunct2])
       (simp_all add: conn_of_def IsInRoom_def sample_unblocked c go_defs)
  then show ?thesis by (auto simp: conn_of_def)
qed

subsection \<open>Rooms after a reconnection\<close>

lemma AddRoomMember_again:
  assumes "m \<in> set (chat_room_members d)" and "member_of r u m"
  shows "\<exists>e. AddRoomMember_sql r u role d = (Inl e, tick d)"
proof -
  have "\<exists>m \<in> set (chat_room_members (tick d)). member_of r u m" using assms by auto
  then show ?thesis
    unfolding AddRoomMember_sql_def stmt_def by (simp only: Let_def if_True simp_thms) (auto split: stmt_fault.split)
qed

text \<open>
  A user who is a member of a room and has reconnected cannot talk in it: joining again fails
  because the row of the membership exists, so the connection is not put into the room, and a
  message is then refused. No message is saved by the two commands.
\<close>

theorem reconnected_member_locked_out:
  assumes "c_UserID (conn_of p w) \<noteq> ''''" and "room \<notin> c_rooms (conn_of p w)"
    and "m \<in> set (chat_room_members (w_db w))"
    and "member_of (parse_or_nil (cs_uuid C) room) (parse_or_nil (cs_uuid C) (c_UserID (conn_of p w))) m"
    and "GetJoinRoomRequest join = Some room" and "GetSendMessageRequest say = Some req" and "smr_room_id req = room"
  shows "chat_messages (w_db (handleSendMessage C p say (handleJoinRoom C p join w))) = chat_messages (w_db w) \<and>
    room \<notin> c_rooms (conn_of p (handleSendMessage C p say (handleJoinRoom C p join w)))"
proof -
  obtain e where "AddRoomMember_sql (parse_or_nil (cs_uuid C) room) (parse_or_nil (cs_uuid C) (c_UserID (conn_of p w)))
      ''member'' (w_db w) = (Inl e, tick (w_db w))"
    using AddRoomMember_again [OF assms(3,4)] by blast
  then have join: "handleJoinRoom C p join w =
      sendError C p ''INTERNAL_ERROR'' ''failed to join room'' (w\<lparr>w_db := tick (w_db w)\<rparr>)"
    using assms(1,5) by (simp add: handleJoinRoom_def on_db_def)
  have rooms: "c_rooms (conn_of p (sendError C p a b v)) = c_rooms (conn_of p v)" for a b and v :: "'a chat_world"
    by (rule calm_rooms) simp
  have keep: "c_rooms (conn_of p (w\<lparr>w_db := tick (w_db w)\<rparr>)) = c_rooms (conn_of p w)"
    "c_UserID (conn_of p (w\<lparr>w_db := tick (w_db w)\<rparr>)) = c_UserID (conn_of p w)"
    by (simp_all add: conn_of_def)
  have "\<exists>a b. handleSendMessage C p say (handleJoinRoom C p join w) = sendError C p a b (handleJoinRoom C p join w)"
    using assms(1,2,6,7) unfolding join
    by (auto simp: handleSendMessage_def IsInRoom_def rooms keep Let_def split: option.split)
  then show ?thesis using assms(2) by (auto simp: join rooms keep)
qed

theorem reconnected_member_locked_out_witness:
  "chat_messages (w_db (handleSendMessage sample_chat 5
      (envelope MessageType_SEND_MSG (P_SendMessageRequest \<lparr>smr_room_id = chat_name 7, smr_content = ''hi'', smr_type = ''text''\<rparr>))
      (handleJoinRoom sample_chat 5 (envelope MessageType_JOIN_ROOM (P_JoinRoomRequest (chat_name 7)))
         (on_conn 5 (\<lambda>c. c\<lparr>c_UserID := chat_name 2, c_rooms := {}\<rparr>) chat_world)))) = []"
proof -
  let ?w = "on_conn 5 (\<lambda>c. c\<lparr>c_UserID := chat_name 2, c_rooms := {}\<rparr>) chat_world"
  have "chat_messages (w_db (handleSendMessage sample_chat 5
      (envelope MessageType_SEND_MSG (P_SendMessageRequest \<lparr>smr_room_id = chat_name 7, smr_content = ''hi'', smr_type = ''text''\<rparr>))
      (handleJoinRoom sample_chat 5 (envelope MessageType_JOIN_ROOM (P_JoinRoomRequest (chat_name 7))) ?w))) =
      chat_messages (w_db ?w)"
    by (rule reconnected_member_locked_out [where m = "member_row_of 22 2" and room = "chat_name 7"
          and req = "\<lparr>smr_room_id = chat_name 7, smr_content = ''hi'', smr_type = ''text''\<rparr>", THEN conjunct1])
       (simp_all add: wired_chat_def go_defs member_of_def member_row_of_def)
  then show ?thesis by simp
qed

subsection \<open>Histories\<close>

text \<open>
  Through any history of connections, timers, frames and ends of streams, in any interleaving,
  the program as wired keeps the integrity of the database and the consistency of the registry:
  distinct identifiers and pointers, each registered under its own identifier.
\<close>

theorem server_histories_keep_invariant:
  assumes "db_wf (w_db w)" and "server_wf (w_net w)"
  shows "db_wf (w_db (fold (chat_step (wired_chat P U R validate)) events w)) \<and>
    server_wf (w_net (fold (chat_step (wired_chat P U R validate)) events w))"
  using wired_server.inv_run [of w P U R validate events] assms by (simp add: chat_inv_def)

theorem server_histories_keep_invariant_witness:
  "server_wf (w_net (fold (chat_step sample_chat) [Connect 1, Connect 1, FrameIn 0 (mk_frame 1 [1]), StreamEnd 1]
     (sample_world (NewTCPServer '':9091'' 30 90))))"
  by (rule server_histories_keep_invariant [THEN conjunct2]) (simp_all add: sample_wf server_wf_New)

text \<open>
  \<open>readLoop\<close> on the encodings of frames of at most 1 MB handles exactly these frames, in order,
  then drops the connection: its identifier is no longer registered, and its socket is closed.
\<close>

theorem readLoop_handles_all:
  assumes "list_all (\<lambda>f. length (f_Value f) \<le> 2 ^ 20) fs"
    and "handle_frames (wired_chat P U R validate) p (map fix_length fs) w = (Returns (), w1)"
    and "readLoop (wired_chat P U R validate) p (concat (map EncodeFrame fs)) w = (res, w')"
  shows "(res, w') = handleDisconnect (wired_chat P U R validate) p (on_net (drop_conn p) w1) \<and>
    c_ID (conn_of p w1) \<notin> fst ` set (t_conns (w_net w')) \<and> \<not> c_open (conn_of p w')"
proof -
  have "list_all wire_frame (map fix_length fs)" using assms(1) by (simp add: list_all_iff wire_fix_length)
  from read_frames_stream [OF this, of "[]"]
  have "fst (read_frames (concat (map EncodeFrame fs))) = map fix_length fs"
    by (simp add: comp_def read_frames_Nil)
  then have d: "handleDisconnect (wired_chat P U R validate) p (on_net (drop_conn p) w1) = (res, w')"
    using assms(2,3) by (simp add: readLoop_def split_beta prod_eq_iff)
  let ?s = "drop_conn p (w_net w1)"
  have same: "same_ids ?s (w_net w')"
    using wired.handleDisconnect_calm [OF d] by (simp add: calm_def)
  have "\<not> c_open (t_heap ?s p)" by (simp add: drop_conn_def close_conn_def Let_def)
  then show ?thesis
    using same d drop_conn_gone [OF refl, of "w_net w1" p] by (simp add: same_ids_def conn_of_def)
qed

theorem readLoop_handles_all_witness:
  "\<exists>res w'. readLoop sample_chat 0 (concat (map EncodeFrame [])) fresh_world = (res, w') \<and> \<not> c_open (conn_of 0 w')"
proof -
  obtain res w' where r: "readLoop sample_chat 0 (concat (map EncodeFrame [])) fresh_world = (res, w')" by fastforce
  have "handle_frames sample_chat 0 (map fix_length []) fresh_world = (Returns (), fresh_world)" by simp
  from readLoop_handles_all [OF _ this r] have "\<not> c_open (conn_of 0 w')" by simp
  with r show ?thesis by blast
qed

text \<open>
  An invitation leaves the server only if the inviter is in the room's table of members, and
  only to a connection of the invited user; otherwise the inviter gets an error and no other
  connection is written to.
\<close>

theorem invite_reaches_target_only:
  assumes "c_UserID (conn_of p w) \<noteq> ''''" and "GetInviteRoomRequest env = Some (room, target)"
    and "q \<noteq> p" and "c_out (conn_of q (handleInviteRoom C p env w)) \<noteq> c_out (conn_of q w)"
  shows "c_UserID (conn_of q w) = target \<and> q \<in> snd ` set (t_conns (w_net w)) \<and>
    (\<exists>r. uuid_Parse (cs_uuid C) room = Some r \<and>
      (\<exists>m \<in> set (chat_room_members (w_db w)). me_room_id m = r \<and> uuid_String (cs_uuid C) (me_user_id m) = c_UserID (conn_of p w)))"
proof -
  have quiet: "conn_of q (sendError C p a b v) = conn_of q v" for a b and v :: "'a chat_world"
    using assms(3) by (simp add: conn_of_def sendError_others)
  obtain r where r: "uuid_Parse (cs_uuid C) room = Some r"
    using assms(1,2,4) by (cases "uuid_Parse (cs_uuid C) room") (auto simp: handleInviteRoom_def quiet)
  obtain res w1 where g: "on_db (GetRoomMembers_sql r) w = (res, w1)" by fastforce
  have w1: "w_net w1 = w_net w" using net_on_db [OF g] .
  have same: "conn_of x w1 = conn_of x w" for x by (simp add: conn_of_def w1)
  obtain ms where ms: "res = Inr ms"
    using assms(1,2,4) r g by (cases res) (auto simp: handleInviteRoom_def quiet same)
  have "GetRoomMembers_sql r (w_db w) = (Inr ms, w_db w1)" using g ms by (auto simp: on_db_eq)
  then have rows: "ms = filter (\<lambda>m. me_room_id m = r) (chat_room_members (w_db w))"
    unfolding GetRoomMembers_sql_def by (auto dest: select_Inr)
  have mem: "list_ex (\<lambda>m. uuid_String (cs_uuid C) (me_user_id m) = c_UserID (conn_of p w)) ms"
    using assms(1,2,4) r g ms by (auto simp: handleInviteRoom_def quiet same Let_def split: if_splits)
  let ?e = "envelope MessageType_INVITE_ROOM (P_InviteRoomNotify room (c_UserID (conn_of p w)) (c_Username (conn_of p w1)))"
  have out: "conn_of q (handleInviteRoom C p env w) = t_heap (SendToUser (cs_proto C) target ?e (w_net w)) q"
    using assms(1,2) r g ms mem by (simp add: handleInviteRoom_def conn_of_def w1)
  then have changed: "t_heap (SendToUser (cs_proto C) target ?e (w_net w)) q \<noteq> t_heap (w_net w) q"
    using assms(4) by (auto simp: conn_of_def)
  have user: "c_UserID (conn_of q w) = target"
    using SendToUser_others [of "w_net w" q target "cs_proto C" ?e] changed by (auto simp: conn_of_def)
  have "q \<in> snd ` set (t_conns (w_net w))"
    using SendToUser_cases [of "cs_proto C" target ?e "w_net w"] changed GetConnection_Some
    by (auto split: if_splits)
  moreover have "\<exists>m \<in> set (chat_room_members (w_db w)). me_room_id m = r \<and>
      uuid_String (cs_uuid C) (me_user_id m) = c_UserID (conn_of p w)"
    using mem rows by (auto simp: list_ex_iff)
  ultimately show ?thesis using user r by blast
qed

theorem invite_reaches_target_only_witness:
  "c_out (conn_of 1 (handleInviteRoom sample_chat 0
      (envelope MessageType_INVITE_ROOM (P_InviteRoomRequest (chat_name 7) (chat_name 2))) chat_world)) \<noteq> [] \<and>
   c_UserID (conn_of 1 chat_world) = chat_name 2"
proof -
  let ?env = "envelope MessageType_INVITE_ROOM (P_InviteRoomRequest (chat_name 7) (chat_name 2))"
  have out: "c_out (conn_of 1 (handleInviteRoom sample_chat 0 ?env chat_world)) \<noteq> c_out (conn_of 1 chat_world)"
    by (simp add: handleInviteRoom_def go_defs wired_chat_def on_db_def GetRoomMembers_nf member_row_of_def
        chat_name_def [symmetric] conn_of_def SendToUser_def GetConnection_def sample_proto_def Send_out Let_def)
  have "c_UserID (conn_of 1 chat_world) = chat_name 2"
    by (rule invite_reaches_target_only [where C = sample_chat and p = 0 and env = ?env and room = "chat_name 7", THEN conjunct1])
       (use out in \<open>simp_all add: conn_of_def go_defs\<close>)
  with out show ?thesis by (simp add: conn_of_def)
qed

end
