(* ===== verification/SocialProps.thy ===== *)
theory SocialProps
  imports SocialHttp ChatProps
begin

text \<open>Properties of the HTTP handlers of the friends and chat modules.\<close>

lemma GetChatMessages_Inr:
  assumes "GetChatMessages_sql r l ofs d = (Inr ms, d')"
  shows "0 \<le> l \<and> 0 \<le> ofs \<and> ms = page l ofs (order_desc ms_created_at (filter (\<lambda>m. ms_room_id m = r) (chat_messages d)))"
  using assms unfolding GetChatMessages_sql_def by (auto dest!: select_Inr split: if_splits)

lemma GetRoomMembers_Inr:
  "GetRoomMembers_sql r d = (Inr ms, d') \<Longrightarrow> ms = filter (\<lambda>m. me_room_id m = r) (chat_room_members d)"
  unfolding GetRoomMembers_sql_def by (auto dest: select_Inr)

lemma GetRoomMembers_same: "GetRoomMembers_sql r d = (res, d') \<Longrightarrow> same_tables d d'"
  unfolding GetRoomMembers_sql_def by (rule same_tables_select_eq)

lemma sorted_page: "sorted (map f xs) \<Longrightarrow> sorted (map f (page l ofs xs))"
  by (simp add: page_def sorted_wrt_take sorted_wrt_drop take_map [symmetric] drop_map [symmetric])

text \<open>
  C37. The history of a room is served only to its members: a response with status 200 has at most
  200 messages, all of that room, newest first, and the caller is in the table of members.
\<close>

theorem messages_for_members_only:
  assumes "getMessages_h U rq h w = (resp, w')" and "rs_status resp = 200"
  shows "\<exists>r ms. uuid_Parse U (rq_param rq ''roomID'') = Some r \<and> rs_body resp = JsonBody (D_Messages ms) \<and>
    (\<exists>m \<in> set (chat_room_members (w_db w)). me_room_id m = r \<and> uuid_String U (me_user_id m) = UserIDFromContext rq) \<and>
    set ms \<subseteq> {m \<in> set (chat_messages (w_db w)). ms_room_id m = r} \<and>
    int (length ms) \<le> 200 \<and> sorted (map (\<lambda>m. - ms_created_at m) ms)"
proof -
  have u: "UserIDFromContext rq \<noteq> ''''"
    using assms by (auto simp: getMessages_h_def http_Error_def)
  obtain r where r: "uuid_Parse U (rq_param rq ''roomID'') = Some r"
    using assms u by (cases "uuid_Parse U (rq_param rq ''roomID'')") (auto simp: getMessages_h_def http_Error_def)
  obtain res w1 where g: "on_db (GetRoomMembers_sql r) w = (res, w1)" by fastforce
  obtain members where res: "res = Inr members"
    using assms u r g by (cases res) (auto simp: getMessages_h_def http_Error_def)
  have mem: "list_ex (\<lambda>m. uuid_String U (me_user_id m) = UserIDFromContext rq) members"
    using assms u r g res by (auto simp: getMessages_h_def http_Error_def Let_def split: if_splits)
  let ?l = "messages_limit (rq_query rq ''limit'')" and ?o = "messages_offset (rq_query rq ''offset'')"
  obtain res2 w2 where q: "on_db (GetChatMessages_sql r ?l ?o) w1 = (res2, w2)" by fastforce
  obtain ms where ms: "res2 = Inr ms"
    using assms u r g res mem q by (cases res2) (auto simp: getMessages_h_def http_Error_def)
  have body: "rs_body resp = JsonBody (D_Messages ms)"
    using assms u r g res mem q ms by (auto simp: getMessages_h_def encode_json_def)
  have q1: "GetRoomMembers_sql r (w_db w) = (Inr members, w_db w1)" using g res by (auto simp: on_db_eq)
  have q2: "GetChatMessages_sql r ?l ?o (w_db w1) = (Inr ms, w_db w2)" using q ms by (auto simp: on_db_eq)
  have msgs: "chat_messages (w_db w1) = chat_messages (w_db w)"
    using GetRoomMembers_same [OF q1] by (simp add: same_tables_iff)
  let ?all = "order_desc ms_created_at (filter (\<lambda>m. ms_room_id m = r) (chat_messages (w_db w)))"
  have rows: "ms = page ?l ?o ?all" using GetChatMessages_Inr [OF q2] msgs by simp
  have "set ms \<subseteq> {m \<in> set (chat_messages (w_db w)). ms_room_id m = r}"
    using set_page [of ?l ?o ?all] rows by auto
  moreover have "int (length ms) \<le> 200"
    using length_page [of ?l ?o ?all] messages_limit_bounds [of "rq_query rq ''limit''"] rows by simp
  moreover have "sorted (map (\<lambda>m. - ms_created_at m) ms)"
    unfolding rows by (rule sorted_page [OF sorted_order_desc])
  moreover have "\<exists>m \<in> set (chat_room_members (w_db w)). me_room_id m = r \<and> uuid_String U (me_user_id m) = UserIDFromContext rq"
    using mem GetRoomMembers_Inr [OF q1] by (auto simp: list_ex_iff)
  ultimately show ?thesis using r body by blast
qed

definition sample_request :: "uuid \<Rightarrow> request" where
  "sample_request u = \<lparr>rq_header = (\<lambda>_. ''''), rq_query = (\<lambda>_. ''''),
     rq_param = (\<lambda>k. if k = ''roomID'' then chat_name 7 else ''''), rq_remote = ''1.2.3.4:5'',
     rq_user = Some (chat_name u), rq_session = None, rq_role = None\<rparr>"

theorem messages_for_members_only_witness:
  "\<exists>resp w' ms. getMessages_h ref_uuid (sample_request 1) Map.empty chat_world = (resp, w') \<and>
     rs_body resp = JsonBody (D_Messages ms) \<and> length ms \<le> 200"
proof -
  obtain resp w' where h: "getMessages_h ref_uuid (sample_request 1) Map.empty chat_world = (resp, w')" by fastforce
  have "rs_status resp = 200"
    using h by (auto simp: getMessages_h_def UserIDFromContext_def sample_request_def null_string_def on_db_def
        GetRoomMembers_nf member_row_of_def chat_name_def [symmetric] GetChatMessages_sql_def select_nf
        messages_limit_def messages_offset_def parse_int_def parse_uint_def encode_json_def Let_def)
  from messages_for_members_only [OF h this] h show ?thesis by auto
qed

end
