(* ===== verification/Session.thy ===== *)
theory Session
  imports Samples
begin

text \<open>
  \<open>internal/auth/session.go\<close>: sessions as JSON texts in Redis under \<open>session:<id>\<close>. The JSON text is
  the one \<open>encoding/json\<close> writes for the struct \<open>Session\<close>; the reader accepts what that writer
  writes, which is all that \<open>Create\<close> puts under these keys. The store is an interface of its own,
  \<open>session_store\<close>, which the authentication service rests on.
\<close>

subsection \<open>The JSON text of a session\<close>

record session =
  ss_ID :: string
  ss_UserID :: string
  ss_RefreshTokenHash :: string
  ss_CreatedAt :: int

text \<open>The names of the fields, from the tags of the struct.\<close>

definition id_label :: string where "id_label = ''{\"id\":''"
definition user_label :: string where "user_label = '',\"user_id\":''"
definition hash_label :: string where "hash_label = '',\"refresh_token_hash\":''"
definition created_label :: string where "created_label = '',\"created_at\":''"

definition session_Marshal :: "session \<Rightarrow> string" where
  "session_Marshal s =
     id_label @ json_string (ss_ID s) @ user_label @ json_string (ss_UserID s)
     @ hash_label @ json_string (ss_RefreshTokenHash s)
     @ created_label @ dec_int (ss_CreatedAt s) @ ''}''"

text \<open>The rest of a string after its opening quote, and what follows the closing quote.\<close>

definition unescape_hex :: "char \<Rightarrow> char \<Rightarrow> char \<Rightarrow> char \<Rightarrow> char option" where
  "unescape_hex a b c d =
     (case hex_parse 0 [a, b, c, d] of
        None \<Rightarrow> None
      | Some n \<Rightarrow> if n < 128 then Some (char_of n) else None)"

fun json_rest :: "string \<Rightarrow> (string \<times> string) option" where
  "json_rest [] = None"
| "json_rest (c # cs) =
     (if c = CHR 0x22 then Some ([], cs)
      else if c = CHR 0x5C then
        (case cs of
           [] \<Rightarrow> None
         | e # es \<Rightarrow>
             if e = CHR ''u'' then
               (case es of
                  h1 # h2 # h3 # h4 # hs \<Rightarrow>
                    (case (unescape_hex h1 h2 h3 h4, json_rest hs) of
                       (Some x, Some (s, r)) \<Rightarrow> Some (x # s, r)
                     | _ \<Rightarrow> None)
                | _ \<Rightarrow> None)
             else
               (case (unescape e, json_rest es) of
                  (Some x, Some (s, r)) \<Rightarrow> Some (x # s, r)
                | _ \<Rightarrow> None))
      else if of_char c < (32::nat) then None
      else (case json_rest cs of None \<Rightarrow> None | Some (s, r) \<Rightarrow> Some (c # s, r)))"

fun expect :: "string \<Rightarrow> string \<Rightarrow> string option" where
  "expect [] s = Some s"
| "expect (p # ps) [] = None"
| "expect (p # ps) (c # cs) = (if c = p then expect ps cs else None)"

definition read_string :: "string \<Rightarrow> string \<Rightarrow> (string \<times> string) option" where
  "read_string label s = (case expect (label @ [CHR 0x22]) s of None \<Rightarrow> None | Some r \<Rightarrow> json_rest r)"

definition read_int :: "string \<Rightarrow> string \<Rightarrow> (int \<times> string) option" where
  "read_int label s =
     (case expect label s of
        None \<Rightarrow> None
      | Some r \<Rightarrow>
          (let num = takeWhile (\<lambda>c. c \<noteq> CHR ''}'') r in
           case parse_int 64 num of
             (i, None) \<Rightarrow> Some (i, drop (length num) r)
           | _ \<Rightarrow> None))"

definition session_Unmarshal :: "string \<Rightarrow> session option" where
  "session_Unmarshal t =
     (case read_string id_label t of
        None \<Rightarrow> None
      | Some (sid, t1) \<Rightarrow>
     (case read_string user_label t1 of
        None \<Rightarrow> None
      | Some (user, t2) \<Rightarrow>
     (case read_string hash_label t2 of
        None \<Rightarrow> None
      | Some (hash, t3) \<Rightarrow>
     (case read_int created_label t3 of
        None \<Rightarrow> None
      | Some (created, t4) \<Rightarrow>
          if t4 = ''}'' then
            Some \<lparr>ss_ID = sid, ss_UserID = user, ss_RefreshTokenHash = hash, ss_CreatedAt = created\<rparr>
          else None))))"


subsection \<open>The reader inverts the writer\<close>

lemma unescape_hex_escape:
  "n < 128 \<Longrightarrow> unescape_hex (CHR ''0'') (CHR ''0'') (digit_char (n div 16)) (digit_char (n mod 16)) = Some (char_of n)"
proof -
  assume "n < 128"
  moreover have "hex_val (CHR ''0'') = Some 0" by (simp add: hex_val_def)
  ultimately show ?thesis
    by (simp add: unescape_hex_def hex_val_digit_char)
qed

lemma json_rest_char:
  "json_rest (json_char c @ t) = (case json_rest t of None \<Rightarrow> None | Some (s, r) \<Rightarrow> Some (c # s, r))"
proof -
  consider "of_char c \<in> {34, 92, 8, 12, 10, 13, 9 :: nat}"
    | "of_char c \<notin> {34, 92, 8, 12, 10, 13, 9 :: nat}" "of_char c < (32::nat) \<or> of_char c \<in> {60, 62, 38 :: nat}"
    | "of_char c \<notin> {34, 92 :: nat}" "32 \<le> (of_char c :: nat)" "of_char c \<notin> {60, 62, 38 :: nat}"
    by fastforce
  then show ?thesis
  proof cases
    case 1
    have "c \<in> {CHR 0x22, CHR 0x5C, CHR 0x08, CHR 0x0C, CHR 0x0A, CHR 0x0D, CHR 0x09}"
      using imageI [OF 1, of char_of] by (simp add: char_codes)
    then show ?thesis by (auto simp: json_char_def unescape_def char_codes split: option.split)
  next
    case 2
    then have lt: "of_char c < (128::nat)" by auto
    have "json_char c = hex_escape (of_char c)" using 2 by (auto simp: json_char_def)
    then show ?thesis
      using unescape_hex_escape [OF lt] by (simp add: hex_escape_def split: option.split)
  next
    case 3
    then have "c \<noteq> CHR 0x22" "c \<noteq> CHR 0x5C" by auto
    then show ?thesis using 3 by (simp add: json_char_def)
  qed
qed

lemma json_rest_string: "json_rest (concat (map json_char s) @ CHR 0x22 # r) = Some (s, r)"
  by (induction s) (simp_all add: json_rest_char)

lemma expect_append: "expect p (p @ s) = Some s"
  by (induction p) auto

lemma read_string_json: "read_string label (label @ json_string s @ r) = Some (s, r)"
proof -
  have "label @ json_string s @ r = (label @ [CHR 0x22]) @ concat (map json_char s) @ CHR 0x22 # r"
    by (simp add: json_string_def)
  then show ?thesis by (simp only: read_string_def expect_append option.case json_rest_string)
qed

lemma read_int_dec:
  assumes "- (2 ^ 63) \<le> i" and "i < 2 ^ 63"
  shows "read_int label (label @ dec_int i @ CHR ''}'' # r) = Some (i, CHR ''}'' # r)"
proof -
  have "takeWhile (\<lambda>c. c \<noteq> CHR ''}'') (dec_int i @ CHR ''}'' # r) = dec_int i"
    using dec_int_no_brace [of i] by (subst takeWhile_append2) auto
  then show ?thesis
    by (simp only: read_int_def expect_append option.case Let_def parse_int_dec_int [OF assms] prod.case) simp
qed

definition int64_range :: "int \<Rightarrow> bool" where
  "int64_range i \<longleftrightarrow> - (2 ^ 63) \<le> i \<and> i < 2 ^ 63"

lemma session_Unmarshal_Marshal:
  assumes "int64_range (ss_CreatedAt s)"
  shows "session_Unmarshal (session_Marshal s) = Some s"
  using assms by (simp add: session_Unmarshal_def session_Marshal_def read_string_json read_int_dec int64_range_def)

subsection \<open>The store\<close>

text \<open>
  \<open>nanos\<close> is \<open>time.Now().UnixNano()\<close> and \<open>now\<close> is \<open>time.Now().Unix()\<close> at the two calls of the clock.
\<close>

definition generateSessionID :: "int \<Rightarrow> string" where
  "generateSessionID nanos = ''sess_'' @ dec_int nanos"

definition session_key :: "string \<Rightarrow> string" where
  "session_key sessionID = ''session:'' @ sessionID"

definition session_Create ::
    "'r redis_client \<Rightarrow> string \<Rightarrow> string \<Rightarrow> int \<Rightarrow> int \<Rightarrow> int \<Rightarrow> ('r, 'n, session) svc" where
  "session_Create R userID refreshTokenHash ttlSeconds nanos now w =
     (let s = \<lparr>ss_ID = generateSessionID nanos, ss_UserID = userID,
               ss_RefreshTokenHash = refreshTokenHash, ss_CreatedAt = now\<rparr>
      in case on_redis (rc_Set R (session_key (ss_ID s)) (session_Marshal s) ttlSeconds) w of
           (Inl _, w1) \<Rightarrow> (Inl (PlainErr ''redis set''), w1)
         | (Inr _, w1) \<Rightarrow> (Inr s, w1))"

definition session_Get :: "'r redis_client \<Rightarrow> string \<Rightarrow> ('r, 'n, session) svc" where
  "session_Get R sessionID w =
     (case on_redis (rc_Get R (session_key sessionID)) w of
        (Inl _, w1) \<Rightarrow> (Inl (PlainErr ''session not found or expired''), w1)
      | (Inr data, w1) \<Rightarrow>
          (case session_Unmarshal data of
             None \<Rightarrow> (Inl (PlainErr ''unmarshal session''), w1)
           | Some s \<Rightarrow> (Inr s, w1)))"

definition session_Revoke :: "'r redis_client \<Rightarrow> string \<Rightarrow> ('r, 'n, unit) svc" where
  "session_Revoke R sessionID w =
     (case on_redis (rc_Del R (session_key sessionID)) w of
        (Inl _, w1) \<Rightarrow> (Inl (PlainErr ''redis del''), w1)
      | (Inr _, w1) \<Rightarrow> (Inr (), w1))"

lemma session_key_inject [simp]: "session_key a = session_key b \<longleftrightarrow> a = b"
  by (simp add: session_key_def)

text \<open>
  What the authentication service relies on: the store is a map from session ids to sessions. A
  call that reports an error may have been executed. \<open>session_named\<close> is the invariant that every session
  is filed under its own id, made by \<open>generateSessionID\<close>.
\<close>

definition session_named :: "(string \<Rightarrow> session option) \<Rightarrow> bool" where
  "session_named l \<longleftrightarrow> (\<forall>i x. l i = Some x \<longrightarrow> ss_ID x = i \<and> (\<exists>nanos. i = generateSessionID nanos))"

locale session_store =
  fixes create :: "string \<Rightarrow> string \<Rightarrow> int \<Rightarrow> int \<Rightarrow> int \<Rightarrow> 's \<Rightarrow> (go_error + session) \<times> 's"
    and get :: "string \<Rightarrow> 's \<Rightarrow> (go_error + session) \<times> 's"
    and revoke :: "string \<Rightarrow> 's \<Rightarrow> (go_error + unit) \<times> 's"
    and live :: "'s \<Rightarrow> string \<Rightarrow> session option"
  assumes create_ok: "create u h ttl nanos now s = (Inr x, s') \<Longrightarrow> int64_range now \<Longrightarrow>
      x = \<lparr>ss_ID = generateSessionID nanos, ss_UserID = u, ss_RefreshTokenHash = h, ss_CreatedAt = now\<rparr> \<and>
      live s' = (live s)(ss_ID x \<mapsto> x)"
    and create_err: "create u h ttl nanos now s = (Inl e, s') \<Longrightarrow> int64_range now \<Longrightarrow>
      live s' = live s \<or> live s' = (live s)(generateSessionID nanos \<mapsto>
        \<lparr>ss_ID = generateSessionID nanos, ss_UserID = u, ss_RefreshTokenHash = h, ss_CreatedAt = now\<rparr>)"
    and get_ok: "get i s = (Inr x, s') \<Longrightarrow> live s i = Some x"
    and get_keeps: "get i s = (res, s') \<Longrightarrow> live s' = live s"
    and revoke_ok: "revoke i s = (Inr u', s') \<Longrightarrow> live s' = (live s)(i := None)"
    and revoke_err: "revoke i s = (Inl e, s') \<Longrightarrow> live s' = live s \<or> live s' = (live s)(i := None)"
begin

abbreviation named :: "'s \<Rightarrow> bool" where
  "named s \<equiv> session_named (live s)"

lemma named_create: "create u h ttl nanos now s = (res, s') \<Longrightarrow> int64_range now \<Longrightarrow> named s \<Longrightarrow> named s'"
  using create_ok [of u h ttl nanos now s _ s'] create_err [of u h ttl nanos now s _ s']
  by (cases res) (fastforce simp: session_named_def split: if_splits)+

lemma named_get: "get i s = (res, s') \<Longrightarrow> named s \<Longrightarrow> named s'"
  by (simp add: session_named_def get_keeps)

lemma named_revoke: "revoke i s = (res, s') \<Longrightarrow> named s \<Longrightarrow> named s'"
  using revoke_ok [of i s _ s'] revoke_err [of i s _ s']
  by (cases res) (fastforce simp: session_named_def split: if_splits)+

lemma named_live: "named s \<Longrightarrow> live s i = Some x \<Longrightarrow> ss_ID x = i"
  by (simp add: session_named_def)

lemma get_refresh_fails:
  assumes "named s" and "get (''ref_'' @ t) s = (res, s')"
  shows "\<exists>e. res = Inl e"
proof (cases res)
  case (Inr x)
  then have "live s (''ref_'' @ t) = Some x" using assms(2) get_ok by blast
  with assms(1) obtain nanos where "''ref_'' @ t = generateSessionID nanos" unfolding session_named_def by blast
  then show ?thesis by (simp add: generateSessionID_def)
qed simp

lemma get_revoked: "revoke i s = (Inr u', s1) \<Longrightarrow> get i s1 = (res, s2) \<Longrightarrow> \<exists>e. res = Inl e"
  using revoke_ok [of i s u' s1] get_ok [of i s1 _ s2] by (cases res) auto

end

text \<open>The sessions that a Redis keyspace holds.\<close>

definition live_sessions :: "('r \<Rightarrow> keyspace) \<Rightarrow> ('r, 'n) world \<Rightarrow> string \<Rightarrow> session option" where
  "live_sessions K w i = (case K (w_redis w) (session_key i) of Some (RStr t) \<Rightarrow> session_Unmarshal t | _ \<Rightarrow> None)"

lemma live_sessions_set:
  "K (w_redis w') = (K (w_redis w))(session_key i \<mapsto> RStr (session_Marshal x)) \<Longrightarrow> int64_range (ss_CreatedAt x) \<Longrightarrow>
    live_sessions K w' = (live_sessions K w)(i \<mapsto> x)"
  by (rule ext) (simp add: live_sessions_def session_Unmarshal_Marshal)

lemma live_sessions_del:
  "K (w_redis w') = (K (w_redis w))(session_key i := None) \<Longrightarrow> live_sessions K w' = (live_sessions K w)(i := None)"
  by (rule ext) (simp add: live_sessions_def)

lemma live_sessions_same: "K (w_redis w') = K (w_redis w) \<Longrightarrow> live_sessions K w' = live_sessions K w"
  by (rule ext) (simp add: live_sessions_def)

sublocale redis \<subseteq> sessions: session_store "session_Create R" "session_Get R" "session_Revoke R" "live_sessions K"
proof unfold_locales
  show "x = \<lparr>ss_ID = generateSessionID nanos, ss_UserID = u, ss_RefreshTokenHash = h, ss_CreatedAt = now\<rparr> \<and>
      live_sessions K w' = (live_sessions K w)(ss_ID x \<mapsto> x)"
    if "session_Create R u h ttl nanos now w = (Inr x, w')" "int64_range now" for u h ttl nanos now x w w'
    using that by (auto simp: session_Create_def Let_def on_redis_eq split: prod.splits sum.splits
        dest!: set_ok intro!: live_sessions_set)
  show "live_sessions K w' = live_sessions K w \<or> live_sessions K w' = (live_sessions K w)(generateSessionID nanos \<mapsto>
        \<lparr>ss_ID = generateSessionID nanos, ss_UserID = u, ss_RefreshTokenHash = h, ss_CreatedAt = now\<rparr>)"
    if "session_Create R u h ttl nanos now w = (Inl e, w')" "int64_range now" for u h ttl nanos now e w w'
    using that by (auto simp: session_Create_def Let_def on_redis_eq split: prod.splits sum.splits
        dest!: set_err intro: live_sessions_same live_sessions_set)
  show "live_sessions K w i = Some x" if "session_Get R i w = (Inr x, w')" for i w w' x
    using that by (auto simp: session_Get_def on_redis_eq live_sessions_def
        split: prod.splits sum.splits option.splits dest!: get_ok)
  show "live_sessions K w' = live_sessions K w" if "session_Get R i w = (res, w')" for i w w' and res :: "go_error + session"
    using that by (auto simp: session_Get_def on_redis_eq
        split: prod.splits sum.splits option.splits dest!: get_keeps intro: live_sessions_same)
  show "live_sessions K w' = (live_sessions K w)(i := None)" if "session_Revoke R i w = (Inr u, w')" for i w w' u
    using that by (auto simp: session_Revoke_def on_redis_eq split: prod.splits sum.splits
        dest!: del_ok intro!: live_sessions_del)
  show "live_sessions K w' = live_sessions K w \<or> live_sessions K w' = (live_sessions K w)(i := None)"
    if "session_Revoke R i w = (Inl e, w')" for i w w' e
    using that by (auto simp: session_Revoke_def on_redis_eq split: prod.splits sum.splits
        dest!: del_err intro: live_sessions_same live_sessions_del)
qed


end
