(* ===== verification/Auth.thy ===== *)
theory Auth
  imports Session SocialHttp
begin

text \<open>
  The authentication module: keys and tokens (\<open>internal/auth/jwt.go\<close>), the service
  (\<open>service.go\<close>), the guards (\<open>middleware.go\<close>) and the HTTP handlers (\<open>handler.go\<close>). The packages
  \<open>golang-jwt\<close> and \<open>bcrypt\<close> are parameters with the laws of their documentation; so is SHA-256, whose
  result is stored and never read.
\<close>

subsection \<open>Tokens\<close>

text \<open>Times in whole seconds, as a JWT stores them.\<close>

record claims =
  cl_UserID :: string
  cl_SessionID :: string
  cl_Role :: string
  cl_ExpiresAt :: "int option"
  cl_IssuedAt :: "int option"

record jwt_key =
  jk_KID :: string
  jk_Secret :: string

text \<open>
  \<open>jwt_Sign kid secret c\<close> is \<open>SignedString(secret)\<close> of a new HS256 token with the header \<open>kid\<close>;
  \<open>jwt_Parse now secret t\<close> is \<open>ParseWithClaims\<close> at the time \<open>now\<close>: the field \<open>Valid\<close> and the claims.
\<close>

record jwt_lib =
  jwt_Sign :: "string \<Rightarrow> string \<Rightarrow> claims \<Rightarrow> go_error + string"
  jwt_Parse :: "int \<Rightarrow> string \<Rightarrow> string \<Rightarrow> go_error + (bool \<times> claims)"

definition not_expired :: "int \<Rightarrow> claims \<Rightarrow> bool" where
  "not_expired now c \<longleftrightarrow> (case cl_ExpiresAt c of None \<Rightarrow> True | Some e \<Rightarrow> now < e)"

definition plain_claims :: "claims \<Rightarrow> bool" where
  "plain_claims c \<longleftrightarrow> ascii (cl_UserID c) \<and> ascii (cl_SessionID c) \<and> ascii (cl_Role c)"

text \<open>
  The library gives back the claims of a token it signed, to the holder of the secret and before the
  expiry; it reports no error only for valid, unexpired tokens; the claims are the payload of the
  token, whatever the secret and the time.
\<close>

locale jwt_pkg =
  fixes J :: jwt_lib
  assumes parse_signed: "jwt_Sign J kid secret c = Inr t \<Longrightarrow> plain_claims c \<Longrightarrow> not_expired now c \<Longrightarrow>
      jwt_Parse J now secret t = Inr (True, c)"
    and parse_valid: "jwt_Parse J now secret t = Inr (v, c) \<Longrightarrow> v \<and> not_expired now c"
    and parse_payload: "jwt_Parse J now secret t = Inr (v, c) \<Longrightarrow> jwt_Parse J now' secret' t = Inr (v', c') \<Longrightarrow> c' = c"

definition Sign_km :: "jwt_lib \<Rightarrow> jwt_key list \<Rightarrow> claims \<Rightarrow> go_error + string" where
  "Sign_km J keys c =
     (case keys of
        [] \<Rightarrow> Inl (PlainErr ''no JWT keys configured'')
      | key # _ \<Rightarrow> jwt_Sign J (jk_KID key) (jk_Secret key) c)"

fun Verify_km :: "jwt_lib \<Rightarrow> int \<Rightarrow> jwt_key list \<Rightarrow> string \<Rightarrow> go_error + claims" where
  "Verify_km J now [] t = Inl (PlainErr ''token verification failed'')"
| "Verify_km J now (key # keys) t =
     (case jwt_Parse J now (jk_Secret key) t of
        Inl _ \<Rightarrow> Verify_km J now keys t
      | Inr (valid, c) \<Rightarrow> if valid then Inr c else Verify_km J now keys t)"

definition IsEmpty_km :: "jwt_key list \<Rightarrow> bool" where
  "IsEmpty_km keys \<longleftrightarrow> keys = []"

text \<open>\<open>t1\<close> and \<open>t2\<close> are the times of the two calls of the clock.\<close>

definition GenerateAccessToken ::
    "jwt_lib \<Rightarrow> jwt_key list \<Rightarrow> int \<Rightarrow> int \<Rightarrow> string \<Rightarrow> string \<Rightarrow> string \<Rightarrow> go_error + string" where
  "GenerateAccessToken J keys t1 t2 userID sessionID role =
     Sign_km J keys \<lparr>cl_UserID = userID, cl_SessionID = sessionID, cl_Role = role,
                     cl_ExpiresAt = Some (t1 + 15 * 60), cl_IssuedAt = Some t2\<rparr>"

subsection \<open>The service\<close>

text \<open>\<open>bc_Generate salt p\<close> is \<open>GenerateFromPassword\<close> with the random salt it draws.\<close>

record bcrypt_lib =
  bc_Generate :: "bytes \<Rightarrow> string \<Rightarrow> go_error + string"
  bc_Compare :: "string \<Rightarrow> string \<Rightarrow> bool"

locale bcrypt_pkg =
  fixes B :: bcrypt_lib
  assumes compare_generate: "bc_Generate B salt p = Inr h \<Longrightarrow> bc_Compare B h p"
    and hash_length: "bc_Generate B salt p = Inr h \<Longrightarrow> length h = 60"

record 'r auth_svc =
  as_uuid :: uuid_lib
  as_jwt :: jwt_lib
  as_bcrypt :: bcrypt_lib
  as_sha256 :: "string \<Rightarrow> bytes"
  as_keys :: "jwt_key list"
  as_redis :: "'r redis_client"

record register_request =
  rr_Username :: string
  rr_Password :: string
  rr_Email :: string

record login_request =
  lr_Username :: string
  lr_Password :: string

record token_pair =
  tp_AccessToken :: string
  tp_RefreshToken :: string

text \<open>What making a pair of tokens reads from the clock and from \<open>crypto/rand\<close>, in this order.\<close>

record draws =
  dr_nanos :: int
  dr_expires_from :: int
  dr_issued :: int
  dr_random :: bytes
  dr_nanos_stored :: int
  dr_created :: int

definition Register :: "'r auth_svc \<Rightarrow> bytes \<Rightarrow> register_request \<Rightarrow> ('r, 'n, string) svc" where
  "Register A salt req w =
     (if rr_Username req = '''' \<or> rr_Password req = ''''
      then (Inl (app_err ErrBadRequest ''username and password are required''), w)
      else
     (case bc_Generate (as_bcrypt A) salt (rr_Password req) of
        Inl _ \<Rightarrow> (Inl (PlainErr ''hash password''), w)
      | Inr hash \<Rightarrow>
     (case on_db (CreateUser_sql (rr_Username req) (null_if_empty (rr_Email req)) (Some (rr_Username req))) w of
        (Inl _, w1) \<Rightarrow> (Inl (app_err ErrConflict ''username or email already exists''), w1)
      | (Inr user, w1) \<Rightarrow>
     (case on_db (CreateCredential_sql (u_id user) ''password'' (rr_Username req) (Some hash) True) w1 of
        (Inl _, w2) \<Rightarrow> (Inl (PlainErr ''create credential''), w2)
      | (Inr _, w2) \<Rightarrow> (Inr (uuid_String (as_uuid A) (u_id user)), w2)))))"

definition hashToken :: "'r auth_svc \<Rightarrow> string \<Rightarrow> string" where
  "hashToken A token = hex_encode (as_sha256 A token)"

definition generateRefreshToken :: "bytes \<Rightarrow> string" where
  "generateRefreshToken b = ''ref_'' @ hex_encode b"

definition generateTokenPair :: "'r auth_svc \<Rightarrow> draws \<Rightarrow> string \<Rightarrow> ('r, 'n, token_pair) svc" where
  "generateTokenPair A dr userID w =
     (let sessionID = generateSessionID (dr_nanos dr) in
      case GenerateAccessToken (as_jwt A) (as_keys A) (dr_expires_from dr) (dr_issued dr) userID sessionID ''user'' of
        Inl _ \<Rightarrow> (Inl (PlainErr ''generate access token''), w)
      | Inr accessToken \<Rightarrow>
          (let refreshToken = generateRefreshToken (dr_random dr);
               refreshHash = hashToken A refreshToken
           in case session_Create (as_redis A) userID refreshHash (7 * 24 * 60 * 60)
                     (dr_nanos_stored dr) (dr_created dr) w of
                (Inl _, w1) \<Rightarrow> (Inl (PlainErr ''create session''), w1)
              | (Inr _, w1) \<Rightarrow> (Inr \<lparr>tp_AccessToken = accessToken, tp_RefreshToken = refreshToken\<rparr>, w1)))"

definition Login :: "'r auth_svc \<Rightarrow> draws \<Rightarrow> login_request \<Rightarrow> ('r, 'n, token_pair) svc" where
  "Login A dr req w =
     (if lr_Username req = '''' \<or> lr_Password req = ''''
      then (Inl (app_err ErrInvalidCredentials ''username and password are required''), w)
      else
     (case on_db (GetCredentialByTypeIdentifier_sql ''password'' (lr_Username req)) w of
        (Inl _, w1) \<Rightarrow> (Inl (app_err ErrInvalidCredentials ''invalid credentials''), w1)
      | (Inr cred, w1) \<Rightarrow>
          if \<not> bc_Compare (as_bcrypt A) (null_string (cr_secret_hash cred)) (lr_Password req)
          then (Inl (app_err ErrInvalidCredentials ''invalid credentials''), w1)
          else
     (case on_db (GetUserByID_sql (cr_user_id cred)) w1 of
        (Inl _, w2) \<Rightarrow> (Inl (app_err ErrInternal ''user not found''), w2)
      | (Inr user, w2) \<Rightarrow>
          if u_status user \<noteq> ''active'' then (Inl (app_err ErrUserBanned ''account is not active''), w2)
          else generateTokenPair A dr (uuid_String (as_uuid A) (u_id user)) w2)))"

definition RefreshToken :: "'r auth_svc \<Rightarrow> draws \<Rightarrow> string \<Rightarrow> ('r, 'n, token_pair) svc" where
  "RefreshToken A dr refreshToken w =
     (case session_Get (as_redis A) refreshToken w of
        (Inl _, w1) \<Rightarrow> (Inl (app_err ErrSessionRevoked ''invalid or expired refresh token''), w1)
      | (Inr session, w1) \<Rightarrow>
     (case session_Revoke (as_redis A) (ss_ID session) w1 of
        (Inl _, w2) \<Rightarrow> (Inl (app_err ErrInternal ''failed to revoke old session''), w2)
      | (Inr _, w2) \<Rightarrow> generateTokenPair A dr (ss_UserID session) w2))"

definition Logout :: "'r auth_svc \<Rightarrow> string \<Rightarrow> ('r, 'n, unit) svc" where
  "Logout A sessionID = session_Revoke (as_redis A) sessionID"

definition ValidateToken :: "'r auth_svc \<Rightarrow> int \<Rightarrow> string \<Rightarrow> go_error + claims" where
  "ValidateToken A now accessToken =
     (case Verify_km (as_jwt A) now (as_keys A) accessToken of
        Inl _ \<Rightarrow> Inl (app_err ErrTokenInvalid ''invalid token'')
      | Inr c \<Rightarrow> Inr c)"

definition GenerateToken :: "'r auth_svc \<Rightarrow> int \<Rightarrow> int \<Rightarrow> string \<Rightarrow> string \<Rightarrow> go_error + string" where
  "GenerateToken A t1 t2 userID role = GenerateAccessToken (as_jwt A) (as_keys A) t1 t2 userID '''' role"

text \<open>The adapter of \<open>main.go\<close> that gives the chat service its token validator.\<close>

definition tokenValidatorAdapter :: "'r auth_svc \<Rightarrow> int \<Rightarrow> string \<Rightarrow> go_error + string" where
  "tokenValidatorAdapter A now token =
     (case ValidateToken A now token of Inl e \<Rightarrow> Inl e | Inr c \<Rightarrow> Inr (cl_UserID c))"

subsection \<open>Guards\<close>

text \<open>A handler behind a guard gets the request with the context values set.\<close>

type_synonym ('w, 'd) endpoint = "request \<Rightarrow> headers \<Rightarrow> 'w \<Rightarrow> 'd response \<times> 'w"

text \<open>What a guard decides: its own response, or the request for the next handler.\<close>

definition auth_check :: "'r auth_svc \<Rightarrow> int \<Rightarrow> request \<Rightarrow> headers \<Rightarrow> 'd response + request" where
  "auth_check A now rq h =
     (let authHeader = rq_header rq ''Authorization'' in
      if authHeader = '''' then Inl (WriteHTTP (errors_New ErrUnauthorized ''missing authorization header'') h)
      else case split_space2 authHeader of
        [scheme, token] \<Rightarrow>
          if \<not> equal_fold scheme ''bearer''
          then Inl (WriteHTTP (errors_New ErrUnauthorized ''invalid authorization format'') h)
          else (case ValidateToken A now token of
             Inl _ \<Rightarrow> Inl (WriteHTTP (errors_New ErrTokenInvalid ''invalid token'') h)
           | Inr c \<Rightarrow>
               Inr (rq\<lparr>rq_user := Some (cl_UserID c), rq_session := Some (cl_SessionID c),
                       rq_role := Some (cl_Role c)\<rparr>))
      | _ \<Rightarrow> Inl (WriteHTTP (errors_New ErrUnauthorized ''invalid authorization format'') h))"

definition AuthGuard :: "'r auth_svc \<Rightarrow> int \<Rightarrow> ('w, 'd) endpoint \<Rightarrow> ('w, 'd) endpoint" where
  "AuthGuard A now next_handler rq h w =
     (case auth_check A now rq h of
        Inl resp \<Rightarrow> (resp, w)
      | Inr rq' \<Rightarrow> next_handler rq' h w)"

definition SessionIDFromContext :: "request \<Rightarrow> string" where
  "SessionIDFromContext rq = null_string (rq_session rq)"

definition RoleFromContext :: "request \<Rightarrow> string" where
  "RoleFromContext rq = null_string (rq_role rq)"

definition admin_check :: "request \<Rightarrow> headers \<Rightarrow> 'd response + request" where
  "admin_check rq h =
     (if null_string (rq_role rq) \<noteq> ''admin'' then Inl (http_Error ''{\"error\":\"forbidden\"}'' 403 h) else Inr rq)"

definition RequireAdmin :: "('w, 'd) endpoint \<Rightarrow> ('w, 'd) endpoint" where
  "RequireAdmin next_handler rq h w =
     (case admin_check rq h of
        Inl resp \<Rightarrow> (resp, w)
      | Inr rq' \<Rightarrow> next_handler rq' h w)"

lemmas guard_defs = AuthGuard_def auth_check_def RequireAdmin_def admin_check_def

subsection \<open>Handlers\<close>

datatype auth_data = D_UserID string | D_Tokens token_pair | D_LoggedOut string

definition register_h :: "'r auth_svc \<Rightarrow> bytes \<Rightarrow> register_request option \<Rightarrow> headers
    \<Rightarrow> ('r, 'n) world \<Rightarrow> auth_data response \<times> ('r, 'n) world" where
  "register_h A salt body h w =
     (case body of
        None \<Rightarrow> (bad_body h, w)
      | Some req \<Rightarrow> respond 201 D_UserID h (Register A salt req w))"

definition login_h :: "'r auth_svc \<Rightarrow> draws \<Rightarrow> login_request option \<Rightarrow> headers
    \<Rightarrow> ('r, 'n) world \<Rightarrow> auth_data response \<times> ('r, 'n) world" where
  "login_h A dr body h w =
     (case body of
        None \<Rightarrow> (bad_body h, w)
      | Some req \<Rightarrow> respond 200 D_Tokens h (Login A dr req w))"

definition refresh_h :: "'r auth_svc \<Rightarrow> draws \<Rightarrow> string option \<Rightarrow> headers
    \<Rightarrow> ('r, 'n) world \<Rightarrow> auth_data response \<times> ('r, 'n) world" where
  "refresh_h A dr body h w =
     (case body of
        None \<Rightarrow> (bad_body h, w)
      | Some refreshToken \<Rightarrow> respond 200 D_Tokens h (RefreshToken A dr refreshToken w))"

definition logout_h :: "'r auth_svc \<Rightarrow> request \<Rightarrow> headers \<Rightarrow> ('r, 'n) world \<Rightarrow> auth_data response \<times> ('r, 'n) world" where
  "logout_h A rq h w =
     (let sessionID = rq_header rq ''X-Session-ID'' in
      if sessionID = '''' then (WriteHTTP (errors_New ErrBadRequest ''missing session id'') h, w)
      else respond 200 (\<lambda>_. D_LoggedOut ''ok'') h (Logout A sessionID w))"

end
