(* ===== verification/AuthFacts.thy ===== *)
theory AuthFacts
  imports Auth
begin

text \<open>
  Facts on the authentication service: which tokens verify, what registering and logging in do to
  the tables, and the reference instances of the libraries.
\<close>

subsection \<open>Verification\<close>

context jwt_pkg
begin

lemma Verify_km_iff: "Verify_km J now keys t = Inr c \<longleftrightarrow> (\<exists>key \<in> set keys. jwt_Parse J now (jk_Secret key) t = Inr (True, c))"
proof (induction keys)
  case (Cons key keys)
  show ?case
  proof (cases "jwt_Parse J now (jk_Secret key) t")
    case (Inl e)
    then show ?thesis using Cons by simp
  next
    case (Inr vc)
    then have p: "jwt_Parse J now (jk_Secret key) t = Inr (True, snd vc)"
      using parse_valid [of now "jk_Secret key" t "fst vc" "snd vc"] by (cases vc) simp
    have same: "c = snd vc" if "jwt_Parse J now s t = Inr (True, c)" for s
      by (rule parse_payload [OF p that])
    show ?thesis using p same by (auto simp: p)
  qed
qed simp

lemma Verify_signed:
  assumes "jwt_Sign J kid (jk_Secret key) c = Inr t" and "key \<in> set keys" and "plain_claims c" and "not_expired now c"
  shows "Verify_km J now keys t = Inr c"
  using assms(2) parse_signed [OF assms(1,3,4)] unfolding Verify_km_iff by (rule bexI [rotated])

lemma Verify_expired:
  assumes "jwt_Sign J kid secret c = Inr t" and "plain_claims c" and "not_expired now0 c" and "\<not> not_expired now c"
  shows "\<exists>e. Verify_km J now keys t = Inl e"
proof (cases "Verify_km J now keys t")
  case (Inr c')
  then obtain key :: jwt_key where p: "jwt_Parse J now (jk_Secret key) t = Inr (True, c')"
    unfolding Verify_km_iff by blast
  have "jwt_Parse J now0 secret t = Inr (True, c)" by (rule parse_signed [OF assms(1-3)])
  from parse_payload [OF this p] parse_valid [OF p] assms(4) show ?thesis by simp
qed simp

lemma GenerateAccessToken_verifies:
  assumes "GenerateAccessToken J (key # keys) t1 t2 u s r = Inr t" and "key \<in> set keys'"
    and "ascii u" and "ascii s" and "ascii r"
  shows "now < t1 + 900 \<Longrightarrow> Verify_km J now keys' t = Inr
      \<lparr>cl_UserID = u, cl_SessionID = s, cl_Role = r, cl_ExpiresAt = Some (t1 + 900), cl_IssuedAt = Some t2\<rparr>"
    and "t1 + 900 \<le> now \<Longrightarrow> \<exists>e. Verify_km J now keys' t = Inl e"
proof -
  let ?c = "\<lparr>cl_UserID = u, cl_SessionID = s, cl_Role = r, cl_ExpiresAt = Some (t1 + 900), cl_IssuedAt = Some t2\<rparr>"
  have sign: "jwt_Sign J (jk_KID key) (jk_Secret key) ?c = Inr t"
    using assms(1) by (simp add: GenerateAccessToken_def Sign_km_def)
  have plain: "plain_claims ?c" using assms by (simp add: plain_claims_def)
  show "Verify_km J now keys' t = Inr ?c" if "now < t1 + 900"
    using Verify_signed [OF sign assms(2) plain] that by (simp add: not_expired_def)
  show "\<exists>e. Verify_km J now keys' t = Inl e" if "t1 + 900 \<le> now"
    using Verify_expired [OF sign plain, of t1] that by (simp add: not_expired_def)
qed

end

subsection \<open>Accounts in the tables\<close>

lemma CreateUser_Inr:
  assumes "CreateUser_sql name email dn d = (Inr u, d')"
  shows "u_username u = name \<and> u_status u = ''active'' \<and> u_id u \<notin> user_ids d \<and> name \<notin> u_username ` set (users d) \<and>
    users d' = users d @ [u] \<and> credentials d' = credentials d \<and> db_env d' = db_env d"
  using assms unfolding CreateUser_sql_def
  by (auto dest!: stmt_Inr simp: Let_def user_ids_def split: if_splits)

lemma CreateCredential_Inr:
  assumes "CreateCredential_sql uid ty ident hash ver d = (Inr c, d')"
  shows "cr_user_id c = uid \<and> cr_type c = ty \<and> cr_identifier c = ident \<and> cr_secret_hash c = hash \<and>
    (ty, ident) \<notin> (\<lambda>c. (cr_type c, cr_identifier c)) ` set (credentials d) \<and>
    credentials d' = credentials d @ [c] \<and> users d' = users d \<and> db_env d' = db_env d"
  using assms unfolding CreateCredential_sql_def
  by (auto dest!: stmt_Inr simp: Let_def split: if_splits)

lemma CreateCredential_ok:
  assumes "no_faults d" and "uid \<in> user_ids d" and "(ty, ident) \<notin> (\<lambda>c. (cr_type c, cr_identifier c)) ` set (credentials d)"
    and "env_fresh (db_env d) (db_calls d) \<notin> cr_id ` set (credentials d)"
    and "varchar_ok 16 ty" and "varchar_ok 255 ident" and "varchar_opt_ok 255 hash"
  shows "\<exists>c. CreateCredential_sql uid ty ident hash ver d = (Inr c, (tick d)\<lparr>credentials := credentials d @ [c]\<rparr>)"
  using assms unfolding CreateCredential_sql_def stmt_nf [OF assms(1)] Let_def
  by (auto simp: user_ids_def)

lemma Register_Inr:
  assumes "Register A salt req w = (Inr uid, w')"
  shows "\<exists>user cred hash. bc_Generate (as_bcrypt A) salt (rr_Password req) = Inr hash \<and>
    rr_Username req \<noteq> '''' \<and> rr_Password req \<noteq> '''' \<and>
    uid = uuid_String (as_uuid A) (u_id user) \<and> u_id user \<notin> user_ids (w_db w) \<and> u_status user = ''active'' \<and>
    u_username user = rr_Username req \<and> users (w_db w') = users (w_db w) @ [user] \<and>
    credentials (w_db w') = credentials (w_db w) @ [cred] \<and> cr_user_id cred = u_id user \<and>
    cr_type cred = ''password'' \<and> cr_identifier cred = rr_Username req \<and> cr_secret_hash cred = Some hash \<and>
    (''password'', rr_Username req) \<notin> (\<lambda>c. (cr_type c, cr_identifier c)) ` set (credentials (w_db w)) \<and>
    db_env (w_db w') = db_env (w_db w) \<and> w_redis w' = w_redis w \<and> w_net w' = w_net w"
proof -
  have ne: "rr_Username req \<noteq> ''''" "rr_Password req \<noteq> ''''"
    using assms by (auto simp: Register_def split: if_splits)
  then obtain hash where h: "bc_Generate (as_bcrypt A) salt (rr_Password req) = Inr hash"
    using assms by (cases "bc_Generate (as_bcrypt A) salt (rr_Password req)") (auto simp: Register_def)
  obtain user w1 where u: "on_db (CreateUser_sql (rr_Username req) (null_if_empty (rr_Email req)) (Some (rr_Username req))) w = (Inr user, w1)"
    using assms ne h by (auto simp: Register_def split: prod.splits sum.splits)
  obtain cred where c: "on_db (CreateCredential_sql (u_id user) ''password'' (rr_Username req) (Some hash) True) w1 = (Inr cred, w')"
    and uid: "uid = uuid_String (as_uuid A) (u_id user)"
    using assms ne h u by (auto simp: Register_def split: prod.splits sum.splits)
  from CreateUser_Inr [of _ _ _ "w_db w" user] u CreateCredential_Inr [of _ _ _ _ _ "w_db w1" cred] c ne h uid
  show ?thesis by (force simp: on_db_eq)
qed

lemma GetCredential_nf:
  "no_faults d \<Longrightarrow> GetCredentialByTypeIdentifier_sql ty ident d =
    (one_row (filter (\<lambda>c. cr_type c = ty \<and> cr_identifier c = ident) (credentials d)), tick d)"
  by (simp add: GetCredentialByTypeIdentifier_sql_def select_nf)

lemma GetUserByID_nf: "no_faults d \<Longrightarrow> GetUserByID_sql i d = (one_row (filter (\<lambda>u. u_id u = i) (users d)), tick d)"
  by (simp add: GetUserByID_sql_def select_nf)

lemma GetUserByID_Inr:
  "GetUserByID_sql i d = (Inr u, d') \<Longrightarrow> u \<in> set (users d) \<and> u_id u = i \<and> same_tables d d'"
  unfolding GetUserByID_sql_def by (frule same_tables_select_eq) (auto dest!: select_Inr one_row_filter)

lemma GetCredential_Inr:
  "GetCredentialByTypeIdentifier_sql ty ident d = (Inr c, d') \<Longrightarrow>
    c \<in> set (credentials d) \<and> cr_type c = ty \<and> cr_identifier c = ident \<and> same_tables d d'"
  unfolding GetCredentialByTypeIdentifier_sql_def
  by (frule same_tables_select_eq) (auto dest!: select_Inr one_row_filter)

lemma Login_Inr:
  assumes "Login A dr req w = (Inr tp, w')"
  shows "\<exists>cred user d. cred \<in> set (credentials (w_db w)) \<and> cr_type cred = ''password'' \<and>
    cr_identifier cred = lr_Username req \<and> lr_Username req \<noteq> '''' \<and>
    bc_Compare (as_bcrypt A) (null_string (cr_secret_hash cred)) (lr_Password req) \<and>
    user \<in> set (users (w_db w)) \<and> u_id user = cr_user_id cred \<and> u_status user = ''active'' \<and> same_tables (w_db w) d \<and>
    generateTokenPair A dr (uuid_String (as_uuid A) (u_id user)) (w\<lparr>w_db := d\<rparr>) = (Inr tp, w')"
proof -
  let ?q = "GetCredentialByTypeIdentifier_sql ''password'' (lr_Username req)"
  have ne: "lr_Username req \<noteq> ''''" "lr_Password req \<noteq> ''''"
    using assms by (auto simp: Login_def split: if_splits)
  obtain cred w1 where c: "on_db ?q w = (Inr cred, w1)"
    and pw: "bc_Compare (as_bcrypt A) (null_string (cr_secret_hash cred)) (lr_Password req)"
    using assms ne by (auto simp: Login_def split: prod.splits sum.splits if_splits)
  obtain user w2 where u: "on_db (GetUserByID_sql (cr_user_id cred)) w1 = (Inr user, w2)"
    and st: "u_status user = ''active''"
    and tp: "generateTokenPair A dr (uuid_String (as_uuid A) (u_id user)) w2 = (Inr tp, w')"
    using assms ne c pw by (auto simp: Login_def split: prod.splits sum.splits if_splits)
  have c1: "?q (w_db w) = (Inr cred, w_db w1)" and w1: "w1 = w\<lparr>w_db := w_db w1\<rparr>" using c by (auto simp: on_db_eq)
  have u1: "GetUserByID_sql (cr_user_id cred) (w_db w1) = (Inr user, w_db w2)" and w2: "w2 = w1\<lparr>w_db := w_db w2\<rparr>"
    using u by (auto simp: on_db_eq)
  note gc = GetCredential_Inr [OF c1] and gu = GetUserByID_Inr [OF u1]
  have "users (w_db w1) = users (w_db w)" using gc by (simp add: same_tables_iff)
  moreover have "w2 = w\<lparr>w_db := w_db w2\<rparr>" by (subst w2, subst w1) simp
  ultimately have "generateTokenPair A dr (uuid_String (as_uuid A) (u_id user)) (w\<lparr>w_db := w_db w2\<rparr>) = (Inr tp, w')"
    and "user \<in> set (users (w_db w))" and "same_tables (w_db w) (w_db w2)"
    using tp gu gc by (auto intro: same_tables_trans)
  then show ?thesis
    using gc gu pw st ne by blast
qed

lemma generateTokenPair_Inr:
  assumes "generateTokenPair A dr uid w = (Inr tp, w')"
  shows "GenerateAccessToken (as_jwt A) (as_keys A) (dr_expires_from dr) (dr_issued dr) uid
      (generateSessionID (dr_nanos dr)) ''user'' = Inr (tp_AccessToken tp) \<and>
    tp_RefreshToken tp = generateRefreshToken (dr_random dr) \<and>
    (\<exists>s. session_Create (as_redis A) uid (hashToken A (tp_RefreshToken tp)) 604800 (dr_nanos_stored dr) (dr_created dr) w = (Inr s, w'))"
  using assms by (auto simp: generateTokenPair_def Let_def split: sum.splits prod.splits)

lemma generateTokenPair_Inl:
  "generateTokenPair A dr uid w = (Inl e, w') \<Longrightarrow> err_code e = None"
  by (auto simp: generateTokenPair_def Let_def split: sum.splits prod.splits)

lemma session_ops_db [simp]:
  "session_Create R u h ttl n1 n2 w = (x, w') \<Longrightarrow> w_db w' = w_db w"
  "session_Get R i w = (y, w') \<Longrightarrow> w_db w' = w_db w"
  "session_Revoke R i w = (z, w') \<Longrightarrow> w_db w' = w_db w"
  by (auto simp: session_Create_def session_Get_def session_Revoke_def Let_def on_redis_eq
      split: prod.splits sum.splits option.splits)

lemma generateTokenPair_db: "generateTokenPair A dr uid w = (x, w') \<Longrightarrow> w_db w' = w_db w"
  by (auto simp: generateTokenPair_def Let_def split: sum.splits prod.splits)

lemma live_on_db: "on_db q w = (x, w') \<Longrightarrow> live_sessions K w' = live_sessions K w"
  by (auto simp: on_db_eq live_sessions_def [abs_def])

lemma filter_new: "\<forall>x \<in> set xs. \<not> P x \<Longrightarrow> P y \<Longrightarrow> filter P (xs @ [y]) = [y]"
  by simp

lemma dec_nat_small: "n < 10 \<Longrightarrow> dec_nat n = [digit_char n]"
  by (subst dec_nat.simps) simp

subsection \<open>The environment of the service\<close>

text \<open>Redis, the token library, the UUID package and bcrypt, as the service is configured with them.\<close>

locale auth_env = redis R K + jwt_pkg J + uuid_pkg U + bcrypt_pkg B
  for R :: "'r redis_client" and K J U B +
  fixes A :: "'r auth_svc"
  assumes A_redis: "as_redis A = R" and A_jwt: "as_jwt A = J" and A_uuid: "as_uuid A = U" and A_bcrypt: "as_bcrypt A = B"
begin

lemma pair_keeps_named:
  "generateTokenPair A dr uid w = (x, w') \<Longrightarrow> int64_range (dr_created dr) \<Longrightarrow> sessions.named w \<Longrightarrow> sessions.named w'"
  unfolding generateTokenPair_def A_redis Let_def
  by (auto split: sum.splits prod.splits dest: sessions.named_create)

lemma Login_keeps_named:
  assumes "Login A dr req w = (x, w')" and "int64_range (dr_created dr)" and "sessions.named w"
  shows "sessions.named w'"
  using assms unfolding Login_def
  by (auto split: if_splits sum.splits prod.splits dest!: live_on_db [where K = K] dest: pair_keeps_named)

lemma Refresh_keeps_named:
  "RefreshToken A dr t w = (x, w') \<Longrightarrow> int64_range (dr_created dr) \<Longrightarrow> sessions.named w \<Longrightarrow> sessions.named w'"
  unfolding RefreshToken_def A_redis
  by (auto split: sum.splits prod.splits dest: sessions.named_get sessions.named_revoke pair_keeps_named)

lemma access_token_verifies:
  assumes "generateTokenPair A dr (uuid_String U u) w = (Inr tp, w')" and "now < dr_expires_from dr + 900"
  shows "ValidateToken A now (tp_AccessToken tp) = Inr
    \<lparr>cl_UserID = uuid_String U u, cl_SessionID = generateSessionID (dr_nanos dr), cl_Role = ''user'',
     cl_ExpiresAt = Some (dr_expires_from dr + 900), cl_IssuedAt = Some (dr_issued dr)\<rparr>"
proof -
  note g = conjunct1 [OF generateTokenPair_Inr [OF assms(1)], unfolded A_jwt]
  obtain key ks where keys: "as_keys A = key # ks"
    using g by (cases "as_keys A") (auto simp: GenerateAccessToken_def Sign_km_def)
  from GenerateAccessToken_verifies(1) [OF g [unfolded keys], of "as_keys A" now] assms(2)
  show ?thesis by (simp add: ValidateToken_def A_jwt keys string_ascii generateSessionID_def)
qed

lemma Login_after_Register:
  assumes "Register A salt \<lparr>rr_Username = name, rr_Password = pw, rr_Email = email\<rparr> w = (Inr uid, w1)"
    and "no_faults (w_db w1)"
  shows "\<exists>u. uid = uuid_String U u \<and> Login A dr \<lparr>lr_Username = name, lr_Password = pw\<rparr> w1 =
    generateTokenPair A dr uid (w1\<lparr>w_db := tick (tick (w_db w1))\<rparr>)"
proof -
  obtain user cred hash where r:
    "bc_Generate B salt pw = Inr hash" "name \<noteq> ''''" "pw \<noteq> ''''"
    "uid = uuid_String U (u_id user)" "u_id user \<notin> user_ids (w_db w)" "u_status user = ''active''"
    "users (w_db w1) = users (w_db w) @ [user]" "credentials (w_db w1) = credentials (w_db w) @ [cred]"
    "cr_user_id cred = u_id user" "cr_type cred = ''password''" "cr_identifier cred = name"
    "cr_secret_hash cred = Some hash"
    "(''password'', name) \<notin> (\<lambda>c. (cr_type c, cr_identifier c)) ` set (credentials (w_db w))"
    using Register_Inr [OF assms(1)] A_uuid A_bcrypt by auto
  have f1: "filter (\<lambda>c. cr_type c = ''password'' \<and> cr_identifier c = name) (credentials (w_db w1)) = [cred]"
    unfolding r(8)
  proof (rule filter_new)
    show "\<forall>c \<in> set (credentials (w_db w)). \<not> (cr_type c = ''password'' \<and> cr_identifier c = name)"
      using r(13) by (metis (mono_tags, lifting) image_eqI)
    show "cr_type cred = ''password'' \<and> cr_identifier cred = name" using r(10,11) by blast
  qed
  have f2: "filter (\<lambda>u. u_id u = u_id user) (users (w_db w1)) = [user]"
    unfolding r(7) by (rule filter_new) (use r(5) in \<open>metis image_eqI user_ids_def\<close>, rule refl)
  show ?thesis
    using r assms(2) compare_generate [OF r(1)] f1 f2
    by (auto simp: Login_def on_db_def GetCredential_nf GetUserByID_nf one_row_def null_string_def A_uuid A_bcrypt)
qed

lemma Refresh_other_name:
  assumes "sessions.named w" and "RefreshToken A dr (''ref_'' @ t) w = (res, w')"
  shows "res = Inl (app_err ErrSessionRevoked ''invalid or expired refresh token'')"
proof -
  obtain r w1 where g: "session_Get R (''ref_'' @ t) w = (r, w1)" by fastforce
  from sessions.get_refresh_fails [OF assms(1) g] obtain e where "r = Inl e" by blast
  with assms(2) g show ?thesis by (simp add: RefreshToken_def A_redis)
qed

lemma pair_stores:
  assumes "generateTokenPair A dr uid w = (Inr tp, w')" and "int64_range (dr_created dr)"
  shows "live_sessions K w' = (live_sessions K w)(generateSessionID (dr_nanos_stored dr) \<mapsto>
    \<lparr>ss_ID = generateSessionID (dr_nanos_stored dr), ss_UserID = uid,
     ss_RefreshTokenHash = hashToken A (tp_RefreshToken tp), ss_CreatedAt = dr_created dr\<rparr>)"
proof -
  obtain s where "session_Create R uid (hashToken A (tp_RefreshToken tp)) 604800 (dr_nanos_stored dr) (dr_created dr) w = (Inr s, w')"
    using generateTokenPair_Inr [OF assms(1)] A_redis by auto
  from sessions.create_ok [OF this assms(2)] show ?thesis by auto
qed

lemma Refresh_Inr:
  assumes "sessions.named w" and "RefreshToken A dr i w = (Inr tp, w')"
  shows "\<exists>s v. live_sessions K w i = Some s \<and> w_db v = w_db w \<and> live_sessions K v = (live_sessions K w)(i := None) \<and>
    generateTokenPair A dr (ss_UserID s) v = (Inr tp, w')"
proof -
  obtain s w1 where g: "session_Get R i w = (Inr s, w1)"
    using assms(2) by (auto simp: RefreshToken_def A_redis split: prod.splits sum.splits)
  obtain v where r: "session_Revoke R (ss_ID s) w1 = (Inr (), v)"
    and p: "generateTokenPair A dr (ss_UserID s) v = (Inr tp, w')"
    using assms(2) g by (auto simp: RefreshToken_def A_redis split: prod.splits sum.splits)
  have live: "live_sessions K w i = Some s" using sessions.get_ok [OF g] .
  have "ss_ID s = i" using sessions.named_live [OF assms(1) live] .
  then have "live_sessions K v = (live_sessions K w)(i := None)"
    using sessions.revoke_ok [OF r] sessions.get_keeps [OF g] by simp
  moreover have "w_db v = w_db w" using g r by (auto dest: session_ops_db)
  ultimately show ?thesis using live p by blast
qed

lemma Refresh_absent:
  assumes "live_sessions K w i = None" and "RefreshToken A dr i w = (res, w')"
  shows "res = Inl (app_err ErrSessionRevoked ''invalid or expired refresh token'')"
proof -
  obtain r w1 where g: "session_Get R i w = (r, w1)" by fastforce
  then obtain e where "r = Inl e" using sessions.get_ok [of i w _ w1] assms(1) by (cases r) auto
  with assms(2) g show ?thesis by (simp add: RefreshToken_def A_redis)
qed

lemma Logout_Inr:
  "Logout A i w = (Inr u, w') \<Longrightarrow> live_sessions K w' = (live_sessions K w)(i := None)"
  unfolding Logout_def A_redis by (rule sessions.revoke_ok)

end

subsection \<open>Reference libraries\<close>

text \<open>
  A token library that satisfies the laws: the token spells out the secret and the claims, and
  parsing compares the secret. It hides nothing, which the laws do not ask for. And a password hash
  that pads the password to the length of a bcrypt hash.
\<close>

definition exp_label :: string where "exp_label = CHR ''}'' # created_label"

definition token_text :: "string \<Rightarrow> claims \<Rightarrow> int \<Rightarrow> int \<Rightarrow> string" where
  "token_text secret c e i =
     id_label @ json_string secret @ user_label @ json_string (cl_UserID c) @ hash_label @ json_string (cl_SessionID c)
     @ id_label @ json_string (cl_Role c) @ created_label @ dec_int e @ exp_label @ dec_int i @ ''}''"

definition token_read :: "string \<Rightarrow> (string \<times> claims) option" where
  "token_read t =
     (case read_string id_label t of None \<Rightarrow> None | Some (secret, t1) \<Rightarrow>
     (case read_string user_label t1 of None \<Rightarrow> None | Some (user, t2) \<Rightarrow>
     (case read_string hash_label t2 of None \<Rightarrow> None | Some (session, t3) \<Rightarrow>
     (case read_string id_label t3 of None \<Rightarrow> None | Some (role, t4) \<Rightarrow>
     (case read_int created_label t4 of None \<Rightarrow> None | Some (e, t5) \<Rightarrow>
     (case read_int exp_label t5 of None \<Rightarrow> None | Some (i, _) \<Rightarrow>
        Some (secret, \<lparr>cl_UserID = user, cl_SessionID = session, cl_Role = role,
                       cl_ExpiresAt = Some e, cl_IssuedAt = Some i\<rparr>)))))))"

definition ref_jwt :: jwt_lib where
  "ref_jwt =
     \<lparr>jwt_Sign = (\<lambda>_ secret c.
        case (cl_ExpiresAt c, cl_IssuedAt c) of
          (Some e, Some i) \<Rightarrow>
            if - (2 ^ 63) \<le> e \<and> e < 2 ^ 63 \<and> - (2 ^ 63) \<le> i \<and> i < 2 ^ 63
            then Inr (token_text secret c e i) else Inl (PlainErr ''time out of range'')
        | _ \<Rightarrow> Inl (PlainErr ''time missing'')),
      jwt_Parse = (\<lambda>now secret t.
        case token_read t of
          None \<Rightarrow> Inl (PlainErr ''malformed'')
        | Some (s, c) \<Rightarrow>
            if s = secret \<and> not_expired now c then Inr (True, c) else Inl (PlainErr ''invalid''))\<rparr>"

lemma exp_label_split: "exp_label @ s = CHR ''}'' # created_label @ s"
  by (simp add: exp_label_def)

lemma token_read_text:
  assumes "cl_ExpiresAt c = Some e" and "cl_IssuedAt c = Some i"
    and "- (2 ^ 63) \<le> e" and "e < 2 ^ 63" and "- (2 ^ 63) \<le> i" and "i < 2 ^ 63"
  shows "token_read (token_text secret c e i) = Some (secret, c)"
proof -
  have e: "read_int created_label (created_label @ dec_int e @ exp_label @ r) = Some (e, exp_label @ r)" for r
    unfolding exp_label_split by (rule read_int_dec [OF assms(3,4)])
  have i: "read_int exp_label (exp_label @ dec_int i @ ''}'') = Some (i, ''}'')"
    by (rule read_int_dec [OF assms(5,6)])
  show ?thesis
    using assms(1,2) by (simp add: token_read_def token_text_def read_string_json e i)
qed

interpretation jwt_ref: jwt_pkg ref_jwt
proof unfold_locales
  show "jwt_Parse ref_jwt now secret t = Inr (True, c)"
    if "jwt_Sign ref_jwt kid secret c = Inr t" "not_expired now c" for kid secret c t now
    using that by (auto simp: ref_jwt_def token_read_text split: option.splits if_splits)
  show "v \<and> not_expired now c" if "jwt_Parse ref_jwt now secret t = Inr (v, c)" for now secret t v c
    using that by (auto simp: ref_jwt_def split: option.splits if_splits)
  show "c' = c" if "jwt_Parse ref_jwt now secret t = Inr (v, c)" "jwt_Parse ref_jwt now' secret' t = Inr (v', c')"
    for now secret t v c now' secret' v' c'
    using that by (auto simp: ref_jwt_def split: option.splits if_splits)
qed

definition pad60 :: "string \<Rightarrow> string" where
  "pad60 p = p @ replicate (60 - length p) CHR ''$''"

definition ref_bcrypt :: bcrypt_lib where
  "ref_bcrypt =
     \<lparr>bc_Generate = (\<lambda>_ p. if length p \<le> 60 then Inr (pad60 p) else Inl (PlainErr ''password length exceeds the limit'')),
      bc_Compare = (\<lambda>h p. h = pad60 p)\<rparr>"

interpretation bcrypt_ref: bcrypt_pkg ref_bcrypt
  by unfold_locales (auto simp: ref_bcrypt_def pad60_def split: if_splits)

definition sample_auth :: "keyspace auth_svc" where
  "sample_auth =
     \<lparr>as_uuid = ref_uuid, as_jwt = ref_jwt, as_bcrypt = ref_bcrypt, as_sha256 = (\<lambda>_. []),
      as_keys = [\<lparr>jk_KID = ''k1'', jk_Secret = ''secret''\<rparr>], as_redis = ref_redis\<rparr>"

interpretation auth_ref: auth_env ref_redis "\<lambda>r. r" ref_jwt ref_uuid ref_bcrypt sample_auth
  by unfold_locales (simp_all add: sample_auth_def)

interpretation sessions_ref: session_store "session_Create ref_redis" "session_Get ref_redis"
    "session_Revoke ref_redis" "live_sessions (\<lambda>r. r)"
  by (rule redis_ref.sessions.session_store_axioms)


end
