(* ===== verification/AuthProps.thy ===== *)
theory AuthProps
  imports AuthFacts
begin

text \<open>Properties of the authentication module.\<close>

text \<open>
  C19. An access token made under the first key of one configuration is accepted under every
  configuration that still holds the key, in any position, until 15 minutes after it was issued,
  with exactly the claims it was made for; from then on it is refused.
\<close>

theorem access_token_lifetime:
  assumes "jwt_pkg (as_jwt A)" and "as_jwt A' = as_jwt A" and "as_keys A = key # older" and "key \<in> set (as_keys A')"
    and "GenerateAccessToken (as_jwt A) (as_keys A) t1 t2 u s r = Inr t" and "ascii u" and "ascii s" and "ascii r"
  shows "ValidateToken A' now t =
    (if now < t1 + 15 * 60
     then Inr \<lparr>cl_UserID = u, cl_SessionID = s, cl_Role = r, cl_ExpiresAt = Some (t1 + 15 * 60), cl_IssuedAt = Some t2\<rparr>
     else Inl (app_err ErrTokenInvalid ''invalid token''))"
  using jwt_pkg.GenerateAccessToken_verifies [OF assms(1) assms(5) [unfolded assms(3)] assms(4,6-8), of now]
  by (auto simp: ValidateToken_def assms(2))

theorem access_token_lifetime_witness:
  "\<exists>t. GenerateAccessToken ref_jwt (as_keys sample_auth) 0 0 ''u'' ''s'' ''user'' = Inr t \<and>
    ValidateToken (sample_auth\<lparr>as_keys := \<lparr>jk_KID = ''k2'', jk_Secret = ''new''\<rparr> # as_keys sample_auth\<rparr>) 899 t =
      Inr \<lparr>cl_UserID = ''u'', cl_SessionID = ''s'', cl_Role = ''user'', cl_ExpiresAt = Some 900, cl_IssuedAt = Some 0\<rparr>"
proof -
  obtain t where t: "GenerateAccessToken (as_jwt sample_auth) (as_keys sample_auth) 0 0 ''u'' ''s'' ''user'' = Inr t"
    by (simp add: sample_auth_def GenerateAccessToken_def Sign_km_def ref_jwt_def)
  have "ValidateToken (sample_auth\<lparr>as_keys := \<lparr>jk_KID = ''k2'', jk_Secret = ''new''\<rparr> # as_keys sample_auth\<rparr>) 899 t =
      Inr \<lparr>cl_UserID = ''u'', cl_SessionID = ''s'', cl_Role = ''user'', cl_ExpiresAt = Some 900, cl_IssuedAt = Some 0\<rparr>"
    using access_token_lifetime [OF _ _ _ _ t, of "sample_auth\<lparr>as_keys := \<lparr>jk_KID = ''k2'', jk_Secret = ''new''\<rparr> # as_keys sample_auth\<rparr>"
        "\<lparr>jk_KID = ''k1'', jk_Secret = ''secret''\<rparr>" "[]" 899]
    by (simp add: sample_auth_def jwt_ref.jwt_pkg_axioms)
  with t show ?thesis by (auto simp: sample_auth_def)
qed

text \<open>
  C20. Whoever has registered can log in with the same name and password: while no statement fails,
  \<open>Login\<close> reaches the making of the tokens for the registered user, and fails only if the token
  cannot be signed or the session not be stored. The access token then stands for that user, with
  the role \<open>user\<close>, for 15 minutes.
\<close>

theorem register_then_login:
  assumes "auth_env R K J U B A"
    and "Register A salt \<lparr>rr_Username = name, rr_Password = pw, rr_Email = email\<rparr> w = (Inr uid, w1)"
    and "no_faults (w_db w1)"
    and "Login A dr \<lparr>lr_Username = name, lr_Password = pw\<rparr> w1 = (res, w2)"
  shows "uid \<noteq> '''' \<and> users (w_db w2) = users (w_db w1) \<and>
    (case res of
       Inl e \<Rightarrow> err_code e = None
     | Inr tp \<Rightarrow> \<forall>now < dr_expires_from dr + 15 * 60. \<exists>c. ValidateToken A now (tp_AccessToken tp) = Inr c \<and>
         cl_UserID c = uid \<and> cl_Role c = ''user'')"
proof -
  obtain u where uid: "uid = uuid_String U u"
    and l: "Login A dr \<lparr>lr_Username = name, lr_Password = pw\<rparr> w1 =
      generateTokenPair A dr uid (w1\<lparr>w_db := tick (tick (w_db w1))\<rparr>)"
    using auth_env.Login_after_Register [OF assms(1-3)] by blast
  have g: "generateTokenPair A dr (uuid_String U u) (w1\<lparr>w_db := tick (tick (w_db w1))\<rparr>) = (res, w2)"
    using l assms(4) uid by simp
  have "uid \<noteq> ''''" using uuid_pkg.string_nonempty [OF auth_env.axioms(3) [OF assms(1)]] uid by simp
  moreover have "users (w_db w2) = users (w_db w1)" using generateTokenPair_db [OF g] by simp
  moreover have "case res of Inl e \<Rightarrow> err_code e = None
     | Inr tp \<Rightarrow> \<forall>now < dr_expires_from dr + 15 * 60. \<exists>c. ValidateToken A now (tp_AccessToken tp) = Inr c \<and>
         cl_UserID c = uid \<and> cl_Role c = ''user''"
  proof (cases res)
    case (Inl e)
    then show ?thesis using generateTokenPair_Inl [of A dr _ _ e w2] g by simp
  next
    case (Inr tp)
    then show ?thesis using auth_env.access_token_verifies [OF assms(1) g [unfolded Inr]] uid by simp
  qed
  ultimately show ?thesis by blast
qed

definition zoe :: register_request where
  "zoe = \<lparr>rr_Username = ''zoe'', rr_Password = ''pw'', rr_Email = ''''\<rparr>"

definition sample_draws :: draws where
  "sample_draws = \<lparr>dr_nanos = 1, dr_expires_from = 0, dr_issued = 0, dr_random = [1], dr_nanos_stored = 2, dr_created = 0\<rparr>"

lemma sample_credentials [simp]: "credentials sample_db = []"
  by (simp add: sample_db_def empty_db_def)

lemma zoe_registers:
  "\<exists>uid w1. Register sample_auth [] zoe (sample_world ()) = (Inr uid, w1) \<and> no_faults (w_db w1)"
proof -
  let ?u = "sample_user 100 ''zoe''\<lparr>u_display_name := Some ''zoe'', u_metadata := Some ''{}''\<rparr>"
  let ?d = "(tick sample_db)\<lparr>users := users sample_db @ [?u]\<rparr>"
  have u: "CreateUser_sql ''zoe'' None (Some ''zoe'') sample_db = (Inr ?u, ?d)"
    unfolding CreateUser_sql_def stmt_nf [OF sample_no_faults] Let_def by (simp add: sample_defs go_defs)
  have nf: "no_faults ?d" by (simp add: no_faults_def sample_env_def)
  have "100 \<in> user_ids ?d" by (simp add: user_ids_def sample_user_def)
  then obtain c where c: "CreateCredential_sql 100 ''password'' ''zoe'' (Some (pad60 ''pw'')) True ?d =
      (Inr c, (tick ?d)\<lparr>credentials := [c]\<rparr>)"
    using CreateCredential_ok [OF nf, of 100 "''password''" "''zoe''" "Some (pad60 ''pw'')" True]
    by (auto simp: varchar_opt_ok_def varchar_ok_def char_count_def pad60_def)
  have "no_faults ((tick ?d)\<lparr>credentials := [c]\<rparr>)" using nf by (simp add: no_faults_def)
  moreover have "u_id ?u = 100" by (simp add: sample_user_def)
  ultimately show ?thesis
    using u c by (simp add: Register_def zoe_def sample_auth_def ref_bcrypt_def null_if_empty_def on_db_def)
qed

theorem register_then_login_witness:
  "\<exists>uid w1 res w2. Register sample_auth [] zoe (sample_world ()) = (Inr uid, w1) \<and>
    Login sample_auth sample_draws \<lparr>lr_Username = ''zoe'', lr_Password = ''pw''\<rparr> w1 = (res, w2) \<and> uid \<noteq> ''''"
proof -
  obtain uid w1 where r: "Register sample_auth [] \<lparr>rr_Username = ''zoe'', rr_Password = ''pw'', rr_Email = ''''\<rparr>
      (sample_world ()) = (Inr uid, w1)" "no_faults (w_db w1)"
    using zoe_registers unfolding zoe_def by blast
  obtain res w2 where l: "Login sample_auth sample_draws \<lparr>lr_Username = ''zoe'', lr_Password = ''pw''\<rparr> w1 = (res, w2)"
    by fastforce
  from register_then_login [OF auth_ref.auth_env_axioms r l] have "uid \<noteq> ''''" by simp
  with r l show ?thesis unfolding zoe_def by blast
qed

text \<open>
  Tokens go to active accounts only: if \<open>Login\<close> returns a pair, the table holds a password
  credential of that name whose hash accepts the password, its user exists and is active, and the
  access token stands for that user.
\<close>

theorem login_needs_active_account:
  assumes "auth_env R K J U B A" and "Login A dr req w = (Inr tp, w')"
  shows "\<exists>cred \<in> set (credentials (w_db w)). \<exists>user \<in> set (users (w_db w)).
    cr_type cred = ''password'' \<and> cr_identifier cred = lr_Username req \<and>
    bc_Compare B (null_string (cr_secret_hash cred)) (lr_Password req) \<and>
    u_id user = cr_user_id cred \<and> u_status user = ''active'' \<and>
    (\<forall>now < dr_expires_from dr + 15 * 60. \<exists>c. ValidateToken A now (tp_AccessToken tp) = Inr c \<and>
       cl_UserID c = uuid_String U (u_id user))"
proof -
  have A: "as_uuid A = U" "as_bcrypt A = B" using assms(1) by (simp_all add: auth_env_def auth_env_axioms_def)
  obtain cred user d where l: "cred \<in> set (credentials (w_db w))" "cr_type cred = ''password''"
    "cr_identifier cred = lr_Username req" "bc_Compare B (null_string (cr_secret_hash cred)) (lr_Password req)"
    "user \<in> set (users (w_db w))" "u_id user = cr_user_id cred" "u_status user = ''active''"
    "generateTokenPair A dr (uuid_String U (u_id user)) (w\<lparr>w_db := d\<rparr>) = (Inr tp, w')"
    using Login_Inr [OF assms(2), unfolded A] by blast
  have "\<exists>c. ValidateToken A now (tp_AccessToken tp) = Inr c \<and> cl_UserID c = uuid_String U (u_id user)"
    if "now < dr_expires_from dr + 15 * 60" for now
    using auth_env.access_token_verifies [OF assms(1) l(8), of now] that by simp
  with l show ?thesis by blast
qed

lemma sample_pair:
  "\<exists>t w'. generateTokenPair sample_auth sample_draws uid w = (Inr \<lparr>tp_AccessToken = t, tp_RefreshToken = ''ref_01''\<rparr>, w') \<and>
    w_db w' = w_db w \<and> w_redis w' = (w_redis w)(session_key ''sess_2'' \<mapsto> RStr (session_Marshal
      \<lparr>ss_ID = ''sess_2'', ss_UserID = uid, ss_RefreshTokenHash = '''', ss_CreatedAt = 0\<rparr>))"
  by (simp add: generateTokenPair_def Let_def sample_draws_def generateRefreshToken_def digit_char_def
      GenerateAccessToken_def Sign_km_def sample_auth_def ref_jwt_def session_Create_def on_redis_def ref_redis_def
      hashToken_def generateSessionID_def dec_int_def dec_nat_small)

lemma zoe_logs_in:
  "\<exists>uid w1 tp w2. Register sample_auth [] zoe (sample_world ()) = (Inr uid, w1) \<and> no_faults (w_db w1) \<and>
    Login sample_auth sample_draws \<lparr>lr_Username = ''zoe'', lr_Password = ''pw''\<rparr> w1 = (Inr tp, w2)"
proof -
  obtain uid w1 where r: "Register sample_auth [] zoe (sample_world ()) = (Inr uid, w1)" "no_faults (w_db w1)"
    using zoe_registers by blast
  from auth_ref.Login_after_Register [OF r(1) [unfolded zoe_def] r(2), of sample_draws]
    sample_pair [of uid "w1\<lparr>w_db := tick (tick (w_db w1))\<rparr>"] r
  show ?thesis by auto
qed

theorem login_needs_active_account_witness:
  "\<exists>uid w1 tp w2. Register sample_auth [] zoe (sample_world ()) = (Inr uid, w1) \<and>
    Login sample_auth sample_draws \<lparr>lr_Username = ''zoe'', lr_Password = ''pw''\<rparr> w1 = (Inr tp, w2) \<and>
    (\<exists>user \<in> set (users (w_db w1)). u_status user = ''active'')"
proof -
  obtain uid w1 tp w2 where l: "Register sample_auth [] zoe (sample_world ()) = (Inr uid, w1)"
    "Login sample_auth sample_draws \<lparr>lr_Username = ''zoe'', lr_Password = ''pw''\<rparr> w1 = (Inr tp, w2)"
    using zoe_logs_in by blast
  from login_needs_active_account [OF auth_ref.auth_env_axioms l(2)] l show ?thesis by blast
qed

text \<open>
  C39. The refresh token of a pair never works: sessions are filed under the ids that
  \<open>generateSessionID\<close> makes, and \<open>RefreshToken\<close> looks the token up as if it were one, so every
  refresh with the token that \<open>Login\<close> handed out is refused with \<open>SESSION_REVOKED\<close>.
\<close>

theorem refresh_token_refused:
  assumes "auth_env R K J U B A" and "session_named (live_sessions K w)" and "int64_range (dr_created dr)"
    and "Login A dr req w = (Inr tp, w1)" and "RefreshToken A dr' (tp_RefreshToken tp) w1 = (res, w2)"
  shows "res = Inl (app_err ErrSessionRevoked ''invalid or expired refresh token'')"
proof -
  obtain uid v where "generateTokenPair A dr uid v = (Inr tp, w1)" using Login_Inr [OF assms(4)] by blast
  then have t: "tp_RefreshToken tp = ''ref_'' @ hex_encode (dr_random dr)"
    using generateTokenPair_Inr by (metis generateRefreshToken_def)
  have "session_named (live_sessions K w1)"
    by (rule auth_env.Login_keeps_named [OF assms(1,4,3,2)])
  from auth_env.Refresh_other_name [OF assms(1) this assms(5) [unfolded t]] show ?thesis .
qed

lemma sample_named: "session_named (live_sessions (\<lambda>r. r) (sample_world ()))"
  by (simp add: session_named_def live_sessions_def)

lemma register_keeps_sessions:
  "Register A salt req w = (x, w') \<Longrightarrow> live_sessions K w' = live_sessions K w"
  by (auto simp: Register_def split: if_splits sum.splits prod.splits dest!: live_on_db [where K = K])

theorem refresh_token_refused_witness:
  "\<exists>(w1 :: (keyspace, unit) world) tp w2 res w3. Login sample_auth sample_draws \<lparr>lr_Username = ''zoe'', lr_Password = ''pw''\<rparr> w1 = (Inr tp, w2) \<and>
    RefreshToken sample_auth sample_draws (tp_RefreshToken tp) w2 = (res, w3) \<and>
    err_code (projl res) = Some ''SESSION_REVOKED''"
proof -
  obtain uid w1 tp w2 where l: "Register sample_auth [] zoe (sample_world ()) = (Inr uid, w1)"
    "Login sample_auth sample_draws \<lparr>lr_Username = ''zoe'', lr_Password = ''pw''\<rparr> w1 = (Inr tp, w2)"
    using zoe_logs_in by blast
  have n: "session_named (live_sessions (\<lambda>r. r) w1)"
    using sample_named register_keeps_sessions [OF l(1), of "\<lambda>r. r"] by simp
  obtain res w3 where r: "RefreshToken sample_auth sample_draws (tp_RefreshToken tp) w2 = (res, w3)" by fastforce
  have "int64_range (dr_created sample_draws)" by (simp add: int64_range_def sample_draws_def)
  from refresh_token_refused [OF auth_ref.auth_env_axioms n this l(2) r]
  have "err_code (projl res) = Some ''SESSION_REVOKED''" by (simp add: ErrSessionRevoked_def)
  with l(2) r show ?thesis by blast
qed

text \<open>
  What does refresh is the id of a stored session, and once only: the new pair stands for the
  user of the session, the session is gone, a new one for the same user is stored, and the same id
  is refused from then on.
\<close>

theorem session_id_refreshes_once:
  assumes "auth_env R K J U B A" and "session_named (live_sessions K w)" and "int64_range (dr_created dr)"
    and "RefreshToken A dr i w = (Inr tp, w1)" and "generateSessionID (dr_nanos_stored dr) \<noteq> i"
  shows "\<exists>s s'. live_sessions K w i = Some s \<and>
    live_sessions K w1 = (live_sessions K w)(i := None, generateSessionID (dr_nanos_stored dr) \<mapsto> s') \<and>
    ss_UserID s' = ss_UserID s \<and> ss_RefreshTokenHash s' = hashToken A (tp_RefreshToken tp) \<and>
    (\<forall>dr'. fst (RefreshToken A dr' i w1) = Inl (app_err ErrSessionRevoked ''invalid or expired refresh token''))"
proof -
  obtain s v where r: "live_sessions K w i = Some s" "live_sessions K v = (live_sessions K w)(i := None)"
    "generateTokenPair A dr (ss_UserID s) v = (Inr tp, w1)"
    using auth_env.Refresh_Inr [OF assms(1,2,4)] by blast
  note live = auth_env.pair_stores [OF assms(1) r(3) assms(3), unfolded r(2)]
  have "live_sessions K w1 i = None" using live assms(5) by simp
  then have "fst (RefreshToken A dr' i w1) = Inl (app_err ErrSessionRevoked ''invalid or expired refresh token'')" for dr'
    using auth_env.Refresh_absent [OF assms(1) _ prod.collapse [symmetric]] by blast
  with r(1) live show ?thesis by fastforce
qed

definition one_session :: "(keyspace, unit) world" where
  "one_session = sample_world ()\<lparr>w_redis := [session_key ''sess_7'' \<mapsto> RStr (session_Marshal
     \<lparr>ss_ID = ''sess_7'', ss_UserID = ''zoe-id'', ss_RefreshTokenHash = '''', ss_CreatedAt = 0\<rparr>)]\<rparr>"

lemma one_session_live: "live_sessions (\<lambda>r. r) one_session = [''sess_7'' \<mapsto>
    \<lparr>ss_ID = ''sess_7'', ss_UserID = ''zoe-id'', ss_RefreshTokenHash = '''', ss_CreatedAt = 0\<rparr>]"
  by (rule ext) (simp add: live_sessions_def one_session_def session_Unmarshal_Marshal int64_range_def)

lemma one_session_named: "session_named (live_sessions (\<lambda>r. r) one_session)"
proof -
  have "''sess_7'' = generateSessionID 7" by (simp add: generateSessionID_def dec_int_def dec_nat_small digit_char_def)
  then show ?thesis unfolding one_session_live session_named_def by (simp split: if_splits) blast
qed

theorem session_id_refreshes_once_witness:
  "\<exists>tp w1. RefreshToken sample_auth sample_draws ''sess_7'' one_session = (Inr tp, w1) \<and>
    fst (RefreshToken sample_auth sample_draws ''sess_7'' w1) = Inl (app_err ErrSessionRevoked ''invalid or expired refresh token'')"
proof -
  let ?s = "\<lparr>ss_ID = ''sess_7'', ss_UserID = ''zoe-id'', ss_RefreshTokenHash = '''', ss_CreatedAt = 0\<rparr>"
  let ?v = "one_session\<lparr>w_redis := (w_redis one_session)(session_key ''sess_7'' := None)\<rparr>"
  have g: "session_Get ref_redis ''sess_7'' one_session = (Inr ?s, one_session)"
    by (simp add: session_Get_def on_redis_def ref_redis_def one_session_def session_Unmarshal_Marshal int64_range_def)
  have v: "session_Revoke ref_redis ''sess_7'' one_session = (Inr (), ?v)"
    by (simp add: session_Revoke_def on_redis_def ref_redis_def one_session_def)
  have R: "as_redis sample_auth = ref_redis" by (simp add: sample_auth_def)
  have "RefreshToken sample_auth sample_draws ''sess_7'' one_session = generateTokenPair sample_auth sample_draws ''zoe-id'' ?v"
    by (simp only: RefreshToken_def R g v prod.case sum.case session.simps)
  with sample_pair [of "''zoe-id''" ?v]
  obtain tp w1 where r: "RefreshToken sample_auth sample_draws ''sess_7'' one_session = (Inr tp, w1)" by metis
  have "int64_range (dr_created sample_draws)" "generateSessionID (dr_nanos_stored sample_draws) \<noteq> ''sess_7''"
    by (simp_all add: int64_range_def sample_draws_def generateSessionID_def dec_int_def dec_nat_small digit_char_def)
  from session_id_refreshes_once [OF auth_ref.auth_env_axioms one_session_named this(1) r this(2)] r
  show ?thesis by blast
qed

lemma on_redis_any_db: "on_redis c w = (x, w1) \<Longrightarrow> on_redis c (w\<lparr>w_db := d\<rparr>) = (x, w1\<lparr>w_db := d\<rparr>)"
  by (cases "c (w_redis w)") (auto simp: on_redis_def)

lemma session_Get_any_db:
  assumes "session_Get R i w = (r, w1)"
  shows "session_Get R i (w\<lparr>w_db := d\<rparr>) = (r, w1\<lparr>w_db := d\<rparr>)"
proof -
  obtain x w2 where x: "on_redis (rc_Get R (session_key i)) w = (x, w2)" by fastforce
  note x' = on_redis_any_db [OF x, of d]
  show ?thesis
    using assms unfolding session_Get_def x x' by (cases x) (auto split: option.splits)
qed

lemma session_Revoke_any_db:
  assumes "session_Revoke R i w = (r, w1)"
  shows "session_Revoke R i (w\<lparr>w_db := d\<rparr>) = (r, w1\<lparr>w_db := d\<rparr>)"
proof -
  obtain x w2 where x: "on_redis (rc_Del R (session_key i)) w = (x, w2)" by fastforce
  note x' = on_redis_any_db [OF x, of d]
  show ?thesis
    using assms unfolding session_Revoke_def x x' by (cases x) auto
qed

lemma generateTokenPair_any_db:
  assumes "generateTokenPair A dr u w = (r, w1)"
  shows "generateTokenPair A dr u (w\<lparr>w_db := d\<rparr>) = (r, w1\<lparr>w_db := d\<rparr>)"
proof -
  let ?s = "\<lparr>ss_ID = generateSessionID (dr_nanos_stored dr), ss_UserID = u,
    ss_RefreshTokenHash = hashToken A (generateRefreshToken (dr_random dr)), ss_CreatedAt = dr_created dr\<rparr>"
  obtain x w2 where x: "on_redis (rc_Set (as_redis A) (session_key (ss_ID ?s)) (session_Marshal ?s) (7 * 24 * 60 * 60)) w = (x, w2)"
    by fastforce
  note x' = on_redis_any_db [OF x, of d]
  show ?thesis
    using assms unfolding generateTokenPair_def session_Create_def Let_def x x' by (cases x) (auto split: sum.splits)
qed

text \<open>
  Refreshing never looks at the account: whatever is done to the database, such as banning the
  user, the answer of \<open>RefreshToken\<close> stays the same.
\<close>

theorem refresh_ignores_accounts:
  "RefreshToken A dr i (w\<lparr>w_db := d\<rparr>) =
    (fst (RefreshToken A dr i w), (snd (RefreshToken A dr i w))\<lparr>w_db := d\<rparr>)"
proof -
  obtain r w1 where g: "session_Get (as_redis A) i w = (r, w1)" by fastforce
  have g': "session_Get (as_redis A) i (w\<lparr>w_db := d\<rparr>) = (r, w1\<lparr>w_db := d\<rparr>)"
    using g by (rule session_Get_any_db)
  show ?thesis
  proof (cases r)
    case (Inl e)
    then show ?thesis using g g' by (simp add: RefreshToken_def)
  next
    case (Inr s)
    obtain r2 w2 where v: "session_Revoke (as_redis A) (ss_ID s) w1 = (r2, w2)" by fastforce
    have v': "session_Revoke (as_redis A) (ss_ID s) (w1\<lparr>w_db := d\<rparr>) = (r2, w2\<lparr>w_db := d\<rparr>)"
      using v by (rule session_Revoke_any_db)
    show ?thesis
      using g g' v v' Inr by (cases r2) (simp_all add: RefreshToken_def generateTokenPair_any_db [OF prod.collapse [symmetric]])
  qed
qed

text \<open>
  Logging out with the session id that the access token names does not end the session: the
  token and the store got their ids from two different calls of the clock. The stored session is
  still there after the logout.
\<close>

theorem logout_misses_session:
  assumes "auth_env R K J U B A" and "int64_range (dr_created dr)"
    and "generateTokenPair A dr (uuid_String U u) w = (Inr tp, w1)"
    and "generateSessionID (dr_nanos dr) \<noteq> generateSessionID (dr_nanos_stored dr)"
    and "now < dr_expires_from dr + 15 * 60" and "ValidateToken A now (tp_AccessToken tp) = Inr c"
    and "Logout A (cl_SessionID c) w1 = (Inr (), w2)"
  shows "\<exists>s. live_sessions K w2 (generateSessionID (dr_nanos_stored dr)) = Some s \<and> ss_UserID s = uuid_String U u \<and>
    ss_RefreshTokenHash s = hashToken A (tp_RefreshToken tp)"
proof -
  have "cl_SessionID c = generateSessionID (dr_nanos dr)"
    using auth_env.access_token_verifies [OF assms(1,3), of now] assms(5,6) by simp
  then show ?thesis
    using auth_env.Logout_Inr [OF assms(1,7)] auth_env.pair_stores [OF assms(1,3,2)] assms(4) by simp
qed

theorem logout_misses_session_witness:
  "\<exists>tp w1 c w2 s. generateTokenPair sample_auth sample_draws (uuid_String ref_uuid 1) (sample_world ()) = (Inr tp, w1) \<and>
    ValidateToken sample_auth 5 (tp_AccessToken tp) = Inr c \<and> Logout sample_auth (cl_SessionID c) w1 = (Inr (), w2) \<and>
    live_sessions (\<lambda>r. r) w2 ''sess_2'' = Some s"
proof -
  obtain tp w1 where p: "generateTokenPair sample_auth sample_draws (uuid_String ref_uuid 1) (sample_world ()) = (Inr tp, w1)"
    using sample_pair by metis
  have t: "5 < dr_expires_from sample_draws + 15 * 60" and i: "int64_range (dr_created sample_draws)"
    and ids: "generateSessionID (dr_nanos sample_draws) = ''sess_1''" "generateSessionID (dr_nanos_stored sample_draws) = ''sess_2''"
    by (simp_all add: sample_draws_def int64_range_def generateSessionID_def dec_int_def dec_nat_small digit_char_def)
  obtain c where c: "ValidateToken sample_auth 5 (tp_AccessToken tp) = Inr c"
    using auth_ref.access_token_verifies [OF p, of 5] t by simp
  obtain w2 where l: "Logout sample_auth (cl_SessionID c) w1 = (Inr (), w2)"
    by (simp add: Logout_def session_Revoke_def on_redis_def sample_auth_def ref_redis_def)
  from logout_misses_session [OF auth_ref.auth_env_axioms i p _ t c l] p c l show ?thesis by (simp add: ids) blast
qed

lemma guard_status [simp]:
  "HTTPStatus (errors_New ErrUnauthorized m) = 401" "HTTPStatus (errors_New ErrTokenInvalid m) = 401"
  by (simp_all add: HTTPStatus_def go_defs)

definition bearer :: "string \<Rightarrow> string \<Rightarrow> bool" where
  "bearer hdr token \<longleftrightarrow> (\<exists>scheme. hdr = scheme @ CHR '' '' # token \<and> CHR '' '' \<notin> set scheme \<and> equal_fold scheme ''bearer'')"

lemma auth_check_cases:
  obtains (pass) token c where "bearer (rq_header rq ''Authorization'') token" and "ValidateToken A now token = Inr c"
      and "(auth_check A now rq h :: 'd response + request) = Inr (rq\<lparr>rq_user := Some (cl_UserID c),
        rq_session := Some (cl_SessionID c), rq_role := Some (cl_Role c)\<rparr>)"
    | (refuse) e where "(auth_check A now rq h :: 'd response + request) = Inl (WriteHTTP e h)" and "HTTPStatus e = 401"
proof (cases "dropWhile (\<lambda>c. c \<noteq> CHR '' '') (rq_header rq ''Authorization'')")
  let ?a = "rq_header rq ''Authorization''"
  case Nil
  then have "split_space2 ?a = [?a]" by (simp only: split_space2_def list.case)
  then obtain m where "(auth_check A now rq h :: 'd response + request) = Inl (WriteHTTP (errors_New ErrUnauthorized m) h)"
    by (cases "?a = ''''") (auto simp: auth_check_def)
  from refuse [OF this guard_status(1)] show thesis .
next
  let ?a = "rq_header rq ''Authorization''"
  let ?s = "takeWhile (\<lambda>c. c \<noteq> CHR '' '') ?a"
  case (Cons x token)
  have x: "x = CHR '' ''" using hd_dropWhile [of "\<lambda>c. c \<noteq> CHR '' ''" ?a] unfolding Cons by simp
  have a: "?a = ?s @ CHR '' '' # token" using takeWhile_dropWhile_id [of "\<lambda>c. c \<noteq> CHR '' ''" ?a] unfolding Cons x by (rule sym)
  have s: "CHR '' '' \<notin> set ?s" by (auto dest: set_takeWhileD)
  have ne: "?a \<noteq> ''''" using Cons by auto
  have split: "split_space2 ?a = [?s, token]" using Cons by (simp only: split_space2_def list.case)
  note guard = auth_check_def [where 'd = 'd, of A now rq h, unfolded Let_def split list.case, simplified ne if_False]
  show thesis
  proof (cases "equal_fold ?s ''bearer''")
    case False
    then show thesis by - (rule refuse, simp add: guard, simp)
  next
    case True
    then have b: "bearer ?a token" unfolding bearer_def using a s by blast
    show thesis
    proof (cases "ValidateToken A now token")
      case (Inl e)
      then show thesis using True by - (rule refuse, simp add: guard, simp)
    next
      case (Inr c)
      then show thesis using True by - (rule pass [OF b], assumption, simp add: guard)
    qed
  qed
qed

lemma AuthGuard_cases:
  obtains (pass) token c where "bearer (rq_header rq ''Authorization'') token" and "ValidateToken A now token = Inr c"
      and "AuthGuard A now (handler :: ('w, 'd) endpoint) rq h w = handler (rq\<lparr>rq_user := Some (cl_UserID c),
        rq_session := Some (cl_SessionID c), rq_role := Some (cl_Role c)\<rparr>) h w"
    | (refuse) resp where "AuthGuard A now handler rq h w = (resp, w)" and "rs_status resp = 401"
proof (cases rule: auth_check_cases [where 'd = 'd and A = A and now = now and rq = rq and h = h])
  case (pass token c)
  show thesis by (rule that(1) [OF pass(1,2)]) (simp add: AuthGuard_def pass(3))
next
  case (refuse e)
  show thesis by (rule that(2) [of "WriteHTTP e h"]) (simp_all add: AuthGuard_def refuse WriteHTTP_def)
qed

lemma admin_guard_cases:
  obtains (pass) token c where "bearer (rq_header rq ''Authorization'') token" and "ValidateToken A now token = Inr c"
      and "cl_Role c = ''admin''" and "AuthGuard A now (RequireAdmin handler) rq h w =
        handler (rq\<lparr>rq_user := Some (cl_UserID c), rq_session := Some (cl_SessionID c), rq_role := Some (cl_Role c)\<rparr>) h w"
    | (refuse) resp where "AuthGuard A now (RequireAdmin handler) rq h w = (resp, w)" and "rs_status resp \<in> {401, 403}"
proof (cases rule: AuthGuard_cases [where rq = rq and A = A and now = now and handler = "RequireAdmin handler" and h = h and w = w])
  case (pass token c)
  show thesis
  proof (cases "cl_Role c = ''admin''")
    case True
    then have "AuthGuard A now (RequireAdmin handler) rq h w =
        handler (rq\<lparr>rq_user := Some (cl_UserID c), rq_session := Some (cl_SessionID c), rq_role := Some (cl_Role c)\<rparr>) h w"
      using pass(3) by (simp add: RequireAdmin_def admin_check_def null_string_def)
    from that(1) [OF pass(1,2) True this] show thesis .
  next
    case False
    with pass(3) have "AuthGuard A now (RequireAdmin handler) rq h w = (http_Error ''{\"error\":\"forbidden\"}'' 403 h, w)"
      by (simp add: RequireAdmin_def admin_check_def null_string_def)
    then show thesis by (rule that(2)) (simp add: http_Error_def)
  qed
next
  case (refuse resp)
  from that(2) [OF refuse(1)] refuse(2) show thesis by simp
qed

text \<open>
  The guards in front of the admin routes, in the order of the code: the handler runs only for
  a header with the scheme \<open>bearer\<close> and a token that verifies to claims with the role \<open>admin\<close>, and
  it then gets exactly these claims in its context. Every other request is answered with 401 or
  403, and nothing is done.
\<close>

theorem admin_guard_exact:
  "(\<exists>token c. bearer (rq_header rq ''Authorization'') token \<and> ValidateToken A now token = Inr c \<and> cl_Role c = ''admin'' \<and>
      AuthGuard A now (RequireAdmin handler) rq h w =
        handler (rq\<lparr>rq_user := Some (cl_UserID c), rq_session := Some (cl_SessionID c), rq_role := Some (cl_Role c)\<rparr>) h w) \<or>
    (\<exists>resp. AuthGuard A now (RequireAdmin handler) rq h w = (resp, w) \<and> rs_status resp \<in> {401, 403})"
  by (cases rule: admin_guard_cases [where rq = rq and A = A and now = now and handler = handler and h = h and w = w]) blast+

end
