(* ===== verification/Platforms.thy ===== *)
theory Platforms
  imports AuthFacts "HOL-Library.AList"
begin

text \<open>
  The platforms module (\<open>internal/platforms\<close>): the interface of an OAuth provider, the registry of
  providers, the WeChat provider, the service that logs in, binds and unbinds platform identities,
  and its HTTP handlers. What the remote platform answers is a parameter.
\<close>

subsection \<open>Providers\<close>

text \<open>\<open>OAuthToken\<close> and \<open>PlatformUser\<close>; a time is in microseconds, \<open>None\<close> the zero time.\<close>

record oauth_token =
  ot_AccessToken :: string
  ot_RefreshToken :: string
  ot_OpenID :: string
  ot_ExpiresAt :: "int option"
  ot_Scope :: string

record platform_user =
  pu_PlatformID :: string
  pu_DisplayName :: string
  pu_AvatarURL :: string

record oauth_provider =
  op_Name :: string
  op_GetAuthURL :: "string \<Rightarrow> string"
  op_ExchangeCode :: "string \<Rightarrow> go_error + oauth_token"
  op_GetUserInfo :: "oauth_token \<Rightarrow> go_error + platform_user"

text \<open>
  \<open>PlatformRegistry\<close>: the entries of the Go map in the order in which a traversal meets them, which
  the language leaves open.
\<close>

type_synonym registry = "(string \<times> oauth_provider) list"

definition NewPlatformRegistry :: registry where
  "NewPlatformRegistry = []"

definition RegisterOAuth :: "oauth_provider \<Rightarrow> registry \<Rightarrow> registry" where
  "RegisterOAuth p reg = AList.update (op_Name p) p reg"

definition GetOAuth :: "string \<Rightarrow> registry \<Rightarrow> oauth_provider option" where
  "GetOAuth name reg = map_of reg name"

definition ListPlatforms :: "registry \<Rightarrow> string list" where
  "ListPlatforms reg = map fst reg"

subsection \<open>WeChat\<close>

text \<open>\<open>url.QueryEscape\<close> and \<open>url.Values.Encode\<close>, which sorts by key.\<close>

definition query_char :: "char \<Rightarrow> string" where
  "query_char c =
     (let n = of_char c :: nat in
      if (48 \<le> n \<and> n \<le> 57) \<or> (65 \<le> n \<and> n \<le> 90) \<or> (97 \<le> n \<and> n \<le> 122) \<or> c \<in> set ''-_.~'' then [c]
      else if c = CHR '' '' then ''+''
      else [CHR ''%'', ''0123456789ABCDEF'' ! (n div 16), ''0123456789ABCDEF'' ! (n mod 16)])"

definition QueryEscape :: "string \<Rightarrow> string" where
  "QueryEscape s = concat (map query_char s)"

fun join_params :: "(string \<times> string) list \<Rightarrow> string" where
  "join_params [] = []"
| "join_params [(k, v)] = QueryEscape k @ ''='' @ QueryEscape v"
| "join_params ((k, v) # kvs) = QueryEscape k @ ''='' @ QueryEscape v @ ''&'' @ join_params kvs"

definition Encode_values :: "(string \<times> string) list \<Rightarrow> string" where
  "Encode_values kvs = join_params (sort_key fst kvs)"

record wechat_config =
  wc_AppID :: string
  wc_AppSecret :: string
  wc_RedirectURI :: string

text \<open>A GET request of the client: it fails, or the body is not the expected JSON, or it decodes.\<close>

datatype 'a json_reply = HttpFailed | BadJson | Decoded 'a

record token_reply =
  tr_access_token :: string
  tr_openid :: string
  tr_expires_in :: int
  tr_refresh_token :: string
  tr_errcode :: int
  tr_errmsg :: string

record user_reply =
  ur_openid :: string
  ur_nickname :: string
  ur_headimgurl :: string
  ur_errcode :: int
  ur_errmsg :: string

definition wechat_GetAuthURL :: "wechat_config \<Rightarrow> string \<Rightarrow> string" where
  "wechat_GetAuthURL c state =
     ''https://open.weixin.qq.com/connect/qrconnect?'' @
     Encode_values [(''appid'', wc_AppID c), (''redirect_uri'', wc_RedirectURI c), (''response_type'', ''code''),
       (''scope'', ''snsapi_login''), (''state'', state)] @ ''#wechat_redirect''"

definition wechat_error :: "int \<Rightarrow> string \<Rightarrow> go_error" where
  "wechat_error code msg = app_err ErrPlatformAuthFailed (''wechat error: '' @ dec_int code @ '' '' @ msg)"

text \<open>The lifetime is a \<open>time.Duration\<close>, a number of nanoseconds in 64 bits.\<close>

definition wechat_ExchangeCode ::
    "wechat_config \<Rightarrow> (string \<Rightarrow> token_reply json_reply) \<Rightarrow> int \<Rightarrow> string \<Rightarrow> go_error + oauth_token" where
  "wechat_ExchangeCode c http_get now code =
     (case http_get (''https://api.weixin.qq.com/sns/oauth2/access_token?appid='' @ wc_AppID c @ ''&secret='' @ wc_AppSecret c
                     @ ''&code='' @ code @ ''&grant_type=authorization_code'') of
        HttpFailed \<Rightarrow> Inl (app_err ErrPlatformAuthFailed ''wechat token exchange failed'')
      | BadJson \<Rightarrow> Inl (app_err ErrPlatformAuthFailed ''wechat token response parse failed'')
      | Decoded r \<Rightarrow>
          if tr_errcode r \<noteq> 0 then Inl (wechat_error (tr_errcode r) (tr_errmsg r))
          else Inr \<lparr>ot_AccessToken = tr_access_token r, ot_RefreshToken = tr_refresh_token r, ot_OpenID = tr_openid r,
                    ot_ExpiresAt = Some (now + to_i64 (tr_expires_in r * 1000000000) div 1000), ot_Scope = ''''\<rparr>)"

definition wechat_GetUserInfo ::
    "(string \<Rightarrow> user_reply json_reply) \<Rightarrow> oauth_token \<Rightarrow> go_error + platform_user" where
  "wechat_GetUserInfo http_get token =
     (case http_get (''https://api.weixin.qq.com/sns/userinfo?access_token='' @ ot_AccessToken token
                     @ ''&openid='' @ ot_OpenID token) of
        HttpFailed \<Rightarrow> Inl (app_err ErrPlatformAuthFailed ''wechat user info fetch failed'')
      | BadJson \<Rightarrow> Inl (app_err ErrPlatformAuthFailed ''wechat user info parse failed'')
      | Decoded r \<Rightarrow>
          if ur_errcode r \<noteq> 0 then Inl (wechat_error (ur_errcode r) (ur_errmsg r))
          else Inr \<lparr>pu_PlatformID = ur_openid r, pu_DisplayName = ur_nickname r, pu_AvatarURL = ur_headimgurl r\<rparr>)"

definition WeChatProvider ::
    "wechat_config \<Rightarrow> (string \<Rightarrow> token_reply json_reply) \<Rightarrow> (string \<Rightarrow> user_reply json_reply) \<Rightarrow> int \<Rightarrow> oauth_provider" where
  "WeChatProvider c get_token get_user now =
     \<lparr>op_Name = ''wechat'', op_GetAuthURL = wechat_GetAuthURL c,
      op_ExchangeCode = wechat_ExchangeCode c get_token now, op_GetUserInfo = wechat_GetUserInfo get_user\<rparr>"

subsection \<open>The service\<close>

record callback_result =
  cb_UserID :: string
  cb_IsNewUser :: bool

definition not_supported :: "string \<Rightarrow> go_error" where
  "not_supported name = app_err ErrPlatformNotSupported (''platform not supported: '' @ name)"

definition GetAuthURL :: "registry \<Rightarrow> string \<Rightarrow> string \<Rightarrow> go_error + string" where
  "GetAuthURL reg name state =
     (case GetOAuth name reg of
        None \<Rightarrow> Inl (not_supported name)
      | Some p \<Rightarrow> Inr (op_GetAuthURL p state))"

text \<open>The two calls of the provider that \<open>HandleCallback\<close> and \<open>BindPlatform\<close> start with.\<close>

definition identify :: "registry \<Rightarrow> string \<Rightarrow> string \<Rightarrow> go_error + (oauth_token \<times> platform_user)" where
  "identify reg name code =
     (case GetOAuth name reg of
        None \<Rightarrow> Inl (not_supported name)
      | Some p \<Rightarrow>
     (case op_ExchangeCode p code of
        Inl e \<Rightarrow> Inl e
      | Inr token \<Rightarrow>
     (case op_GetUserInfo p token of
        Inl e \<Rightarrow> Inl e
      | Inr user \<Rightarrow> Inr (token, user))))"

definition create_binding :: "uuid \<Rightarrow> string \<Rightarrow> oauth_token \<Rightarrow> platform_user \<Rightarrow> binding_row query" where
  "create_binding uid name token user =
     CreatePlatformBinding_sql uid name (pu_PlatformID user) (ot_AccessToken token) (ot_RefreshToken token)
       (ot_ExpiresAt token) (Some ''{}'')"

definition HandleCallback ::
    "uuid_lib \<Rightarrow> registry \<Rightarrow> string \<Rightarrow> string \<Rightarrow> ('r, 'n) world \<Rightarrow> (go_error + callback_result) go_result \<times> ('r, 'n) world" where
  "HandleCallback U reg platformName code w =
     (case identify reg platformName code of
        Inl e \<Rightarrow> (Returns (Inl e), w)
      | Inr (token, platformUser) \<Rightarrow>
     (case on_db (GetPlatformBinding_sql platformName (pu_PlatformID platformUser)) w of
        (Inr binding, w1) \<Rightarrow>
          (Returns (Inr \<lparr>cb_UserID = uuid_String U (pb_user_id binding), cb_IsNewUser = False\<rparr>), w1)
      | (Inl _, w1) \<Rightarrow>
          if length (pu_PlatformID platformUser) < 8 then (Panics ''slice bounds out of range'', w1)
          else
     (case on_db (CreateUser_sql (''wx_'' @ take 8 (pu_PlatformID platformUser)) None (Some (pu_DisplayName platformUser))) w1 of
        (Inl _, w2) \<Rightarrow> (Returns (Inl (app_err ErrInternal ''failed to create user'')), w2)
      | (Inr user, w2) \<Rightarrow>
     (case on_db (create_binding (u_id user) platformName token platformUser) w2 of
        (Inl _, w3) \<Rightarrow> (Returns (Inl (app_err ErrInternal ''failed to create platform binding'')), w3)
      | (Inr _, w3) \<Rightarrow>
          (Returns (Inr \<lparr>cb_UserID = uuid_String U (u_id user), cb_IsNewUser = True\<rparr>), w3)))))"

definition BindPlatform :: "uuid_lib \<Rightarrow> registry \<Rightarrow> string \<Rightarrow> string \<Rightarrow> string \<Rightarrow> ('r, 'n, unit) svc" where
  "BindPlatform U reg userID platformName code w =
     (case identify reg platformName code of
        Inl e \<Rightarrow> (Inl e, w)
      | Inr (token, platformUser) \<Rightarrow>
          (let uid = parse_or_nil U userID;
               (res, w1) = on_db (GetPlatformBinding_sql platformName (pu_PlatformID platformUser)) w
           in if (case res of Inr existing \<Rightarrow> pb_user_id existing \<noteq> uid | Inl _ \<Rightarrow> False)
              then (Inl (app_err ErrPlatformBindingExists ''platform identity already bound to another user''), w1)
              else
                (case on_db (create_binding uid platformName token platformUser) w1 of
                   (Inl _, w2) \<Rightarrow> (Inl (PlainErr ''create binding''), w2)
                 | (Inr _, w2) \<Rightarrow> (Inr (), w2))))"

definition UnbindPlatform :: "uuid_lib \<Rightarrow> string \<Rightarrow> string \<Rightarrow> ('r, 'n, unit) svc" where
  "UnbindPlatform U userID platformName w =
     (let uid = parse_or_nil U userID in
      case on_db (GetPlatformBindingsByUserID_sql uid) w of
        (Inl _, w1) \<Rightarrow> (Inl (app_err ErrPlatformNotBound ''no platform bindings found''), w1)
      | (Inr bindings, w1) \<Rightarrow>
          if \<not> list_ex (\<lambda>b. pb_platform b = platformName) bindings
          then (Inl (app_err ErrPlatformNotBound ''platform not bound''), w1)
          else
            (let (count, w2) = on_db (CountUserCredentials_sql uid) w1;
                 credCount = (case count of Inl _ \<Rightarrow> 0 | Inr n \<Rightarrow> n);
                 otherBindings = length (filter (\<lambda>b. pb_platform b \<noteq> platformName) bindings)
             in if credCount = 0 \<and> otherBindings = 0
                then (Inl (app_err ErrLastCredential ''cannot unbind last credential, set a password first''), w2)
                else
                  (case on_db (DeletePlatformBinding_sql uid platformName) w2 of
                     (Inl _, w3) \<Rightarrow> (Inl (PlainErr ''delete binding''), w3)
                   | (Inr _, w3) \<Rightarrow> (Inr (), w3))))"

text \<open>\<open>ListBindings\<close> passes the error of the database on, which is not an \<open>AppError\<close>.\<close>

definition ListBindings :: "uuid_lib \<Rightarrow> string \<Rightarrow> ('r, 'n, binding_row list) svc" where
  "ListBindings U userID w =
     (case on_db (GetPlatformBindingsByUserID_sql (parse_or_nil U userID)) w of
        (Inl _, w1) \<Rightarrow> (Inl (PlainErr ''query failed''), w1)
      | (Inr bs, w1) \<Rightarrow> (Inr bs, w1))"

subsection \<open>Handlers\<close>

datatype platform_data =
    D_Platforms "(string \<times> string list) list"
  | D_AuthURL string string
  | D_Callback callback_result
  | D_PlatformOk string
  | D_Bindings "(string \<times> string) list"

text \<open>As \<open>respond\<close>, with the error writer that leaves out the request id.\<close>

definition respond_plain :: "nat \<Rightarrow> ('b \<Rightarrow> 'a) \<Rightarrow> headers \<Rightarrow> (go_error + 'b) \<times> 'w \<Rightarrow> 'a response \<times> 'w" where
  "respond_plain status f h r =
     (case r of
        (Inl err, w) \<Rightarrow> (writeAppError_plain err h, w)
      | (Inr x, w) \<Rightarrow> (writeJSON status (f x) h, w))"

definition listPlatforms_h :: "registry \<Rightarrow> headers \<Rightarrow> platform_data response" where
  "listPlatforms_h reg h =
     writeJSON 200 (D_Platforms (map (\<lambda>name. (name, [''oauth''])) (ListPlatforms reg))) h"

definition getAuthURL_h :: "registry \<Rightarrow> int \<Rightarrow> request \<Rightarrow> headers \<Rightarrow> platform_data response" where
  "getAuthURL_h reg nanos rq h =
     (let q = rq_query rq ''state'';
          state = (if q = '''' then ''st_'' @ dec_int nanos else q)
      in case GetAuthURL reg (rq_param rq ''name'') state of
           Inl err \<Rightarrow> writeAppError_plain err h
         | Inr url \<Rightarrow> writeJSON 200 (D_AuthURL url state) h)"

definition callback_h :: "uuid_lib \<Rightarrow> registry \<Rightarrow> request \<Rightarrow> string option \<Rightarrow> headers \<Rightarrow> ('r, 'n) world
    \<Rightarrow> platform_data response go_result \<times> ('r, 'n) world" where
  "callback_h U reg rq body h w =
     (case body of
        None \<Rightarrow> (Returns (bad_body h), w)
      | Some code \<Rightarrow>
     (case HandleCallback U reg (rq_param rq ''name'') code w of
        (Panics msg, w1) \<Rightarrow> (Panics msg, w1)
      | (Returns res, w1) \<Rightarrow> (Returns (fst (respond_plain 200 D_Callback h (res, w1))), w1)))"

definition login_required :: "headers \<Rightarrow> 'a response" where
  "login_required h = WriteHTTP (errors_New ErrUnauthorized ''authentication required'') h"

definition bind_h :: "uuid_lib \<Rightarrow> registry \<Rightarrow> request \<Rightarrow> string option \<Rightarrow> headers \<Rightarrow> ('r, 'n) world
    \<Rightarrow> platform_data response \<times> ('r, 'n) world" where
  "bind_h U reg rq body h w =
     (let userID = UserIDFromContext rq in
      if userID = '''' then (login_required h, w)
      else case body of
        None \<Rightarrow> (bad_body h, w)
      | Some code \<Rightarrow>
          respond_plain 200 (\<lambda>_. D_PlatformOk ''ok'') h (BindPlatform U reg userID (rq_param rq ''name'') code w))"

definition unbind_h :: "uuid_lib \<Rightarrow> request \<Rightarrow> headers \<Rightarrow> ('r, 'n) world \<Rightarrow> platform_data response \<times> ('r, 'n) world" where
  "unbind_h U rq h w =
     (let userID = UserIDFromContext rq in
      if userID = '''' then (login_required h, w)
      else respond_plain 200 (\<lambda>_. D_PlatformOk ''ok'') h (UnbindPlatform U userID (rq_param rq ''name'') w))"

definition listBindings_h :: "uuid_lib \<Rightarrow> request \<Rightarrow> headers \<Rightarrow> ('r, 'n) world \<Rightarrow> platform_data response \<times> ('r, 'n) world" where
  "listBindings_h U rq h w =
     (let userID = UserIDFromContext rq in
      if userID = '''' then (login_required h, w)
      else respond_plain 200 (\<lambda>bs. D_Bindings (map (\<lambda>b. (pb_platform b, pb_platform_user_id b)) bs)) h
             (ListBindings U userID w))"

end
