(* ===== verification/PlatformsProps.thy ===== *)
theory PlatformsProps
  imports Platforms
begin

text \<open>Properties of the platforms module.\<close>

lemma GetPlatformBinding_nf:
  "no_faults d \<Longrightarrow> GetPlatformBinding_sql p i d =
    (one_row (filter (\<lambda>b. pb_platform b = p \<and> pb_platform_user_id b = i) (platform_bindings d)), tick d)"
  by (simp add: GetPlatformBinding_sql_def select_nf)

lemma create_binding_Inr:
  assumes "create_binding uid name token user d = (Inr b, d')"
  shows "pb_user_id b = uid \<and> pb_platform b = name \<and> pb_platform_user_id b = pu_PlatformID user \<and>
    platform_bindings d' = platform_bindings d @ [b] \<and> users d' = users d \<and> credentials d' = credentials d \<and> db_env d' = db_env d"
  using assms unfolding create_binding_def CreatePlatformBinding_sql_def
  by (auto dest!: stmt_Inr simp: Let_def split: if_splits)

lemma CreateUser_bindings:
  "CreateUser_sql name email dn d = (Inr u, d') \<Longrightarrow> platform_bindings d' = platform_bindings d \<and> db_env d' = db_env d"
  unfolding CreateUser_sql_def by (auto dest!: stmt_Inr simp: Let_def split: if_splits)

text \<open>What a successful callback has done: it found the binding, or made a user and its binding.\<close>

lemma HandleCallback_Inr:
  assumes "HandleCallback U reg name code w = (Returns (Inr r), w1)" and "no_faults (w_db w)"
  obtains token user b where "identify reg name code = Inr (token, user)" and "cb_UserID r = uuid_String U (pb_user_id b)"
    and "filter (\<lambda>b. pb_platform b = name \<and> pb_platform_user_id b = pu_PlatformID user) (platform_bindings (w_db w1)) \<noteq> []"
    and "hd (filter (\<lambda>b. pb_platform b = name \<and> pb_platform_user_id b = pu_PlatformID user) (platform_bindings (w_db w1))) = b"
    and "no_faults (w_db w1)"
    and "cb_IsNewUser r \<Longrightarrow> \<exists>u. users (w_db w1) = users (w_db w) @ [u] \<and> u_username u = ''wx_'' @ take 8 (pu_PlatformID user)"
proof -
  obtain token user where i: "identify reg name code = Inr (token, user)"
    using assms(1) by (cases "identify reg name code") (auto simp: HandleCallback_def)
  let ?P = "\<lambda>b. pb_platform b = name \<and> pb_platform_user_id b = pu_PlatformID user"
  let ?rows = "filter ?P (platform_bindings (w_db w))"
  show thesis
  proof (cases "?rows = []")
    case False
    then show thesis
      using assms i by (intro that [of token user "hd ?rows"])
        (auto simp: HandleCallback_def on_db_def GetPlatformBinding_nf one_row_cases)
  next
    case True
    let ?d = "tick (w_db w)"
    have g: "on_db (GetPlatformBinding_sql name (pu_PlatformID user)) w = (Inl NoRows, w\<lparr>w_db := ?d\<rparr>)"
      using True by (simp add: on_db_def GetPlatformBinding_nf assms(2) one_row_cases)
    let ?n = "''wx_'' @ take 8 (pu_PlatformID user)"
    obtain u w2 where c: "on_db (CreateUser_sql ?n None (Some (pu_DisplayName user))) (w\<lparr>w_db := ?d\<rparr>) = (Inr u, w2)"
      using assms(1) i g by (auto simp: HandleCallback_def split: if_splits prod.splits sum.splits)
    obtain b where b: "on_db (create_binding (u_id u) name token user) w2 = (Inr b, w1)"
      and r: "r = \<lparr>cb_UserID = uuid_String U (u_id u), cb_IsNewUser = True\<rparr>"
      using assms(1) i g c by (auto simp: HandleCallback_def split: if_splits prod.splits sum.splits)
    have c': "CreateUser_sql ?n None (Some (pu_DisplayName user)) ?d = (Inr u, w_db w2)" using c by (auto simp: on_db_eq)
    have b': "create_binding (u_id u) name token user (w_db w2) = (Inr b, w_db w1)" using b by (auto simp: on_db_eq)
    note cu = CreateUser_Inr [OF c'] CreateUser_bindings [OF c'] and cb = create_binding_Inr [OF b']
    have f: "filter ?P (platform_bindings (w_db w1)) = [b]" using True cu cb by (simp add: filter_empty_conv)
    have "no_faults (w_db w1)" using assms(2) cu cb by (simp add: no_faults_def)
    then show thesis
      using cu cb f r i by (intro that [of token user b]) simp_all
  qed
qed

text \<open>
  The same platform account always logs in as the same user: after a successful callback, a
  callback in which the platform reports the same identity returns the same user id, not as a new
  user, and changes no table.
\<close>

theorem callback_same_user:
  assumes "no_faults (w_db w)" and "HandleCallback U reg name code w = (Returns (Inr r), w1)"
    and "identify reg name code = Inr (token, user)" and "identify reg name code' = Inr (token', user')"
    and "pu_PlatformID user' = pu_PlatformID user"
  shows "HandleCallback U reg name code' w1 =
    (Returns (Inr \<lparr>cb_UserID = cb_UserID r, cb_IsNewUser = False\<rparr>), w1\<lparr>w_db := tick (w_db w1)\<rparr>)"
proof (rule HandleCallback_Inr [OF assms(2,1)])
  let ?rows = "filter (\<lambda>b. pb_platform b = name \<and> pb_platform_user_id b = pu_PlatformID user) (platform_bindings (w_db w1))"
  fix t u b
  assume "identify reg name code = Inr (t, u)" "cb_UserID r = uuid_String U (pb_user_id b)" "no_faults (w_db w1)"
    and "filter (\<lambda>b. pb_platform b = name \<and> pb_platform_user_id b = pu_PlatformID u) (platform_bindings (w_db w1)) \<noteq> []"
    and "hd (filter (\<lambda>b. pb_platform b = name \<and> pb_platform_user_id b = pu_PlatformID u) (platform_bindings (w_db w1))) = b"
  then show ?thesis
    using assms(3-5) by (simp add: HandleCallback_def on_db_def GetPlatformBinding_nf one_row_cases)
qed

text \<open>A provider that takes the code for the identity, registered under the name \<open>wechat\<close>.\<close>

definition echo_provider :: oauth_provider where
  "echo_provider =
     \<lparr>op_Name = ''wechat'', op_GetAuthURL = (\<lambda>s. s),
      op_ExchangeCode = (\<lambda>code. Inr \<lparr>ot_AccessToken = ''t'', ot_RefreshToken = '''', ot_OpenID = code,
                                     ot_ExpiresAt = None, ot_Scope = ''''\<rparr>),
      op_GetUserInfo = (\<lambda>t. Inr \<lparr>pu_PlatformID = ot_OpenID t, pu_DisplayName = ''Wei'', pu_AvatarURL = ''''\<rparr>)\<rparr>"

definition echo_registry :: registry where
  "echo_registry = RegisterOAuth echo_provider NewPlatformRegistry"

lemma echo_identify: "\<exists>t u. identify echo_registry ''wechat'' code = Inr (t, u) \<and> pu_PlatformID u = code \<and>
    pu_DisplayName u = ''Wei'' \<and> ot_AccessToken t = ''t''"
  by (simp add: identify_def echo_registry_def RegisterOAuth_def NewPlatformRegistry_def GetOAuth_def echo_provider_def)

lemma sample_bindings [simp]: "platform_bindings sample_db = []"
  by (simp add: sample_db_def empty_db_def)

lemma echo_callback:
  "\<exists>r w1. HandleCallback ref_uuid echo_registry ''wechat'' ''openid-one'' (sample_world ()) = (Returns (Inr r), w1) \<and>
    cb_IsNewUser r \<and> map pb_platform_user_id (platform_bindings (w_db w1)) = [''openid-one'']"
proof -
  obtain t u where i: "identify echo_registry ''wechat'' ''openid-one'' = Inr (t, u)" "pu_PlatformID u = ''openid-one''"
    "pu_DisplayName u = ''Wei''" using echo_identify by blast
  let ?d1 = "tick sample_db"
  let ?u = "sample_user 101 ''wx_openid-o''\<lparr>u_display_name := Some ''Wei'', u_metadata := Some ''{}'', u_created_at := 1, u_updated_at := 1\<rparr>"
  let ?d2 = "(tick ?d1)\<lparr>users := users sample_db @ [?u]\<rparr>"
  have nf1: "no_faults ?d1" by simp
  have c: "CreateUser_sql ''wx_openid-o'' None (Some ''Wei'') ?d1 = (Inr ?u, ?d2)"
    unfolding CreateUser_sql_def stmt_nf [OF nf1] Let_def by (simp add: sample_defs go_defs)
  have nf2: "no_faults ?d2" by (simp add: no_faults_def sample_env_def)
  have "\<exists>b. create_binding 101 ''wechat'' t u ?d2 = (Inr b, (tick ?d2)\<lparr>platform_bindings := [b]\<rparr>) \<and> pb_platform_user_id b = ''openid-one''"
    unfolding create_binding_def CreatePlatformBinding_sql_def stmt_nf [OF nf2] Let_def i(2)
    by (simp add: user_ids_def sample_user_def varchar_ok_def char_count_def)
  then obtain b where b: "create_binding 101 ''wechat'' t u ?d2 = (Inr b, (tick ?d2)\<lparr>platform_bindings := [b]\<rparr>)"
    "pb_platform_user_id b = ''openid-one''" by blast
  have "u_id ?u = 101" by (simp add: sample_user_def)
  then show ?thesis
    using b c by (simp add: HandleCallback_def i on_db_def GetPlatformBinding_nf one_row_cases)
qed

theorem callback_same_user_witness:
  "\<exists>r w1. HandleCallback ref_uuid echo_registry ''wechat'' ''openid-one'' (sample_world ()) = (Returns (Inr r), w1) \<and>
    fst (HandleCallback ref_uuid echo_registry ''wechat'' ''openid-one'' w1) =
      Returns (Inr \<lparr>cb_UserID = cb_UserID r, cb_IsNewUser = False\<rparr>)"
proof -
  obtain r w1 where c: "HandleCallback ref_uuid echo_registry ''wechat'' ''openid-one'' (sample_world ()) = (Returns (Inr r), w1)"
    using echo_callback by blast
  obtain t u where i: "identify echo_registry ''wechat'' ''openid-one'' = Inr (t, u)" using echo_identify by blast
  show ?thesis using callback_same_user [OF _ c i i refl] c by simp
qed

text \<open>
  A new account gets the name \<open>wx_\<close> and the first eight bytes of the platform's id. A second
  platform account whose id starts with the same eight bytes can never log in: as long as the
  first account exists, its callback answers \<open>INTERNAL_ERROR\<close> and makes no user.
\<close>

theorem callback_name_collision:
  assumes "no_faults (w_db w)" and "HandleCallback U reg name code w = (Returns (Inr r), w1)" and "cb_IsNewUser r"
    and "identify reg name code = Inr (token, user)" and "identify reg name' code' = Inr (token', user')"
    and "take 8 (pu_PlatformID user') = take 8 (pu_PlatformID user)" and "8 \<le> length (pu_PlatformID user')"
    and "(name', pu_PlatformID user') \<notin> (\<lambda>b. (pb_platform b, pb_platform_user_id b)) ` set (platform_bindings (w_db w1))"
    and "HandleCallback U reg name' code' w1 = (res, w2)"
  shows "res = Returns (Inl (app_err ErrInternal ''failed to create user'')) \<and> same_tables (w_db w1) (w_db w2)"
proof (rule HandleCallback_Inr [OF assms(2,1)])
  fix t u b
  assume "identify reg name code = Inr (t, u)" and nf: "no_faults (w_db w1)"
    and new: "cb_IsNewUser r \<Longrightarrow> \<exists>v. users (w_db w1) = users (w_db w) @ [v] \<and> u_username v = ''wx_'' @ take 8 (pu_PlatformID u)"
  then have "u = user" using assms(4) by simp
  with new [OF assms(3)] have taken: "''wx_'' @ take 8 (pu_PlatformID user') \<in> u_username ` set (users (w_db w1))"
    using assms(6) by auto
  have none: "filter (\<lambda>b. pb_platform b = name' \<and> pb_platform_user_id b = pu_PlatformID user') (platform_bindings (w_db w1)) = []"
    using assms(8) by (auto simp: filter_empty_conv)
  have nf1: "no_faults (tick (w_db w1))" using nf by simp
  have "CreateUser_sql (''wx_'' @ take 8 (pu_PlatformID user')) None dn (tick (w_db w1)) = (Inl QueryFailed, tick (tick (w_db w1)))" for dn
    unfolding CreateUser_sql_def stmt_nf [OF nf1] Let_def using taken by simp
  then show ?thesis
    using assms(5,7,9) nf none by (auto simp: HandleCallback_def on_db_def GetPlatformBinding_nf one_row_def same_tables_def)
qed

theorem callback_name_collision_witness:
  "\<exists>r w1. HandleCallback ref_uuid echo_registry ''wechat'' ''openid-one'' (sample_world ()) = (Returns (Inr r), w1) \<and>
    fst (HandleCallback ref_uuid echo_registry ''wechat'' ''openid-other'' w1) =
      Returns (Inl (app_err ErrInternal ''failed to create user''))"
proof -
  obtain r w1 where c: "HandleCallback ref_uuid echo_registry ''wechat'' ''openid-one'' (sample_world ()) = (Returns (Inr r), w1)"
    "cb_IsNewUser r" "map pb_platform_user_id (platform_bindings (w_db w1)) = [''openid-one'']"
    using echo_callback by (elim exE conjE)
  obtain t u where i: "identify echo_registry ''wechat'' ''openid-one'' = Inr (t, u)" "pu_PlatformID u = ''openid-one''"
    using echo_identify by blast
  obtain t' u' where i': "identify echo_registry ''wechat'' ''openid-other'' = Inr (t', u')" "pu_PlatformID u' = ''openid-other''"
    using echo_identify by blast
  have "(''wechat'', pu_PlatformID u') \<notin> (\<lambda>b. (pb_platform b, pb_platform_user_id b)) ` set (platform_bindings (w_db w1))"
    using c(3) i'(2) by (auto simp: map_eq_Cons_conv)
  from callback_name_collision [OF _ c(1,2) i(1) i'(1) _ _ this prod.collapse [symmetric]] i(2) i'(2)
  have "fst (HandleCallback ref_uuid echo_registry ''wechat'' ''openid-other'' w1) =
      Returns (Inl (app_err ErrInternal ''failed to create user''))" by simp
  with c(1) show ?thesis by blast
qed

text \<open>
  Unbinding never locks a user out: when it succeeds, whatever statements failed on the way, the
  user still has a credential or a binding to another platform; the bindings to the platform are
  gone and nobody else's bindings have changed.
\<close>

theorem unbind_keeps_login:
  assumes "UnbindPlatform U userID name w = (Inr (), w')"
  shows "((\<exists>c \<in> set (credentials (w_db w')). cr_user_id c = parse_or_nil U userID) \<or>
      (\<exists>b \<in> set (platform_bindings (w_db w')). pb_user_id b = parse_or_nil U userID \<and> pb_platform b \<noteq> name)) \<and>
    platform_bindings (w_db w') = filter (\<lambda>b. \<not> (pb_user_id b = parse_or_nil U userID \<and> pb_platform b = name)) (platform_bindings (w_db w))"
proof -
  let ?u = "parse_or_nil U userID"
  obtain bs w1 where b: "on_db (GetPlatformBindingsByUserID_sql ?u) w = (Inr bs, w1)"
    using assms by (auto simp: UnbindPlatform_def Let_def split: prod.splits sum.splits)
  obtain count w2 where c: "on_db (CountUserCredentials_sql ?u) w1 = (count, w2)" by fastforce
  let ?n = "case count of Inl _ \<Rightarrow> 0 | Inr n \<Rightarrow> n"
  have some: "?n \<noteq> 0 \<or> filter (\<lambda>b. pb_platform b \<noteq> name) bs \<noteq> []"
    using assms b c by (auto simp: UnbindPlatform_def Let_def split: if_splits)
  obtain row where d: "on_db (DeletePlatformBinding_sql ?u name) w2 = (Inr row, w')"
    using assms b c some by (auto simp: UnbindPlatform_def Let_def split: if_splits prod.splits sum.splits)
  have b': "bs = filter (\<lambda>b. pb_user_id b = ?u) (platform_bindings (w_db w)) \<and> same_tables (w_db w) (w_db w1)"
    using b unfolding GetPlatformBindingsByUserID_sql_def on_db_eq by (auto dest: select_Inr same_tables_select_eq)
  have c1: "same_tables (w_db w1) (w_db w2)"
    using c unfolding CountUserCredentials_sql_def on_db_eq by (auto dest: same_tables_select_eq)
  have c2: "\<exists>c \<in> set (credentials (w_db w1)). cr_user_id c = ?u" if n0: "?n \<noteq> 0"
  proof -
    obtain n where n: "count = Inr n" "n \<noteq> 0" using n0 by (cases count) auto
    with c have "n = int (length (filter (\<lambda>c. cr_user_id c = ?u) (credentials (w_db w1))))"
      unfolding CountUserCredentials_sql_def on_db_eq by (auto dest: select_Inr)
    with n have "filter (\<lambda>c. cr_user_id c = ?u) (credentials (w_db w1)) \<noteq> []" by auto
    then show ?thesis by (auto simp: filter_empty_conv)
  qed
  have d': "platform_bindings (w_db w') = filter (\<lambda>b. \<not> (pb_user_id b = ?u \<and> pb_platform b = name)) (platform_bindings (w_db w2))
      \<and> credentials (w_db w') = credentials (w_db w2)"
    using d unfolding DeletePlatformBinding_sql_def on_db_eq by (auto dest!: stmt_Inr simp: Let_def)
  show ?thesis
    using some b' c1 c2 d' by (auto simp: same_tables_iff filter_empty_conv)
qed

theorem unbind_keeps_login_witness:
  "\<exists>w' :: (keyspace, unit) world. UnbindPlatform ref_uuid (uuid_String ref_uuid 1) ''wechat''
     (sample_world ()\<lparr>w_db := sample_db\<lparr>platform_bindings := map (\<lambda>p.
        \<lparr>pb_id = 0, pb_user_id = 1, pb_platform = p, pb_platform_user_id = ''x'', pb_access_token = '''', pb_refresh_token = '''',
         pb_expires_at = None, pb_metadata = None, pb_created_at = 0, pb_updated_at = 0\<rparr>) [''wechat'', ''steam'']\<rparr>\<rparr>) = (Inr (), w') \<and>
     length (platform_bindings (w_db w')) = 1"
  (is "\<exists>w'. UnbindPlatform _ _ _ ?w = _ \<and> _")
proof -
  have nf: "no_faults (w_db ?w)" by (simp add: no_faults_def sample_env_def)
  obtain w' where u: "UnbindPlatform ref_uuid (uuid_String ref_uuid 1) ''wechat'' ?w = (Inr (), w')"
    using nf by (simp add: UnbindPlatform_def on_db_def GetPlatformBindingsByUserID_sql_def CountUserCredentials_sql_def
        DeletePlatformBinding_sql_def select_nf stmt_nf Let_def uuid_ref.parse_or_nil_string one_row_def)
  from unbind_keeps_login [OF u] u show ?thesis by (simp add: uuid_ref.parse_or_nil_string)
qed


end
