(* ===== verification/Leaderboard.thy ===== *)
theory Leaderboard
  imports Platforms
begin

text \<open>
  The leaderboard module (\<open>internal/leaderboard\<close>): scores are stored in SQL and ranked in a sorted
  set of Redis. Numbers of type \<open>int\<close> and \<open>int64\<close> are those of a 64-bit machine.
\<close>

record 'r board_svc =
  bs_uuid :: uuid_lib
  bs_redis :: "'r redis_client"

record rank_entry =
  re_Rank :: int
  re_UserID :: string
  re_Score :: f64

definition board_key :: "string \<Rightarrow> string" where
  "board_key code = ''leaderboard:'' @ code"

text \<open>\<open>math.IsNaN(score) || math.IsInf(score, 0) || score < 0\<close>\<close>

fun invalid_score :: "f64 \<Rightarrow> bool" where
  "invalid_score (Fin r) \<longleftrightarrow> r < 0"
| "invalid_score _ \<longleftrightarrow> True"

text \<open>The reply of \<open>ZADD\<close> is not looked at.\<close>

definition SubmitScore :: "'r board_svc \<Rightarrow> string \<Rightarrow> string \<Rightarrow> f64 \<Rightarrow> ('r, 'n, unit) svc" where
  "SubmitScore L boardCode userID score w =
     (if invalid_score score then (Inl (app_err ErrBadRequest ''invalid score value''), w)
      else case uuid_Parse (bs_uuid L) userID of
        None \<Rightarrow> (Inl (app_err ErrBadRequest ''invalid user id''), w)
      | Some uid \<Rightarrow>
     (case on_db (GetLeaderboardConfig_sql boardCode) w of
        (Inl _, w1) \<Rightarrow> (Inl (app_err ErrNotFound ''leaderboard not found''), w1)
      | (Inr config, w1) \<Rightarrow>
     (case on_db (CreateScore_sql (lb_id config) uid score) w1 of
        (Inl _, w2) \<Rightarrow> (Inl (PlainErr ''create score''), w2)
      | (Inr _, w2) \<Rightarrow>
          (Inr (), snd (on_redis (rc_ZAdd (bs_redis L) (board_key (lb_code config)) score userID) w2)))))"

fun rank_from :: "int \<Rightarrow> (string \<times> f64) list \<Rightarrow> rank_entry list" where
  "rank_from r [] = []"
| "rank_from r ((member, score) # zs) =
     \<lparr>re_Rank = to_i64 r, re_UserID = member, re_Score = score\<rparr> # rank_from (r + 1) zs"

definition GetRanking :: "'r board_svc \<Rightarrow> string \<Rightarrow> int \<Rightarrow> int \<Rightarrow> ('r, 'n, rank_entry list) svc" where
  "GetRanking L boardCode lmt ofs w =
     (case on_db (GetLeaderboardConfig_sql boardCode) w of
        (Inl _, w1) \<Rightarrow> (Inl (app_err ErrNotFound ''leaderboard not found''), w1)
      | (Inr _, w1) \<Rightarrow>
     (case on_redis (rc_ZRevRangeWithScores (bs_redis L) (board_key boardCode) ofs (to_i64 (ofs + lmt - 1))) w1 of
        (Inl _, w2) \<Rightarrow> (Inl (PlainErr ''redis zrevrange''), w2)
      | (Inr results, w2) \<Rightarrow> (Inr (rank_from (ofs + 1) results), w2)))"

definition GetUserRank :: "'r board_svc \<Rightarrow> string \<Rightarrow> string \<Rightarrow> ('r, 'n, rank_entry) svc" where
  "GetUserRank L boardCode userID w =
     (case on_db (GetLeaderboardConfig_sql boardCode) w of
        (Inl _, w1) \<Rightarrow> (Inl (app_err ErrNotFound ''leaderboard not found''), w1)
      | (Inr _, w1) \<Rightarrow>
     (case on_redis (rc_ZRevRank (bs_redis L) (board_key boardCode) userID) w1 of
        (Inl _, w2) \<Rightarrow> (Inl (app_err ErrNotFound ''user not ranked''), w2)
      | (Inr rank, w2) \<Rightarrow>
     (case on_redis (rc_ZScore (bs_redis L) (board_key boardCode) userID) w2 of
        (Inl _, w3) \<Rightarrow> (Inl (app_err ErrNotFound ''user not ranked''), w3)
      | (Inr score, w3) \<Rightarrow>
          (Inr \<lparr>re_Rank = to_i64 (rank + 1), re_UserID = userID, re_Score = score\<rparr>, w3))))"

subsection \<open>Handlers\<close>

datatype board_data = D_Ranking "rank_entry list" | D_Submitted string | D_MyRank rank_entry

text \<open>The errors of \<open>strconv.Atoi\<close> are ignored; the number returned with an error is used.\<close>

definition ranking_limit :: "string \<Rightarrow> int" where
  "ranking_limit s = (let l = fst (atoi s) in if l \<le> 0 \<or> 100 < l then 20 else l)"

definition getRanking_h :: "'r board_svc \<Rightarrow> request \<Rightarrow> headers \<Rightarrow> ('r, 'n) world \<Rightarrow> board_data response \<times> ('r, 'n) world" where
  "getRanking_h L rq h w =
     respond_plain 200 D_Ranking h
       (GetRanking L (rq_param rq ''code'') (ranking_limit (rq_query rq ''limit'')) (fst (atoi (rq_query rq ''offset''))) w)"

definition submitScore_h :: "'r board_svc \<Rightarrow> request \<Rightarrow> f64 option \<Rightarrow> headers \<Rightarrow> ('r, 'n) world
    \<Rightarrow> board_data response \<times> ('r, 'n) world" where
  "submitScore_h L rq body h w =
     (let userID = UserIDFromContext rq in
      if userID = '''' then (login_required h, w)
      else case body of
        None \<Rightarrow> (bad_body h, w)
      | Some score \<Rightarrow>
          respond_plain 200 (\<lambda>_. D_Submitted ''ok'') h (SubmitScore L (rq_param rq ''code'') userID score w))"

definition getMyRank_h :: "'r board_svc \<Rightarrow> request \<Rightarrow> headers \<Rightarrow> ('r, 'n) world \<Rightarrow> board_data response \<times> ('r, 'n) world" where
  "getMyRank_h L rq h w =
     (let userID = UserIDFromContext rq in
      if userID = '''' then (login_required h, w)
      else respond_plain 200 D_MyRank h (GetUserRank L (rq_param rq ''code'') userID w))"

subsection \<open>The sorted sets\<close>

text \<open>
  A sorted set is strictly decreasing in the order of \<open>ZREVRANGE\<close> and holds numbers only; so every
  member occurs once.
\<close>

definition zset_wf :: "(string \<times> f64) list \<Rightarrow> bool" where
  "zset_wf zs \<longleftrightarrow> sorted_wrt z_before zs \<and> distinct (map fst zs) \<and> NaN \<notin> snd ` set zs"

lemma f64_less_trans: "f64_less a b \<Longrightarrow> f64_less b c \<Longrightarrow> f64_less a c"
  by (cases a; cases b; cases c) auto

lemma f64_less_linear: "a \<noteq> NaN \<Longrightarrow> b \<noteq> NaN \<Longrightarrow> a \<noteq> b \<Longrightarrow> f64_less a b \<or> f64_less b a"
  by (cases a; cases b) auto

lemma z_before_trans: "z_before p q \<Longrightarrow> z_before q r \<Longrightarrow> z_before p r"
  unfolding z_before_def by (elim disjE) (auto dest: f64_less_trans less_trans)

lemma z_before_linear: "snd p \<noteq> NaN \<Longrightarrow> snd q \<noteq> NaN \<Longrightarrow> fst p \<noteq> fst q \<Longrightarrow> z_before p q \<or> z_before q p"
  unfolding z_before_def using f64_less_linear [of "snd p" "snd q"] by (metis linorder_neqE)

lemma set_z_insert [simp]: "set (z_insert p zs) = insert p (set zs)"
  by (induction zs) auto

lemma sorted_z_insert:
  "sorted_wrt z_before zs \<Longrightarrow> fst p \<notin> fst ` set zs \<Longrightarrow> snd p \<noteq> NaN \<Longrightarrow> NaN \<notin> snd ` set zs \<Longrightarrow>
    sorted_wrt z_before (z_insert p zs)"
proof (induction zs)
  case (Cons q zs)
  show ?case
  proof (cases "z_before p q")
    case True
    then have "\<forall>x \<in> set (q # zs). z_before p x" using Cons.prems(1) z_before_trans [of p q] by auto
    then show ?thesis using Cons.prems(1) True by simp
  next
    case False
    then have "z_before q p" using Cons.prems z_before_linear [of p q] by auto
    then show ?thesis using Cons False by auto
  qed
qed simp

lemma distinct_z_insert:
  "distinct (map fst zs) \<Longrightarrow> fst p \<notin> fst ` set zs \<Longrightarrow> distinct (map fst (z_insert p zs))"
  by (induction zs) auto

lemma zset_wf_add: "zset_wf zs \<Longrightarrow> s \<noteq> NaN \<Longrightarrow> zset_wf (z_add m s zs)"
  unfolding zset_wf_def z_add_def
  by (auto intro!: sorted_z_insert distinct_z_insert sorted_wrt_filter distinct_map_filter)

lemma zset_wf_Nil [simp]: "zset_wf []"
  by (simp add: zset_wf_def)

lemma z_add_mem: "(m', s') \<in> set (z_add m s zs) \<longleftrightarrow> (m' = m \<and> s' = s) \<or> (m' \<noteq> m \<and> (m', s') \<in> set zs)"
  by (auto simp: z_add_def)

end
