(* ===== verification/LeaderboardProps.thy ===== *)
theory LeaderboardProps
  imports Leaderboard
begin

text \<open>Properties of the leaderboard module.\<close>

lemma z_slice_nonneg:
  assumes "0 \<le> ofs" and "0 < lmt"
  shows "z_slice ofs (ofs + lmt - 1) xs = take (nat lmt) (drop (nat ofs) xs)"
proof (cases "ofs < int (length xs)")
  case False
  then show ?thesis using assms by (simp add: z_slice_def Let_def)
next
  case True
  show ?thesis
  proof (cases "ofs + lmt \<le> int (length xs)")
    case True
    then have "min (int (length xs) - 1) (ofs + lmt - 1) = ofs + lmt - 1" by simp
    then show ?thesis using assms True by (simp add: z_slice_def Let_def)
  next
    case False
    then have m: "min (int (length xs) - 1) (ofs + lmt - 1) = int (length xs) - 1" by simp
    have "z_slice ofs (ofs + lmt - 1) xs = take (nat (int (length xs) - ofs)) (drop (nat ofs) xs)"
      using assms True m by (simp add: z_slice_def Let_def algebra_simps)
    also have "\<dots> = drop (nat ofs) xs" using assms True by (simp add: nat_diff_distrib)
    also have "\<dots> = take (nat lmt) (drop (nat ofs) xs)" using False assms by simp
    finally show ?thesis .
  qed
qed

lemma length_rank_from [simp]: "length (rank_from r zs) = length zs"
  by (induction r zs rule: rank_from.induct) auto

lemma rank_from_nth:
  "i < length zs \<Longrightarrow> - (2 ^ 63) \<le> r \<Longrightarrow> r + int (length zs) \<le> 2 ^ 63 \<Longrightarrow>
    rank_from r zs ! i = \<lparr>re_Rank = r + int i, re_UserID = fst (zs ! i), re_Score = snd (zs ! i)\<rparr>"
proof (induction r zs arbitrary: i rule: rank_from.induct)
  case (2 r member score zs)
  then show ?case by (cases i) (simp_all add: to_i64_id)
qed simp

text \<open>What a successful call has read.\<close>

lemma GetRanking_Inr:
  assumes "redis (bs_redis L) K" and "GetRanking L code lmt ofs w = (Inr es, w')"
  shows "es = rank_from (ofs + 1) (z_slice ofs (to_i64 (ofs + lmt - 1)) (zset_list (K (w_redis w) (board_key code))))"
  using assms(2) redis.zrevrange_ok [OF assms(1)]
  by (auto simp: GetRanking_def on_db_eq on_redis_eq split: prod.splits sum.splits)

lemma GetUserRank_Inr:
  assumes "redis (bs_redis L) K" and "GetUserRank L code u w = (Inr e, w')"
  shows "\<exists>i s. 0 \<le> i \<and> nat i < length (zset_list (K (w_redis w) (board_key code))) \<and>
    fst (zset_list (K (w_redis w) (board_key code)) ! nat i) = u \<and> (u, s) \<in> set (zset_list (K (w_redis w) (board_key code))) \<and>
    e = \<lparr>re_Rank = to_i64 (i + 1), re_UserID = u, re_Score = s\<rparr>"
proof -
  let ?k = "board_key code"
  obtain c w1 where c: "on_db (GetLeaderboardConfig_sql code) w = (Inr c, w1)"
    using assms(2) by (auto simp: GetUserRank_def split: prod.splits sum.splits)
  obtain i w2 where i: "on_redis (rc_ZRevRank (bs_redis L) ?k u) w1 = (Inr i, w2)"
    using assms(2) c by (auto simp: GetUserRank_def split: prod.splits sum.splits)
  obtain s where s: "on_redis (rc_ZScore (bs_redis L) ?k u) w2 = (Inr s, w')"
    and e: "e = \<lparr>re_Rank = to_i64 (i + 1), re_UserID = u, re_Score = s\<rparr>"
    using assms(2) c i by (auto simp: GetUserRank_def split: prod.splits sum.splits)
  have w1: "w_redis w1 = w_redis w" using c by (auto simp: on_db_eq)
  have i': "rc_ZRevRank (bs_redis L) ?k u (w_redis w) = (Inr i, w_redis w2)" using i w1 by (auto simp: on_redis_eq)
  have s': "rc_ZScore (bs_redis L) ?k u (w_redis w2) = (Inr s, w_redis w')" using s by (auto simp: on_redis_eq)
  from redis.zrevrank_ok [OF assms(1) i'] redis.zrevrank_keeps [OF assms(1) i'] redis.zscore_ok [OF assms(1) s'] e
  show ?thesis by auto
qed

text \<open>
  C38. A page of the ranking is the page of the sorted set: at most \<open>limit\<close> entries, numbered
  consecutively from \<open>offset + 1\<close>, the scores never increasing from one to the next. The rank of
  every entry is the one that \<open>GetUserRank\<close> tells that user.
\<close>

theorem ranking_exact:
  assumes "redis (bs_redis L) K" and "zs = zset_list (K (w_redis w) (board_key code))" and "zset_wf zs"
    and "0 \<le> ofs" and "0 < lmt" and "ofs + lmt < 2 ^ 63" and "GetRanking L code lmt ofs w = (Inr es, w')"
  shows "map (\<lambda>e. (re_UserID e, re_Score e)) es = take (nat lmt) (drop (nat ofs) zs) \<and>
    map re_Rank es = map (\<lambda>i. ofs + int i + 1) [0..<length es] \<and>
    sorted_wrt (\<lambda>a b. \<not> f64_less (re_Score a) (re_Score b)) es \<and>
    (\<forall>e \<in> set es. \<forall>e' w2. GetUserRank L code (re_UserID e) w = (Inr e', w2) \<longrightarrow> length zs < 2 ^ 63 \<longrightarrow> e' = e)"
proof -
  let ?p = "take (nat lmt) (drop (nat ofs) zs)"
  have "to_i64 (ofs + lmt - 1) = ofs + lmt - 1" using assms(4-6) by (intro to_i64_id) simp_all
  then have es: "es = rank_from (ofs + 1) ?p"
    using GetRanking_Inr [OF assms(1,7)] by (simp add: assms(2) z_slice_nonneg [OF assms(4,5)])
  have len: "length es = length ?p" by (simp add: es)
  have "int (length ?p) \<le> lmt" using assms(5) by simp
  then have nth: "es ! i = \<lparr>re_Rank = ofs + 1 + int i, re_UserID = fst (?p ! i), re_Score = snd (?p ! i)\<rparr>"
    if "i < length es" for i
    unfolding es using that assms(4-6) len by (intro rank_from_nth) (simp_all add: es)
  have "map (\<lambda>e. (re_UserID e, re_Score e)) es = ?p" by (rule nth_equalityI) (simp_all add: nth len del: length_take length_drop)
  moreover have "map re_Rank es = map (\<lambda>i. ofs + int i + 1) [0..<length es]" by (rule nth_equalityI) (simp_all add: nth)
  moreover have "sorted_wrt (\<lambda>a b. \<not> f64_less (re_Score a) (re_Score b)) es"
  proof -
    have "sorted_wrt z_before ?p" using assms(3) by (simp add: zset_wf_def sorted_wrt_take sorted_wrt_drop)
    moreover have "\<not> f64_less (snd p) (snd q)" if "z_before p q" for p q
      using that by (cases "snd p"; cases "snd q") (auto simp: z_before_def)
    ultimately show ?thesis by (auto simp: sorted_wrt_iff_nth_less nth len)
  qed
  moreover have "e' = e" if mem: "e \<in> set es" and rank: "GetUserRank L code (re_UserID e) w = (Inr e', w2)"
      and small: "length zs < 2 ^ 63" for e e' w2
  proof -
    obtain i where i: "i < length es" "es ! i = e" using mem by (meson in_set_conv_nth)
    then have pos: "nat ofs + i < length zs" using len by auto
    have e: "e = \<lparr>re_Rank = ofs + 1 + int i, re_UserID = fst (zs ! (nat ofs + i)), re_Score = snd (zs ! (nat ofs + i))\<rparr>"
      using nth [OF i(1)] i len by auto
    obtain j s where j: "0 \<le> j" "nat j < length zs" "fst (zs ! nat j) = re_UserID e" "(re_UserID e, s) \<in> set zs"
      "e' = \<lparr>re_Rank = to_i64 (j + 1), re_UserID = re_UserID e, re_Score = s\<rparr>"
      using GetUserRank_Inr [OF assms(1) rank] assms(2) by auto
    have d: "distinct (map fst zs)" using assms(3) by (simp add: zset_wf_def)
    have "map fst zs ! nat j = map fst zs ! (nat ofs + i)" using j(2,3) pos e by simp
    then have "nat j = nat ofs + i" using d j(2) pos by (simp only: nth_eq_iff_index_eq length_map)
    then have "j = ofs + int i" using j(1) assms(4) by linarith
    moreover have "s = snd (zs ! (nat ofs + i))"
    proof -
      have "(re_UserID e, snd (zs ! (nat ofs + i))) \<in> set zs" using pos e by (simp add: nth_mem)
      with j(4) d show ?thesis by (metis eq_key_imp_eq_value)
    qed
    moreover have "to_i64 (ofs + int i + 1) = ofs + int i + 1"
    proof (rule to_i64_id)
      have "ofs + int i + 1 \<le> int (length zs)" using pos assms(4) by linarith
      also have "\<dots> < 2 ^ 63" using small by (simp only: int_less_power)
      finally show "ofs + int i + 1 < 2 ^ 63" .
      show "- (2 ^ 63) \<le> ofs + int i + 1" using assms(4) by simp
    qed
    ultimately show ?thesis using j(5) e by (simp add: algebra_simps)
  qed
  ultimately show ?thesis by blast
qed

definition sample_board :: "keyspace board_svc" where
  "sample_board = \<lparr>bs_uuid = ref_uuid, bs_redis = ref_redis\<rparr>"

definition board_world :: "(keyspace, unit) world" where
  "board_world =
     \<lparr>w_db = sample_db\<lparr>leaderboard_configs := [\<lparr>lb_id = 9, lb_code = ''weekly'', lb_name = ''Weekly'', lb_update_strategy = ''highest'',
        lb_max_entries = None, lb_metadata = None, lb_created_at = 0, lb_updated_at = 0\<rparr>]\<rparr>,
      w_redis = [board_key ''weekly'' \<mapsto> RZSet [(''bob'', Fin 30), (''ann'', Fin 20), (''eve'', Fin 10)]], w_net = ()\<rparr>"

lemma board_world_db: "no_faults (w_db board_world)"
  by (simp add: board_world_def no_faults_def sample_env_def)

lemma board_found: "\<exists>c. on_db (GetLeaderboardConfig_sql ''weekly'') board_world = (Inr c, board_world\<lparr>w_db := tick (w_db board_world)\<rparr>) \<and>
    lb_id c = 9 \<and> lb_code c = ''weekly''"
  using board_world_db by (simp add: on_db_def GetLeaderboardConfig_sql_def select_nf) (simp add: board_world_def one_row_def)

lemma board_page:
  "\<exists>w'. GetRanking sample_board ''weekly'' 20 ofs board_world =
    (Inr (rank_from (ofs + 1) (z_slice ofs (to_i64 (ofs + 19)) [(''bob'', Fin 30), (''ann'', Fin 20), (''eve'', Fin 10)])), w')"
proof -
  obtain c where c: "on_db (GetLeaderboardConfig_sql ''weekly'') board_world = (Inr c, board_world\<lparr>w_db := tick (w_db board_world)\<rparr>)"
    using board_found by blast
  show ?thesis
    by (simp add: GetRanking_def c on_redis_def sample_board_def ref_redis_def read_zset_def) (simp add: board_world_def add.commute)
qed

theorem ranking_exact_witness:
  "\<exists>es w'. GetRanking sample_board ''weekly'' 20 1 board_world = (Inr es, w') \<and>
    map (\<lambda>e. (re_Rank e, re_UserID e)) es = [(2, ''ann''), (3, ''eve'')]"
proof -
  obtain es w' where g: "GetRanking sample_board ''weekly'' 20 1 board_world = (Inr es, w')" using board_page [of 1] by blast
  have zs: "zset_list (w_redis board_world (board_key ''weekly'')) = [(''bob'', Fin 30), (''ann'', Fin 20), (''eve'', Fin 10)]"
    by (simp add: board_world_def)
  have wf: "zset_wf [(''bob'', Fin 30), (''ann'', Fin 20), (''eve'', Fin 10)]"
    by (simp add: zset_wf_def z_before_def)
  have r: "redis (bs_redis sample_board) (\<lambda>r. r)" by (simp add: sample_board_def redis_ref.redis_axioms)
  from ranking_exact [OF r zs [symmetric] wf _ _ _ g]
  have m: "map (\<lambda>e. (re_UserID e, re_Score e)) es = [(''ann'', Fin 20), (''eve'', Fin 10)]"
    and n: "map re_Rank es = map (\<lambda>i. 1 + int i + 1) [0..<length es]" by simp_all
  then obtain a b where "es = [a, b]" "re_UserID a = ''ann''" "re_UserID b = ''eve''" by (auto simp: map_eq_Cons_conv)
  with n g show ?thesis by simp
qed

text \<open>
  The last submission counts, whatever the board's update strategy says: after a submission that
  Redis accepts, the user's only entry holds the submitted score, be it lower than the previous
  one; all other entries stay, and the sorted set stays in order.
\<close>

theorem last_submission_counts:
  assumes "redis (bs_redis L) K" and "\<not> isl (fst (rc_ZAdd (bs_redis L) (board_key code) score userID (w_redis w)))"
    and "zset_wf (zset_list (K (w_redis w) (board_key code)))" and "SubmitScore L code userID score w = (Inr (), w')"
  shows "zset_wf (zset_list (K (w_redis w') (board_key code))) \<and>
    (\<forall>m s. (m, s) \<in> set (zset_list (K (w_redis w') (board_key code))) \<longleftrightarrow>
      (if m = userID then s = score else (m, s) \<in> set (zset_list (K (w_redis w) (board_key code)))))"
proof -
  have ok: "\<not> invalid_score score" using assms(4) by (auto simp: SubmitScore_def split: if_splits)
  then obtain uid where u: "uuid_Parse (bs_uuid L) userID = Some uid"
    using assms(4) by (cases "uuid_Parse (bs_uuid L) userID") (auto simp: SubmitScore_def)
  obtain c w1 where c: "on_db (GetLeaderboardConfig_sql code) w = (Inr c, w1)"
    using assms(4) ok u by (auto simp: SubmitScore_def split: prod.splits sum.splits)
  obtain row w2 where s: "on_db (CreateScore_sql (lb_id c) uid score) w1 = (Inr row, w2)"
    and w': "w' = snd (on_redis (rc_ZAdd (bs_redis L) (board_key (lb_code c)) score userID) w2)"
    using assms(4) ok u c by (auto simp: SubmitScore_def split: prod.splits sum.splits)
  have code: "lb_code c = code"
    using c unfolding GetLeaderboardConfig_sql_def by (auto simp: on_db_eq dest!: select_Inr one_row_filter)
  have r2: "w_redis w2 = w_redis w" using c s by (auto simp: on_db_eq)
  obtain n r' where z: "rc_ZAdd (bs_redis L) (board_key code) score userID (w_redis w) = (Inr n, r')"
    using assms(2)
    by (cases "rc_ZAdd (bs_redis L) (board_key code) score userID (w_redis w)"; cases "fst (rc_ZAdd (bs_redis L) (board_key code) score userID (w_redis w))") auto
  have "K (w_redis w') = (K (w_redis w))(board_key code \<mapsto> RZSet (z_add userID score (zset_list (K (w_redis w) (board_key code)))))"
    using redis.zadd_ok [OF assms(1) z] z r2 by (simp add: w' code)
  moreover have "score \<noteq> NaN" using ok by auto
  ultimately show ?thesis using zset_wf_add [OF assms(3)] by (auto simp: z_add_mem)
qed

theorem last_submission_counts_witness:
  "\<exists>uid w'. SubmitScore sample_board ''weekly'' uid (Fin 5) board_world = (Inr (), w') \<and>
    (uid, Fin 5) \<in> set (zset_list (w_redis w' (board_key ''weekly'')))"
proof -
  let ?u = "uuid_String ref_uuid 1"
  obtain c where c: "on_db (GetLeaderboardConfig_sql ''weekly'') board_world = (Inr c, board_world\<lparr>w_db := tick (w_db board_world)\<rparr>)"
    "lb_id c = 9" using board_found by blast
  have nf: "no_faults (tick (w_db board_world))" using board_world_db by simp
  have "\<exists>row d. CreateScore_sql 9 1 (Fin 5) (tick (w_db board_world)) = (Inr row, d)"
    unfolding CreateScore_sql_def stmt_nf [OF nf] Let_def
    by (simp add: board_world_def sample_db_def empty_db_def user_ids_def sample_user_def)
  then obtain row d where s: "CreateScore_sql 9 1 (Fin 5) (tick (w_db board_world)) = (Inr row, d)" by blast
  have a: "\<not> isl (fst (rc_ZAdd (bs_redis sample_board) (board_key ''weekly'') s m (w_redis board_world)))" for s m
    by (simp add: sample_board_def ref_redis_def board_world_def)
  have r: "redis (bs_redis sample_board) (\<lambda>r. r)" by (simp add: sample_board_def redis_ref.redis_axioms)
  have wf: "zset_wf (zset_list (w_redis board_world (board_key ''weekly'')))"
    by (simp add: board_world_def zset_wf_def z_before_def)
  obtain w' where w': "SubmitScore sample_board ''weekly'' ?u (Fin 5) board_world = (Inr (), w')"
    using c s by (simp add: SubmitScore_def sample_board_def uuid_ref.parse_string on_db_def)
  from last_submission_counts [OF r a wf w']
  have "(?u, Fin 5) \<in> set (zset_list (w_redis w' (board_key ''weekly'')))" by simp
  with w' show ?thesis by blast
qed

text \<open>
  C40. The offset of the query is not checked: a negative one, down to the number of ranked users,
  yields entries from the end of the ranking with ranks that are zero or negative.
\<close>

theorem negative_offset_ranks:
  assumes "redis (bs_redis L) K" and "ofs < 0" and "- (2 ^ 62) \<le> ofs" and "0 < lmt" and "lmt \<le> 100"
    and "GetRanking L code lmt ofs w = (Inr (e # es), w')"
  shows "re_Rank e = ofs + 1 \<and> re_Rank e \<le> 0 \<and> (re_UserID e, re_Score e) \<in> set (zset_list (K (w_redis w) (board_key code)))"
proof -
  let ?z = "z_slice ofs (to_i64 (ofs + lmt - 1)) (zset_list (K (w_redis w) (board_key code)))"
  have es: "e # es = rank_from (ofs + 1) ?z" using GetRanking_Inr [OF assms(1,6)] .
  then obtain p zs where z: "?z = p # zs" by (cases ?z) auto
  have "set ?z \<subseteq> set (zset_list (K (w_redis w) (board_key code)))"
    by (auto simp: z_slice_def Let_def dest: in_set_takeD in_set_dropD)
  moreover have "e = \<lparr>re_Rank = to_i64 (ofs + 1), re_UserID = fst p, re_Score = snd p\<rparr>"
    using es z by (cases p) simp
  moreover have "to_i64 (ofs + 1) = ofs + 1" using assms(2,3) by (intro to_i64_id) simp_all
  ultimately show ?thesis using z assms(2) by auto
qed

theorem negative_offset_ranks_witness:
  "\<exists>e es w'. GetRanking sample_board ''weekly'' 20 (- 2) board_world = (Inr (e # es), w') \<and> re_Rank e = - 1"
proof -
  obtain es w' where g: "GetRanking sample_board ''weekly'' 20 (- 2) board_world = (Inr es, w')"
    "es = rank_from (- 1) (z_slice (- 2) (to_i64 17) [(''bob'', Fin 30), (''ann'', Fin 20), (''eve'', Fin 10)])"
    using board_page [of "- 2"] by fastforce
  then obtain e es' where "es = e # es'" by (simp add: z_slice_def to_i64_id)
  with g(1) have g': "GetRanking sample_board ''weekly'' 20 (- 2) board_world = (Inr (e # es'), w')" by simp
  have r: "redis (bs_redis sample_board) (\<lambda>r. r)" by (simp add: sample_board_def redis_ref.redis_axioms)
  from negative_offset_ranks [OF r _ _ _ _ g'] g' show ?thesis by auto
qed

end
