(* ===== verification/Users.thy ===== *)
theory Users
  imports Platforms
begin

text \<open>
  The users module (\<open>internal/users\<close>): profiles and search. The service keeps no state of its own.
\<close>

record user_view =
  uv_ID :: string
  uv_Username :: string
  uv_Email :: string
  uv_DisplayName :: string
  uv_AvatarURL :: string
  uv_Status :: string

text \<open>\<open>UpdateProfileRequest\<close>: a field that is absent from the body is a nil pointer.\<close>

record profile_update =
  pr_DisplayName :: "string option"
  pr_AvatarURL :: "string option"

record pagination =
  pg_Limit :: int
  pg_Offset :: int

definition toUser :: "uuid_lib \<Rightarrow> user_row \<Rightarrow> user_view" where
  "toUser U u =
     \<lparr>uv_ID = uuid_String U (u_id u), uv_Username = u_username u, uv_Email = null_string (u_email u),
      uv_DisplayName = null_string (u_display_name u), uv_AvatarURL = null_string (u_avatar_url u),
      uv_Status = u_status u\<rparr>"

definition GetUser :: "uuid_lib \<Rightarrow> string \<Rightarrow> ('r, 'n, user_view) svc" where
  "GetUser U rid w =
     (case uuid_Parse U rid of
        None \<Rightarrow> (Inl (app_err ErrBadRequest ''invalid user id''), w)
      | Some uid \<Rightarrow>
     (case on_db (GetUserByID_sql uid) w of
        (Inl _, w1) \<Rightarrow> (Inl (app_err ErrNotFound ''user not found''), w1)
      | (Inr u, w1) \<Rightarrow> (Inr (toUser U u), w1)))"

text \<open>The metadata of the statement is the null value.\<close>

definition UpdateProfile :: "uuid_lib \<Rightarrow> string \<Rightarrow> profile_update \<Rightarrow> ('r, 'n, unit) svc" where
  "UpdateProfile U rid req w =
     (case uuid_Parse U rid of
        None \<Rightarrow> (Inl (app_err ErrBadRequest ''invalid user id''), w)
      | Some uid \<Rightarrow>
     (case on_db (UpdateUserProfile_sql uid (pr_DisplayName req) (pr_AvatarURL req) None) w of
        (Inl _, w1) \<Rightarrow> (Inl (PlainErr ''update profile''), w1)
      | (Inr _, w1) \<Rightarrow> (Inr (), w1)))"

definition SearchUsers :: "uuid_lib \<Rightarrow> string \<Rightarrow> pagination \<Rightarrow> ('r, 'n, user_view list) svc" where
  "SearchUsers U query pg w =
     (case on_db (SearchUsers_sql query (to_i32 (pg_Limit pg)) (to_i32 (pg_Offset pg))) w of
        (Inl _, w1) \<Rightarrow> (Inl (PlainErr ''search users''), w1)
      | (Inr us, w1) \<Rightarrow> (Inr (map (toUser U) us), w1))"

subsection \<open>Handlers\<close>

datatype users_data = D_User user_view | D_UserList "user_view list" | D_Updated string

definition getMe_h :: "uuid_lib \<Rightarrow> request \<Rightarrow> headers \<Rightarrow> ('r, 'n) world \<Rightarrow> users_data response \<times> ('r, 'n) world" where
  "getMe_h U rq h w = respond_plain 200 D_User h (GetUser U (UserIDFromContext rq) w)"

definition updateMe_h :: "uuid_lib \<Rightarrow> request \<Rightarrow> profile_update option \<Rightarrow> headers \<Rightarrow> ('r, 'n) world
    \<Rightarrow> users_data response \<times> ('r, 'n) world" where
  "updateMe_h U rq body h w =
     (case body of
        None \<Rightarrow> (bad_body h, w)
      | Some req \<Rightarrow> respond_plain 200 (\<lambda>_. D_Updated ''ok'') h (UpdateProfile U (UserIDFromContext rq) req w))"

definition getUser_h :: "uuid_lib \<Rightarrow> request \<Rightarrow> headers \<Rightarrow> ('r, 'n) world \<Rightarrow> users_data response \<times> ('r, 'n) world" where
  "getUser_h U rq h w = respond_plain 200 D_User h (GetUser U (rq_param rq ''id'') w)"

definition search_limit :: "string \<Rightarrow> int" where
  "search_limit s = (let l = fst (atoi s) in if l \<le> 0 \<or> 100 < l then 20 else l)"

definition searchUsers_h :: "uuid_lib \<Rightarrow> request \<Rightarrow> headers \<Rightarrow> ('r, 'n) world \<Rightarrow> users_data response \<times> ('r, 'n) world" where
  "searchUsers_h U rq h w =
     respond_plain 200 D_UserList h
       (SearchUsers U (rq_query rq ''q'')
          \<lparr>pg_Limit = search_limit (rq_query rq ''limit''), pg_Offset = fst (atoi (rq_query rq ''offset''))\<rparr> w)"

end
