(* ===== verification/Admin.thy ===== *)
theory Admin
  imports Users
begin

text \<open>
  The admin module (\<open>internal/admin\<close>): logging in as an administrator, changing the status of a user,
  and the audit log. The routes stand behind \<open>AuthGuard\<close> and \<open>RequireAdmin\<close>, except the login.
\<close>

record admin_login_request =
  al_Username :: string
  al_Password :: string

record admin_login_response =
  ar_ID :: string
  ar_Username :: string
  ar_Role :: string
  ar_AccessToken :: string

definition AdminLogin ::
    "'r auth_svc \<Rightarrow> int \<Rightarrow> int \<Rightarrow> admin_login_request \<Rightarrow> ('r, 'n, admin_login_response) svc" where
  "AdminLogin A t1 t2 req w =
     (if al_Username req = '''' \<or> al_Password req = ''''
      then (Inl (app_err ErrInvalidCredentials ''username and password are required''), w)
      else
     (case on_db (GetAdminByUsername_sql (al_Username req)) w of
        (Inl _, w1) \<Rightarrow> (Inl (app_err ErrInvalidCredentials ''invalid credentials''), w1)
      | (Inr admin, w1) \<Rightarrow>
          if ad_status admin \<noteq> ''active'' then (Inl (app_err ErrForbidden ''admin account is not active''), w1)
          else if \<not> bc_Compare (as_bcrypt A) (ad_password_hash admin) (al_Password req)
          then (Inl (app_err ErrInvalidCredentials ''invalid credentials''), w1)
          else (case GenerateToken A t1 t2 (uuid_String (as_uuid A) (ad_id admin)) (ad_role admin) of
             Inl _ \<Rightarrow> (Inl (app_err ErrInternal ''failed to generate token''), w1)
           | Inr token \<Rightarrow>
               (Inr \<lparr>ar_ID = uuid_String (as_uuid A) (ad_id admin), ar_Username = ad_username admin,
                     ar_Role = ad_role admin, ar_AccessToken = token\<rparr>, w1))))"

definition ListUsers :: "int \<Rightarrow> int \<Rightarrow> ('r, 'n, user_row list) svc" where
  "ListUsers lmt ofs w =
     (case on_db (SearchUsers_sql ''%'' lmt ofs) w of
        (Inl _, w1) \<Rightarrow> (Inl (app_err ErrInternal ''failed to list users''), w1)
      | (Inr us, w1) \<Rightarrow> (Inr us, w1))"

definition UpdateUserStatus :: "uuid_lib \<Rightarrow> string \<Rightarrow> string \<Rightarrow> ('r, 'n, user_row) svc" where
  "UpdateUserStatus U userID status w =
     (if status \<noteq> ''active'' \<and> status \<noteq> ''banned'' \<and> status \<noteq> ''deleted''
      then (Inl (app_err ErrBadRequest ''invalid status: must be active, banned, or deleted''), w)
      else case uuid_Parse U userID of
        None \<Rightarrow> (Inl (app_err ErrBadRequest ''invalid user ID''), w)
      | Some uid \<Rightarrow>
     (case on_db (UpdateUserStatus_sql uid status) w of
        (Inl NoRows, w1) \<Rightarrow> (Inl (app_err ErrNotFound ''user not found''), w1)
      | (Inl QueryFailed, w1) \<Rightarrow> (Inl (app_err ErrInternal ''failed to update user status''), w1)
      | (Inr user, w1) \<Rightarrow> (Inr user, w1)))"

definition ListAuditLogs :: "int \<Rightarrow> int \<Rightarrow> ('r, 'n, audit_row list) svc" where
  "ListAuditLogs lmt ofs w =
     (case on_db (ListAuditLogs_sql lmt ofs) w of
        (Inl _, w1) \<Rightarrow> (Inl (app_err ErrInternal ''failed to list audit logs''), w1)
      | (Inr logs, w1) \<Rightarrow> (Inr logs, w1))"

definition CreateAuditLog ::
    "uuid_lib \<Rightarrow> string \<Rightarrow> string \<Rightarrow> string \<Rightarrow> string \<Rightarrow> string \<Rightarrow> string \<Rightarrow> ('r, 'n, audit_row) svc" where
  "CreateAuditLog U operatorID action targetType targetID reason ip w =
     (let opID = parse_or_nil U operatorID in
      case on_db (CreateAuditLog_sql
             \<lparr>ap_operator_id = (if opID \<noteq> nil_uuid then Some opID else None), ap_action = action,
              ap_target_type = targetType, ap_target_id = targetID, ap_before_value = None, ap_after_value = None,
              ap_reason = null_if_empty reason, ap_ip = null_if_empty ip\<rparr>) w of
        (Inl _, w1) \<Rightarrow> (Inl (app_err ErrInternal ''failed to create audit log''), w1)
      | (Inr entry, w1) \<Rightarrow> (Inr entry, w1))"

subsection \<open>Handlers\<close>

datatype admin_data =
    D_AdminLogin admin_login_response
  | D_AdminUsers "user_row list"
  | D_AdminUser user_row
  | D_AuditLogs "audit_row list"

definition parsePagination :: "request \<Rightarrow> int \<times> int" where
  "parsePagination rq =
     (let l = rq_query rq ''limit''; ofs = rq_query rq ''offset'' in
      (if l = '''' then 20 else case parse_int 32 l of (n, None) \<Rightarrow> if 0 < n then n else 20 | _ \<Rightarrow> 20,
       if ofs = '''' then 0 else case parse_int 32 ofs of (n, None) \<Rightarrow> if 0 \<le> n then n else 0 | _ \<Rightarrow> 0))"

definition AdminLogin_h :: "'r auth_svc \<Rightarrow> int \<Rightarrow> int \<Rightarrow> admin_login_request option \<Rightarrow> headers \<Rightarrow> ('r, 'n) world
    \<Rightarrow> admin_data response \<times> ('r, 'n) world" where
  "AdminLogin_h A t1 t2 body h w =
     (case body of
        None \<Rightarrow> (bad_body h, w)
      | Some req \<Rightarrow> respond 200 D_AdminLogin h (AdminLogin A t1 t2 req w))"

definition ListUsers_h :: "(('r, 'n) world, admin_data) endpoint" where
  "ListUsers_h rq h w =
     (let (lmt, ofs) = parsePagination rq in respond 200 D_AdminUsers h (ListUsers lmt ofs w))"

text \<open>The result of \<open>CreateAuditLog\<close> is dropped.\<close>

definition UpdateUserStatus_h :: "uuid_lib \<Rightarrow> string option \<Rightarrow> (('r, 'n) world, admin_data) endpoint" where
  "UpdateUserStatus_h U body rq h w =
     (let userID = rq_param rq ''id'' in
      if userID = '''' then (WriteHTTP (errors_New ErrBadRequest ''user ID is required'') h, w)
      else case body of
        None \<Rightarrow> (bad_body h, w)
      | Some status \<Rightarrow>
     (case UpdateUserStatus U userID status w of
        (Inl err, w1) \<Rightarrow> (writeAppError err h, w1)
      | (Inr user, w1) \<Rightarrow>
          (let (_, w2) = CreateAuditLog U (UserIDFromContext rq) ''update_user_status'' ''user'' userID
                           (''status: '' @ status) (rq_remote rq) w1
           in (writeJSON 200 (D_AdminUser user) h, w2))))"

definition ListAuditLogs_h :: "(('r, 'n) world, admin_data) endpoint" where
  "ListAuditLogs_h rq h w =
     (let (lmt, ofs) = parsePagination rq in respond 200 D_AuditLogs h (ListAuditLogs lmt ofs w))"

text \<open>The routes as \<open>RegisterRoutes\<close> of \<open>module.go\<close> mounts them, behind the two guards.\<close>

definition admin_route :: "'r auth_svc \<Rightarrow> int \<Rightarrow> (('r, 'n) world, admin_data) endpoint \<Rightarrow> (('r, 'n) world, admin_data) endpoint" where
  "admin_route A now handler = AuthGuard A now (RequireAdmin handler)"

lemma parsePagination_bounds:
  "parsePagination rq = (lmt, ofs) \<Longrightarrow> 1 \<le> lmt \<and> lmt < 2 ^ 31 \<and> 0 \<le> ofs \<and> ofs < 2 ^ 31"
  using parse_int_bounds [of 32 "rq_query rq ''limit''"] parse_int_bounds [of 32 "rq_query rq ''offset''"]
  by (auto simp: parsePagination_def Let_def split: if_splits prod.splits option.splits)

end
