(* ===== verification/AdminProps.thy ===== *)
theory AdminProps
  imports Admin AuthProps
begin

text \<open>Properties of the admin module, alone and together with the authentication service.\<close>

lemma new_status:
  assumes "u \<in> set (map (\<lambda>u. if u_id u = uid then u\<lparr>u_status := st, u_updated_at := now\<rparr> else u) xs)" and "u_id u = uid"
  shows "u_status u = st"
proof -
  obtain x where "u = (if u_id x = uid then x\<lparr>u_status := st, u_updated_at := now\<rparr> else x)"
    using assms(1) unfolding set_map by (rule imageE)
  with assms(2) show ?thesis by (cases "u_id x = uid") simp_all
qed

lemma UpdateUserStatus_sql_Inr:
  assumes "UpdateUserStatus_sql uid st d = (Inr u, d')"
  shows "\<exists>now. users d' = map (\<lambda>u. if u_id u = uid then u\<lparr>u_status := st, u_updated_at := now\<rparr> else u) (users d) \<and>
    u \<in> set (users d') \<and> u_id u = uid \<and> u_status u = st \<and> credentials d' = credentials d \<and> audit_logs d' = audit_logs d \<and>
    admin_users d' = admin_users d \<and> db_env d' = db_env d \<and> db_calls d' = Suc (db_calls d)"
proof -
  obtain rid now where s: "(let us = map (\<lambda>u. if u_id u = uid then u\<lparr>u_status := st, u_updated_at := now\<rparr> else u) (users (tick d))
     in case filter (\<lambda>u. u_id u = uid) us of
          [] \<Rightarrow> (Inl NoRows, tick d)
        | u # _ \<Rightarrow> if \<not> varchar_ok 16 st then (Inl QueryFailed, tick d)
                   else (Inr u, (tick d)\<lparr>users := us\<rparr>)) = (Inr u, d')"
    using assms unfolding UpdateUserStatus_sql_def by (auto dest!: stmt_Inr)
  let ?us = "map (\<lambda>u. if u_id u = uid then u\<lparr>u_status := st, u_updated_at := now\<rparr> else u) (users d)"
  obtain rest where f: "filter (\<lambda>u. u_id u = uid) ?us = u # rest" and d': "d' = (tick d)\<lparr>users := ?us\<rparr>"
    using s by (auto simp: Let_def split: list.splits if_splits)
  have "u \<in> set (filter (\<lambda>u. u_id u = uid) ?us)" unfolding f by simp
  then have m: "u \<in> set ?us" and i: "u_id u = uid" unfolding set_filter by blast+
  have "u_status u = st" by (rule new_status [OF m i])
  with m i d' show ?thesis by (intro exI [of _ now]) simp
qed

lemma UpdateUserStatus_Inr:
  assumes "UpdateUserStatus U target st w = (Inr user, w1)"
  obtains uid where "uuid_Parse U target = Some uid" and "st \<in> {''active'', ''banned'', ''deleted''}"
    and "UpdateUserStatus_sql uid st (w_db w) = (Inr user, w_db w1)" and "w1 = w\<lparr>w_db := w_db w1\<rparr>"
proof -
  have st: "st \<in> {''active'', ''banned'', ''deleted''}"
    using assms by (auto simp: UpdateUserStatus_def split: if_splits)
  then obtain uid where uid: "uuid_Parse U target = Some uid"
    using assms by (cases "uuid_Parse U target") (auto simp: UpdateUserStatus_def)
  have "on_db (UpdateUserStatus_sql uid st) w = (Inr user, w1)"
    using assms st uid by (auto simp: UpdateUserStatus_def split: prod.splits sum.splits db_error.splits)
  with st uid show thesis by (intro that) (auto simp: on_db_eq)
qed

lemma SearchUsers_active: "SearchUsers_sql pat lmt ofs d = (Inr us, d') \<Longrightarrow> u \<in> set us \<Longrightarrow> u \<in> set (users d) \<and> u_status u = ''active''"
  unfolding SearchUsers_sql_def by (auto dest!: select_Inr simp: page_def dest!: in_set_takeD in_set_dropD split: if_splits)

text \<open>
  C21. Taking an account out of use works from then on: after an administrator has set the status
  of a user to anything but \<open>active\<close>, no login yields a token for that user, and the user appears
  neither in the search nor in the administrators' own list of users, where nobody can find the
  account to restore it.
\<close>

theorem banned_user_locked_out:
  assumes "auth_env R K J U B A" and "UpdateUserStatus U (uuid_String U u) st w = (Inr user, w1)" and "st \<noteq> ''active''"
  shows "(\<forall>dr req tp w2 now c. Login A dr req w1 = (Inr tp, w2) \<longrightarrow> now < dr_expires_from dr + 15 * 60 \<longrightarrow>
      ValidateToken A now (tp_AccessToken tp) = Inr c \<longrightarrow> cl_UserID c \<noteq> uuid_String U u) \<and>
    (\<forall>lmt ofs us w2. ListUsers lmt ofs w1 = (Inr us, w2) \<longrightarrow> u \<notin> u_id ` set us) \<and>
    (\<forall>query pg vs w2. SearchUsers U query pg w1 = (Inr vs, w2) \<longrightarrow> uuid_String U u \<notin> uv_ID ` set vs)"
proof (rule UpdateUserStatus_Inr [OF assms(2)])
  fix uid
  assume p: "uuid_Parse U (uuid_String U u) = Some uid" and s: "UpdateUserStatus_sql uid st (w_db w) = (Inr user, w_db w1)"
  note env = auth_env.axioms(3) [OF assms(1)]
  have uid: "uid = u" using p by (simp add: uuid_pkg.parse_string [OF env])
  have off: "u_status v = st" if "v \<in> set (users (w_db w1))" "u_id v = u" for v
  proof -
    obtain now where "users (w_db w1) = map (\<lambda>u. if u_id u = uid then u\<lparr>u_status := st, u_updated_at := now\<rparr> else u) (users (w_db w))"
      using UpdateUserStatus_sql_Inr [OF s] by blast
    from new_status [OF that(1) [unfolded this]] that(2) uid show ?thesis by blast
  qed
  have login: "cl_UserID c \<noteq> uuid_String U u"
    if l: "Login A dr req w1 = (Inr tp, w2)" and t: "now < dr_expires_from dr + 15 * 60"
      and v: "ValidateToken A now (tp_AccessToken tp) = Inr c" for dr req tp w2 now c
  proof -
    have A: "as_uuid A = U" using assms(1) by (simp add: auth_env_def auth_env_axioms_def)
    obtain v d where x: "v \<in> set (users (w_db w1))" "u_status v = ''active''"
      "generateTokenPair A dr (uuid_String U (u_id v)) (w1\<lparr>w_db := d\<rparr>) = (Inr tp, w2)"
      using Login_Inr [OF l, unfolded A] by blast
    have "cl_UserID c = uuid_String U (u_id v)"
      using auth_env.access_token_verifies [OF assms(1) x(3) , of now] t v by simp
    moreover have "u_id v \<noteq> u" using off x(1,2) assms(3) by auto
    ultimately show ?thesis by (simp add: uuid_pkg.string_inject [OF env])
  qed
  have listed: "u \<notin> u_id ` set us" if "SearchUsers_sql pat lmt ofs (w_db w1) = (Inr us, d)" for pat lmt ofs us d
    using SearchUsers_active [OF that] off assms(3) by auto
  have "u \<notin> u_id ` set us" if "ListUsers lmt ofs w1 = (Inr us, w2)" for lmt ofs us w2
    using that listed by (auto simp: ListUsers_def on_db_eq split: prod.splits sum.splits)
  moreover have "uuid_String U u \<notin> uv_ID ` set vs" if "SearchUsers U query pg w1 = (Inr vs, w2)" for query pg vs w2
    using that listed by (force simp: SearchUsers_def on_db_eq toUser_def uuid_pkg.string_inject [OF env]
        split: prod.splits sum.splits)
  ultimately show ?thesis using login by blast
qed

lemma sample_ban:
  "\<exists>user w1. UpdateUserStatus ref_uuid (uuid_String ref_uuid 2) ''banned'' (sample_world ()) = (Inr user, w1) \<and> no_faults (w_db w1)"
proof -
  have "\<exists>user d. UpdateUserStatus_sql 2 ''banned'' sample_db = (Inr user, d) \<and> no_faults d"
    unfolding UpdateUserStatus_sql_def stmt_nf [OF sample_no_faults] Let_def
    by (simp add: sample_db_def empty_db_def sample_user_def varchar_ok_def char_count_def no_faults_def sample_env_def)
  then show ?thesis
    by (auto simp: UpdateUserStatus_def uuid_ref.parse_string on_db_def)
qed

theorem banned_user_locked_out_witness:
  "\<exists>user w1. UpdateUserStatus ref_uuid (uuid_String ref_uuid 2) ''banned'' (sample_world ()) = (Inr user, w1) \<and>
    (\<forall>us w2. ListUsers 20 0 w1 = (Inr us, w2) \<longrightarrow> 2 \<notin> u_id ` set us)"
proof -
  obtain user w1 where b: "UpdateUserStatus ref_uuid (uuid_String ref_uuid 2) ''banned'' (sample_world ()) = (Inr user, w1)"
    using sample_ban by blast
  from banned_user_locked_out [OF auth_ref.auth_env_axioms b] b show ?thesis by auto
qed

text \<open>When the audit log takes an entry; otherwise the statement fails and the handler drops the error.\<close>

definition audit_accepted :: "db \<Rightarrow> uuid \<Rightarrow> string \<Rightarrow> string \<Rightarrow> bool" where
  "audit_accepted d operator target ip \<longleftrightarrow>
     (operator = nil_uuid \<or> operator \<in> ad_id ` set (admin_users d)) \<and> varchar_ok 255 target \<and> varchar_ok 45 ip \<and>
     env_fresh (db_env d) (Suc (db_calls d)) \<notin> au_id ` set (audit_logs d)"

lemma CreateAuditLog_nf:
  assumes "no_faults d" and "env_fresh (db_env d) (db_calls d) \<notin> au_id ` set (audit_logs d) \<longleftrightarrow> fresh"
    and "CreateAuditLog_sql p d = (res, d')" and "json_opt_ok (ap_before_value p)" and "json_opt_ok (ap_after_value p)"
  shows "users d' = users d \<and>
    (if fresh \<and> (case ap_operator_id p of None \<Rightarrow> True | Some u \<Rightarrow> u \<in> ad_id ` set (admin_users d)) \<and>
       varchar_ok 64 (ap_action p) \<and> varchar_ok 32 (ap_target_type p) \<and> varchar_ok 255 (ap_target_id p) \<and> varchar_opt_ok 45 (ap_ip p)
     then \<exists>e. audit_logs d' = audit_logs d @ [e] \<and> au_operator_id e = ap_operator_id p \<and> au_action e = ap_action p \<and>
       au_target_id e = ap_target_id p \<and> au_reason e = ap_reason p \<and> au_ip e = ap_ip p
     else audit_logs d' = audit_logs d)"
  using assms(2-5) unfolding CreateAuditLog_sql_def stmt_nf [OF assms(1)] Let_def
  by (auto split: if_splits option.splits)

text \<open>What a call of the service writes to the log.\<close>

lemma CreateAuditLog_effect:
  assumes "no_faults (w_db w)"
    and "w' = snd (CreateAuditLog U operator action ''user'' target reason ip w)" and "varchar_ok 64 action"
    and "audit_accepted (w_db v) (parse_or_nil U operator) target ip \<longleftrightarrow> ok" and "reason \<noteq> ''''"
    and "audit_logs (w_db w) = audit_logs (w_db v)" and "admin_users (w_db w) = admin_users (w_db v)"
    and "db_env (w_db w) = db_env (w_db v)" and "db_calls (w_db w) = Suc (db_calls (w_db v))"
  shows "users (w_db w') = users (w_db w) \<and>
    (if ok then \<exists>e. audit_logs (w_db w') = audit_logs (w_db w) @ [e] \<and> au_action e = action \<and> au_target_id e = target \<and>
        au_reason e = Some reason \<and> au_ip e = null_if_empty ip \<and>
        au_operator_id e = (if parse_or_nil U operator = nil_uuid then None else Some (parse_or_nil U operator))
      else audit_logs (w_db w') = audit_logs (w_db w))"
proof -
  let ?op = "parse_or_nil U operator"
  let ?p = "\<lparr>ap_operator_id = (if ?op \<noteq> nil_uuid then Some ?op else None), ap_action = action,
      ap_target_type = ''user'', ap_target_id = target, ap_before_value = None, ap_after_value = None,
      ap_reason = null_if_empty reason, ap_ip = null_if_empty ip\<rparr>"
  obtain res d where a: "CreateAuditLog_sql ?p (w_db w) = (res, d)" by fastforce
  have d: "w_db w' = d"
    unfolding assms(2) CreateAuditLog_def Let_def on_db_def a by (simp split: sum.split)
  have small: "varchar_ok 32 ''user''" by (simp add: varchar_ok_def char_count_def)
  have ip: "varchar_opt_ok 45 (null_if_empty ip) = varchar_ok 45 ip"
    by (simp add: varchar_opt_ok_def null_if_empty_def varchar_ok_def char_count_def)
  have ok: "ok \<longleftrightarrow> (env_fresh (db_env (w_db w)) (db_calls (w_db w)) \<notin> au_id ` set (audit_logs (w_db w))) \<and>
      (case ap_operator_id ?p of None \<Rightarrow> True | Some u \<Rightarrow> u \<in> ad_id ` set (admin_users (w_db w))) \<and> varchar_ok 64 (ap_action ?p) \<and>
      varchar_ok 32 (ap_target_type ?p) \<and> varchar_ok 255 (ap_target_id ?p) \<and> varchar_opt_ok 45 (ap_ip ?p)"
    unfolding assms(4) [symmetric] audit_accepted_def assms(6-9) using small assms(3) ip by auto
  have r: "null_if_empty reason = Some reason" using assms(5) by (simp add: null_if_empty_def)
  have o: "(if ?op \<noteq> nil_uuid then Some ?op else None) = (if ?op = nil_uuid then None else Some ?op)" by simp
  have json: "json_opt_ok (ap_before_value ?p)" "json_opt_ok (ap_after_value ?p)" by simp_all
  from CreateAuditLog_nf [OF assms(1) refl a json, folded ok, unfolded audit_params.simps r o] show ?thesis
    unfolding d by (cases ok) (simp_all only: if_True if_False, blast+)
qed

lemma HTTPStatus_not_ok: "HTTPStatus e \<noteq> 200"
  using HTTPStatus_range [of e] by auto

lemma UpdateUserStatus_h_ok:
  assumes "UpdateUserStatus_h U (Some st) rq h w = (resp, w')" and "rs_status resp = 200"
  obtains user w1 where "UpdateUserStatus U (rq_param rq ''id'') st w = (Inr user, w1)"
    and "w' = snd (CreateAuditLog U (UserIDFromContext rq) ''update_user_status'' ''user'' (rq_param rq ''id'')
      (''status: '' @ st) (rq_remote rq) w1)"
proof -
  let ?t = "rq_param rq ''id''"
  have ne: "?t \<noteq> ''''" using assms by (auto simp: UpdateUserStatus_h_def WriteHTTP_def HTTPStatus_not_ok)
  obtain r w1 where u: "UpdateUserStatus U ?t st w = (r, w1)" by fastforce
  show thesis
  proof (cases r)
    case (Inl e)
    then have "resp = writeAppError e h" using assms(1) ne u by (simp add: UpdateUserStatus_h_def)
    with assms(2) show thesis by (cases e) (simp_all add: writeAppError_status HTTPStatus_not_ok)
  next
    case (Inr user)
    then show thesis using that assms(1) ne u by (simp add: UpdateUserStatus_h_def split_beta)
  qed
qed

text \<open>
  C22. Through the mounted route, the status of a user changes only for a verified token with the
  role \<open>admin\<close>; then exactly the rows of the named user get the status. The change is recorded with
  the administrator, the user, the status and the remote address, but only if the audit log takes
  the entry: the remote address is \<open>host:port\<close>, longer than the column of 45 characters for full
  IPv6 addresses, and then the change is made and answered with 200 without any record.
\<close>

theorem status_change_audited:
  assumes "no_faults (w_db w)" and "admin_route A now (UpdateUserStatus_h U (Some st)) rq h w = (resp, w')"
    and "rs_status resp = 200"
  shows "\<exists>token c target t. bearer (rq_header rq ''Authorization'') token \<and> ValidateToken A now token = Inr c \<and>
    cl_Role c = ''admin'' \<and> uuid_Parse U (rq_param rq ''id'') = Some target \<and>
    users (w_db w') = map (\<lambda>u. if u_id u = target then u\<lparr>u_status := st, u_updated_at := t\<rparr> else u) (users (w_db w)) \<and>
    (if audit_accepted (w_db w) (parse_or_nil U (cl_UserID c)) (rq_param rq ''id'') (rq_remote rq)
     then \<exists>e. audit_logs (w_db w') = audit_logs (w_db w) @ [e] \<and> au_action e = ''update_user_status'' \<and>
       au_target_id e = rq_param rq ''id'' \<and> au_reason e = Some (''status: '' @ st) \<and>
       au_ip e = null_if_empty (rq_remote rq) \<and>
       au_operator_id e = (if parse_or_nil U (cl_UserID c) = nil_uuid then None else Some (parse_or_nil U (cl_UserID c)))
     else audit_logs (w_db w') = audit_logs (w_db w))"
proof (cases rule: admin_guard_cases [where rq = rq and A = A and now = now and handler = "UpdateUserStatus_h U (Some st)"
      and h = h and w = w])
  case (refuse resp')
  then show ?thesis using assms(2,3) by (auto simp: admin_route_def)
next
  case (pass token c)
  let ?t = "rq_param rq ''id''" and ?op = "parse_or_nil U (cl_UserID c)"
  let ?rq = "rq\<lparr>rq_user := Some (cl_UserID c), rq_session := Some (cl_SessionID c), rq_role := Some (cl_Role c)\<rparr>"
  have "UpdateUserStatus_h U (Some st) ?rq h w = (resp, w')" using pass(4) assms(2) by (simp add: admin_route_def)
  then obtain user w1 where u: "UpdateUserStatus U ?t st w = (Inr user, w1)"
    and w': "w' = snd (CreateAuditLog U (cl_UserID c) ''update_user_status'' ''user'' ?t (''status: '' @ st) (rq_remote rq) w1)"
    using assms(3) by (rule UpdateUserStatus_h_ok) (simp add: UserIDFromContext_def null_string_def)
  obtain uid where s: "uuid_Parse U ?t = Some uid" "UpdateUserStatus_sql uid st (w_db w) = (Inr user, w_db w1)"
    using UpdateUserStatus_Inr [OF u] by metis
  obtain t where us: "users (w_db w1) = map (\<lambda>u. if u_id u = uid then u\<lparr>u_status := st, u_updated_at := t\<rparr> else u) (users (w_db w))"
    and rest: "audit_logs (w_db w1) = audit_logs (w_db w)" "admin_users (w_db w1) = admin_users (w_db w)"
      "db_env (w_db w1) = db_env (w_db w)" "db_calls (w_db w1) = Suc (db_calls (w_db w))"
    using UpdateUserStatus_sql_Inr [OF s(2)] by blast
  have nf: "no_faults (w_db w1)" using assms(1) rest(3) by (simp add: no_faults_def)
  have "varchar_ok 64 ''update_user_status''" "''status: '' @ st \<noteq> ''''" by (simp_all add: varchar_ok_def char_count_def)
  from CreateAuditLog_effect [OF nf w' this(1) refl this(2) rest]
  have users: "users (w_db w') = users (w_db w1)" and log: "if audit_accepted (w_db w) ?op ?t (rq_remote rq)
     then \<exists>e. audit_logs (w_db w') = audit_logs (w_db w) @ [e] \<and> au_action e = ''update_user_status'' \<and>
       au_target_id e = ?t \<and> au_reason e = Some (''status: '' @ st) \<and>
       au_ip e = null_if_empty (rq_remote rq) \<and> au_operator_id e = (if ?op = nil_uuid then None else Some ?op)
     else audit_logs (w_db w') = audit_logs (w_db w)"
    unfolding rest(1) by blast+
  show ?thesis
    by (rule exI [of _ token], rule exI [of _ c], rule exI [of _ uid], rule exI [of _ t])
      (intro conjI pass s(1) trans [OF users us] log)
qed

definition admin_world :: "(keyspace, unit) world" where
  "admin_world = sample_world ()\<lparr>w_db := sample_db\<lparr>admin_users := [\<lparr>ad_id = 5, ad_username = ''root'', ad_password_hash = '''',
     ad_role = ''admin'', ad_status = ''active'', ad_created_at = 0, ad_updated_at = 0\<rparr>]\<rparr>\<rparr>"

definition admin_request :: "string \<Rightarrow> request" where
  "admin_request t = \<lparr>rq_header = (\<lambda>k. if k = ''Authorization'' then ''Bearer '' @ t else ''''), rq_query = (\<lambda>_. ''''),
     rq_param = (\<lambda>k. if k = ''id'' then uuid_String ref_uuid 2 else ''''), rq_remote = ''1.2.3.4:5'',
     rq_user = None, rq_session = None, rq_role = None\<rparr>"

lemma admin_world_ban:
  "\<exists>user w1. UpdateUserStatus ref_uuid (uuid_String ref_uuid 2) ''banned'' admin_world = (Inr user, w1)"
proof -
  have nf: "no_faults (w_db admin_world)" by (simp add: admin_world_def no_faults_def sample_env_def)
  have "\<exists>user d. UpdateUserStatus_sql 2 ''banned'' (w_db admin_world) = (Inr user, d)"
    unfolding UpdateUserStatus_sql_def stmt_nf [OF nf] Let_def
    by (simp add: admin_world_def sample_db_def empty_db_def sample_user_def varchar_ok_def char_count_def)
  then show ?thesis by (auto simp: UpdateUserStatus_def uuid_ref.parse_string on_db_def)
qed

theorem status_change_audited_witness:
  "\<exists>t resp w'. admin_route sample_auth 0 (UpdateUserStatus_h ref_uuid (Some ''banned'')) (admin_request t) Map.empty admin_world = (resp, w') \<and>
    rs_status resp = 200 \<and> length (audit_logs (w_db w')) = 1"
proof -
  let ?u = "uuid_String ref_uuid 5" and ?h = "UpdateUserStatus_h ref_uuid (Some ''banned'')"
  obtain t where t: "GenerateAccessToken ref_jwt (as_keys sample_auth) 0 0 ?u '''' ''admin'' = Inr t"
    by (simp add: sample_auth_def GenerateAccessToken_def Sign_km_def ref_jwt_def)
  let ?c = "\<lparr>cl_UserID = ?u, cl_SessionID = '''', cl_Role = ''admin'', cl_ExpiresAt = Some 900, cl_IssuedAt = Some 0\<rparr>"
  have v: "ValidateToken sample_auth 0 t = Inr ?c"
    using jwt_ref.GenerateAccessToken_verifies(1) [OF t [unfolded sample_auth_def, simplified], of "as_keys sample_auth" 0]
    by (simp add: ValidateToken_def sample_auth_def uuid_ref.string_ascii)
  have sp: "split_space2 (''Bearer'' @ CHR '' '' # t) = [''Bearer'', t]" by (rule split_space2_bearer) simp
  have eq: "equal_fold ''Bearer'' ''bearer''" by (simp add: equal_fold_def to_lower_def char_of_def bit_iff_odd)
  have nf: "no_faults (w_db admin_world)" by (simp add: admin_world_def no_faults_def sample_env_def)
  obtain resp w' where a: "admin_route sample_auth 0 ?h (admin_request t) Map.empty admin_world = (resp, w')" by fastforce
  obtain user w1 where b: "UpdateUserStatus ref_uuid (uuid_String ref_uuid 2) ''banned'' admin_world = (Inr user, w1)"
    using admin_world_ban by blast
  have "rs_status resp = 200"
    using a sp eq v b uuid_ref.string_nonempty [of 2]
    by (auto simp: admin_route_def guard_defs admin_request_def null_string_def UpdateUserStatus_h_def
        split_beta writeJSON_def Let_def)
  from status_change_audited [OF nf a this] obtain token c where
    c: "bearer (rq_header (admin_request t) ''Authorization'') token" "ValidateToken sample_auth 0 token = Inr c"
    and log: "audit_accepted (w_db admin_world) (parse_or_nil ref_uuid (cl_UserID c)) (rq_param (admin_request t) ''id'')
        (rq_remote (admin_request t)) \<Longrightarrow> \<exists>e. audit_logs (w_db w') = audit_logs (w_db admin_world) @ [e]"
    by (elim exE conjE) (rule that, assumption, assumption, simp only: if_True, blast)
  have "rq_header (admin_request t) ''Authorization'' = ''Bearer'' @ CHR '' '' # t" by (simp add: admin_request_def)
  with c(1) obtain scheme where s: "scheme @ CHR '' '' # token = ''Bearer'' @ CHR '' '' # t" "CHR '' '' \<notin> set scheme"
    unfolding bearer_def by metis
  have "split_space2 (scheme @ CHR '' '' # token) = [scheme, token]" by (rule split_space2_bearer [OF s(2)])
  with sp have "token = t" unfolding s(1) by simp
  then have "c = ?c" using c(2) v by simp
  then have "parse_or_nil ref_uuid (cl_UserID c) = 5" by (simp add: uuid_ref.parse_or_nil_string)
  moreover have "length (uuid_String ref_uuid 2) = 36" by (rule uuid_ref.string_length)
  then have "varchar_ok 255 (uuid_String ref_uuid 2)" using char_count_le [of "uuid_String ref_uuid 2"] by (simp add: varchar_ok_def)
  ultimately have "audit_accepted (w_db admin_world) (parse_or_nil ref_uuid (cl_UserID c)) (rq_param (admin_request t) ''id'')
        (rq_remote (admin_request t))"
    by (simp add: audit_accepted_def admin_world_def admin_request_def sample_db_def empty_db_def) (simp add: varchar_ok_def char_count_def)
  then have "length (audit_logs (w_db w')) = 1" using log by (auto simp: admin_world_def sample_db_def empty_db_def)
  then show ?thesis using a \<open>rs_status resp = 200\<close> by blast
qed

end
