(* ===== verification/GoTime.thy ===== *)
theory GoTime
  imports GoStd
begin

text \<open>
  The fragments of Go's package \<open>time\<close> that the program uses. A duration is a number of
  nanoseconds, a time the number of nanoseconds since 1970 (UTC). \<open>ParseDuration\<close> is the scanner
  of the library, with its checks for overflow; the product for the digits after a point, which the
  library computes in floating point, is rounded down from the exact value.
\<close>

subsection \<open>time.ParseDuration\<close>

definition unit_ns :: "string \<Rightarrow> nat option" where
  [go_defs]: "unit_ns u =
     (if u = ''ns'' then Some 1
      else if u = ''us'' \<or> u = [CHR 0xC2, CHR 0xB5, CHR ''s''] \<or> u = [CHR 0xCE, CHR 0xBC, CHR ''s''] then Some (10 ^ 3)
      else if u = ''ms'' then Some (10 ^ 6)
      else if u = ''s'' then Some (10 ^ 9)
      else if u = ''m'' then Some (60 * 10 ^ 9)
      else if u = ''h'' then Some (3600 * 10 ^ 9)
      else None)"

text \<open>\<open>leadingInt\<close>: \<open>None\<close> is its error for a number above \<open>2 ^ 63\<close>.\<close>

fun leading_int :: "nat \<Rightarrow> string \<Rightarrow> (nat \<times> string) option" where
  "leading_int x [] = Some (x, [])"
| "leading_int x (c # cs) =
     (if \<not> is_digit c then Some (x, c # cs)
      else if 2 ^ 63 div 10 < x then None
      else let y = x * 10 + digit_val c in if 2 ^ 63 < y then None else leading_int y cs)"

text \<open>\<open>leadingFraction\<close>: the digits that fit, with the power of ten they are to be divided by.\<close>

fun leading_fraction :: "nat \<Rightarrow> nat \<Rightarrow> bool \<Rightarrow> string \<Rightarrow> nat \<times> nat \<times> string" where
  "leading_fraction x scale ovf [] = (x, scale, [])"
| "leading_fraction x scale ovf (c # cs) =
     (if \<not> is_digit c then (x, scale, c # cs)
      else if ovf \<or> (2 ^ 63 - 1) div 10 < x then leading_fraction x scale True cs
      else let y = x * 10 + digit_val c in
           if 2 ^ 63 < y then leading_fraction x scale True cs
           else leading_fraction y (scale * 10) False cs)"

definition is_unit_char :: "char \<Rightarrow> bool" where
  [go_defs]: "is_unit_char c \<longleftrightarrow> c \<noteq> CHR ''.'' \<and> \<not> is_digit c"

text \<open>One turn of the loop: a number, a unit and the rest of the string.\<close>

definition duration_part :: "string \<Rightarrow> (nat \<times> string) option" where
  [go_defs]: "duration_part s =
     (if is_unit_char (hd s) then None
      else case leading_int 0 s of
        None \<Rightarrow> None
      | Some (v, s1) \<Rightarrow>
     (let pre = length s1 \<noteq> length s;
          (f, scale, s2, post) =
            (case s1 of
               c # cs \<Rightarrow> if c = CHR ''.'' then (let (f, scale, r) = leading_fraction 0 1 False cs
                                               in (f, scale, r, length r \<noteq> length cs))
                         else (0, 1, s1, False)
             | [] \<Rightarrow> (0, 1, s1, False));
          u = takeWhile is_unit_char s2; s3 = dropWhile is_unit_char s2
      in if \<not> pre \<and> \<not> post then None
         else if u = [] then None
         else case unit_ns u of
           None \<Rightarrow> None
         | Some unit \<Rightarrow>
             if 2 ^ 63 div unit < v then None
             else let w = v * unit + f * unit div scale in
                  if 0 < f \<and> 2 ^ 63 < w then None else Some (w, s3)))"

text \<open>Every turn consumes at least the unit, so as many turns as characters are enough.\<close>

fun duration_loop :: "nat \<Rightarrow> nat \<Rightarrow> string \<Rightarrow> nat option" where
  "duration_loop 0 d s = (if s = [] then Some d else None)"
| "duration_loop (Suc n) d s =
     (if s = [] then Some d
      else case duration_part s of
        None \<Rightarrow> None
      | Some (w, s') \<Rightarrow> if 2 ^ 63 < d + w then None else duration_loop n (d + w) s')"

definition ParseDuration :: "string \<Rightarrow> int option" where
  [go_defs]: "ParseDuration s =
     (let neg = (case s of c # _ \<Rightarrow> c = CHR ''-'' | [] \<Rightarrow> False);
          t = (case s of c # cs \<Rightarrow> if c = CHR ''-'' \<or> c = CHR ''+'' then cs else s | [] \<Rightarrow> s)
      in if t = ''0'' then Some 0
         else if t = [] then None
         else case duration_loop (length t) 0 t of
           None \<Rightarrow> None
         | Some d \<Rightarrow> if neg then Some (- int d) else if 2 ^ 63 - 1 < d then None else Some (int d))"

text \<open>A turn consumes its unit, and the fuel of \<open>ParseDuration\<close> never runs out.\<close>

lemma leading_int_length: "leading_int x s = Some (y, t) \<Longrightarrow> length t \<le> length s"
  by (induction x s rule: leading_int.induct) (auto simp: Let_def split: if_splits)

lemma leading_fraction_length: "leading_fraction x k ovf s = (y, k', t) \<Longrightarrow> length t \<le> length s"
  by (induction x k ovf s rule: leading_fraction.induct) (auto simp: Let_def split: if_splits)

lemma duration_part_shorter: "duration_part s = Some (w, t) \<Longrightarrow> length t < length s"
proof -
  have drop: "takeWhile P xs \<noteq> [] \<Longrightarrow> length (dropWhile P xs) < length xs" for P and xs :: string
    by (cases xs) (auto simp: less_Suc_eq_le length_dropWhile_le split: if_splits)
  show "duration_part s = Some (w, t) \<Longrightarrow> length t < length s"
    by (auto simp: duration_part_def Let_def split: if_splits option.splits prod.splits list.splits
        dest!: leading_int_length leading_fraction_length intro: less_le_trans [OF drop] le_less_trans [OF length_dropWhile_le])
qed

lemma duration_loop_fuel: "length s \<le> n \<Longrightarrow> length s \<le> m \<Longrightarrow> duration_loop n d s = duration_loop m d s"
proof (induction n arbitrary: m d s)
  case 0
  then show ?case by (cases m) auto
next
  case (Suc n)
  show ?case
  proof (cases m)
    case (Suc k)
    have "duration_loop n e t = duration_loop k e t" if "duration_part s = Some (w, t)" for w t e
      using Suc.IH [of t k e] duration_part_shorter [OF that] Suc.prems Suc by simp
    then show ?thesis using Suc by (auto split: option.split)
  qed (use Suc.prems in simp)
qed

lemma leading_int_bound: "leading_int x s = Some (y, t) \<Longrightarrow> x \<le> 2 ^ 63 \<Longrightarrow> y \<le> 2 ^ 63"
  by (induction x s rule: leading_int.induct) (auto simp: Let_def split: if_splits)

lemma duration_loop_bound: "duration_loop n d s = Some e \<Longrightarrow> d \<le> 2 ^ 63 \<Longrightarrow> e \<le> 2 ^ 63"
  by (induction n d s rule: duration_loop.induct) (auto split: if_splits option.splits)

lemma int_le_two63: "n \<le> 2 ^ 63 \<Longrightarrow> int n \<le> 2 ^ 63"
  by (simp add: int_le_power)

lemma ParseDuration_range: "ParseDuration s = Some d \<Longrightarrow> - (2 ^ 63) \<le> d \<and> d < 2 ^ 63"
  by (auto simp: ParseDuration_def Let_def split: if_splits option.splits list.splits
      dest!: duration_loop_bound intro: order_trans [of _ 0])

subsection \<open>Instants\<close>

definition second :: int where [go_defs]: "second = 10 ^ 9"

definition minute :: int where [go_defs]: "minute = 60 * second"

text \<open>\<open>t.Truncate(d)\<close> counts the multiples of \<open>d\<close> from the year 1.\<close>

definition zero_time :: int where
  [go_defs]: "zero_time = - 62135596800 * second"

definition truncate_time :: "int \<Rightarrow> int \<Rightarrow> int" where
  [go_defs]: "truncate_time d t = (if d \<le> 0 then t else t - (t - zero_time) mod d)"

definition unix_seconds :: "int \<Rightarrow> int" where
  [go_defs]: "unix_seconds t = t div second"

text \<open>\<open>int(d.Seconds())\<close>: whole seconds, rounded towards zero.\<close>

definition whole_seconds :: "int \<Rightarrow> int" where
  [go_defs]: "whole_seconds d = (if d < 0 then - ((- d) div second) else d div second)"

lemma truncate_time_idem: "truncate_time d (truncate_time d t) = truncate_time d t"
proof -
  have "(t - (t - zero_time) mod d - zero_time) mod d = 0"
    by (simp add: diff_right_commute [of t] mod_diff_right_eq)
  then show ?thesis by (simp add: truncate_time_def)
qed

lemma truncate_time_bounds: "0 < d \<Longrightarrow> truncate_time d t \<le> t \<and> t < truncate_time d t + d"
  using pos_mod_bound [of d "t - zero_time"] pos_mod_sign [of d "t - zero_time"]
  by (simp add: truncate_time_def)

end
