(* ===== verification/Limiter.thy ===== *)
theory Limiter
  imports GoTime Auth
begin

text \<open>
  The rate limiter of \<open>internal/core/middleware/ratelimit.go\<close>: a counter in Redis for every
  identity, group and time window. \<open>limiter_client\<close> is the interface \<open>RedisLimiterClient\<close>; the
  locale \<open>limiter_store\<close> is what the limiter relies on, and the adapter of \<open>main.go\<close> provides it
  from the locale \<open>redis\<close>.
\<close>

record limit_config =
  lm_Limit :: int
  lm_Window :: string

record 'r limiter_client =
  lc_Incr :: "string \<Rightarrow> ('r, int) redis_cmd"
  lc_Expire :: "string \<Rightarrow> int \<Rightarrow> ('r, bool) redis_cmd"

record 'r rate_limiter =
  rl_client :: "'r limiter_client"
  rl_config :: limit_config

definition NewRateLimiter :: "'r limiter_client \<Rightarrow> limit_config \<Rightarrow> 'r rate_limiter" where
  [go_defs]: "NewRateLimiter client config = \<lparr>rl_client = client, rl_config = config\<rparr>"

text \<open>The adapter of \<open>main.go\<close>. \<open>go-redis\<close> sends whole seconds, at least one for a positive duration.\<close>

definition redisLimiterAdapter :: "'r redis_client \<Rightarrow> 'r limiter_client" where
  "redisLimiterAdapter R =
     \<lparr>lc_Incr = rc_Incr R,
      lc_Expire = (\<lambda>k ttl. rc_Expire R k (if 0 < ttl \<and> ttl < second then 1 else whole_seconds ttl))\<rparr>"

definition parseWindow :: "limit_config \<Rightarrow> int" where
  [go_defs]: "parseWindow c = (case ParseDuration (lm_Window c) of None \<Rightarrow> minute | Some d \<Rightarrow> d)"

definition resolveIdentity :: "request \<Rightarrow> string" where
  [go_defs]: "resolveIdentity rq =
     (let uid = rq_header rq ''X-User-ID'' in
      if uid \<noteq> '''' then ''user:'' @ uid else ''ip:'' @ rq_remote rq)"

definition limit_key :: "int \<Rightarrow> string \<Rightarrow> int \<Rightarrow> request \<Rightarrow> string" where
  [go_defs]: "limit_key window grp now rq =
     ''ratelimit:'' @ resolveIdentity rq @ '':'' @ grp @ '':'' @ dec_int (unix_seconds (truncate_time window now))"

definition limited_message :: "int \<Rightarrow> request \<Rightarrow> string" where
  [go_defs]: "limited_message window rq =
     ''{\"ok\":false,\"error\":{\"code\":\"RATE_LIMITED\",\"message\":\"rate limit exceeded, retry after '' @
     dec_int (whole_seconds window) @ ''s\",\"requestId\":\"'' @ rq_header rq ''X-Request-ID'' @ ''\"}}''"

text \<open>What the middleware decides: to call the next handler with these headers, or its own response.\<close>

datatype 'd verdict = Pass headers | Reject "'d response"

definition rate_check ::
    "'r rate_limiter \<Rightarrow> string \<Rightarrow> int \<Rightarrow> request \<Rightarrow> headers \<Rightarrow> 'r \<Rightarrow> 'd verdict \<times> 'r" where
  "rate_check L grp now rq h r =
     (let window = parseWindow (rl_config L);
          key = limit_key window grp now rq
      in case lc_Incr (rl_client L) key r of
        (Inl _, r1) \<Rightarrow> (Pass h, r1)
      | (Inr count, r1) \<Rightarrow>
     (let r2 = (if count = 1 then snd (lc_Expire (rl_client L) key (to_i64 (window * 2)) r1) else r1);
          lmt = lm_Limit (rl_config L);
          remaining = (let k = to_i64 (lmt - count) in if k < 0 then 0 else k);
          h1 = h(''X-RateLimit-Limit'' \<mapsto> dec_int lmt, ''X-RateLimit-Remaining'' \<mapsto> dec_int remaining)
      in if lmt < count then
           (Reject \<lparr>rs_status = 429,
                    rs_headers = h1(''Retry-After'' \<mapsto> dec_int (whole_seconds window),
                                    ''Content-Type'' \<mapsto> ''application/json''),
                    rs_body = TextBody (limited_message window rq)\<rparr>, r2)
         else (Pass h1, r2)))"

definition RateLimit ::
    "'r rate_limiter \<Rightarrow> string \<Rightarrow> int \<Rightarrow> (('r, 'n) world, 'd) endpoint \<Rightarrow> (('r, 'n) world, 'd) endpoint" where
  "RateLimit L grp now next_handler rq h w =
     (case rate_check L grp now rq h (w_redis w) of
        (Reject resp, r) \<Rightarrow> (resp, w\<lparr>w_redis := r\<rparr>)
      | (Pass h', r) \<Rightarrow> next_handler rq h' (w\<lparr>w_redis := r\<rparr>))"

subsection \<open>The store of counters\<close>

text \<open>
  The counter of a key: \<open>None\<close> where the key holds something else. A window of half a second or
  more has a time to live of at least a second.
\<close>

definition counter :: "keyspace \<Rightarrow> string \<Rightarrow> int option" where
  "counter K k =
     (case K k of
        None \<Rightarrow> Some 0
      | Some (RStr s) \<Rightarrow> (case parse_int 64 s of (n, None) \<Rightarrow> if dec_int n = s then Some n else None | _ \<Rightarrow> None)
      | Some _ \<Rightarrow> None)"

lemma counter_stored:
  "0 \<le> n \<Longrightarrow> n < 2 ^ 63 \<Longrightarrow> counter (K(k \<mapsto> RStr (dec_int n))) = (counter K)(k \<mapsto> n)"
  by (simp add: counter_def parse_int_dec_int fun_eq_iff)

locale limiter_store =
  fixes L :: "'r limiter_client" and K :: "'r \<Rightarrow> keyspace"
  assumes incr_counts: "lc_Incr L k r = (Inr n, r') \<Longrightarrow> counter (K r) k = Some c \<Longrightarrow> n = c + 1"
    and incr_stores: "lc_Incr L k r = (Inr n, r') \<Longrightarrow> K r' = (K r)(k \<mapsto> RStr (dec_int n))"
    and expire_keeps: "second \<le> ttl \<Longrightarrow> lc_Expire L k ttl r = (res, r') \<Longrightarrow> K r' = K r"
begin

text \<open>A successful check counts one request and decides by the old value of the counter.\<close>

lemma rate_check_steps:
  assumes "lc_Incr L (limit_key (parseWindow cfg) grp now rq) r = (Inr n, r1)"
    and "counter (K r) (limit_key (parseWindow cfg) grp now rq) = Some c" and "0 \<le> c" and "c + 1 < 2 ^ 63"
    and "second \<le> to_i64 (parseWindow cfg * 2)"
    and "rate_check \<lparr>rl_client = L, rl_config = cfg\<rparr> grp now rq h r = (v, r')"
  shows "counter (K r') = (counter (K r))(limit_key (parseWindow cfg) grp now rq \<mapsto> c + 1)"
    and "(\<exists>h'. v = Pass h') \<longleftrightarrow> c < lm_Limit cfg"
proof -
  let ?k = "limit_key (parseWindow cfg) grp now rq"
  have n: "n = c + 1" using incr_counts [OF assms(1,2)] .
  have r1: "K r1 = (K r)(?k \<mapsto> RStr (dec_int n))" by (rule incr_stores [OF assms(1)])
  have "K (snd (lc_Expire L ?k (to_i64 (parseWindow cfg * 2)) r1)) = K r1"
    by (rule expire_keeps [OF assms(5), where res = "fst (lc_Expire L ?k (to_i64 (parseWindow cfg * 2)) r1)"]) simp
  then have "K r' = K r1" and "(\<exists>h'. v = Pass h') \<longleftrightarrow> n \<le> lm_Limit cfg"
    using assms(6) by (auto simp: rate_check_def assms(1) Let_def split: if_splits)
  with n r1 assms(3,4)
  show "counter (K r') = (counter (K r))(?k \<mapsto> c + 1)" and "(\<exists>h'. v = Pass h') \<longleftrightarrow> c < lm_Limit cfg"
    by (simp_all add: counter_stored add1_zle_eq)
qed

end

sublocale redis \<subseteq> limits: limiter_store "redisLimiterAdapter R" K
proof unfold_locales
  fix k r n r' c
  assume i: "lc_Incr (redisLimiterAdapter R) k r = (Inr n, r')"
  then show "K r' = (K r)(k \<mapsto> RStr (dec_int n))" by (simp add: redisLimiterAdapter_def incr_ok)
  assume "counter (K r) k = Some c"
  then show "n = c + 1"
    using i incr_first [of k r n r'] incr_next [of k r n r' c]
    by (auto simp: redisLimiterAdapter_def counter_def split: option.splits redis_value.splits prod.splits if_splits)
next
  fix ttl k r res r'
  assume "second \<le> ttl" and "lc_Expire (redisLimiterAdapter R) k ttl r = (res, r')"
  moreover from this(1) have "0 < whole_seconds ttl"
    by (simp add: whole_seconds_def second_def pos_imp_zdiv_pos_iff)
  ultimately show "K r' = K r"
    by (auto simp: redisLimiterAdapter_def expire_keeps split: if_splits)
qed

context redis
begin

lemma limiter_store_adapter: "limiter_store (redisLimiterAdapter R) K"
  by (rule limits.limiter_store_axioms)

end

interpretation limits_ref: limiter_store "redisLimiterAdapter ref_redis" "\<lambda>r. r"
  by (rule redis_ref.limiter_store_adapter)

end
