(* ===== verification/Middleware.thy ===== *)
theory Middleware
  imports Limiter
begin

text \<open>
  The middleware of \<open>internal/core/middleware\<close> that wraps every route: \<open>RequestID\<close>, \<open>Recovery\<close>,
  \<open>Logger\<close> and \<open>Timeout\<close>. The first three are functions on handlers. \<open>Timeout\<close> runs its handler in
  another goroutine, and both use the same response writer: it is a step relation.
\<close>

text \<open>A handler that may panic; it panics before it has written anything.\<close>

type_synonym ('w, 'd) handler = "request \<Rightarrow> headers \<Rightarrow> 'w \<Rightarrow> 'd response go_result \<times> 'w"

text \<open>The eight bytes are those of \<open>crypto/rand\<close>.\<close>

definition generateRequestID :: "bytes \<Rightarrow> string" where
  [go_defs]: "generateRequestID b = ''req_'' @ hex_encode b"

definition RequestID :: "bytes \<Rightarrow> (request \<Rightarrow> headers \<Rightarrow> 'w \<Rightarrow> 'y) \<Rightarrow> request \<Rightarrow> headers \<Rightarrow> 'w \<Rightarrow> 'y" where
  "RequestID b next_handler rq h w =
     (let id0 = rq_header rq ''X-Request-ID'';
          rid = (if id0 = '''' then generateRequestID b else id0)
      in next_handler (rq\<lparr>rq_header := (rq_header rq)(''X-Request-ID'' := rid)\<rparr>) (h(''X-Request-ID'' \<mapsto> rid)) w)"

definition Recovery :: "('w, 'd) handler \<Rightarrow> ('w, 'd) endpoint" where
  "Recovery next_handler rq h w =
     (case next_handler rq h w of
        (Returns resp, w1) \<Rightarrow> (resp, w1)
      | (Panics _, w1) \<Rightarrow>
          (\<lparr>rs_status = 500, rs_headers = h(''Content-Type'' \<mapsto> ''application/json''),
            rs_body = TextBody ''{\"ok\":false,\"error\":{\"code\":\"INTERNAL_ERROR\",\"message\":\"internal server error\"}}''\<rparr>, w1))"

text \<open>The line that \<open>Logger\<close> writes. The method, the path and the duration are those of the request.\<close>

record log_entry =
  lg_method :: string
  lg_path :: string
  lg_status :: nat
  lg_duration :: string
  lg_request_id :: string

text \<open>A panic passes through \<open>Logger\<close> before the line is written.\<close>

definition Logger :: "string \<Rightarrow> string \<Rightarrow> string \<Rightarrow> ('w, 'd) handler \<Rightarrow> ('w \<times> log_entry list, 'd) handler" where
  "Logger mth path dur next_handler rq h wl =
     (case next_handler rq h (fst wl) of
        (Returns resp, w1) \<Rightarrow>
          (Returns resp, (w1, snd wl @ [\<lparr>lg_method = mth, lg_path = path, lg_status = rs_status resp, lg_duration = dur,
                                         lg_request_id = rq_header rq ''X-Request-ID''\<rparr>]))
      | (Panics msg, w1) \<Rightarrow> (Panics msg, (w1, snd wl)))"

subsection \<open>Response writers\<close>

text \<open>
  An \<open>http.ResponseWriter\<close>: its header map, the status and the headers as they were when they were
  sent, and the chunks of the body. A second \<open>WriteHeader\<close> is ignored; \<open>Write\<close> sends 200 first.
\<close>

record 'd rw =
  rw_header :: headers
  rw_sent :: "(nat \<times> headers) option"
  rw_chunks :: "'d list"

definition new_rw :: "headers \<Rightarrow> 'd rw" where
  [go_defs]: "new_rw h = \<lparr>rw_header = h, rw_sent = None, rw_chunks = []\<rparr>"

text \<open>\<open>SetHeaders hs\<close> stands for a call of \<open>Header().Set\<close> for every entry of \<open>hs\<close>.\<close>

datatype 'd rw_op = SetHeaders headers | WriteHeader nat | Write 'd

fun rw_do :: "'d rw_op \<Rightarrow> 'd rw \<Rightarrow> 'd rw" where
  "rw_do (SetHeaders hs) w = w\<lparr>rw_header := rw_header w ++ hs\<rparr>"
| "rw_do (WriteHeader c) w = (case rw_sent w of None \<Rightarrow> w\<lparr>rw_sent := Some (c, rw_header w)\<rparr> | Some _ \<Rightarrow> w)"
| "rw_do (Write d) w =
     (let w1 = (case rw_sent w of None \<Rightarrow> w\<lparr>rw_sent := Some (200, rw_header w)\<rparr> | Some _ \<Rightarrow> w)
      in w1\<lparr>rw_chunks := rw_chunks w1 @ [d]\<rparr>)"

text \<open>What the client gets once the handler has returned.\<close>

definition client_sees :: "'d rw \<Rightarrow> nat \<times> headers \<times> 'd list" where
  [go_defs]: "client_sees w = (case rw_sent w of None \<Rightarrow> (200, rw_header w, []) | Some (c, hs) \<Rightarrow> (c, hs, rw_chunks w))"

text \<open>What the code of a handler does with its writer, up to its return or to a panic.\<close>

datatype 'd act = Use "'d rw_op" | Panic string

fun acts_of :: "'d response go_result \<Rightarrow> 'd body act list" where
  "acts_of (Returns resp) = [Use (SetHeaders (rs_headers resp)), Use (WriteHeader (rs_status resp)), Use (Write (rs_body resp))]"
| "acts_of (Panics msg) = [Panic msg]"

subsection \<open>Timeout\<close>

text \<open>
  The methods of \<open>timeoutWriter\<close> first set the flag \<open>written\<close> and then call the writer; its header
  map is that of the writer. These are the atomic steps of the handler's goroutine. Nothing in that
  goroutine recovers a panic, so it ends the process.
\<close>

datatype 'd micro = Mark | Raw "'d rw_op" | Crash string

fun tw_act :: "'d act \<Rightarrow> 'd micro list" where
  "tw_act (Use (SetHeaders hs)) = [Raw (SetHeaders hs)]"
| "tw_act (Use (WriteHeader c)) = [Mark, Raw (WriteHeader c)]"
| "tw_act (Use (Write d)) = [Mark, Raw (Write d)]"
| "tw_act (Panic msg) = [Crash msg]"

definition tw_acts :: "'d act list \<Rightarrow> 'd micro list" where
  "tw_acts acts = concat (map tw_act acts)"

text \<open>Where the goroutine of the request stands: in \<open>select\<close>, at the test of \<open>written\<close>, in the branch
  that answers 503, or back from \<open>ServeHTTP\<close>.\<close>

datatype 'd main_pc = Selecting | Testing | Answering "'d rw_op list" | Done

record 'd timeout_state =
  ts_go :: "'d micro list"
  ts_rw :: "'d rw"
  ts_written :: bool
  ts_closed :: bool
  ts_expired :: bool
  ts_main :: "'d main_pc"
  ts_dead :: bool
  ts_late :: bool

definition timeout_start :: "'d act list \<Rightarrow> headers \<Rightarrow> 'd timeout_state" where
  "timeout_start acts h =
     \<lparr>ts_go = tw_acts acts, ts_rw = new_rw h, ts_written = False, ts_closed = False, ts_expired = False,
      ts_main = Selecting, ts_dead = False, ts_late = False\<rparr>"

definition timeout_answer :: "'d \<Rightarrow> 'd rw_op list" where
  "timeout_answer body = [SetHeaders [''Content-Type'' \<mapsto> ''application/json''], WriteHeader 503, Write body]"

text \<open>
  The steps, with the body of the 503 answer. The deadline may pass at any time before the return, or
  the client may close the connection, which ends the context too. A writer that is used after
  \<open>ServeHTTP\<close> has returned is no longer valid: the step is recorded in \<open>ts_late\<close>.
\<close>

inductive timeout_step :: "'d \<Rightarrow> 'd timeout_state \<Rightarrow> 'd timeout_state \<Rightarrow> bool" for body where
  go_mark: "\<not> ts_dead s \<Longrightarrow> ts_go s = Mark # ms \<Longrightarrow>
    timeout_step body s (s\<lparr>ts_go := ms, ts_written := True\<rparr>)"
| go_raw: "\<not> ts_dead s \<Longrightarrow> ts_go s = Raw x # ms \<Longrightarrow> ts_main s \<noteq> Done \<Longrightarrow>
    timeout_step body s (s\<lparr>ts_go := ms, ts_rw := rw_do x (ts_rw s)\<rparr>)"
| go_late: "\<not> ts_dead s \<Longrightarrow> ts_go s = Raw x # ms \<Longrightarrow> ts_main s = Done \<Longrightarrow>
    timeout_step body s (s\<lparr>ts_go := ms, ts_late := True\<rparr>)"
| go_crash: "\<not> ts_dead s \<Longrightarrow> ts_go s = Crash msg # ms \<Longrightarrow>
    timeout_step body s (s\<lparr>ts_dead := True\<rparr>)"
| go_close: "\<not> ts_dead s \<Longrightarrow> ts_go s = [] \<Longrightarrow> \<not> ts_closed s \<Longrightarrow>
    timeout_step body s (s\<lparr>ts_closed := True\<rparr>)"
| expire: "\<not> ts_dead s \<Longrightarrow> \<not> ts_expired s \<Longrightarrow> ts_main s \<noteq> Done \<Longrightarrow>
    timeout_step body s (s\<lparr>ts_expired := True\<rparr>)"
| main_done: "\<not> ts_dead s \<Longrightarrow> ts_main s = Selecting \<Longrightarrow> ts_closed s \<Longrightarrow>
    timeout_step body s (s\<lparr>ts_main := Done\<rparr>)"
| main_expired: "\<not> ts_dead s \<Longrightarrow> ts_main s = Selecting \<Longrightarrow> ts_expired s \<Longrightarrow>
    timeout_step body s (s\<lparr>ts_main := Testing\<rparr>)"
| main_test: "\<not> ts_dead s \<Longrightarrow> ts_main s = Testing \<Longrightarrow>
    timeout_step body s (s\<lparr>ts_main := (if ts_written s then Done else Answering (timeout_answer body))\<rparr>)"
| main_answer: "\<not> ts_dead s \<Longrightarrow> ts_main s = Answering (x # xs) \<Longrightarrow>
    timeout_step body s (s\<lparr>ts_rw := rw_do x (ts_rw s), ts_main := Answering xs\<rparr>)"
| main_return: "\<not> ts_dead s \<Longrightarrow> ts_main s = Answering [] \<Longrightarrow>
    timeout_step body s (s\<lparr>ts_main := Done\<rparr>)"

inductive_cases timeout_stepE: "timeout_step body s s'"

text \<open>The same steps as a function of what moves next, to compute runs.\<close>

datatype move = Go | Deadline | Pick_done | Pick_deadline | Main

fun timeout_move :: "'d \<Rightarrow> move \<Rightarrow> 'd timeout_state \<Rightarrow> 'd timeout_state option" where
  "timeout_move body Go s =
     (if ts_dead s then None
      else case ts_go s of
        [] \<Rightarrow> if ts_closed s then None else Some (s\<lparr>ts_closed := True\<rparr>)
      | Mark # ms \<Rightarrow> Some (s\<lparr>ts_go := ms, ts_written := True\<rparr>)
      | Raw x # ms \<Rightarrow>
          Some (case ts_main s of
                  Done \<Rightarrow> s\<lparr>ts_go := ms, ts_late := True\<rparr>
                | _ \<Rightarrow> s\<lparr>ts_go := ms, ts_rw := rw_do x (ts_rw s)\<rparr>)
      | Crash msg # ms \<Rightarrow> Some (s\<lparr>ts_dead := True\<rparr>))"
| "timeout_move body Deadline s =
     (if ts_dead s \<or> ts_expired s then None
      else case ts_main s of Done \<Rightarrow> None | _ \<Rightarrow> Some (s\<lparr>ts_expired := True\<rparr>))"
| "timeout_move body Pick_done s =
     (case ts_main s of
        Selecting \<Rightarrow> if \<not> ts_dead s \<and> ts_closed s then Some (s\<lparr>ts_main := Done\<rparr>) else None
      | _ \<Rightarrow> None)"
| "timeout_move body Pick_deadline s =
     (case ts_main s of
        Selecting \<Rightarrow> if \<not> ts_dead s \<and> ts_expired s then Some (s\<lparr>ts_main := Testing\<rparr>) else None
      | _ \<Rightarrow> None)"
| "timeout_move body Main s =
     (if ts_dead s then None
      else case ts_main s of
        Testing \<Rightarrow> Some (s\<lparr>ts_main := (if ts_written s then Done else Answering (timeout_answer body))\<rparr>)
      | Answering (x # xs) \<Rightarrow> Some (s\<lparr>ts_rw := rw_do x (ts_rw s), ts_main := Answering xs\<rparr>)
      | Answering [] \<Rightarrow> Some (s\<lparr>ts_main := Done\<rparr>)
      | _ \<Rightarrow> None)"

fun timeout_moves :: "'d \<Rightarrow> move list \<Rightarrow> 'd timeout_state \<Rightarrow> 'd timeout_state option" where
  "timeout_moves body [] s = Some s"
| "timeout_moves body (m # ms) s =
     (case timeout_move body m s of None \<Rightarrow> None | Some s' \<Rightarrow> timeout_moves body ms s')"

lemma timeout_move_step: "timeout_move body m s = Some s' \<Longrightarrow> timeout_step body s s'"
  using main_test [of s body] by (cases m) (auto split: if_splits list.splits micro.splits main_pc.splits intro: timeout_step.intros)

lemma timeout_step_move: "timeout_step body s s' \<Longrightarrow> \<exists>m. timeout_move body m s = Some s'"
proof (induction rule: timeout_step.induct)
  case (go_raw s x ms)
  then have "timeout_move body Go s = Some (s\<lparr>ts_go := ms, ts_rw := rw_do x (ts_rw s)\<rparr>)" by (auto split: main_pc.split)
  then show ?case ..
next
  case (expire s)
  then have "timeout_move body Deadline s = Some (s\<lparr>ts_expired := True\<rparr>)" by (auto split: main_pc.split)
  then show ?case ..
next
  case (main_done s)
  then have "timeout_move body Pick_done s = Some (s\<lparr>ts_main := Done\<rparr>)" by simp
  then show ?case ..
next
  case (main_expired s)
  then have "timeout_move body Pick_deadline s = Some (s\<lparr>ts_main := Testing\<rparr>)" by simp
  then show ?case ..
next
  case (main_test s)
  then have "timeout_move body Main s =
    Some (s\<lparr>ts_main := (if ts_written s then Done else Answering (timeout_answer body))\<rparr>)" by simp
  then show ?case ..
next
  case (main_answer s x xs)
  then have "timeout_move body Main s = Some (s\<lparr>ts_rw := rw_do x (ts_rw s), ts_main := Answering xs\<rparr>)" by simp
  then show ?case ..
next
  case (main_return s)
  then have "timeout_move body Main s = Some (s\<lparr>ts_main := Done\<rparr>)" by simp
  then show ?case ..
qed (rule exI [of _ Go], simp)+

lemma timeout_moves_run: "timeout_moves body ms s = Some s' \<Longrightarrow> (timeout_step body)\<^sup>*\<^sup>* s s'"
proof (induction ms arbitrary: s)
  case (Cons m ms)
  then obtain t where "timeout_move body m s = Some t" and "timeout_moves body ms t = Some s'"
    by (auto split: option.splits)
  then show ?case using Cons.IH timeout_move_step by (metis converse_rtranclp_into_rtranclp)
qed simp

text \<open>The handler alone, without the middleware: its operations on the writer in order.\<close>

definition direct :: "'d act list \<Rightarrow> 'd rw \<Rightarrow> 'd rw" where
  "direct acts w = fold (\<lambda>a. case a of Use x \<Rightarrow> rw_do x | Panic _ \<Rightarrow> id) acts w"

end
