(* ===== verification/LimiterProps.thy ===== *)
theory LimiterProps
  imports Limiter AuthFacts
begin

text \<open>
  The rate limiter against its specification, a table of counters: what it does while Redis answers,
  and how a client avoids it.
\<close>

subsection \<open>Traffic\<close>

text \<open>
  What happens to the Redis server: a request at a time, or anything else. A run lists the key of
  every request and whether it was passed on.
\<close>

datatype 'r traffic = Request int request headers | Foreign "'r \<Rightarrow> 'r"

fun is_pass :: "'d verdict \<Rightarrow> bool" where
  "is_pass (Pass _) = True"
| "is_pass (Reject _) = False"

fun limiter_run :: "'r rate_limiter \<Rightarrow> string \<Rightarrow> 'r traffic list \<Rightarrow> 'r \<Rightarrow> (string \<times> bool) list" where
  "limiter_run L grp [] r = []"
| "limiter_run L grp (Foreign f # es) r = limiter_run L grp es (f r)"
| "limiter_run L grp (Request now rq h # es) r =
     (let (v, r') = rate_check L grp now rq h r in
      (limit_key (parseWindow (rl_config L)) grp now rq, is_pass (v :: unit verdict)) # limiter_run L grp es r')"

fun traffic_keys :: "int \<Rightarrow> string \<Rightarrow> 'r traffic list \<Rightarrow> string list" where
  "traffic_keys win grp [] = []"
| "traffic_keys win grp (Foreign f # es) = traffic_keys win grp es"
| "traffic_keys win grp (Request now rq h # es) = limit_key win grp now rq # traffic_keys win grp es"

text \<open>The specification: a request passes if fewer than the limit came before it under its key.\<close>

fun window_spec :: "int \<Rightarrow> (string \<Rightarrow> nat) \<Rightarrow> string list \<Rightarrow> (string \<times> bool) list" where
  "window_spec lmt c [] = []"
| "window_spec lmt c (k # ks) = (k, int (c k) < lmt) # window_spec lmt (c(k := Suc (c k))) ks"

definition limiter_keys :: "string set" where
  "limiter_keys = range (\<lambda>s. ''ratelimit:'' @ s)"

lemma limit_key_in [simp]: "limit_key win grp now rq \<in> limiter_keys"
  by (simp add: limiter_keys_def limit_key_def)

definition counts :: "keyspace \<Rightarrow> (string \<Rightarrow> nat) \<Rightarrow> bool" where
  "counts K c \<longleftrightarrow> (\<forall>k \<in> limiter_keys. counter K k = Some (int (c k)))"

text \<open>Redis answers \<open>INCR\<close> on every counter that is far from its largest value.\<close>

definition incr_answers :: "'r redis_client \<Rightarrow> ('r \<Rightarrow> keyspace) \<Rightarrow> bool" where
  "incr_answers R K \<longleftrightarrow> (\<forall>k r c. counter (K r) k = Some c \<longrightarrow> 0 \<le> c \<longrightarrow> c < 2 ^ 62 \<longrightarrow>
     (\<exists>n r'. rc_Incr R k r = (Inr n, r')))"

definition keeps_counters :: "('r \<Rightarrow> keyspace) \<Rightarrow> 'r traffic list \<Rightarrow> bool" where
  "keeps_counters K es \<longleftrightarrow> (\<forall>f r k. Foreign f \<in> set es \<longrightarrow> k \<in> limiter_keys \<longrightarrow> counter (K (f r)) k = counter (K r) k)"

context limiter_store
begin

lemma limiter_run_spec:
  assumes "\<And>k r c. counter (K r) k = Some c \<Longrightarrow> 0 \<le> c \<Longrightarrow> c < 2 ^ 62 \<Longrightarrow> \<exists>n r'. lc_Incr L k r = (Inr n, r')"
    and "second \<le> to_i64 (parseWindow cfg * 2)"
    and "counts (K r) c" and "\<And>k. c k + length es < 2 ^ 62" and "keeps_counters K es"
  shows "limiter_run \<lparr>rl_client = L, rl_config = cfg\<rparr> grp es r = window_spec (lm_Limit cfg) c (traffic_keys (parseWindow cfg) grp es)"
  using assms(3-)
proof (induction es arbitrary: r c)
  case (Cons e es)
  have small: "d k + length es < 2 ^ 62" if "\<And>j. d j \<le> Suc (c j)" for d k
    using Cons.prems(2) [of k] that [of k] by simp
  show ?case
  proof (cases e)
    case (Foreign f)
    have "counts (K (f r)) c" and "keeps_counters K es"
      using Cons.prems(1,3) Foreign by (auto simp: counts_def keeps_counters_def)
    then show ?thesis using Cons.IH small [of c] Foreign by simp
  next
    case (Request now rq h)
    let ?k = "limit_key (parseWindow cfg) grp now rq"
    obtain v r' where v: "rate_check \<lparr>rl_client = L, rl_config = cfg\<rparr> grp now rq h r = (v :: unit verdict, r')" by fastforce
    have k: "counter (K r) ?k = Some (int (c ?k))" using Cons.prems(1) by (simp add: counts_def)
    have lt: "int (c ?k) < 2 ^ 62" using Cons.prems(2) [of ?k] by simp
    obtain n r1 where n: "lc_Incr L ?k r = (Inr n, r1)" using assms(1) [OF k _ lt] by auto
    have lt': "int (c ?k) + 1 < 2 ^ 63" using lt by simp
    from rate_check_steps [OF n k _ lt' assms(2) v]
    have r': "counter (K r') = (counter (K r))(?k \<mapsto> int (c ?k) + 1)" and p: "is_pass v \<longleftrightarrow> int (c ?k) < lm_Limit cfg"
      by (auto elim: is_pass.elims)
    define d where "d = c(?k := Suc (c ?k))"
    have "counts (K r') d" using Cons.prems(1) r' by (auto simp: counts_def d_def)
    moreover have "keeps_counters K es" using Cons.prems(3) by (auto simp: keeps_counters_def)
    moreover have "\<And>j. d j \<le> Suc (c j)" by (simp add: d_def)
    ultimately have "limiter_run \<lparr>rl_client = L, rl_config = cfg\<rparr> grp es r' =
        window_spec (lm_Limit cfg) d (traffic_keys (parseWindow cfg) grp es)"
      using Cons.IH [of r' d] small [of d] by simp
    then show ?thesis using Request v p by (simp add: d_def)
  qed
qed simp

end

text \<open>How many requests the specification lets through under one key.\<close>

lemma window_spec_count:
  "length (filter (\<lambda>p. fst p = k \<and> snd p) (window_spec lmt c ks)) = min (count_list ks k) (nat (lmt - int (c k)))"
proof (induction ks arbitrary: c)
  case (Cons j ks)
  define d where "d = c(j := Suc (c j))"
  then have "d k = (if j = k then Suc (c k) else c k)" by simp
  moreover have "nat (lmt - int (c k)) = (if int (c k) < lmt then Suc (nat (lmt - int (Suc (c k)))) else 0)"
    using nat_add_distrib [of 1 "lmt - int (Suc (c k))"] by auto
  moreover have "window_spec lmt c (j # ks) = (j, int (c j) < lmt) # window_spec lmt d ks" by (simp add: d_def)
  ultimately show ?case using Cons [of d] by (auto simp: min_def simp del: window_spec.simps split: if_splits)
qed simp

lemma window_spec_distinct:
  "distinct ks \<Longrightarrow> \<forall>k \<in> set ks. int (c k) < lmt \<Longrightarrow> window_spec lmt c ks = map (\<lambda>k. (k, True)) ks"
  by (induction ks arbitrary: c) auto

lemma limiter_run_redis:
  assumes "redis R K" and "incr_answers R K" and "second \<le> to_i64 (parseWindow cfg * 2)"
    and "counts (K r) c" and "\<And>k. c k + length es < 2 ^ 62" and "keeps_counters K es"
  shows "limiter_run (NewRateLimiter (redisLimiterAdapter R) cfg) grp es r =
    window_spec (lm_Limit cfg) c (traffic_keys (parseWindow cfg) grp es)"
proof -
  have "\<exists>n r'. lc_Incr (redisLimiterAdapter R) k r = (Inr n, r')"
    if "counter (K r) k = Some c" "0 \<le> c" "c < 2 ^ 62" for k r c
    using assms(2) that by (auto simp: incr_answers_def redisLimiterAdapter_def)
  from limiter_store.limiter_run_spec [OF redis.limiter_store_adapter [OF assms(1)] this assms(3-)]
  show ?thesis by (simp add: NewRateLimiter_def)
qed


lemma ref_incr_answers: "incr_answers ref_redis (\<lambda>r. r)"
proof -
  have "\<exists>n r'. ref_incr k r = (Inr n, r')" if "counter r k = Some c" "0 \<le> c" "c < 2 ^ 62" for k r c
  proof (cases "r k")
    case (Some v)
    with that obtain s where s: "v = RStr s" "dec_int c = s"
      by (auto simp: counter_def split: redis_value.splits prod.splits option.splits if_splits)
    then have "scan_uint (2 ^ 63 - 2) 0 s = Inr (nat c)"
      using that(2,3) scan_uint_dec_nat [of "nat c" "2 ^ 63 - 2"] by (simp add: dec_int_def)
    then show ?thesis using Some s by (simp add: ref_incr_def)
  qed (simp add: ref_incr_def)
  then show ?thesis by (simp add: incr_answers_def ref_redis_def)
qed

definition plain_request :: request where
  "plain_request = \<lparr>rq_header = (\<lambda>_. ''''), rq_query = (\<lambda>_. ''''), rq_param = (\<lambda>_. ''''), rq_remote = ''10.0.0.1:4711'',
     rq_user = None, rq_session = None, rq_role = None\<rparr>"

definition auth_limit :: limit_config where
  "auth_limit = \<lparr>lm_Limit = 10, lm_Window = ''1m''\<rparr>"

lemma auth_window: "parseWindow auth_limit = minute"
proof -
  have "ParseDuration ''1m'' = Some minute"
    by (simp add: ParseDuration_def duration_part_def is_unit_char_def is_digit_def digit_val_def unit_ns_def minute_def
        second_def Let_def)
  then show ?thesis by (simp add: parseWindow_def auth_limit_def)
qed

lemma auth_ttl: "second \<le> to_i64 (parseWindow auth_limit * 2)"
  by (simp add: auth_window minute_def second_def to_i64_id)

lemma counts_empty: "counts Map.empty (\<lambda>_. 0)"
  by (simp add: counts_def counter_def)


text \<open>
  The limit holds for what the client says it is: the identity is the header \<open>X-User-ID\<close>, which
  no part of the program sets. A client that sends another value with every request passes
  always, as many requests as it likes in one window, also at the login.
\<close>

theorem rate_limit_evaded:
  assumes "redis R K" and "incr_answers R K" and "second \<le> to_i64 (parseWindow cfg * 2)" and "counts (K r) (\<lambda>_. 0)"
    and "1 \<le> lm_Limit cfg" and "distinct uids" and "'''' \<notin> set uids" and "length uids < 2 ^ 62"
  shows "map snd (limiter_run (NewRateLimiter (redisLimiterAdapter R) cfg) grp
      (map (\<lambda>uid. Request now (rq\<lparr>rq_header := (rq_header rq)(''X-User-ID'' := uid)\<rparr>) h) uids) r) =
    replicate (length uids) True"
proof -
  let ?rq = "\<lambda>uid. rq\<lparr>rq_header := (rq_header rq)(''X-User-ID'' := uid)\<rparr>"
  let ?es = "map (\<lambda>uid. Request now (?rq uid) h) uids :: 'a traffic list"
  let ?ks = "map (\<lambda>uid. limit_key (parseWindow cfg) grp now (?rq uid)) uids"
  have ks: "traffic_keys (parseWindow cfg) grp ?es = ?ks" by (induction uids) simp_all
  have "inj_on (\<lambda>uid. limit_key (parseWindow cfg) grp now (?rq uid)) (set uids)"
    using assms(7) by (auto simp: inj_on_def limit_key_def resolveIdentity_def Let_def)
  then have "distinct ?ks" using assms(6) by (simp add: distinct_map)
  then have "window_spec (lm_Limit cfg) (\<lambda>_. 0) ?ks = map (\<lambda>k. (k, True)) ?ks"
    using assms(5) by (intro window_spec_distinct) auto
  moreover have "keeps_counters K ?es" by (auto simp: keeps_counters_def)
  moreover have "0 + length ?es < 2 ^ 62" using assms(8) by simp
  ultimately show ?thesis
    using limiter_run_redis [OF assms(1-4), of ?es grp] by (simp add: ks map_replicate_const comp_def)
qed

theorem rate_limit_evaded_witness:
  "map snd (limiter_run (NewRateLimiter (redisLimiterAdapter ref_redis) auth_limit) ''auth''
      (map (\<lambda>uid. Request 0 (plain_request\<lparr>rq_header := (rq_header plain_request)(''X-User-ID'' := uid)\<rparr>) Map.empty)
        (map (\<lambda>n. replicate n CHR ''x'') [1..<101])) Map.empty) = replicate 100 True"
proof -
  have "1 \<le> lm_Limit auth_limit" by (simp add: auth_limit_def)
  moreover have "distinct (map (\<lambda>n. replicate n CHR ''x'') [1..<101])"
    by (simp add: distinct_map inj_on_def del: upt_rec_numeral)
  moreover have "'''' \<notin> set (map (\<lambda>n. replicate n CHR ''x'') [1..<101])" by (auto simp del: upt_rec_numeral)
  ultimately show ?thesis
    using rate_limit_evaded [where R = ref_redis and K = "\<lambda>r. r" and r = Map.empty and cfg = auth_limit
        and grp = "''auth''" and uids = "map (\<lambda>n. replicate n CHR ''x'') [1..<101]" and now = 0 and rq = plain_request
        and h = Map.empty] redis_ref.redis_axioms ref_incr_answers auth_ttl counts_empty
    by (simp del: upt_rec_numeral)
qed

end
