(* ===== verification/MiddlewareProps.thy ===== *)
theory MiddlewareProps
  imports Middleware PlatformsProps LimiterProps
begin

text \<open>
  The timeout middleware: every request comes to an end, the handler is left alone unless the
  deadline passes, what the race for the response writer can do, and what a panic does.
\<close>

subsection \<open>Ending\<close>

fun pc_rank :: "'d main_pc \<Rightarrow> nat" where
  "pc_rank Selecting = 6"
| "pc_rank Testing = 5"
| "pc_rank (Answering xs) = Suc (length xs)"
| "pc_rank Done = 0"

definition timeout_rank :: "'d timeout_state \<Rightarrow> nat" where
  "timeout_rank s =
     (if ts_dead s then 0
      else 1 + length (ts_go s) + of_bool (\<not> ts_closed s) + of_bool (\<not> ts_expired s) + pc_rank (ts_main s))"

lemma timeout_step_rank: "timeout_step body s s' \<Longrightarrow> timeout_rank s' < timeout_rank s"
  by (erule timeout_stepE) (auto simp: timeout_rank_def timeout_answer_def)

lemma timeout_run_rank: "(timeout_step body ^^ n) s s' \<Longrightarrow> n + timeout_rank s' \<le> timeout_rank s"
proof (induction n arbitrary: s')
  case (Suc n)
  then obtain t where "(timeout_step body ^^ n) s t" and "timeout_step body t s'" by auto
  then show ?case using Suc.IH timeout_step_rank by fastforce
qed simp

definition maximal_run :: "'d \<Rightarrow> 'd timeout_state \<Rightarrow> 'd timeout_state \<Rightarrow> bool" where
  "maximal_run body s s' \<longleftrightarrow> (timeout_step body)\<^sup>*\<^sup>* s s' \<and> (\<nexists>s''. timeout_step body s' s'')"

lemma stuck_cases:
  assumes "\<nexists>s'. timeout_step body s s'"
  shows "ts_dead s \<or> (ts_main s = Done \<and> ts_go s = [] \<and> ts_closed s)"
proof (rule disjCI)
  assume nd: "\<not> (ts_main s = Done \<and> ts_go s = [] \<and> ts_closed s)"
  show "ts_dead s"
  proof (rule ccontr)
    assume alive: "\<not> ts_dead s"
    have go: "ts_go s = []"
    proof (cases "ts_go s")
      case (Cons m ms)
      then show ?thesis
        using assms alive by (cases m; cases "ts_main s = Done") (blast intro: timeout_step.intros)+
    qed
    moreover have "ts_closed s" using assms alive go by (blast intro: timeout_step.intros)
    ultimately have "ts_main s \<noteq> Done" and "ts_closed s" using nd by auto
    then show False
    proof (cases "ts_main s")
      case (Answering xs)
      then show False using assms alive by (cases xs) (blast intro: timeout_step.intros)+
    qed (use assms alive in \<open>blast intro: timeout_step.intros\<close>)+
  qed
qed

text \<open>What the goroutine of the handler has done is a part of its program without a crash.\<close>

definition progress :: "'d act list \<Rightarrow> 'd timeout_state \<Rightarrow> bool" where
  "progress acts s \<longleftrightarrow>
     (\<exists>xs. tw_acts acts = xs @ ts_go s \<and> (\<forall>msg. Crash msg \<notin> set xs)) \<and>
     (ts_dead s \<longrightarrow> (\<exists>msg ms. ts_go s = Crash msg # ms))"

lemma progress_step:
  assumes "timeout_step body s s'" and "progress acts s"
  shows "progress acts s'"
proof -
  obtain xs where xs: "tw_acts acts = xs @ ts_go s" "\<forall>msg. Crash msg \<notin> set xs" using assms(2) by (auto simp: progress_def)
  have next_op: "progress acts t" if "ts_go s = m # ts_go t" "\<forall>msg. m \<noteq> Crash msg" "\<not> ts_dead t" for m t
    unfolding progress_def using xs that by (intro conjI exI [of _ "xs @ [m]"]) auto
  have same: "progress acts t" if "ts_go t = ts_go s" "\<not> ts_dead t" for t
    using assms(2) that by (auto simp: progress_def)
  show ?thesis
    using assms(1)
  proof cases
    case (go_crash msg ms)
    then show ?thesis using assms(2) by (auto simp: progress_def)
  qed (auto intro: next_op same)
qed

lemma progress_start: "progress acts (timeout_start acts h)"
  by (simp add: progress_def timeout_start_def)

lemma progress_run: "(timeout_step body)\<^sup>*\<^sup>* (timeout_start acts h) s \<Longrightarrow> progress acts s"
  by (induction rule: rtranclp_induct) (auto intro: progress_start progress_step)

lemma tw_acts_crash: "Crash msg \<in> set (tw_acts acts) \<longleftrightarrow> Panic msg \<in> set acts"
proof -
  have "Crash msg \<in> set (tw_act a) \<longleftrightarrow> a = Panic msg" for a :: "'a act" by (cases a rule: tw_act.cases) auto
  then show ?thesis by (auto simp: tw_acts_def)
qed

lemma tw_acts_length: "length (tw_acts acts) \<le> 2 * length acts"
proof (induction acts)
  case (Cons a acts)
  have "length (tw_act a) \<le> 2" by (cases a rule: tw_act.cases) auto
  with Cons show ?case by (simp add: tw_acts_def)
qed (simp add: tw_acts_def)

lemma maximal_run_end:
  assumes "maximal_run body (timeout_start acts h) s"
  shows "if \<exists>msg. Panic msg \<in> set acts then ts_dead s else \<not> ts_dead s \<and> ts_main s = Done \<and> ts_go s = []"
proof -
  have "progress acts s" using assms by (auto simp: maximal_run_def intro: progress_run)
  then obtain xs where xs: "tw_acts acts = xs @ ts_go s" "\<forall>msg. Crash msg \<notin> set xs"
    and dead: "ts_dead s \<longrightarrow> (\<exists>msg ms. ts_go s = Crash msg # ms)"
    unfolding progress_def by (elim conjE exE)
  have "\<nexists>s'. timeout_step body s s'" using assms by (simp only: maximal_run_def simp_thms)
  note stuck = stuck_cases [OF this]
  have crash: "(\<exists>msg. Panic msg \<in> set acts) \<longleftrightarrow> (\<exists>msg. Crash msg \<in> set (ts_go s))"
  proof -
    have "Panic msg \<in> set acts \<longleftrightarrow> Crash msg \<in> set (ts_go s)" for msg
      using tw_acts_crash [of msg acts] xs by simp
    then show ?thesis by simp
  qed
  show ?thesis
  proof (cases "ts_dead s")
    case True
    then obtain msg ms where "ts_go s = Crash msg # ms" using dead by blast
    then show ?thesis using True crash by auto
  next
    case False
    then show ?thesis using stuck crash by simp
  qed
qed

text \<open>
  C25. Whatever the scheduler, the deadline and the client do, a request under \<open>Timeout\<close> comes to an
  end: no run has more than \<open>2 n + 9\<close> steps, where \<open>n\<close> counts the operations of the handler, and a
  run that cannot go on has answered the request and finished the handler, unless the handler
  panics: then every run ends with the death of the process.
\<close>

theorem timeout_runs_end:
  assumes "(timeout_step body ^^ n) (timeout_start acts h) s"
  shows "n \<le> 2 * length acts + 9 \<and>
    ((\<nexists>s'. timeout_step body s s') \<longrightarrow>
      (if \<exists>msg. Panic msg \<in> set acts then ts_dead s else \<not> ts_dead s \<and> ts_main s = Done \<and> ts_go s = []))"
proof
  have "timeout_rank (timeout_start acts h) \<le> 2 * length acts + 9"
    using tw_acts_length [of acts] by (simp add: timeout_rank_def timeout_start_def)
  then show "n \<le> 2 * length acts + 9" using timeout_run_rank [OF assms] by simp
  have "(timeout_step body)\<^sup>*\<^sup>* (timeout_start acts h) s" using assms by (auto simp: rtranclp_power)
  then show "(\<nexists>s'. timeout_step body s s') \<longrightarrow>
      (if \<exists>msg. Panic msg \<in> set acts then ts_dead s else \<not> ts_dead s \<and> ts_main s = Done \<and> ts_go s = [])"
    using maximal_run_end [of body acts h s] unfolding maximal_run_def by blast
qed

theorem timeout_runs_end_witness:
  "\<exists>s. (timeout_step '''' ^^ 1) (timeout_start [Panic ''boom'', Use (Write ''x'')] Map.empty) s \<and>
     (\<nexists>s'. timeout_step '''' s s') \<and> ts_dead s"
proof -
  let ?s = "(timeout_start [Panic ''boom'', Use (Write ''x'')] Map.empty)\<lparr>ts_dead := True\<rparr>"
  have step: "timeout_step '''' (timeout_start [Panic ''boom'', Use (Write ''x'')] Map.empty) ?s"
    by (rule go_crash [where msg = "''boom''"]) (simp_all add: timeout_start_def tw_acts_def)
  then have run: "(timeout_step '''' ^^ 1) (timeout_start [Panic ''boom'', Use (Write ''x'')] Map.empty) ?s" by auto
  have "\<nexists>s'. timeout_step '''' ?s s'" by (auto elim: timeout_stepE)
  with timeout_runs_end [OF run] run show ?thesis by auto
qed

subsection \<open>Within the deadline\<close>

definition raw_run :: "'d micro list \<Rightarrow> 'd rw \<Rightarrow> 'd rw" where
  "raw_run ms w = fold (\<lambda>m. case m of Raw x \<Rightarrow> rw_do x | _ \<Rightarrow> id) ms w"

lemma raw_run_simps [simp]:
  "raw_run [] w = w" "raw_run (xs @ ys) w = raw_run ys (raw_run xs w)"
  "raw_run (Mark # ms) w = raw_run ms w" "raw_run (Raw x # ms) w = raw_run ms (rw_do x w)"
  "raw_run (Crash msg # ms) w = raw_run ms w"
  by (simp_all add: raw_run_def)

lemma raw_run_direct: "raw_run (tw_acts acts) w = direct acts w"
proof (induction acts arbitrary: w)
  case (Cons a acts)
  have "raw_run (tw_act a) w = (case a of Use x \<Rightarrow> rw_do x w | Panic _ \<Rightarrow> w)" by (cases a rule: tw_act.cases) simp_all
  with Cons show ?case by (simp add: tw_acts_def direct_def split: act.split)
qed (simp add: tw_acts_def direct_def)

definition in_time :: "'d act list \<Rightarrow> headers \<Rightarrow> 'd timeout_state \<Rightarrow> bool" where
  "in_time acts h s \<longleftrightarrow> \<not> ts_expired s \<longrightarrow>
     (ts_main s = Selecting \<or> ts_main s = Done \<and> ts_closed s) \<and> (ts_closed s \<longrightarrow> ts_go s = []) \<and> \<not> ts_late s \<and>
     (\<exists>xs. tw_acts acts = xs @ ts_go s \<and> ts_rw s = raw_run xs (new_rw h))"

lemma in_time_advance:
  assumes "in_time acts h s" and "ts_go s = m # ts_go s'" and "ts_rw s' = raw_run [m] (ts_rw s)"
    and "ts_main s' = ts_main s" "ts_closed s' = ts_closed s" "ts_expired s' = ts_expired s" "ts_late s' = ts_late s"
  shows "in_time acts h s'"
  unfolding in_time_def assms(4-)
proof (rule impI)
  assume "\<not> ts_expired s"
  then obtain xs where x: "tw_acts acts = xs @ ts_go s" "ts_rw s = raw_run xs (new_rw h)"
    and y: "ts_main s = Selecting" "\<not> ts_closed s" "\<not> ts_late s"
    using assms(1,2) by (auto simp: in_time_def)
  have "tw_acts acts = (xs @ [m]) @ ts_go s'" and "ts_rw s' = raw_run (xs @ [m]) (new_rw h)"
    using x assms(2,3) by simp_all
  then show "(ts_main s = Selecting \<or> ts_main s = Done \<and> ts_closed s) \<and> (ts_closed s \<longrightarrow> ts_go s' = []) \<and> \<not> ts_late s \<and>
      (\<exists>xs. tw_acts acts = xs @ ts_go s' \<and> ts_rw s' = raw_run xs (new_rw h))"
    using y by blast
qed

lemma in_time_step:
  assumes "timeout_step body s s'" and "in_time acts h s"
  shows "in_time acts h s'"
  using assms(1)
proof cases
  case (go_mark ms)
  then show ?thesis by (auto intro: in_time_advance [OF assms(2)])
next
  case (go_raw x ms)
  then show ?thesis by (auto intro: in_time_advance [OF assms(2)])
qed (use assms(2) in \<open>auto simp: in_time_def\<close>)

lemma in_time_run: "(timeout_step body)\<^sup>*\<^sup>* (timeout_start acts h) s \<Longrightarrow> in_time acts h s"
proof (induction rule: rtranclp_induct)
  case base
  show ?case by (simp add: in_time_def timeout_start_def)
qed (rule in_time_step)

text \<open>
  C15. A handler that is done before the deadline is not touched: if \<open>ServeHTTP\<close> has returned and
  the context has not ended, the client gets exactly what the handler alone would have written; for
  a handler of the model, its status, its headers added to those set before, and its body.
\<close>

theorem timeout_transparent:
  assumes "(timeout_step body)\<^sup>*\<^sup>* (timeout_start acts h) s" and "ts_main s = Done" and "\<not> ts_expired s"
  shows "ts_rw s = direct acts (new_rw h) \<and>
    (\<forall>resp. acts = acts_of (Returns resp) \<longrightarrow>
      client_sees (ts_rw s) = (rs_status resp, h ++ rs_headers resp, [rs_body resp]))"
proof -
  have "ts_rw s = direct acts (new_rw h)"
    using in_time_run [OF assms(1)] assms(2,3) by (auto simp: in_time_def raw_run_direct [symmetric])
  then show ?thesis by (simp add: direct_def new_rw_def client_sees_def)
qed

theorem timeout_transparent_witness:
  "\<exists>s. (timeout_step (NoBody :: unit body))\<^sup>*\<^sup>* (timeout_start [Use (Write (TextBody ''pong''))] Map.empty) s \<and>
     ts_main s = Done \<and> ts_rw s = direct [Use (Write (TextBody ''pong''))] (new_rw Map.empty)"
proof -
  obtain s where s: "timeout_moves (NoBody :: unit body) [Go, Go, Go, Pick_done] (timeout_start [Use (Write (TextBody ''pong''))] Map.empty)
      = Some s" and d: "ts_main s = Done" "\<not> ts_expired s"
    by (simp add: timeout_start_def tw_acts_def)
  from timeout_moves_run [OF s] timeout_transparent [OF timeout_moves_run [OF s] d] d show ?thesis by blast
qed

subsection \<open>After the deadline\<close>

text \<open>
  The test of \<open>written\<close> and the answer are not one step, and the handler keeps the writer. So a
  late handler can get in between: for every response of a handler there is a run in which the client
  gets its status and headers, with the timeout message in front of the body, a run in which the body is missing
  altogether, cut off by the return of the middleware, and a run in which the answer 503 has
  the response of the handler behind it.
\<close>

theorem timeout_mixes_answers:
  "\<exists>s1 s2 s3. (timeout_step body)\<^sup>*\<^sup>* (timeout_start (acts_of (Returns resp)) h) s1 \<and> ts_main s1 = Done \<and>
      client_sees (ts_rw s1) = (rs_status resp, h ++ rs_headers resp, [body, rs_body resp]) \<and>
    (timeout_step body)\<^sup>*\<^sup>* (timeout_start (acts_of (Returns resp)) h) s2 \<and> ts_main s2 = Done \<and> ts_late s2 \<and>
      client_sees (ts_rw s2) = (rs_status resp, h ++ rs_headers resp, []) \<and>
    (timeout_step body)\<^sup>*\<^sup>* (timeout_start (acts_of (Returns resp)) h) s3 \<and> ts_main s3 = Done \<and>
      client_sees (ts_rw s3) = (503, h(''Content-Type'' \<mapsto> ''application/json''), [body, rs_body resp])"
proof -
  let ?s = "timeout_start (acts_of (Returns resp)) h"
  note defs = timeout_start_def tw_acts_def timeout_answer_def client_sees_def new_rw_def
  obtain s1 where s1: "timeout_moves body [Deadline, Pick_deadline, Main, Go, Go, Go, Main, Main, Main, Go, Go, Main] ?s = Some s1"
    and e1: "ts_main s1 = Done" "client_sees (ts_rw s1) = (rs_status resp, h ++ rs_headers resp, [body, rs_body resp])"
    by (simp add: defs)
  obtain s2 where s2: "timeout_moves body [Go, Go, Go, Deadline, Pick_deadline, Main, Go, Go] ?s = Some s2"
    and e2: "ts_main s2 = Done" "ts_late s2" "client_sees (ts_rw s2) = (rs_status resp, h ++ rs_headers resp, [])"
    by (simp add: defs)
  obtain s3 where s3: "timeout_moves body [Deadline, Pick_deadline, Main, Main, Main, Main, Go, Go, Go, Go, Go, Main] ?s = Some s3"
    and e3: "ts_main s3 = Done"
      "client_sees (ts_rw s3) = (503, h(''Content-Type'' \<mapsto> ''application/json''), [body, rs_body resp])"
    by (simp add: defs)
  show ?thesis
    using timeout_moves_run [OF s1] e1 timeout_moves_run [OF s2] e2 timeout_moves_run [OF s3] e3 by blast
qed

text \<open>
  C26. A panic of a handler ends the process. An account of a platform whose identifier has fewer than
  eight bytes and that is not bound yet makes \<open>HandleCallback\<close> panic; around the handler
  itself, \<open>Recovery\<close> would answer 500, but the handler runs in the goroutine of \<open>Timeout\<close>, where
  nothing recovers: every run that goes on to its end ends with the process dead. The callback needs
  no authentication.
\<close>

theorem short_platform_id_kills_process:
  assumes "identify reg (rq_param rq ''name'') code = Inr (token, user)" and "length (pu_PlatformID user) < 8"
    and "\<And>b. b \<in> set (platform_bindings (w_db w)) \<Longrightarrow> pb_platform b = rq_param rq ''name'' \<Longrightarrow>
      pb_platform_user_id b \<noteq> pu_PlatformID user"
    and "callback_h U reg rq (Some code) h w = (res, w1)"
  shows "(\<forall>body s. maximal_run body (timeout_start (acts_of res) h) s \<longrightarrow> ts_dead s) \<and>
    rs_status (fst (Recovery (\<lambda>rq h. callback_h U reg rq (Some code) h) rq h w)) = 500"
proof -
  let ?name = "rq_param rq ''name''" and ?id = "pu_PlatformID user"
  obtain x d where g: "GetPlatformBinding_sql ?name ?id (w_db w) = (x, d)" by fastforce
  have "x \<noteq> Inr b" for b
  proof
    assume "x = Inr b"
    with g have "one_row (filter (\<lambda>b. pb_platform b = ?name \<and> pb_platform_user_id b = ?id) (platform_bindings (w_db w))) = Inr b"
      unfolding GetPlatformBinding_sql_def by (auto dest: select_Inr)
    from one_row_filter [OF this] assms(3) show False by blast
  qed
  then obtain e where "x = Inl e" by (cases x) auto
  with g obtain w2 where "on_db (GetPlatformBinding_sql ?name ?id) w = (Inl e, w2)" by (simp add: on_db_def)
  then have p: "callback_h U reg rq (Some code) h w = (Panics ''slice bounds out of range'', w2)"
    using assms(1,2) by (simp add: callback_h_def HandleCallback_def)
  then have "res = Panics ''slice bounds out of range''" using assms(4) by simp
  then show ?thesis using maximal_run_end [of _ "acts_of res" h] p by (auto simp: Recovery_def)
qed

theorem short_platform_id_kills_process_witness:
  "\<exists>res w1. callback_h ref_uuid echo_registry (plain_request\<lparr>rq_param := (\<lambda>_. ''wechat'')\<rparr>) (Some ''short'') Map.empty (sample_world ()) = (res, w1) \<and>
     {s. maximal_run NoBody (timeout_start (acts_of res) Map.empty) s} \<subseteq> {s. ts_dead s}"
proof -
  let ?rq = "plain_request\<lparr>rq_param := (\<lambda>_. ''wechat'')\<rparr>"
  obtain res w1 where c: "callback_h ref_uuid echo_registry ?rq (Some ''short'') Map.empty (sample_world ()) = (res, w1)"
    by fastforce
  obtain t u where "identify echo_registry ''wechat'' ''short'' = Inr (t, u)" and "pu_PlatformID u = ''short''"
    using echo_identify by blast
  then have "identify echo_registry (rq_param ?rq ''name'') ''short'' = Inr (t, u)" and "length (pu_PlatformID u) < 8" by simp_all
  from short_platform_id_kills_process [OF this _ c] c show ?thesis by auto
qed

end
