(* ===== verification/AppCore.thy ===== *)
theory AppCore
  imports Errors
begin

text \<open>
  The application frame of \<open>internal/core\<close>: the registry of services (\<open>registry.go\<close>), the interface of
  modules (\<open>module.go\<close>) and the application that starts and stops them (\<open>app.go\<close>). The state \<open>'w\<close>
  is whatever the modules work on.
\<close>

subsection \<open>The registry\<close>

type_synonym 's service_registry = "string \<rightharpoonup> 's"

definition NewServiceRegistry :: "'s service_registry" where
  [go_defs]: "NewServiceRegistry = Map.empty"

definition reg_Register :: "string \<Rightarrow> 's \<Rightarrow> 's service_registry \<Rightarrow> 's service_registry" where
  [go_defs]: "reg_Register name service r = r(name \<mapsto> service)"

definition Resolve :: "string \<Rightarrow> 's service_registry \<Rightarrow> 's option" where
  [go_defs]: "Resolve name r = r name"

text \<open>The verb \<open>%q\<close> puts a name of printable characters between quotes.\<close>

definition MustResolve :: "string \<Rightarrow> 's service_registry \<Rightarrow> 's go_result" where
  [go_defs]: "MustResolve name r =
     (case r name of
        None \<Rightarrow> Panics (''service \"'' @ name @ ''\" not registered'')
      | Some s \<Rightarrow> Returns s)"

subsection \<open>Modules\<close>

text \<open>A hook returns its error, if any. The hook \<open>RegisterRoutes\<close> is a program of routes, see the wiring.\<close>

record ('s, 'w) go_module =
  gm_Name :: string
  gm_Dependencies :: "string list"
  gm_RegisterServices :: "'s service_registry \<Rightarrow> 's service_registry"
  gm_OnStart :: "'w \<Rightarrow> go_error option \<times> 'w"
  gm_OnStop :: "'w \<Rightarrow> go_error option \<times> 'w"

text \<open>The hooks that \<open>BaseModule\<close> gives to a module that does not define its own.\<close>

definition BaseModule :: "string \<Rightarrow> ('s, 'w) go_module" where
  [go_defs]: "BaseModule name =
     \<lparr>gm_Name = name, gm_Dependencies = [], gm_RegisterServices = id, gm_OnStart = Pair None, gm_OnStop = Pair None\<rparr>"

subsection \<open>The application\<close>

record ('s, 'w) app =
  app_modules :: "('s, 'w) go_module list"
  app_registry :: "'s service_registry"

definition NewApp :: "('s, 'w) app" where
  [go_defs]: "NewApp = \<lparr>app_modules = [], app_registry = NewServiceRegistry\<rparr>"

definition app_Register :: "('s, 'w) go_module \<Rightarrow> ('s, 'w) app \<Rightarrow> ('s, 'w) app" where
  [go_defs]: "app_Register m a = a\<lparr>app_modules := app_modules a @ [m]\<rparr>"

definition ModuleNames :: "('s, 'w) app \<Rightarrow> string list" where
  [go_defs]: "ModuleNames a = map gm_Name (app_modules a)"

fun start_loop :: "('s, 'w) go_module list \<Rightarrow> 'w \<Rightarrow> go_error option \<times> 'w" where
  "start_loop [] w = (None, w)"
| "start_loop (m # ms) w =
     (case gm_OnStart m w of
        (Some _, w1) \<Rightarrow> (Some (PlainErr (''start module '' @ gm_Name m)), w1)
      | (None, w1) \<Rightarrow> start_loop ms w1)"

definition app_Start :: "('s, 'w) app \<Rightarrow> 'w \<Rightarrow> go_error option \<times> ('s, 'w) app \<times> 'w" where
  "app_Start a w =
     (let a1 = a\<lparr>app_registry := fold gm_RegisterServices (app_modules a) (app_registry a)\<rparr>;
          (err, w1) = start_loop (app_modules a) w
      in (err, a1, w1))"

text \<open>An error of \<open>OnStop\<close> is only logged.\<close>

fun stop_loop :: "('s, 'w) go_module list \<Rightarrow> 'w \<Rightarrow> 'w" where
  "stop_loop [] w = w"
| "stop_loop (m # ms) w = stop_loop ms (snd (gm_OnStop m w))"

definition app_Stop :: "('s, 'w) app \<Rightarrow> 'w \<Rightarrow> go_error option \<times> 'w" where
  "app_Stop a w = (None, stop_loop (rev (app_modules a)) w)"

text \<open>\<open>serve\<close> is what happens to the state until the signal arrives.\<close>

definition app_Run :: "('w \<Rightarrow> 'w) \<Rightarrow> ('s, 'w) app \<Rightarrow> 'w \<Rightarrow> go_error option \<times> ('s, 'w) app \<times> 'w" where
  "app_Run serve a w =
     (case app_Start a w of
        (Some err, a1, w1) \<Rightarrow> (Some err, a1, w1)
      | (None, a1, w1) \<Rightarrow> (let (err, w2) = app_Stop a1 (serve w1) in (err, a1, w2)))"

lemma fold_Register: "app_modules (fold app_Register ms a) = app_modules a @ ms"
  by (induction ms arbitrary: a) (simp_all add: app_Register_def)

text \<open>The last registration under a name counts.\<close>

lemma Resolve_Register [simp]:
  "Resolve n (reg_Register m s r) = (if n = m then Some s else Resolve n r)"
  by (simp add: Resolve_def reg_Register_def)

lemma MustResolve_Resolve: "MustResolve n r = Returns s \<longleftrightarrow> Resolve n r = Some s"
  by (simp add: MustResolve_def Resolve_def split: option.split)

end
