(* ===== verification/Wiring.thy ===== *)
theory Wiring
  imports Middleware AppCore Config Admin Leaderboard
begin

text \<open>
  \<open>cmd/server/main.go\<close>: how the program is put together from the configuration. The modules with
  their hooks (the \<open>module.go\<close> files), the keys, the registry of platforms, the deadline, and the
  routes with the middleware around each of them.
\<close>

subsection \<open>From the configuration\<close>

definition default_jwt_key :: jwt_key where
  "default_jwt_key = \<lparr>jk_KID = ''default'', jk_Secret = ''change-me-in-production-32byte''\<rparr>"

definition jwt_keys_of :: "config \<Rightarrow> jwt_key list" where
  "jwt_keys_of c =
     (let keys = map (\<lambda>k. \<lparr>jk_KID = kc_KID k, jk_Secret = kc_Secret k\<rparr>) (cf_JWTKeys c)
      in if keys = [] then [default_jwt_key] else keys)"

definition default_timeout :: "config \<Rightarrow> int" where
  "default_timeout c =
     (let d = (case ParseDuration (to_Default (cf_Timeout c)) of None \<Rightarrow> 0 | Some d \<Rightarrow> d)
      in if d = 0 then 30 * second else d)"

definition platform_registry ::
    "(string \<Rightarrow> token_reply json_reply) \<Rightarrow> (string \<Rightarrow> user_reply json_reply) \<Rightarrow> int \<Rightarrow> config \<Rightarrow> registry" where
  "platform_registry get_token get_user now c =
     (if wl_AppID (cf_WeChat c) \<noteq> '''' then
        RegisterOAuth (WeChatProvider \<lparr>wc_AppID = wl_AppID (cf_WeChat c), wc_AppSecret = wl_AppSecret (cf_WeChat c),
                                       wc_RedirectURI = wl_RedirectURI (cf_WeChat c)\<rparr> get_token get_user now)
          NewPlatformRegistry
      else NewPlatformRegistry)"

definition limit_of :: "rate_limit_rule \<Rightarrow> limit_config" where
  "limit_of r = \<lparr>lm_Limit = rr_Limit r, lm_Window = rr_Window r\<rparr>"

subsection \<open>The modules\<close>

datatype service =
    S_Users | S_Auth | S_Platforms | S_PlatformRegistry | S_Chat | S_Leaderboard | S_Admin | S_Friends

text \<open>
  Only the chat module does something when it starts and stops: it opens and closes its listener,
  the two arguments.
\<close>

definition users_module :: "(service, 'w) go_module" where
  "users_module = (BaseModule ''users'')\<lparr>gm_RegisterServices := reg_Register ''users'' S_Users\<rparr>"

definition auth_module :: "(service, 'w) go_module" where
  "auth_module = (BaseModule ''auth'')\<lparr>gm_Dependencies := [''users''], gm_RegisterServices := reg_Register ''auth'' S_Auth\<rparr>"

definition platforms_module :: "(service, 'w) go_module" where
  "platforms_module = (BaseModule ''platforms'')
     \<lparr>gm_Dependencies := [''auth'', ''users''],
      gm_RegisterServices := (\<lambda>r. reg_Register ''platform-registry'' S_PlatformRegistry (reg_Register ''platforms'' S_Platforms r))\<rparr>"

definition chat_module ::
    "('w \<Rightarrow> go_error option \<times> 'w) \<Rightarrow> ('w \<Rightarrow> go_error option \<times> 'w) \<Rightarrow> (service, 'w) go_module" where
  "chat_module listen unlisten = (BaseModule ''chat'')
     \<lparr>gm_RegisterServices := reg_Register ''chat'' S_Chat, gm_OnStart := listen, gm_OnStop := unlisten\<rparr>"

definition leaderboard_module :: "(service, 'w) go_module" where
  "leaderboard_module = (BaseModule ''leaderboard'')\<lparr>gm_RegisterServices := reg_Register ''leaderboard'' S_Leaderboard\<rparr>"

definition admin_module :: "(service, 'w) go_module" where
  "admin_module = (BaseModule ''admin'')\<lparr>gm_RegisterServices := reg_Register ''admin'' S_Admin\<rparr>"

definition friends_module :: "(service, 'w) go_module" where
  "friends_module = (BaseModule ''friends'')\<lparr>gm_RegisterServices := reg_Register ''friends'' S_Friends\<rparr>"

definition main_app ::
    "('w \<Rightarrow> go_error option \<times> 'w) \<Rightarrow> ('w \<Rightarrow> go_error option \<times> 'w) \<Rightarrow> (service, 'w) app" where
  "main_app listen unlisten =
     fold app_Register [users_module, auth_module, platforms_module, chat_module listen unlisten,
       leaderboard_module, admin_module, friends_module] NewApp"

subsection \<open>Routes\<close>

text \<open>
  The calls on the router, as data: a handler for a method and a pattern, middleware for what follows
  in the same router, a router below a pattern (\<open>Route\<close>, also \<open>Mount\<close> of a router), a group, and
  \<open>With\<close>. A handler is named by its package and method.
\<close>

datatype guard =
    M_RequestID | M_Recovery | M_Timeout int | M_Logger
  | M_AuthGuard | M_RequireAdmin | M_RateLimit string limit_config

datatype route_prog =
    Handle string string string
  | Wrap guard
  | Route string "route_prog list"
  | Group "route_prog list"
  | With "guard list" "route_prog list"

definition auth_routes :: "route_prog list" where
  "auth_routes =
     [Handle ''POST'' ''/api/v1/auth/register'' ''auth.register'', Handle ''POST'' ''/api/v1/auth/login'' ''auth.login'',
      Handle ''POST'' ''/api/v1/auth/refresh'' ''auth.refresh'', Handle ''POST'' ''/api/v1/auth/logout'' ''auth.logout'']"

definition users_routes :: "route_prog list" where
  "users_routes =
     [Handle ''GET'' ''/api/v1/users/me'' ''users.getMe'', Handle ''PUT'' ''/api/v1/users/me'' ''users.updateMe'',
      Handle ''GET'' ''/api/v1/users/{id}'' ''users.getUser'', Handle ''GET'' ''/api/v1/users/search'' ''users.searchUsers'']"

definition platforms_public :: "route_prog list" where
  "platforms_public =
     [Handle ''GET'' ''/'' ''platforms.listPlatforms'', Handle ''GET'' ''/{name}/auth-url'' ''platforms.getAuthURL'',
      Handle ''POST'' ''/{name}/callback'' ''platforms.callback'']"

definition platforms_protected :: "route_prog list" where
  "platforms_protected =
     [Handle ''POST'' ''/{name}/bind'' ''platforms.bind'', Handle ''DELETE'' ''/{name}/bind'' ''platforms.unbind'',
      Handle ''GET'' ''/bindings'' ''platforms.listBindings'']"

definition chat_routes :: "route_prog list" where
  "chat_routes =
     [Handle ''GET'' ''/rooms'' ''chat.listRooms'', Handle ''POST'' ''/rooms'' ''chat.createRoom'',
      Handle ''GET'' ''/rooms/{roomID}/messages'' ''chat.getMessages'']"

definition leaderboard_public :: "route_prog list" where
  "leaderboard_public = [Handle ''GET'' ''/{code}'' ''leaderboard.getRanking'']"

definition leaderboard_protected :: "route_prog list" where
  "leaderboard_protected =
     [Handle ''POST'' ''/{code}/submit'' ''leaderboard.submitScore'', Handle ''GET'' ''/{code}/me'' ''leaderboard.getMyRank'']"

text \<open>\<open>RegisterRoutes\<close> of the two handlers with public routes, which \<open>main\<close> never calls.\<close>

definition platforms_RegisterRoutes :: "route_prog list" where
  "platforms_RegisterRoutes =
     [Handle ''GET'' ''/'' ''platforms.listPlatforms'', Handle ''GET'' ''/{name}/auth-url'' ''platforms.getAuthURL'',
      Handle ''POST'' ''/{name}/callback'' ''platforms.callback'', Handle ''POST'' ''/{name}/bind'' ''platforms.bind'',
      Handle ''DELETE'' ''/{name}/bind'' ''platforms.unbind'', Handle ''GET'' ''/bindings'' ''platforms.listBindings'']"

definition leaderboard_RegisterRoutes :: "route_prog list" where
  "leaderboard_RegisterRoutes =
     [Handle ''GET'' ''/{code}'' ''leaderboard.getRanking'', Handle ''POST'' ''/{code}/submit'' ''leaderboard.submitScore'',
      Handle ''GET'' ''/{code}/me'' ''leaderboard.getMyRank'']"

lemma public_and_protected:
  "platforms_RegisterRoutes = platforms_public @ platforms_protected"
  "leaderboard_RegisterRoutes = leaderboard_public @ leaderboard_protected"
  by (simp_all add: platforms_RegisterRoutes_def platforms_public_def platforms_protected_def
      leaderboard_RegisterRoutes_def leaderboard_public_def leaderboard_protected_def)

definition friends_Routes :: "route_prog list" where
  "friends_Routes =
     [Handle ''POST'' ''/request'' ''friends.SendRequest'', Handle ''PUT'' ''/{id}/accept'' ''friends.AcceptRequest'',
      Handle ''DELETE'' ''/{id}/reject'' ''friends.RejectRequest'', Handle ''POST'' ''/block'' ''friends.Block'',
      Handle ''DELETE'' ''/block/{userID}'' ''friends.Unblock'', Handle ''GET'' ''/blocked'' ''friends.ListBlocked'',
      Handle ''DELETE'' ''/{userID}'' ''friends.RemoveFriend'', Handle ''GET'' ''/recent'' ''friends.ListRecentContacts'',
      Handle ''GET'' ''/'' ''friends.ListFriends'', Handle ''GET'' ''/pending'' ''friends.ListPendingRequests'',
      Handle ''GET'' ''/online'' ''friends.GetOnlineFriends'']"

definition friends_RegisterRoutes :: "route_prog list" where
  "friends_RegisterRoutes = [Route ''/api/v1/friends'' friends_Routes]"

definition admin_RegisterRoutes :: "route_prog list" where
  "admin_RegisterRoutes =
     [Route ''/api/v1/admin''
        [Handle ''POST'' ''/login'' ''admin.Login'',
         Group [Wrap M_AuthGuard, Wrap M_RequireAdmin,
           Handle ''GET'' ''/users'' ''admin.ListUsers'', Handle ''PUT'' ''/users/{id}/status'' ''admin.UpdateUserStatus'',
           Handle ''GET'' ''/audit-logs'' ''admin.ListAuditLogs'']]]"

definition health_routes :: "route_prog list" where
  "health_routes = [Handle ''GET'' ''/healthz'' ''health.ping'']"

definition health_ping :: "headers \<Rightarrow> (string \<rightharpoonup> string) response" where
  "health_ping h =
     \<lparr>rs_status = 200, rs_headers = h(''Content-Type'' \<mapsto> ''application/json''),
      rs_body = JsonBody [''status'' \<mapsto> ''ok'']\<rparr>"

definition main_routes :: "config \<Rightarrow> route_prog list" where
  "main_routes c =
     (let authLimiter = M_RateLimit ''auth'' (limit_of (rc_Auth (cf_RateLimit c)));
          readLimiter = M_RateLimit ''read'' (limit_of (rc_Read (cf_RateLimit c)))
      in [Wrap M_RequestID, Wrap M_Recovery, Wrap (M_Timeout (default_timeout c)), Wrap M_Logger,
          Route ''/api/v1/chat'' (Wrap M_AuthGuard # chat_routes)]
         @ health_routes
         @ [With [authLimiter] auth_routes,
            Route ''/api/v1/platforms'' (Wrap authLimiter # platforms_public @ [Group (Wrap M_AuthGuard # platforms_protected)]),
            Route ''/api/v1/leaderboard'' (Wrap readLimiter # leaderboard_public @ [Group (Wrap M_AuthGuard # leaderboard_protected)]),
            With [M_AuthGuard, readLimiter] users_routes]
         @ admin_RegisterRoutes
         @ [Route ''/api/v1/friends'' (Wrap M_AuthGuard # Wrap readLimiter # friends_RegisterRoutes)])"

subsection \<open>The router\<close>

text \<open>
  What the documentation of \<open>chi\<close> says of these calls: \<open>T gs prefix prog\<close> lists the routes with
  their full pattern and their middleware from the outside in. The table is a parameter; the
  equations determine it.
\<close>

type_synonym route = "string \<times> string \<times> guard list \<times> string"

locale chi_router =
  fixes T :: "guard list \<Rightarrow> string \<Rightarrow> route_prog list \<Rightarrow> route list"
  assumes T_Nil: "T gs pre [] = []"
    and T_Handle: "T gs pre (Handle m p hn # ps) = (m, pre @ p, gs, hn) # T gs pre ps"
    and T_Wrap: "T gs pre (Wrap g # ps) = T (gs @ [g]) pre ps"
    and T_Route: "T gs pre (Route p qs # ps) = T gs (pre @ p) qs @ T gs pre ps"
    and T_Group: "T gs pre (Group qs # ps) = T gs pre qs @ T gs pre ps"
    and T_With: "T gs pre (With ms qs # ps) = T (gs @ ms) pre qs @ T gs pre ps"
begin

lemmas T_simps = T_Nil T_Handle T_Wrap T_Route T_Group T_With

end

fun routes_of :: "guard list \<Rightarrow> string \<Rightarrow> route_prog list \<Rightarrow> route list" where
  "routes_of gs pre [] = []"
| "routes_of gs pre (Handle m p hn # ps) = (m, pre @ p, gs, hn) # routes_of gs pre ps"
| "routes_of gs pre (Wrap g # ps) = routes_of (gs @ [g]) pre ps"
| "routes_of gs pre (Route p qs # ps) = routes_of gs (pre @ p) qs @ routes_of gs pre ps"
| "routes_of gs pre (Group qs # ps) = routes_of gs pre qs @ routes_of gs pre ps"
| "routes_of gs pre (With ms qs # ps) = routes_of (gs @ ms) pre qs @ routes_of gs pre ps"

interpretation chi_ref: chi_router routes_of
  by unfold_locales simp_all

context chi_router
begin

lemma T_routes_of: "T gs pre ps = routes_of gs pre ps"
  by (induction gs pre ps rule: routes_of.induct) (simp_all add: T_simps)

end

end
