(* ===== verification/Assembly.thy ===== *)
theory Assembly
  imports Wiring ChatFacts
begin

text \<open>
  The constructors and setters of the services and of their \<open>module.go\<close> files, as \<open>main\<close> calls them,
  and the life of the chat module: \<open>OnStart\<close> registers the callbacks and opens the listener, \<open>OnStop\<close>
  closes it. An HTTP handler holds nothing but its service, and a module nothing but what is here.
\<close>

subsection \<open>Services\<close>

definition NewAuthService ::
    "uuid_lib \<Rightarrow> jwt_lib \<Rightarrow> bcrypt_lib \<Rightarrow> (string \<Rightarrow> bytes) \<Rightarrow> jwt_key list \<Rightarrow> 'r redis_client \<Rightarrow> 'r auth_svc" where
  [go_defs]: "NewAuthService U J B sha keys sessions =
     \<lparr>as_uuid = U, as_jwt = J, as_bcrypt = B, as_sha256 = sha, as_keys = keys, as_redis = sessions\<rparr>"

definition NewLeaderboardService :: "uuid_lib \<Rightarrow> 'r redis_client \<Rightarrow> 'r board_svc" where
  [go_defs]: "NewLeaderboardService U rdb = \<lparr>bs_uuid = U, bs_redis = rdb\<rparr>"

definition NewFriendsService ::
    "uuid_lib \<Rightarrow> 'r redis_client option \<Rightarrow> 'n notifier option \<Rightarrow> ('r, 'n) friends_svc" where
  [go_defs]: "NewFriendsService U rdb notifier = \<lparr>fs_uuid = U, fs_rdb = rdb, fs_notifier = notifier\<rparr>"

text \<open>The service as the two interfaces that the chat module asks for.\<close>

definition friends_BlockChecker :: "('r, tcp_server) friends_svc \<Rightarrow> string \<Rightarrow> string \<Rightarrow> ('r, tcp_server, bool) svc" where
  [go_defs]: "friends_BlockChecker F = IsBlocked F"

definition friends_PresenceSetter :: "('r, tcp_server) friends_svc \<Rightarrow> 'r presence_setter" where
  [go_defs]: "friends_PresenceSetter F = \<lparr>ps_SetOnline = SetOnline F, ps_SetOffline = SetOffline F\<rparr>"

subsection \<open>The chat module\<close>

definition NewChatService ::
    "proto_lib \<Rightarrow> uuid_lib \<Rightarrow> (string \<Rightarrow> string \<Rightarrow> ('r, tcp_server, bool) svc) option \<Rightarrow> 'r presence_setter option
     \<Rightarrow> (string \<Rightarrow> ('r, tcp_server, string) svc) option \<Rightarrow> 'r chat_svc" where
  [go_defs]: "NewChatService P U blockChecker presenceSetter tokenValidator =
     \<lparr>cs_proto = P, cs_uuid = U, cs_blockChecker = blockChecker, cs_presenceSetter = presenceSetter,
      cs_tokenValidator = tokenValidator\<rparr>"

record 'r chat_mod =
  cm_service :: "'r chat_svc"
  cm_server :: tcp_server
  cm_notifier :: "tcp_server notifier"

definition chat_NewModule ::
    "proto_lib \<Rightarrow> uuid_lib \<Rightarrow> string \<Rightarrow> (string \<Rightarrow> string \<Rightarrow> ('r, tcp_server, bool) svc) option \<Rightarrow> 'r presence_setter option
     \<Rightarrow> (string \<Rightarrow> ('r, tcp_server, string) svc) option \<Rightarrow> 'r chat_mod" where
  [go_defs]: "chat_NewModule P U tcpAddr blockChecker presenceSetter tokenValidator =
     \<lparr>cm_service = NewChatService P U blockChecker presenceSetter tokenValidator,
      cm_server = NewTCPServer tcpAddr (30 * second) (90 * second),
      cm_notifier = ChatPresenceNotifier P\<rparr>"

definition chat_PresenceNotifier :: "'r chat_mod \<Rightarrow> tcp_server notifier" where
  [go_defs]: "chat_PresenceNotifier m = cm_notifier m"

definition setBlockChecker ::
    "(string \<Rightarrow> string \<Rightarrow> ('r, tcp_server, bool) svc) \<Rightarrow> 'r chat_svc \<Rightarrow> 'r chat_svc" where
  [go_defs]: "setBlockChecker checker s = s\<lparr>cs_blockChecker := Some checker\<rparr>"

definition SetBlockChecker ::
    "(string \<Rightarrow> string \<Rightarrow> ('r, tcp_server, bool) svc) \<Rightarrow> 'r chat_mod \<Rightarrow> 'r chat_mod" where
  [go_defs]: "SetBlockChecker checker m = m\<lparr>cm_service := setBlockChecker checker (cm_service m)\<rparr>"

definition SetPresenceSetter :: "'r presence_setter \<Rightarrow> 'r chat_mod \<Rightarrow> 'r chat_mod" where
  [go_defs]: "SetPresenceSetter setter m = m\<lparr>cm_service := (cm_service m)\<lparr>cs_presenceSetter := Some setter\<rparr>\<rparr>"

definition SetTokenValidator :: "(string \<Rightarrow> ('r, tcp_server, string) svc) \<Rightarrow> 'r chat_mod \<Rightarrow> 'r chat_mod" where
  [go_defs]: "SetTokenValidator validator m = m\<lparr>cm_service := (cm_service m)\<lparr>cs_tokenValidator := Some validator\<rparr>\<rparr>"

text \<open>\<open>OnStart\<close> and \<open>OnStop\<close> are \<open>Start\<close> and \<open>Stop\<close> of the service.\<close>

definition ChatService_Start ::
    "(string \<Rightarrow> bool) \<Rightarrow> 'r chat_world \<Rightarrow> go_error option \<times> 'r chat_world" where
  "ChatService_Start binds w =
     (let (err, s) = server_Start binds ((w_net w)\<lparr>t_hooks := True\<rparr>) in (err, w\<lparr>w_net := s\<rparr>))"

definition ChatService_Stop :: "'r chat_world \<Rightarrow> go_error option \<times> 'r chat_world" where
  "ChatService_Stop w = (let (err, s) = server_Close (w_net w) in (err, w\<lparr>w_net := s\<rparr>))"

text \<open>The late wiring of \<open>main\<close> gives the chat service that the chat theorems are about.\<close>

lemma late_wiring:
  fixes P :: proto_lib and U :: uuid_lib and R :: "'r redis_client" and addr :: string
  defines "m \<equiv> chat_NewModule P U addr None None None :: 'r chat_mod"
  defines "F \<equiv> NewFriendsService U (Some R) (Some (chat_PresenceNotifier m))"
  shows "F = wired_friends P U R"
    and "cm_service (SetTokenValidator (\<lambda>token w. (validate token, w)) (SetPresenceSetter (friends_PresenceSetter F)
      (SetBlockChecker (friends_BlockChecker F) m))) = wired_chat P U R validate"
  by (simp_all add: m_def F_def go_defs wired_friends_def wired_chat_def)

subsection \<open>One-time codes\<close>

text \<open>\<open>LogNotifier\<close> writes the code to the log: the state is the list of log lines.\<close>

definition LogNotifier_SendOTP :: "string \<Rightarrow> string \<Rightarrow> (string \<times> string) list \<Rightarrow> go_error option \<times> (string \<times> string) list" where
  [go_defs]: "LogNotifier_SendOTP target code lines = (None, lines @ [(target, code)])"

end
