(* ===== verification/Startup.thy ===== *)
theory Startup
  imports Assembly
begin

text \<open>
  The start of the program: the logger (\<open>internal/core/logger\<close>), the pool of the database
  (\<open>internal/core/database\<close>), the cache (\<open>internal/core/cache\<close>), the HTTP server
  (\<open>internal/core/server\<close>), and \<open>main\<close> from the configuration to the running modules. The drivers
  are parameters: whether opening and pinging succeed.
\<close>

subsection \<open>Logger, database, cache and server\<close>

datatype log_level = LevelDebug | LevelInfo | LevelWarn | LevelError
datatype log_format = TextFormat | JSONFormat

definition logger_New :: "logger_config \<Rightarrow> log_level \<times> log_format" where
  [go_defs]: "logger_New c =
     ((if lc_Level c = ''debug'' then LevelDebug
       else if lc_Level c = ''warn'' then LevelWarn
       else if lc_Level c = ''error'' then LevelError
       else LevelInfo),
      (if lc_Format c = ''text'' then TextFormat else JSONFormat))"

text \<open>The settings of \<open>sql.DB\<close> that were made; \<open>None\<close> is the default of the driver.\<close>

record db_pool =
  dp_MaxOpenConns :: "int option"
  dp_MaxIdleConns :: "int option"
  dp_ConnMaxLifetime :: "int option"

definition database_New :: "(string \<Rightarrow> bool) \<Rightarrow> (string \<Rightarrow> bool) \<Rightarrow> database_config \<Rightarrow> go_error + db_pool" where
  [go_defs]: "database_New opens pings c =
     (if \<not> opens (dc_DSN c) then Inl (PlainErr ''open database'')
      else if \<not> pings (dc_DSN c) then Inl (PlainErr ''ping database'')
      else Inr \<lparr>dp_MaxOpenConns = (if 0 < dc_MaxOpenConns c then Some (dc_MaxOpenConns c) else None),
                dp_MaxIdleConns = (if 0 < dc_MaxIdleConns c then Some (dc_MaxIdleConns c) else None),
                dp_ConnMaxLifetime = (if dc_ConnMaxLifetime c \<noteq> '''' then ParseDuration (dc_ConnMaxLifetime c) else None)\<rparr>)"

definition cache_New :: "(cache_config \<Rightarrow> bool) \<Rightarrow> cache_config \<Rightarrow> go_error + unit" where
  [go_defs]: "cache_New pings c = (if pings c then Inr () else Inl (PlainErr ''ping redis''))"

record http_server =
  hs_Addr :: string
  hs_ReadTimeout :: int
  hs_WriteTimeout :: int
  hs_IdleTimeout :: int

definition NewHTTPServer :: "string \<Rightarrow> http_server" where
  [go_defs]: "NewHTTPServer addr =
     \<lparr>hs_Addr = addr, hs_ReadTimeout = 15 * second, hs_WriteTimeout = 15 * second, hs_IdleTimeout = 60 * second\<rparr>"

subsection \<open>main\<close>

text \<open>The packages that the program is linked with, and what its surroundings answer.\<close>

record 'r packages =
  pk_uuid :: uuid_lib
  pk_jwt :: jwt_lib
  pk_bcrypt :: bcrypt_lib
  pk_sha256 :: "string \<Rightarrow> bytes"
  pk_proto :: proto_lib
  pk_redis :: "'r redis_client"

record surroundings =
  su_path :: string
  su_read :: "string \<Rightarrow> string option"
  su_yaml :: "string \<Rightarrow> config \<Rightarrow> config option"
  su_order :: "env_field list"
  su_getenv :: "string \<Rightarrow> string"
  su_db_opens :: "string \<Rightarrow> bool"
  su_db_pings :: "string \<Rightarrow> bool"
  su_redis_pings :: "cache_config \<Rightarrow> bool"
  su_binds :: "string \<Rightarrow> bool"

text \<open>The services as they are wired together; the validator of the chat reads the clock, \<open>now\<close>.\<close>

record 'r program =
  pg_auth :: "'r auth_svc"
  pg_friends :: "('r, tcp_server) friends_svc"
  pg_chat :: "int \<Rightarrow> 'r chat_svc"
  pg_board :: "'r board_svc"
  pg_registry :: "(string \<Rightarrow> token_reply json_reply) \<Rightarrow> (string \<Rightarrow> user_reply json_reply) \<Rightarrow> int \<Rightarrow> registry"
  pg_routes :: "route_prog list"
  pg_http :: http_server
  pg_tcp :: tcp_server

definition assemble :: "'r packages \<Rightarrow> config \<Rightarrow> 'r program" where
  "assemble P c =
     (let auth = NewAuthService (pk_uuid P) (pk_jwt P) (pk_bcrypt P) (pk_sha256 P) (jwt_keys_of c) (pk_redis P);
          chat = chat_NewModule (pk_proto P) (pk_uuid P) '':9091'' None None None;
          board = NewLeaderboardService (pk_uuid P) (pk_redis P);
          friends = NewFriendsService (pk_uuid P) (Some (pk_redis P)) (Some (chat_PresenceNotifier chat));
          chat1 = SetBlockChecker (friends_BlockChecker friends) chat;
          chat2 = SetPresenceSetter (friends_PresenceSetter friends) chat1;
          chat3 = (\<lambda>now. SetTokenValidator (\<lambda>token w. (tokenValidatorAdapter auth now token, w)) chat2)
      in \<lparr>pg_auth = auth, pg_friends = friends, pg_chat = (\<lambda>now. cm_service (chat3 now)),
          pg_board = board,
          pg_registry = (\<lambda>get_token get_user now. platform_registry get_token get_user now c),
          pg_routes = main_routes c,
          pg_http = NewHTTPServer (sv_HTTPAddr (cf_Server c)),
          pg_tcp = cm_server chat\<rparr>)"

lemma assemble_parts:
  "pg_friends (assemble P c) = wired_friends (pk_proto P) (pk_uuid P) (pk_redis P)"
  "pg_chat (assemble P c) now =
     wired_chat (pk_proto P) (pk_uuid P) (pk_redis P) (tokenValidatorAdapter (pg_auth (assemble P c)) now)"
  "pg_tcp (assemble P c) = NewTCPServer '':9091'' (30 * second) (90 * second)"
  "pg_http (assemble P c) = NewHTTPServer (sv_HTTPAddr (cf_Server c))"
  "pg_routes (assemble P c) = main_routes c"
  by (simp_all add: assemble_def Let_def go_defs wired_friends_def wired_chat_def)

lemma assemble_auth:
  "as_keys (pg_auth (assemble P c)) = jwt_keys_of c" "as_uuid (pg_auth (assemble P c)) = pk_uuid P"
  "as_jwt (pg_auth (assemble P c)) = pk_jwt P" "as_redis (pg_auth (assemble P c)) = pk_redis P"
  "as_bcrypt (pg_auth (assemble P c)) = pk_bcrypt P" "as_sha256 (pg_auth (assemble P c)) = pk_sha256 P"
  by (simp_all add: assemble_def Let_def go_defs)

text \<open>An error is logged with this message and the program exits with 1.\<close>

definition boot ::
    "'r packages \<Rightarrow> surroundings \<Rightarrow> 'r chat_world \<Rightarrow> (string + config \<times> 'r program) \<times> 'r chat_world" where
  "boot P S w =
     (case config_Load (su_read S) (su_yaml S) (su_order S) (su_getenv S) (su_path S) of
        Inl _ \<Rightarrow> (Inl ''load config'', w)
      | Inr c \<Rightarrow>
     (case database_New (su_db_opens S) (su_db_pings S) (cf_Database c) of
        Inl _ \<Rightarrow> (Inl ''connect database'', w)
      | Inr _ \<Rightarrow>
     (case cache_New (su_redis_pings S) (cf_Cache c) of
        Inl _ \<Rightarrow> (Inl ''connect redis'', w)
      | Inr _ \<Rightarrow>
          (let prog = assemble P c; w1 = w\<lparr>w_net := pg_tcp prog\<rparr> in
           case LoadBlockCache (pg_friends prog) w1 of
             (Inl _, w2) \<Rightarrow> (Inl ''load block cache'', w2)
           | (Inr _, w2) \<Rightarrow> (Inr (c, prog), w2)))))"

text \<open>The exit code of the process; \<open>serve\<close> is what happens until the signal arrives.\<close>

definition main_exit ::
    "'r packages \<Rightarrow> surroundings \<Rightarrow> ('r program \<Rightarrow> 'r chat_world \<Rightarrow> 'r chat_world) \<Rightarrow> 'r chat_world \<Rightarrow> nat \<times> 'r chat_world" where
  "main_exit P S serve w =
     (case boot P S w of
        (Inl _, w1) \<Rightarrow> (1, w1)
      | (Inr (_, prog), w1) \<Rightarrow>
          (case app_Run (serve prog) (main_app (ChatService_Start (su_binds S)) ChatService_Stop) w1 of
             (Some _, _, w2) \<Rightarrow> (1, w2)
           | (None, _, w2) \<Rightarrow> (0, w2)))"

lemma boot_Inr:
  assumes "boot P S w = (Inr (c, prog), w')"
  shows "config_Load (su_read S) (su_yaml S) (su_order S) (su_getenv S) (su_path S) = Inr c" and "prog = assemble P c"
    and "LoadBlockCache (wired_friends (pk_proto P) (pk_uuid P) (pk_redis P))
      (w\<lparr>w_net := NewTCPServer '':9091'' (30 * second) (90 * second)\<rparr>) = (Inr (), w')"
  using assms by (auto simp: boot_def assemble_parts Let_def split: sum.splits prod.splits)

end
