(* ===== verification/WiringProps.thy ===== *)
theory WiringProps
  imports Wiring AuthProps LimiterProps "HOL-Library.Multiset"
begin

text \<open>
  The program as a whole: the life of the modules, what the configuration is made of, which keys sign
  the tokens, and what stands in front of every route.
\<close>

subsection \<open>The modules\<close>

datatype event = Started string | Start_failed string | Stopped string

definition traced :: "('s, 'w) go_module \<Rightarrow> ('s, 'w \<times> event list) go_module" where
  "traced m =
     \<lparr>gm_Name = gm_Name m, gm_Dependencies = gm_Dependencies m, gm_RegisterServices = gm_RegisterServices m,
      gm_OnStart = (\<lambda>(w, tr). case gm_OnStart m w of
          (None, w1) \<Rightarrow> (None, (w1, tr @ [Started (gm_Name m)]))
        | (Some e, w1) \<Rightarrow> (Some e, (w1, tr @ [Start_failed (gm_Name m)]))),
      gm_OnStop = (\<lambda>(w, tr). case gm_OnStop m w of (err, w1) \<Rightarrow> (err, (w1, tr @ [Stopped (gm_Name m)])))\<rparr>"

lemma traced_simps [simp]:
  "gm_Name (traced m) = gm_Name m" "gm_RegisterServices (traced m) = gm_RegisterServices m"
  "gm_OnStart (traced m) (w, tr) = (case gm_OnStart m w of
      (None, w1) \<Rightarrow> (None, (w1, tr @ [Started (gm_Name m)]))
    | (Some e, w1) \<Rightarrow> (Some e, (w1, tr @ [Start_failed (gm_Name m)])))"
  "gm_OnStop (traced m) (w, tr) = (case gm_OnStop m w of (err, w1) \<Rightarrow> (err, (w1, tr @ [Stopped (gm_Name m)])))"
  by (simp_all add: traced_def)

lemma start_loop_traced:
  assumes "start_loop (map traced ms) (w, tr) = (err, (w', tr'))"
  shows "case err of
      None \<Rightarrow> tr' = tr @ map (\<lambda>m. Started (gm_Name m)) ms
    | Some _ \<Rightarrow> \<exists>n < length ms. tr' = tr @ map (\<lambda>m. Started (gm_Name m)) (take n ms) @ [Start_failed (gm_Name (ms ! n))]"
  using assms
proof (induction ms arbitrary: w tr)
  case (Cons m ms)
  show ?case
  proof (cases "gm_OnStart m w")
    case (Pair e w1)
    show ?thesis
    proof (cases e)
      case None
      then have "start_loop (map traced ms) (w1, tr @ [Started (gm_Name m)]) = (err, (w', tr'))"
        using Cons.prems Pair by simp
      from Cons.IH [OF this] show ?thesis by (cases err) (force intro: exI [of _ "Suc _"])+
    next
      case (Some err')
      then show ?thesis using Cons.prems Pair by (auto intro!: exI [of _ 0])
    qed
  qed
qed simp

lemma stop_loop_traced: "snd (stop_loop (map traced ms) (w, tr)) = tr @ map (\<lambda>m. Stopped (gm_Name m)) ms"
proof (induction ms arbitrary: w tr)
  case (Cons m ms)
  then show ?case by (cases "gm_OnStop m w") simp
qed simp

text \<open>
  Whatever the modules do: every module has registered its services before the first one starts;
  if all start, they start in the order of their registration and are stopped in the reverse order
  after the signal; if one fails, no later module is started, \<open>Run\<close> returns the error, and the
  modules that were already started are not stopped.
\<close>

theorem app_lifecycle:
  assumes "app_Run serve \<lparr>app_modules = map traced ms, app_registry = reg\<rparr> (w, []) = (err, a', (w', tr))"
    and "\<And>w tr. snd (serve (w, tr)) = tr"
  shows "app_registry a' = fold gm_RegisterServices ms reg \<and>
    (case err of
       None \<Rightarrow> tr = map (\<lambda>m. Started (gm_Name m)) ms @ map (\<lambda>m. Stopped (gm_Name m)) (rev ms)
     | Some _ \<Rightarrow> \<exists>n < length ms. tr = map (\<lambda>m. Started (gm_Name m)) (take n ms) @ [Start_failed (gm_Name (ms ! n))])"
proof -
  have reg: "fold gm_RegisterServices (map traced ms) reg = fold gm_RegisterServices ms reg"
    by (induction ms arbitrary: reg) simp_all
  obtain e w1 log1 where s: "start_loop (map traced ms) (w, []) = (e, (w1, log1))" by (metis prod.exhaust)
  note start = start_loop_traced [OF s]
  show ?thesis
  proof (cases e)
    case None
    obtain w2 where sv: "serve (w1, log1) = (w2, log1)" using assms(2) [of w1 log1] by (metis prod.collapse)
    have "snd (stop_loop (map traced (rev ms)) (w2, log1)) = log1 @ map (\<lambda>m. Stopped (gm_Name m)) (rev ms)"
      by (rule stop_loop_traced)
    then show ?thesis
      using assms(1) s None start sv reg by (auto simp: app_Run_def app_Start_def app_Stop_def rev_map)
  next
    case (Some x)
    then show ?thesis using assms(1) s start reg by (auto simp: app_Run_def app_Start_def)
  qed
qed

lemma main_modules:
  "app_modules (main_app listen unlisten) =
    [users_module, auth_module, platforms_module, chat_module listen unlisten, leaderboard_module, admin_module, friends_module]"
  unfolding main_app_def fold_Register by (simp add: NewApp_def)

theorem app_lifecycle_witness:
  "\<exists>err a' w'. app_Run id \<lparr>app_modules = map traced (app_modules (main_app (\<lambda>w. (Some (PlainErr ''listen''), w)) (Pair None))),
      app_registry = NewServiceRegistry\<rparr> ((), []) = (err, a', w') \<and>
    snd w' = [Started ''users'', Started ''auth'', Started ''platforms'', Start_failed ''chat''] \<and>
    Resolve ''friends'' (app_registry a') = Some S_Friends"
proof -
  let ?ms = "app_modules (main_app (\<lambda>w :: unit. (Some (PlainErr ''listen''), w)) (Pair None))"
  obtain err a' w' tr where r: "app_Run id \<lparr>app_modules = map traced ?ms, app_registry = NewServiceRegistry\<rparr> ((), []) = (err, a', (w', tr))"
    by (metis prod.exhaust)
  note defs = users_module_def auth_module_def platforms_module_def chat_module_def
    leaderboard_module_def admin_module_def friends_module_def BaseModule_def
  have "tr = [Started ''users'', Started ''auth'', Started ''platforms'', Start_failed ''chat'']"
    using r by (simp add: app_Run_def app_Start_def main_modules defs)
  moreover have "Resolve ''friends'' (app_registry a') = Some S_Friends"
    using app_lifecycle [OF r] by (simp add: main_modules defs)
  ultimately show ?thesis using r by auto
qed

subsection \<open>The configuration\<close>

lemma get_env_step: "get_field f (env_step env g c) = (if f = g \<and> env (env_key f) \<noteq> '''' then env (env_key f) else get_field f c)"
  by (auto simp: env_step_def get_set_field Let_def)

lemma get_env_steps:
  "get_field f (fold (env_step env) fs c) = (if f \<in> set fs \<and> env (env_key f) \<noteq> '''' then env (env_key f) else get_field f c)"
  by (induction fs arbitrary: c) (auto simp: get_env_step)

lemma env_steps_rest:
  "cf_JWTKeys (fold (env_step env) fs c) = cf_JWTKeys c \<and> cf_RateLimit (fold (env_step env) fs c) = cf_RateLimit c \<and>
   cf_Timeout (fold (env_step env) fs c) = cf_Timeout c \<and>
   dc_MaxOpenConns (cf_Database (fold (env_step env) fs c)) = dc_MaxOpenConns (cf_Database c) \<and>
   cc_DB (cf_Cache (fold (env_step env) fs c)) = cc_DB (cf_Cache c)"
  by (induction fs arbitrary: c) simp_all

lemma applyEnv_order:
  assumes "distinct order" and "set order = set env_fields"
  shows "applyEnv order env c = applyEnv env_fields env c"
proof -
  have "mset order = mset env_fields"
    using assms by (simp add: set_eq_iff_mset_eq_distinct)
  then have "fold (env_step env) order = fold (env_step env) env_fields"
    by (intro fold_multiset_equiv env_step_commute)
  then show ?thesis by (simp add: applyEnv_def)
qed

lemma get_field_JWTKeys [simp]: "get_field f (c\<lparr>cf_JWTKeys := ks\<rparr>) = get_field f c"
  by (cases f) simp_all

text \<open>
  The configuration does not depend on the order in which Go visits the map of pointers. Each of
  the ten fields is the variable of its name if that is not empty, else the value of the file, else
  the default; limits, deadlines, sizes and the set of keys come from the file alone, whatever the
  tags of the struct say, and the variable \<open>JWT_SECRET_\<close> with a key identifier replaces the secret of a
  key that the file has.
\<close>

theorem config_precedence:
  assumes "distinct order" and "set order = set env_fields" and "config_Load read yaml order env path = Inr c"
  shows "config_Load read yaml env_fields env path = Inr c \<and>
    (\<exists>c0. (if path = '''' then c0 = config_defaults
           else \<exists>data. read path = Some data \<and> yaml data config_defaults = Some c0) \<and>
      (\<forall>f. get_field f c = (if env (env_key f) \<noteq> '''' then env (env_key f) else get_field f c0)) \<and>
      cf_RateLimit c = cf_RateLimit c0 \<and> cf_Timeout c = cf_Timeout c0 \<and>
      dc_MaxOpenConns (cf_Database c) = dc_MaxOpenConns (cf_Database c0) \<and> cc_DB (cf_Cache c) = cc_DB (cf_Cache c0) \<and>
      cf_JWTKeys c = map (override_secret env) (cf_JWTKeys c0) \<and>
      map kc_KID (cf_JWTKeys c) = map kc_KID (cf_JWTKeys c0))"
proof -
  have eff: "applyEnv env_fields env c0 = c \<Longrightarrow>
      (\<forall>f. get_field f c = (if env (env_key f) \<noteq> '''' then env (env_key f) else get_field f c0)) \<and>
      cf_RateLimit c = cf_RateLimit c0 \<and> cf_Timeout c = cf_Timeout c0 \<and>
      dc_MaxOpenConns (cf_Database c) = dc_MaxOpenConns (cf_Database c0) \<and> cc_DB (cf_Cache c) = cc_DB (cf_Cache c0) \<and>
      cf_JWTKeys c = map (override_secret env) (cf_JWTKeys c0) \<and>
      map kc_KID (cf_JWTKeys c) = map kc_KID (cf_JWTKeys c0)" for c0
    using env_steps_rest [of env env_fields c0]
    by (auto simp: applyEnv_def Let_def get_env_steps override_secret_def)
  have "config_Load read yaml env_fields env path = Inr c"
    using assms(3) by (auto simp: config_Load_def applyEnv_order [OF assms(1,2)] split: if_splits option.splits)
  moreover from this obtain c0 where "if path = '''' then c0 = config_defaults
      else \<exists>data. read path = Some data \<and> yaml data config_defaults = Some c0" and "applyEnv env_fields env c0 = c"
    by (auto simp: config_Load_def split: if_splits option.splits)
  ultimately show ?thesis using eff by blast
qed

theorem config_precedence_witness:
  "\<exists>c. config_Load (\<lambda>_. None) (\<lambda>_ _. None) (rev env_fields) (\<lambda>k. if k = ''CACHE_ADDR'' then ''redis:6379'' else '''') '''' = Inr c \<and>
    get_field F_CacheAddr c = ''redis:6379'' \<and> get_field F_HTTPAddr c = '':8080''"
proof -
  let ?env = "\<lambda>k. if k = ''CACHE_ADDR'' then ''redis:6379'' else ''''"
  obtain c where c: "config_Load (\<lambda>_. None) (\<lambda>_ _. None) (rev env_fields) ?env '''' = Inr c" by (simp add: config_Load_def)
  have "distinct (rev env_fields)" and "set (rev env_fields) = set env_fields" by simp_all
  from config_precedence [OF this c] have "\<forall>f. get_field f c = (if ?env (env_key f) \<noteq> '''' then ?env (env_key f) else get_field f config_defaults)"
    by auto
  from spec [OF this, of F_CacheAddr] spec [OF this, of F_HTTPAddr] c show ?thesis by (auto simp: config_defaults_def)
qed

subsection \<open>The signing keys\<close>

text \<open>The keys of \<open>configs/config.example.yaml\<close>: YAML has no variables, the value is the text itself.\<close>

definition example_keys :: "jwt_key_config list" where
  "example_keys = [\<lparr>kc_KID = ''key-2026-05'', kc_Secret = ''${JWT_SECRET_CURRENT}''\<rparr>]"

text \<open>The key that everybody who reads the repository knows, with and without that file.\<close>

definition published_key :: "string \<Rightarrow> jwt_key" where
  "published_key path =
     (if path = '''' then default_jwt_key else \<lparr>jk_KID = ''key-2026-05'', jk_Secret = ''${JWT_SECRET_CURRENT}''\<rparr>)"

lemma published_keys:
  assumes "config_Load read yaml order env path = Inr c"
    and "path = '''' \<or> env ''JWT_SECRET_key-2026-05'' = ''''"
    and "\<And>data c0. path \<noteq> '''' \<Longrightarrow> read path = Some data \<Longrightarrow> yaml data config_defaults = Some c0 \<Longrightarrow> cf_JWTKeys c0 = example_keys"
  shows "jwt_keys_of c = [published_key path]"
proof -
  have app: "cf_JWTKeys (applyEnv order env c0) = map (override_secret env) (cf_JWTKeys c0)" for c0
    using env_steps_rest [of env order c0] by (simp add: applyEnv_def Let_def)
  show ?thesis
  proof (cases "path = ''''")
    case True
    then have "cf_JWTKeys c = []" using assms(1) app [of config_defaults] by (auto simp: config_Load_def config_defaults_def)
    then show ?thesis using True by (simp add: jwt_keys_of_def published_key_def)
  next
    case False
    then obtain data c0 where "read path = Some data" "yaml data config_defaults = Some c0" "c = applyEnv order env c0"
      using assms(1) by (auto simp: config_Load_def split: option.splits)
    then have "cf_JWTKeys c = map (override_secret env) example_keys" using app assms(3) False by simp
    then show ?thesis
      using assms(2) False by (simp add: jwt_keys_of_def published_key_def example_keys_def override_secret_def Let_def)
  qed
qed

text \<open>
  C11. A program started without a configuration file, as the image of the repository is, signs its
  tokens with a secret that stands in the source, and no environment variable changes that. With the
  example file, the secret is literally \<open>${JWT_SECRET_CURRENT}\<close>, unless the environment has a variable
  with a hyphen in its name. In both cases anybody can sign a token with the role \<open>admin\<close> that
  opens every admin route for as long as it says, without any account.
\<close>

theorem published_secret_opens_admin_routes:
  assumes "jwt_pkg (as_jwt A)" and "config_Load read yaml order env path = Inr c" and "as_keys A = jwt_keys_of c"
    and "path = '''' \<or> env ''JWT_SECRET_key-2026-05'' = ''''"
    and "\<And>data c0. path \<noteq> '''' \<Longrightarrow> read path = Some data \<Longrightarrow> yaml data config_defaults = Some c0 \<Longrightarrow> cf_JWTKeys c0 = example_keys"
    and "GenerateAccessToken (as_jwt A) [published_key path] t1 t2 u s ''admin'' = Inr forged" and "ascii u" and "ascii s"
    and "now < t1 + 15 * 60" and "rq_header rq ''Authorization'' = ''Bearer '' @ forged"
  shows "admin_route A now handler rq h w =
    handler (rq\<lparr>rq_user := Some u, rq_session := Some s, rq_role := Some ''admin''\<rparr>) h w"
proof -
  have keys: "as_keys A = [published_key path]" using published_keys [OF assms(2,4,5)] assms(3) by simp
  have "ascii ''admin''" by simp
  from jwt_pkg.GenerateAccessToken_verifies(1) [OF assms(1,6) _ assms(7,8) this, of "as_keys A" now] assms(9) keys
  have v: "ValidateToken A now forged = Inr \<lparr>cl_UserID = u, cl_SessionID = s, cl_Role = ''admin'',
      cl_ExpiresAt = Some (t1 + 900), cl_IssuedAt = Some t2\<rparr>"
    by (simp add: ValidateToken_def)
  have split: "split_space2 (rq_header rq ''Authorization'') = [''Bearer'', forged]"
    using split_space2_bearer [of "''Bearer''" forged] by (simp add: assms(10))
  have fold: "equal_fold ''Bearer'' ''bearer''" by code_simp
  have ne: "rq_header rq ''Authorization'' \<noteq> ''''" by (simp add: assms(10))
  show ?thesis
    using ne unfolding admin_route_def AuthGuard_def auth_check_def Let_def split list.case v
    by (simp add: fold v RequireAdmin_def admin_check_def null_string_def)
qed

theorem published_secret_opens_admin_routes_witness:
  "\<exists>c forged. config_Load (\<lambda>_. None) (\<lambda>_ _. None) env_fields (\<lambda>_. ''secret'') '''' = Inr c \<and>
    GenerateAccessToken ref_jwt [published_key ''''] 0 0 ''nobody'' '''' ''admin'' = Inr forged \<and>
    admin_route (sample_auth\<lparr>as_keys := jwt_keys_of c\<rparr>) 0 (ListAuditLogs_h)
      (plain_request\<lparr>rq_header := (\<lambda>_. ''Bearer '' @ forged)\<rparr>) Map.empty (sample_world ()) =
    ListAuditLogs_h (plain_request\<lparr>rq_header := (\<lambda>_. ''Bearer '' @ forged), rq_user := Some ''nobody'', rq_session := Some '''',
      rq_role := Some ''admin''\<rparr>) Map.empty (sample_world ())"
proof -
  obtain c where c: "config_Load (\<lambda>_. None) (\<lambda>_ _. None) env_fields (\<lambda>_. ''secret'') '''' = Inr c"
    by (simp add: config_Load_def)
  let ?A = "sample_auth\<lparr>as_keys := jwt_keys_of c\<rparr>"
  obtain forged where f: "GenerateAccessToken (as_jwt ?A) [published_key ''''] 0 0 ''nobody'' '''' ''admin'' = Inr forged"
    by (simp add: sample_auth_def GenerateAccessToken_def Sign_km_def ref_jwt_def)
  have j: "jwt_pkg (as_jwt ?A)" using jwt_ref.jwt_pkg_axioms by (simp add: sample_auth_def)
  let ?rq = "plain_request\<lparr>rq_header := (\<lambda>_. ''Bearer '' @ forged)\<rparr>"
  have "admin_route ?A 0 ListAuditLogs_h ?rq Map.empty (sample_world ()) =
    ListAuditLogs_h (?rq\<lparr>rq_user := Some ''nobody'', rq_session := Some '''', rq_role := Some ''admin''\<rparr>) Map.empty (sample_world ())"
    by (rule published_secret_opens_admin_routes [OF j c _ _ _ f]) simp_all
  with c f show ?thesis by (auto simp: sample_auth_def)
qed

subsection \<open>Routes\<close>

definition public_routes :: "(string \<times> string) list" where
  "public_routes =
     [(''GET'', ''/healthz''), (''POST'', ''/api/v1/auth/register''), (''POST'', ''/api/v1/auth/login''),
      (''POST'', ''/api/v1/auth/refresh''), (''POST'', ''/api/v1/auth/logout''), (''GET'', ''/api/v1/platforms/''),
      (''GET'', ''/api/v1/platforms/{name}/auth-url''), (''POST'', ''/api/v1/platforms/{name}/callback''),
      (''GET'', ''/api/v1/leaderboard/{code}''), (''POST'', ''/api/v1/admin/login'')]"

lemmas route_defs = main_routes_def Let_def health_routes_def auth_routes_def users_routes_def platforms_public_def
  platforms_protected_def chat_routes_def leaderboard_public_def leaderboard_protected_def friends_RegisterRoutes_def
  friends_Routes_def admin_RegisterRoutes_def

text \<open>
  C24. Every route runs inside \<open>RequestID\<close>, \<open>Recovery\<close>, \<open>Timeout\<close> and \<open>Logger\<close>, in this order. Outside a
  list of ten, every route has \<open>AuthGuard\<close>; the admin routes other than the login have
  \<open>RequireAdmin\<close> right after it. The rule \<open>write\<close> of the configuration guards no route, and
  the admin login, where passwords can be tried, has no limiter at all.
\<close>

theorem routes_guarded:
  assumes "chi_router T" and "(m, p, gs, hn) \<in> set (T [] '''' (main_routes c))"
  shows "take 4 gs = [M_RequestID, M_Recovery, M_Timeout (default_timeout c), M_Logger] \<and>
    (M_AuthGuard \<in> set gs \<or> (m, p) \<in> set public_routes) \<and>
    (take 6 hn = ''admin.'' \<longrightarrow> drop 4 gs = (if hn = ''admin.Login'' then [] else [M_AuthGuard, M_RequireAdmin])) \<and>
    (\<forall>rule. M_RateLimit ''write'' rule \<notin> set gs)"
proof -
  have "(m, p, gs, hn) \<in> set (routes_of [] '''' (main_routes c))"
    using assms(2) by (simp only: chi_router.T_routes_of [OF assms(1)])
  then show ?thesis
    by (simp add: route_defs public_routes_def) (elim disjE; simp)
qed

lemma example_route:
  "(''PUT'', ''/api/v1/admin/users/{id}/status'',
    [M_RequestID, M_Recovery, M_Timeout (default_timeout c), M_Logger, M_AuthGuard, M_RequireAdmin], ''admin.UpdateUserStatus'')
   \<in> set (routes_of [] '''' (main_routes c))"
  by (simp add: route_defs)

theorem routes_guarded_witness:
  "\<exists>gs. (''PUT'', ''/api/v1/admin/users/{id}/status'', gs, ''admin.UpdateUserStatus'')
      \<in> set (routes_of [] '''' (main_routes config_defaults)) \<and>
    drop 4 gs = [M_AuthGuard, M_RequireAdmin]"
  using routes_guarded [OF chi_ref.chi_router_axioms example_route [of config_defaults]] example_route [of config_defaults]
  by (intro exI conjI) auto

lemma friends_handlers:
  "(m, p, gs, hn) \<in> set (routes_of [] '''' (main_routes c)) \<Longrightarrow> take 8 hn = ''friends.'' \<Longrightarrow>
    take 30 p = ''/api/v1/friends/api/v1/friends'' \<and> Handle m (drop 30 p) hn \<in> set friends_Routes"
  by (simp add: route_defs) (elim disjE; simp)

lemma friends_prefix:
  "(m, p, gs, hn) \<in> set (routes_of [] '''' (main_routes c)) \<Longrightarrow> take 15 p = ''/api/v1/friends'' \<Longrightarrow>
    take 15 (drop 15 p) = ''/api/v1/friends''"
  by (simp add: route_defs) (elim disjE; simp)

lemma friends_patterns: "Handle m q hn \<in> set friends_Routes \<Longrightarrow> take 15 q \<noteq> ''/api/v1/friends''"
  by (auto simp: friends_Routes_def)

lemma friends_mounted:
  "Handle m q hn \<in> set friends_Routes \<Longrightarrow>
    (m, ''/api/v1/friends/api/v1/friends'' @ q, [M_RequestID, M_Recovery, M_Timeout (default_timeout c), M_Logger, M_AuthGuard,
      M_RateLimit ''read'' (limit_of (rc_Read (cf_RateLimit c)))], hn) \<in> set (routes_of [] '''' (main_routes c))"
  by (auto simp: route_defs)

text \<open>
  \<open>main\<close> opens a router below \<open>/api/v1/friends\<close> and the friends module mounts its own routes below
  the same prefix in it: every route of the module has the prefix twice, and none of the documented
  paths, such as \<open>POST /api/v1/friends/request\<close>, leads anywhere.
\<close>

theorem friends_routes_doubled:
  assumes "chi_router T"
  shows "(\<forall>(m, p, gs, hn) \<in> set (T [] '''' (main_routes c)). take 8 hn = ''friends.'' \<longrightarrow>
      (\<exists>q. p = ''/api/v1/friends/api/v1/friends'' @ q \<and> Handle m q hn \<in> set friends_Routes)) \<and>
    (\<forall>(m, p, gs, hn) \<in> set (T [] '''' (main_routes c)). \<forall>m' q hn'.
      Handle m' q hn' \<in> set friends_Routes \<longrightarrow> p \<noteq> ''/api/v1/friends'' @ q) \<and>
    (\<forall>m q hn. Handle m q hn \<in> set friends_Routes \<longrightarrow>
      (\<exists>gs. (m, ''/api/v1/friends/api/v1/friends'' @ q, gs, hn) \<in> set (T [] '''' (main_routes c))))"
proof -
  have 1: "\<exists>q. p = ''/api/v1/friends/api/v1/friends'' @ q \<and> Handle m q hn \<in> set friends_Routes"
    if "(m, p, gs, hn) \<in> set (routes_of [] '''' (main_routes c))" "take 8 hn = ''friends.''" for m p gs hn
  proof (intro exI conjI)
    note h = friends_handlers [OF that]
    from h show "Handle m (drop 30 p) hn \<in> set friends_Routes" by (rule conjunct2)
    have "p = take 30 p @ drop 30 p" by simp
    also have "take 30 p = ''/api/v1/friends/api/v1/friends''" using h by (rule conjunct1)
    finally show "p = ''/api/v1/friends/api/v1/friends'' @ drop 30 p" .
  qed
  have 2: "p \<noteq> ''/api/v1/friends'' @ q"
    if "(m, p, gs, hn) \<in> set (routes_of [] '''' (main_routes c))" "Handle m' q hn' \<in> set friends_Routes" for m p gs hn m' q hn'
    using friends_prefix [OF that(1)] friends_patterns [OF that(2)] by auto
  show ?thesis
    unfolding chi_router.T_routes_of [OF assms]
  proof (intro conjI)
    show "\<forall>(m, p, gs, hn) \<in> set (routes_of [] '''' (main_routes c)). take 8 hn = ''friends.'' \<longrightarrow>
      (\<exists>q. p = ''/api/v1/friends/api/v1/friends'' @ q \<and> Handle m q hn \<in> set friends_Routes)"
      by clarify (rule 1)
    show "\<forall>(m, p, gs, hn) \<in> set (routes_of [] '''' (main_routes c)). \<forall>m' q hn'.
      Handle m' q hn' \<in> set friends_Routes \<longrightarrow> p \<noteq> ''/api/v1/friends'' @ q"
      using 2 by fast
    show "\<forall>m q hn. Handle m q hn \<in> set friends_Routes \<longrightarrow>
      (\<exists>gs. (m, ''/api/v1/friends/api/v1/friends'' @ q, gs, hn) \<in> set (routes_of [] '''' (main_routes c)))"
      using friends_mounted by fast
  qed
qed

theorem friends_routes_doubled_witness:
  "\<exists>gs. (''POST'', ''/api/v1/friends/api/v1/friends/request'', gs, ''friends.SendRequest'')
     \<in> set (routes_of [] '''' (main_routes config_defaults))"
proof -
  have "Handle ''POST'' ''/request'' ''friends.SendRequest'' \<in> set friends_Routes" by (simp add: friends_Routes_def)
  with friends_routes_doubled [OF chi_ref.chi_router_axioms, of config_defaults] show ?thesis by force
qed

end
