(* ===== verification/StartupProps.thy ===== *)
theory StartupProps
  imports Startup WiringProps FriendsProps
begin

text \<open>The program that \<open>main\<close> has started: its parts agree with each other and with the tables.\<close>

lemma wired_friends_cached:
  "redis R K \<Longrightarrow> uuid_pkg U \<Longrightarrow> friends_cached R K U (wired_friends P U R)"
  by (simp add: friends_cached_def friends_cached_axioms_def wired_friends_def)

lemma LoadBlockCache_tables:
  assumes "LoadBlockCache F w = (res, w')"
  shows "same_tables (w_db w) (w_db w')"
proof -
  have db: "w_db (fold (\<lambda>b w'. snd (on_redis (c b) w')) rows v) = w_db v" for c :: "block_row \<Rightarrow> ('a, 'c) redis_cmd" and rows and v :: "('a, 'b) world"
    by (induction rows arbitrary: v) simp_all
  show ?thesis
    using assms unfolding LoadBlockCache_def ListAllBlockRelations_sql_def
    by (auto simp: on_db_eq db split: option.splits prod.splits sum.splits dest: same_tables_select_eq)
qed


definition ref_packages :: "keyspace packages" where
  "ref_packages =
     \<lparr>pk_uuid = ref_uuid, pk_jwt = ref_jwt, pk_bcrypt = ref_bcrypt, pk_sha256 = (\<lambda>_. []),
      pk_proto = \<lparr>proto_Marshal = (\<lambda>_. ([], False)), proto_Unmarshal = (\<lambda>_. None)\<rparr>, pk_redis = ref_redis\<rparr>"

definition compose_surroundings :: surroundings where
  "compose_surroundings =
     \<lparr>su_path = '''', su_read = (\<lambda>_. None), su_yaml = (\<lambda>_ _. None), su_order = env_fields,
      su_getenv = (\<lambda>k. if k = ''CACHE_ADDR'' then ''redis:6379'' else ''''),
      su_db_opens = (\<lambda>_. True), su_db_pings = (\<lambda>_. True), su_redis_pings = (\<lambda>_. True), su_binds = (\<lambda>_. True)\<rparr>"

lemma compose_boots:
  "\<exists>c prog w'. boot ref_packages compose_surroundings (sample_world (NewTCPServer '''' 0 0)) = (Inr (c, prog), w')"
proof -
  have "\<exists>w'. LoadBlockCache (pg_friends (assemble ref_packages c)) ((sample_world (NewTCPServer '''' 0 0))\<lparr>w_net := n\<rparr>) = (Inr (), w')" for c n
    by (simp add: LoadBlockCache_def assemble_parts wired_friends_def ref_packages_def on_db_def ListAllBlockRelations_sql_def
        select_nf order_desc_def Let_def)
  then obtain w' where "LoadBlockCache (pg_friends (assemble ref_packages (applyEnv env_fields (su_getenv compose_surroundings) config_defaults)))
      ((sample_world (NewTCPServer '''' 0 0))\<lparr>w_net := pg_tcp (assemble ref_packages (applyEnv env_fields (su_getenv compose_surroundings)
        config_defaults))\<rparr>) = (Inr (), w')" by blast
  then show ?thesis
    by (simp add: boot_def compose_surroundings_def config_Load_def database_New_def cache_New_def Let_def)
qed


text \<open>
  With the defaults, the server stops writing a response fifteen seconds after the request, and the
  deadline of the middleware is thirty: the answer 503 comes when the connection takes nothing any more.
\<close>

lemma default_deadline_after_write_timeout:
  assumes "boot P S w = (Inr (c, prog), w')" and "su_path S = ''''"
  shows "default_timeout c = 30 * second" and "hs_WriteTimeout (pg_http prog) < default_timeout c"
proof -
  have "cf_Timeout c = cf_Timeout config_defaults"
    using boot_Inr(1) [OF assms(1)] assms(2) env_steps_rest [of "su_getenv S" "su_order S" config_defaults]
    by (auto simp: config_Load_def applyEnv_def Let_def)
  moreover have "ParseDuration ''30s'' = Some (30 * second)"
    by (simp add: ParseDuration_def duration_part_def is_unit_char_def is_digit_def digit_val_def unit_ns_def second_def Let_def)
  ultimately show "default_timeout c = 30 * second" by (simp add: default_timeout_def config_defaults_def)
  then show "hs_WriteTimeout (pg_http prog) < default_timeout c"
    by (simp add: boot_Inr(2) [OF assms(1)] assemble_parts NewHTTPServer_def second_def)
qed

lemma fold_redis_net: "w_net (fold (\<lambda>b w. snd (on_redis (g b) w)) bs w) = w_net w"
  by (induction bs arbitrary: w) simp_all

lemma LoadBlockCache_net: "LoadBlockCache F w = (res, w') \<Longrightarrow> w_net w' = w_net w"
  by (auto simp: LoadBlockCache_def on_db_eq fold_redis_net split: option.splits prod.splits sum.splits)

lemmas module_defs = users_module_def auth_module_def platforms_module_def chat_module_def
  leaderboard_module_def admin_module_def friends_module_def BaseModule_def

text \<open>
  C32. The exit code is 0 or 1. It is 0 exactly if the configuration, the database, the cache and
  the load of the blocks succeed and the port of the chat server can be bound; then the chat
  server has listened until the signal and its listener is closed at the end. With the code 1
  nothing was served. Whether the HTTP server could bind its own port plays no role.
\<close>

theorem exit_code_exact:
  assumes "main_exit P S serve w = (code, w')"
    and "\<And>prog v. t_listener (w_net (serve prog v)) = t_listener (w_net v)"
  shows "(code = 0 \<or> code = 1) \<and>
    (code = 0 \<longleftrightarrow> (\<exists>c prog w1. boot P S w = (Inr (c, prog), w1)) \<and> su_binds S '':9091'') \<and>
    (code = 0 \<longrightarrow> t_listener (w_net w') = Some False \<and>
      (\<exists>c prog w1. boot P S w = (Inr (c, prog), w1) \<and>
        w_db w' = w_db (serve prog (w1\<lparr>w_net := (w_net w1)\<lparr>t_hooks := True, t_listener := Some True\<rparr>\<rparr>)))) \<and>
    (code = 1 \<longrightarrow> w_db w' = w_db (snd (boot P S w)))"
proof (cases "boot P S w")
  case (Pair r w1)
  show ?thesis
  proof (cases r)
    case (Inl msg)
    then show ?thesis using assms(1) Pair by (auto simp: main_exit_def)
  next
    case (Inr cp)
    obtain c prog where r: "r = Inr (c, prog)" using Inr by (cases cp) simp
    have addr: "t_addr (w_net w1) = '':9091''" and l: "t_listener (w_net w1) = None"
      using LoadBlockCache_net [OF boot_Inr(3) [OF Pair [unfolded r]]] by (simp_all add: NewTCPServer_def)
    show ?thesis
      using assms(1) Pair r addr l assms(2)
      by (auto simp: main_exit_def app_Run_def app_Start_def app_Stop_def main_modules module_defs
          ChatService_Start_def ChatService_Stop_def server_Start_def server_Close_def split: if_splits)
  qed
qed

theorem exit_code_exact_witness:
  "fst (main_exit ref_packages (compose_surroundings\<lparr>su_binds := (\<lambda>a. a = '':8080'')\<rparr>) (\<lambda>_ w. w)
     (sample_world (NewTCPServer '''' 0 0))) = 1 \<and>
   fst (main_exit ref_packages compose_surroundings (\<lambda>_ w. w) (sample_world (NewTCPServer '''' 0 0))) = 0"
proof -
  let ?S = "compose_surroundings\<lparr>su_binds := (\<lambda>a. a = '':8080'')\<rparr>" and ?w = "sample_world (NewTCPServer '''' 0 0)"
  obtain code w' code2 w2 where m: "main_exit ref_packages ?S (\<lambda>_ w. w) ?w = (code, w')"
    and m2: "main_exit ref_packages compose_surroundings (\<lambda>_ w. w) ?w = (code2, w2)" by (metis prod.exhaust)
  have "\<exists>c prog w1. boot ref_packages compose_surroundings ?w = (Inr (c, prog), w1)" using compose_boots by blast
  moreover have "su_binds compose_surroundings '':9091''" by (simp add: compose_surroundings_def)
  ultimately have "code2 = 0" using exit_code_exact [OF m2 refl] by blast
  moreover have "code = 1" using exit_code_exact [OF m refl] by auto
  ultimately show ?thesis by (simp add: m m2)
qed

end
