(* ===== verification/JsonFacts.thy ===== *)
theory JsonFacts
  imports Json
begin

text \<open>
  The reader consumes what it reads, its fuel is enough, and it inverts the writer on every value
  whose strings are UTF-8, whose numbers are number texts and whose nesting is within the limit.
\<close>

subsection \<open>Reading consumes\<close>

lemma skip_ws_length: "length (skip_ws s) \<le> length s"
  by (simp add: skip_ws_def length_dropWhile_le)

lemma skip_ws_Cons: "skip_ws s = c # cs \<Longrightarrow> length cs < length s"
  using skip_ws_length [of s] by simp

lemma push_Some: "push p x = Some (y, r) \<longleftrightarrow> (\<exists>z. x = Some (z, r) \<and> y = p @ z)"
  by (auto simp: push_def)

lemma str_scan_length: "str_scan s = Some (x, r) \<Longrightarrow> length r < length s"
  by (induction s arbitrary: x r rule: str_scan.induct) (fastforce simp: push_Some split: if_splits list.splits)+

lemma str_rest_length: "str_rest s = Some (x, r) \<Longrightarrow> length r < length s"
  using str_scan_length [of s] by (auto simp: str_rest_def)

lemma digits1_length: "digits1 s = Some (x, r) \<Longrightarrow> length r < length s"
proof -
  assume d: "digits1 s = Some (x, r)"
  then have "takeWhile is_digit s \<noteq> []" and r: "r = dropWhile is_digit s" by (auto simp: digits1_def split: if_splits)
  then have "0 < length (takeWhile is_digit s)" by simp
  then show ?thesis unfolding r using takeWhile_dropWhile_id [of is_digit s]
    by (metis add_less_cancel_right add_0 length_append)
qed

lemma parts_length:
  "sign_part g s = (x, r) \<Longrightarrow> length r \<le> length s" "int_part s = Some (x, r) \<Longrightarrow> length r < length s"
  "frac_part s = Some (x, r) \<Longrightarrow> length r \<le> length s" "exp_part s = Some (x, r) \<Longrightarrow> length r \<le> length s"
proof -
  show sg: "sign_part g s = (x, r) \<Longrightarrow> length r \<le> length s" for g s x r
    by (auto simp: sign_part_def split: list.splits if_splits)
  show "int_part s = Some (x, r) \<Longrightarrow> length r < length s"
    by (auto simp: int_part_def dest!: digits1_length split: list.splits if_splits)
  show "frac_part s = Some (x, r) \<Longrightarrow> length r \<le> length s"
    by (auto simp: frac_part_def push_Some dest!: digits1_length split: list.splits if_splits)
  show "exp_part s = Some (x, r) \<Longrightarrow> length r \<le> length s"
    using sg [of "''+-''"] by (fastforce simp: exp_part_def push_Some dest!: digits1_length split: list.splits if_splits prod.splits)
qed

lemma num_scan_length: "num_scan s = Some (l, r) \<Longrightarrow> length r < length s"
  by (auto simp: num_scan_def push_Some split: prod.splits option.splits dest!: parts_length)

lemma json_word_length: "json_word p v s = Some (x, r) \<Longrightarrow> length r + length p = length s"
  by (induction p v s rule: json_word.induct) (auto split: if_splits)

lemma json_length:
  "json_val k d s = Some (v, r) \<Longrightarrow> length r < length s"
  "json_elems k d s = Some (vs, r) \<Longrightarrow> length r < length s"
  "json_members k d s = Some (ms, r) \<Longrightarrow> length r < length s"
proof (induction k d s and k d s and k d s arbitrary: v r and vs r and ms r rule: json_val_json_elems_json_members.induct)
  case (2 k d s)
  then obtain c cs where s: "skip_ws s = c # cs" by (auto split: list.splits)
  note len = skip_ws_Cons [OF s]
  have word: "json_word p x cs = Some (v, r) \<Longrightarrow> length r < length s" for p x
    using json_word_length [of p x cs v r] len by simp
  have cs: "skip_ws cs = e # es \<Longrightarrow> length es < length s" for e es
    using skip_ws_Cons [of cs e es] len by simp
  consider "c = CHR 0x22" | "c = CHR ''[''" | "c = CHR ''{''" | "c \<noteq> CHR 0x22" "c \<noteq> CHR ''[''" "c \<noteq> CHR ''{''"
    by blast
  then show ?case
  proof cases
    case 1
    then show ?thesis using 2(3) len by (auto simp: s dest!: str_rest_length)
  next
    case c: 2
    have "length t < length cs"
      if "skip_ws cs = e # es" "e \<noteq> CHR '']''" "0 < d" "json_elems k (d - Suc 0) cs = Some (vs, t)" for e es vs t
      using 2(1) [OF s] c that by simp
    then show ?thesis using 2(3) len cs c by (fastforce simp: s split: if_splits list.splits)
  next
    case c: 3
    have "length t < length cs"
      if "skip_ws cs = e # es" "e \<noteq> CHR ''}''" "0 < d" "json_members k (d - Suc 0) cs = Some (vs, t)" for e es vs t
      using 2(2) [OF s] c that by simp
    then show ?thesis using 2(3) len cs c by (fastforce simp: s split: if_splits list.splits)
  next
    case 4
    then show ?thesis using 2(3) word len
      by (auto simp: s split: if_splits dest: num_scan_length word)
  qed
next
  case (4 k d s)
  then show ?case
    by (auto split: option.splits list.splits if_splits dest!: skip_ws_Cons) (meson less_trans)+
next
  case (6 k d s)
  then show ?case
    by (auto split: option.splits list.splits if_splits dest!: skip_ws_Cons str_rest_length) (meson less_trans)+
qed auto

subsection \<open>Enough fuel\<close>

lemma json_fuel_step:
  "2 * length s < k \<Longrightarrow> json_val (Suc k) d s = json_val k d s"
  "2 * length s + 1 < k \<Longrightarrow> json_elems (Suc k) d s = json_elems k d s"
  "2 * length s + 1 < k \<Longrightarrow> json_members (Suc k) d s = json_members k d s"
proof (induction k d s and k d s and k d s rule: json_val_json_elems_json_members.induct)
  case (2 k d s)
  show ?case
  proof (cases "skip_ws s")
    case s: (Cons c cs)
    have "2 * length cs + 1 < k" using skip_ws_Cons [OF s] 2(3) by simp
    then show ?thesis using 2(1,2) [OF s]
      by (simp add: s del: json_val.simps(2) split: list.split) (simp add: json_val.simps(2) s split: list.split)
  qed simp
next
  case (4 k d s)
  have v: "json_val (Suc k) d s = json_val k d s" using 4(1,3) by simp
  have "json_elems (Suc k) d cs = json_elems k d cs"
    if "json_val k d s = Some (x, r)" "skip_ws r = CHR '','' # cs" for x r cs
    using 4(2) [OF that(1) refl that(2) refl] json_length(1) [OF that(1)] skip_ws_Cons [OF that(2)] 4(3) by simp
  then show ?case
    by (simp add: json_elems.simps(2) [of "Suc k"] json_elems.simps(2) [of k] v del: json_elems.simps json_val.simps
        split: option.split list.split)
next
  case (6 k d s)
  have "json_val (Suc k) d cs = json_val k d cs"
    if "skip_ws s = q # qs" "str_rest qs = Some (x, r)" "skip_ws r = c # cs" "q = CHR 0x22" "c = CHR '':''" for q qs x r c cs
    using 6(1) [OF that(1) _ that(2) refl that(3)] that(4,5) 6(3) skip_ws_Cons [OF that(1)] str_rest_length [OF that(2)]
      skip_ws_Cons [OF that(3)] by simp
  moreover have "json_members (Suc k) d es = json_members k d es"
    if "skip_ws s = q # qs" "str_rest qs = Some (x, r)" "skip_ws r = c # cs" "q = CHR 0x22" "c = CHR '':''"
      "json_val k d cs = Some (v, t)" "skip_ws t = CHR '','' # es" for q qs x r c cs v t es
    using 6(2) [OF that(1) _ that(2) refl that(3) _ that(6) refl that(7) refl] that(4,5) 6(3) skip_ws_Cons [OF that(1)]
      str_rest_length [OF that(2)] skip_ws_Cons [OF that(3)] json_length(1) [OF that(6)] skip_ws_Cons [OF that(7)] by simp
  ultimately show ?case
    by (simp add: json_members.simps(2) [of "Suc k"] json_members.simps(2) [of k] del: json_members.simps json_val.simps
        split: option.split list.split)
qed simp_all

lemma json_fuel:
  assumes "2 * length s < k"
  shows "json_val k d s = json_val (2 * length s + 1) d s"
  using assms
proof (induction k)
  case (Suc k)
  then show ?case by (cases "2 * length s < k") (simp_all add: json_fuel_step less_Suc_eq del: json_val.simps)
qed simp

subsection \<open>Strings written and read\<close>

lemma seq_len_cases:
  assumes "seq_len bs = n" "0 < n"
  obtains a t where "bs = a # t" "n = 1" "a < 128"
  | a b t where "bs = a # b # t" "n = 2" "194 \<le> a" "a < 224" "cont_byte b"
  | a b c t where "bs = a # b # c # t" "n = 3" "224 \<le> a" "a < 240" "cont_byte b" "a = 224 \<longrightarrow> 160 \<le> b" "a = 237 \<longrightarrow> b < 160"
      "cont_byte c"
  | a b c d t where "bs = a # b # c # d # t" "n = 4" "240 \<le> a" "a < 245" "cont_byte b" "a = 240 \<longrightarrow> 144 \<le> b"
      "a = 244 \<longrightarrow> b < 144" "cont_byte c" "cont_byte d"
proof (cases bs)
  case Nil
  then show ?thesis using assms by simp
next
  case (Cons a t)
  consider "a < 128" | "194 \<le> a" "a < 224" | "224 \<le> a" "a < 240" | "240 \<le> a" "a < 245"
    using assms by (auto simp: Cons split: if_splits)
  then show ?thesis
  proof cases
    case 1
    then show ?thesis using assms that(1) Cons by simp
  next
    case 2
    then show ?thesis using assms that(2) Cons by (auto split: list.splits if_splits)
  next
    case 3
    then show ?thesis using assms that(3) Cons by (simp split: list.splits if_splits)
  next
    case 4
    then show ?thesis using assms that(4) Cons by (simp split: list.splits if_splits)
  qed
qed

lemma seq_len_take:
  assumes "seq_len bs = n" "0 < n"
  shows "seq_len (take n bs @ t) = n" "n \<le> length bs" "n \<le> 4"
    "n = 1 \<Longrightarrow> hd bs < 128" "1 < n \<Longrightarrow> \<forall>b\<in>set (take n bs). 128 \<le> b"
  using assms by (rule seq_len_cases; simp add: cont_byte_def numeral_2_eq_2 numeral_3_eq_3 numeral_eq_Suc)+

lemma rune_len_take:
  assumes "rune_len s = n" "0 < n"
  shows "rune_len (take n s @ t) = n" "n \<le> length s" "1 < n \<Longrightarrow> \<forall>c\<in>set (take n s). 128 \<le> (of_char c :: nat)"
    "n = 1 \<Longrightarrow> of_char (hd s) < (128::nat)"
proof -
  note a = assms [unfolded rune_len_def]
  note b = seq_len_take [OF a]
  have n: "n \<le> 4" "n \<le> length s" using b(2,3) by simp_all
  have tk: "take n (map of_char (take 4 s)) = map of_char (take n s)" using n by (simp add: take_map min_def)
  have "(map of_char (take 4 (take n s @ t)) :: nat list) = take n (map of_char (take 4 s)) @ map of_char (take (4 - n) t)"
    using n unfolding tk by (simp add: min_def)
  then show "rune_len (take n s @ t) = n" unfolding rune_len_def by (simp only: b(1))
  show "n \<le> length s" by (rule n)
  show "1 < n \<Longrightarrow> \<forall>c\<in>set (take n s). 128 \<le> (of_char c :: nat)" using b(5) unfolding tk by simp
  show "n = 1 \<Longrightarrow> of_char (hd s) < (128::nat)" using b(4) n by (cases s) simp_all
qed

lemma rune_len_ascii: "of_char c < (128::nat) \<Longrightarrow> rune_len (c # s) = 1"
  by (simp add: rune_len_def)

lemma hex_escape_parse:
  assumes "n < 64" shows "hex_parse 0 [CHR ''0'', CHR ''0'', digit_char (n div 16), digit_char (n mod 16)] = Some n"
proof -
  have "hex_val CHR ''0'' = Some 0" by (simp add: hex_val_def)
  moreover have "n div 16 < 16" using assms by simp
  ultimately show ?thesis by (simp add: hex_val_digit_char)
qed

lemma json_char_cases:
  obtains (special) "c \<in> {CHR 0x22, CHR 0x5C, CHR 0x08, CHR 0x0C, CHR 0x0A, CHR 0x0D, CHR 0x09}"
  | (escaped) "json_char c = hex_escape (of_char c)" "of_char c < (64::nat)"
  | (plain) "json_char c = [c]" "c \<noteq> CHR 0x22" "c \<noteq> CHR 0x5C" "32 \<le> (of_char c :: nat)"
proof -
  have c: "c = char_of (of_char c :: nat)" by simp
  consider "of_char c \<in> {34, 92, 8, 12, 10, 13, 9 :: nat}"
    | "of_char c \<notin> {34, 92, 8, 12, 10, 13, 9 :: nat}" "of_char c < (32::nat) \<or> of_char c \<in> {60, 62, 38 :: nat}"
    | "of_char c \<notin> {34, 92, 8, 12, 10, 13, 9 :: nat}" "\<not> (of_char c < (32::nat) \<or> of_char c \<in> {60, 62, 38 :: nat})"
    by blast
  then show ?thesis
  proof cases
    case 1
    then have "c \<in> char_of ` {34, 92, 8, 12, 10, 13, 9 :: nat}" by (subst c) (rule imageI)
    then show ?thesis using special by (simp only: image_insert image_empty char_codes)
  next
    case 2
    then have "of_char c < (64::nat)" by auto
    then show ?thesis using 2 escaped by (simp add: json_char_def)
  next
    case 3
    then have "c \<noteq> CHR 0x5C" "c \<noteq> CHR 0x22" by auto
    then show ?thesis using 3 plain by (simp add: json_char_def)
  qed
qed

lemma unquote_char:
  assumes "of_char c < (128::nat)"
  shows "unquote (json_char c @ t) = c # unquote t"
proof (cases c rule: json_char_cases)
  case special
  then show ?thesis by (auto simp: json_char_def unescape_def char_codes)
next
  case escaped
  then show ?thesis using hex_escape_parse [of "of_char c"] by (simp add: hex_escape_def unquote_u_def surrogate_def utf8_enc_def)
next
  case plain
  then show ?thesis using rune_len_ascii [OF assms] by simp
qed

lemma json_char_byte: "128 \<le> (of_char c :: nat) \<Longrightarrow> json_char c = [c]"
  by (auto simp: json_char_def Let_def)

lemma json_chars_bytes: "\<forall>c\<in>set s. 128 \<le> (of_char c :: nat) \<Longrightarrow> concat (map json_char s) = s"
  by (induction s) (simp_all add: json_char_byte)

lemma unquote_rune: "p = c # t \<Longrightarrow> c \<noteq> CHR 0x5C \<Longrightarrow> rune_len (p @ q) = length p \<Longrightarrow> unquote (p @ q) = p @ unquote q"
  by simp

lemma unquote_inverse: "utf8_ok s \<Longrightarrow> unquote (concat (map json_char s)) = s"
proof (induction s rule: utf8_ok.induct)
  case (1 s)
  show ?case
  proof (cases "s = []")
    case s: False
    let ?n = "rune_len s"
    from 1 s have n: "0 < ?n" "utf8_ok (drop ?n s)" by (simp_all add: utf8_ok.simps [of s] split: if_splits)
    with 1 s have IH: "unquote (concat (map json_char (drop ?n s))) = drop ?n s" by simp
    show ?thesis
    proof (cases "?n = 1")
      case True
      from s obtain c t where ct: "s = c # t" by (cases s) simp_all
      show ?thesis using IH True rune_len_take(4) [OF refl n(1)] by (simp add: ct unquote_char)
    next
      case False
      with n have l: "1 < ?n" by simp
      let ?p = "take ?n s" and ?q = "concat (map json_char (drop ?n s))"
      note r = rune_len_take [OF refl n(1)]
      obtain c t where p: "?p = c # t" using s n by (cases ?p) auto
      have "of_char c \<noteq> (92::nat)" using r(3) [OF l] p by auto
      then have c: "c \<noteq> CHR 0x5C" by auto
      have len: "length ?p = ?n" using r(2) by simp
      have "concat (map json_char s) = ?p @ ?q"
        using json_chars_bytes [OF r(3) [OF l]] by (metis append_take_drop_id concat_append map_append)
      also have "unquote \<dots> = ?p @ unquote ?q"
        using p c by (rule unquote_rune) (simp only: r(1) len)
      finally show ?thesis by (simp only: IH append_take_drop_id)
    qed
  qed simp
qed

lemma push_push [simp]: "push a (push b x) = push (a @ b) x"
  by (cases x) (auto simp: push_def)

lemma push_Some_eq [simp]: "push p (Some (x, r)) = Some (p @ x, r)"
  by (simp add: push_def)

lemma str_scan_char: "str_scan (json_char c @ t) = push (json_char c) (str_scan t)"
proof (cases c rule: json_char_cases)
  case special
  then show ?thesis by (auto simp: json_char_def unescape_def char_codes)
next
  case escaped
  then show ?thesis using hex_escape_parse [of "of_char c"] by (simp add: hex_escape_def)
next
  case plain
  then show ?thesis by simp
qed

lemma str_scan_inverse: "str_scan (concat (map json_char s) @ CHR 0x22 # r) = Some (concat (map json_char s), r)"
  by (induction s) (simp_all add: str_scan_char)

lemma str_rest_inverse: "utf8_ok s \<Longrightarrow> str_rest (concat (map json_char s) @ CHR 0x22 # r) = Some (s, r)"
  by (simp add: str_rest_def str_scan_inverse unquote_inverse)

subsection \<open>Numbers written and read\<close>

text \<open>What may follow a number.\<close>

definition num_stop :: "string \<Rightarrow> bool" where
  "num_stop r \<longleftrightarrow> (case r of [] \<Rightarrow> True | c # _ \<Rightarrow> \<not> is_digit c \<and> c \<notin> set ''.eE'')"

lemma digits1_append: "digits1 s = Some (x, y) \<Longrightarrow> num_stop r \<Longrightarrow> digits1 (s @ r) = Some (x, y @ r)"
proof -
  assume a: "digits1 s = Some (x, y)" "num_stop r"
  then have xy: "x = takeWhile is_digit s" "y = dropWhile is_digit s" "x \<noteq> []" by (auto simp: digits1_def split: if_splits)
  have "takeWhile is_digit (s @ r) = x \<and> dropWhile is_digit (s @ r) = y @ r"
  proof (cases "\<forall>c\<in>set s. is_digit c")
    case True
    then have "takeWhile is_digit (s @ r) = s @ takeWhile is_digit r" "dropWhile is_digit (s @ r) = dropWhile is_digit r"
      "takeWhile is_digit s = s" "dropWhile is_digit s = []" by (simp_all add: takeWhile_eq_all_conv)
    moreover have "takeWhile is_digit r = []" "dropWhile is_digit r = r"
      using a(2) by (auto simp: num_stop_def split: list.splits)
    ultimately show ?thesis by (simp only: xy append_Nil append_Nil2 simp_thms)
  next
    case False
    then obtain c where "c \<in> set s" "\<not> is_digit c" by blast
    then show ?thesis by (simp add: xy)
  qed
  then show ?thesis using xy(3) by (auto simp: digits1_def)
qed

lemma parts_append:
  assumes "num_stop r"
  shows "sign_part g s = (x, y) \<Longrightarrow> s \<noteq> [] \<Longrightarrow> sign_part g (s @ r) = (x, y @ r)"
    "int_part s = Some (x, y) \<Longrightarrow> int_part (s @ r) = Some (x, y @ r)"
    "frac_part s = Some (x, y) \<Longrightarrow> frac_part (s @ r) = Some (x, y @ r)"
    "exp_part s = Some (x, y) \<Longrightarrow> exp_part (s @ r) = Some (x, y @ r)"
proof -
  show sg: "sign_part g s = (x, y) \<Longrightarrow> s \<noteq> [] \<Longrightarrow> sign_part g (s @ r) = (x, y @ r)" for g s x y
    by (cases s) (auto simp: sign_part_def split: if_splits)
  show "int_part s = Some (x, y) \<Longrightarrow> int_part (s @ r) = Some (x, y @ r)"
    using digits1_append [OF _ assms, of s] by (cases s) (auto simp: int_part_def split: if_splits)
  show "frac_part s = Some (x, y) \<Longrightarrow> frac_part (s @ r) = Some (x, y @ r)"
    using assms by (cases s) (auto simp: frac_part_def push_Some digits1_append num_stop_def split: if_splits list.split)
  show "exp_part s = Some (x, y) \<Longrightarrow> exp_part (s @ r) = Some (x, y @ r)"
  proof (cases s)
    case Nil
    then show "exp_part s = Some (x, y) \<Longrightarrow> ?thesis"
      using assms by (auto simp: exp_part_def num_stop_def split: list.split)
  next
    case (Cons c cs)
    assume e: "exp_part s = Some (x, y)"
    obtain sn t where st: "sign_part ''+-'' cs = (sn, t)" by fastforce
    show ?thesis
    proof (cases "c = CHR ''e'' \<or> c = CHR ''E''")
      case True
      then have d: "push (c # sn) (digits1 t) = Some (x, y)" using e st by (auto simp: exp_part_def Cons)
      then have "cs \<noteq> []" using st by (auto simp: sign_part_def digits1_def push_def)
      then have "sign_part ''+-'' (cs @ r) = (sn, t @ r)" using sg st by blast
      then show ?thesis using True d digits1_append [OF _ assms, of t] by (auto simp: exp_part_def Cons push_Some)
    next
      case False
      then show ?thesis using e by (auto simp: exp_part_def Cons)
    qed
  qed
qed

lemma num_scan_append:
  assumes "num_scan s = Some (x, y)" and "num_stop r"
  shows "num_scan (s @ r) = Some (x, y @ r)"
proof -
  obtain sg s1 where 1: "sign_part ''-'' s = (sg, s1)" by fastforce
  have s: "s \<noteq> []" using assms(1) by (auto simp: num_scan_def sign_part_def int_part_def)
  from assms(1) 1 show ?thesis
    by (auto simp: num_scan_def push_Some parts_append [OF assms(2)] s split: option.splits prod.splits)
qed

lemma num_scan_head:
  assumes "num_scan (c # cs) = Some (x, y)"
  shows "c = CHR ''-'' \<or> is_digit c"
  using assms
  by (auto simp: num_scan_def sign_part_def int_part_def digits1_def is_digit_def split: if_splits option.splits)

subsection \<open>Values written and read\<close>

text \<open>Values that the library writes as they are, with at most \<open>d\<close> levels.\<close>

fun json_wf :: "nat \<Rightarrow> json \<Rightarrow> bool" where
  "json_wf d JNull = True"
| "json_wf d (JBool b) = True"
| "json_wf d (JNum l) = (num_scan l = Some (l, []))"
| "json_wf d (JStr s) = utf8_ok s"
| "json_wf d (JArr vs) = (0 < d \<and> list_all (json_wf (d - 1)) vs)"
| "json_wf d (JObj ms) = (0 < d \<and> list_all (\<lambda>(k, v). utf8_ok k \<and> json_wf (d - 1) v) ms)"

lemma skip_ws_head: "\<not> is_ws c \<Longrightarrow> skip_ws (c # s) = c # s"
  by (simp add: skip_ws_def)

lemma is_ws_simps [simp]:
  "\<not> is_ws (CHR 0x22)" "\<not> is_ws (CHR '','')" "\<not> is_ws (CHR '':'')" "\<not> is_ws (CHR '']'')" "\<not> is_ws (CHR ''}'')"
  "\<not> is_ws (CHR ''['')" "\<not> is_ws (CHR ''{'')" "\<not> is_ws (CHR ''n'')" "\<not> is_ws (CHR ''t'')" "\<not> is_ws (CHR ''f'')"
  by (simp_all add: is_ws_def)

lemma num_head_ws: "c = CHR ''-'' \<or> is_digit c \<Longrightarrow>
    \<not> is_ws c \<and> c \<notin> {CHR 0x22, CHR ''['', CHR ''{'', CHR ''n'', CHR ''t'', CHR ''f'', CHR '']'', CHR ''}''}"
  by (auto simp: is_ws_def is_digit_def)

text \<open>The head of a printed value, for the brackets that might close an array before it.\<close>

lemma json_print_head:
  assumes "json_wf d v"
  obtains c cs where "json_print v = c # cs" "\<not> is_ws c" "c \<noteq> CHR '']''"
proof (cases v)
  case (JNum l)
  then have n: "num_scan l = Some (l, [])" using assms by simp
  then obtain c cs where l: "l = c # cs" by (cases l) (auto simp: num_scan_def sign_part_def int_part_def)
  show ?thesis using that [of c cs] JNum l num_head_ws [OF num_scan_head [OF n [unfolded l]]] by simp
next
  case (JBool b)
  then show ?thesis using that by (cases b) simp_all
qed (use that in \<open>auto simp: json_string_def\<close>)

lemma num_stop_delims [simp]: "num_stop []" "num_stop (CHR '','' # r)" "num_stop (CHR '']'' # r)" "num_stop (CHR ''}'' # r)"
  by (simp_all add: num_stop_def is_digit_def)

lemma commas_Cons: "commas (x # xs) = x @ (if xs = [] then [] else '','' @ commas xs)"
  by (cases xs) simp_all

lemma elems_inverse:
  assumes "\<And>v k r. v \<in> set vs \<Longrightarrow> num_stop r \<Longrightarrow> 2 * length (json_print v) < k \<Longrightarrow>
      json_val k d (json_print v @ r) = Some (v, r)"
    and "vs \<noteq> []" and "2 * length (commas (map json_print vs)) + 1 < k"
  shows "json_elems k d (commas (map json_print vs) @ CHR '']'' # r) = Some (vs, r)"
  using assms
proof (induction vs arbitrary: k)
  case (Cons v vs)
  obtain k' where k: "k = Suc k'" using Cons.prems(3) by (cases k) simp_all
  have len: "2 * length (json_print v) < k'" using Cons.prems(3) by (simp add: k commas_Cons)
  show ?case
  proof (cases "vs = []")
    case True
    then show ?thesis using Cons.prems(1) [OF _ _ len] by (simp add: k skip_ws_head)
  next
    case False
    have "json_elems k' d (commas (map json_print vs) @ CHR '']'' # r) = Some (vs, r)"
      using Cons.prems False by (intro Cons.IH) (auto simp: k commas_Cons)
    then show ?thesis using Cons.prems(1) [OF _ _ len] False by (simp add: k commas_Cons skip_ws_head)
  qed
qed simp

lemma members_inverse:
  assumes "\<And>x v k r. (x, v) \<in> set ms \<Longrightarrow> num_stop r \<Longrightarrow> 2 * length (json_print v) < k \<Longrightarrow>
      json_val k d (json_print v @ r) = Some (v, r)"
    and "\<And>x v. (x, v) \<in> set ms \<Longrightarrow> utf8_ok x"
    and "ms \<noteq> []" and "2 * length (commas (map (\<lambda>(x, v). json_string x @ '':'' @ json_print v) ms)) + 1 < k"
  shows "json_members k d (commas (map (\<lambda>(x, v). json_string x @ '':'' @ json_print v) ms) @ CHR ''}'' # r) = Some (ms, r)"
  using assms
proof (induction ms arbitrary: k)
  case (Cons m ms)
  obtain x v where m: "m = (x, v)" by (cases m)
  let ?p = "\<lambda>ms. commas (map (\<lambda>(x, v). json_string x @ '':'' @ json_print v) ms)"
  obtain k' where k: "k = Suc k'" using Cons.prems(4) by (cases k) simp_all
  have len: "2 * length (json_print v) < k'" using Cons.prems(4) by (simp add: k m commas_Cons)
  have x: "utf8_ok x" using Cons.prems(2) [of x v] m by simp
  have first: "skip_ws (json_string x @ t) = CHR 0x22 # concat (map json_char x) @ CHR 0x22 # t" for t
    by (simp add: json_string_def skip_ws_head)
  show ?case
  proof (cases "ms = []")
    case True
    then show ?thesis using Cons.prems(1) [of x v, OF _ _ len]
      by (simp add: k m first str_rest_inverse [OF x] skip_ws_head)
  next
    case False
    have "utf8_ok y" if "(y, u) \<in> set ms" for y u using Cons.prems(2) [of y u] that by simp
    moreover have "json_val k d (json_print u @ r) = Some (u, r)"
      if "(y, u) \<in> set ms" "num_stop r" "2 * length (json_print u) < k" for y u k r
      using Cons.prems(1) [of y u r k] that by simp
    moreover have "2 * length (?p ms) + 1 < k'" using Cons.prems(4) False by (simp add: k m commas_Cons)
    ultimately have "json_members k' d (?p ms @ CHR ''}'' # r) = Some (ms, r)"
      using False Cons.IH by blast
    then show ?thesis using Cons.prems(1) [of x v, OF _ _ len] False
      by (simp add: k m commas_Cons first str_rest_inverse [OF x] skip_ws_head)
  qed
qed simp

lemma json_inverse:
  "json_wf d v \<Longrightarrow> num_stop r \<Longrightarrow> 2 * length (json_print v) < k \<Longrightarrow> json_val k d (json_print v @ r) = Some (v, r)"
proof (induction v arbitrary: d k r)
  case (JNum l)
  then obtain k' where k: "k = Suc k'" by (cases k) simp_all
  have n: "num_scan (l @ r) = Some (l, r)" using num_scan_append [of l l "[]" r] JNum by simp
  obtain c cs where l: "l = c # cs" using JNum(1) by (cases l) (auto simp: num_scan_def sign_part_def int_part_def)
  have "num_scan (c # cs) = Some (c # cs, [])" using JNum(1) l by simp
  note h = num_head_ws [OF num_scan_head [OF this]]
  show ?case using n h by (simp add: k l skip_ws_head)
next
  case (JStr s)
  then show ?case by (cases k) (simp_all add: json_string_def skip_ws_head str_rest_inverse)
next
  case (JArr vs)
  obtain k' where k: "k = Suc k'" using JArr(4) by (cases k) simp_all
  show ?case
  proof (cases vs)
    case Nil
    then show ?thesis using JArr.prems by (simp add: k skip_ws_head)
  next
    case (Cons v ws)
    have wf: "0 < d" "\<And>v. v \<in> set vs \<Longrightarrow> json_wf (d - 1) v" using JArr.prems(1) by (simp_all add: list_all_iff)
    have e: "json_elems k' (d - 1) (commas (map json_print vs) @ CHR '']'' # r) = Some (vs, r)"
      using JArr.prems(3) Cons by (intro elems_inverse JArr.IH wf) (simp_all add: k)
    obtain c cs where c: "json_print v = c # cs" "\<not> is_ws c" "c \<noteq> CHR '']''"
      using json_print_head [of "d - 1" v] wf(2) Cons by auto
    have "commas (map json_print vs) @ CHR '']'' # r =
        c # cs @ (if ws = [] then [] else '','' @ commas (map json_print ws)) @ CHR '']'' # r"
      by (simp add: Cons commas_Cons c)
    then show ?thesis using e c(2,3) wf(1) by (simp add: k skip_ws_head del: commas.simps)
  qed
next
  case (JObj ms)
  obtain k' where k: "k = Suc k'" using JObj(4) by (cases k) simp_all
  let ?p = "commas (map (\<lambda>(x, v). json_string x @ '':'' @ json_print v) ms)"
  show ?case
  proof (cases ms)
    case Nil
    then show ?thesis using JObj.prems by (simp add: k skip_ws_head)
  next
    case (Cons m ns)
    have wf: "0 < d" "\<And>x v. (x, v) \<in> set ms \<Longrightarrow> json_wf (d - 1) v" "\<And>x v. (x, v) \<in> set ms \<Longrightarrow> utf8_ok x"
      using JObj.prems(1) by (auto simp: list_all_iff)
    have e: "json_members k' (d - 1) (?p @ CHR ''}'' # r) = Some (ms, r)"
      using JObj.prems(3) Cons by (intro members_inverse JObj.IH wf) (auto simp: k)
    obtain s where "?p @ CHR ''}'' # r = CHR 0x22 # s"
      by (cases m) (simp add: Cons commas_Cons json_string_def)
    then show ?thesis using e wf(1) by (simp add: k skip_ws_head del: commas.simps)
  qed
qed (case_tac k; simp add: skip_ws_head)+

text \<open>The whole text of a value is valid and gives the value back.\<close>

lemma json_round_trip:
  assumes "json_wf 10000 v"
  shows "json_decode (json_print v) = Some v" "json_valid (json_print v)"
  using json_inverse [OF assms, of "[]" "2 * length (json_print v) + 2"]
  by (simp_all add: json_decode_def json_valid_def skip_ws_def)

end
