(* ===== verification/Bodies.thy ===== *)
theory Bodies
  imports JsonFacts Wiring
begin

text \<open>
  The bodies of requests: from the bytes that a handler gives to \<open>json.NewDecoder\<close> to the struct it
  reads. A field takes the members of the object whose name equals its own up to case, where
  Unicode knows two more letters, the Kelvin sign and the long s. The last member wins, \<open>null\<close> leaves
  a value as it is, other members are ignored, and a value of another type is an error.
\<close>

subsection \<open>Decoding a struct\<close>

fun fold_name :: "string \<Rightarrow> string" where
  "fold_name [] = []"
| "fold_name (c # cs) =
     (if c = CHR 0xC5 \<and> take 1 cs = [CHR 0xBF] then CHR ''S'' # fold_name (drop 1 cs)
      else if c = CHR 0xE2 \<and> take 2 cs = [CHR 0x84, CHR 0xAA] then CHR ''K'' # fold_name (drop 2 cs)
      else (let n = of_char c in if 97 \<le> n \<and> n \<le> (122::nat) then char_of (n - 32) else c) # fold_name cs)"

definition is_field :: "string \<Rightarrow> string \<Rightarrow> bool" where
  "is_field name key \<longleftrightarrow> key = name \<or> fold_name key = fold_name name"

fun field :: "(json \<Rightarrow> 'a \<Rightarrow> 'a option) \<Rightarrow> string \<Rightarrow> (string \<times> json) list \<Rightarrow> 'a \<Rightarrow> 'a option" where
  "field rd name [] x = Some x"
| "field rd name ((k, v) # ms) x =
     (if is_field name k then (case rd v x of None \<Rightarrow> None | Some y \<Rightarrow> field rd name ms y)
      else field rd name ms x)"

text \<open>The types of fields: \<open>string\<close>, \<open>*string\<close> and \<open>float64\<close>, which does not take what rounds to infinity.\<close>

definition as_string :: "json \<Rightarrow> string \<Rightarrow> string option" where
  "as_string v x = (case v of JStr s \<Rightarrow> Some s | JNull \<Rightarrow> Some x | _ \<Rightarrow> None)"

definition as_pointer :: "json \<Rightarrow> string option \<Rightarrow> string option option" where
  "as_pointer v x = (case v of JStr s \<Rightarrow> Some (Some s) | JNull \<Rightarrow> Some None | _ \<Rightarrow> None)"

definition float_limit :: rat where
  "float_limit = 2 ^ 1024 - 2 ^ 970"

definition as_float :: "json \<Rightarrow> f64 \<Rightarrow> f64 option" where
  "as_float v x =
     (case v of
        JNum l \<Rightarrow> if \<bar>num_value l\<bar> < float_limit then Some (Fin (num_value l)) else None
      | JNull \<Rightarrow> Some x
      | _ \<Rightarrow> None)"

text \<open>A struct is read from an object; \<open>null\<close> leaves the struct as it is.\<close>

definition members_of :: "string \<Rightarrow> (string \<times> json) list option" where
  "members_of body =
     (case json_decode body of
        Some (JObj ms) \<Rightarrow> Some ms
      | Some JNull \<Rightarrow> Some []
      | _ \<Rightarrow> None)"

abbreviation string_field :: "string \<Rightarrow> (string \<times> json) list \<Rightarrow> string option" where
  "string_field name ms \<equiv> field as_string name ms ''''"

definition one_string :: "string \<Rightarrow> string \<Rightarrow> string option" where
  "one_string name body = (case members_of body of None \<Rightarrow> None | Some ms \<Rightarrow> string_field name ms)"

definition two_strings :: "string \<Rightarrow> string \<Rightarrow> string \<Rightarrow> (string \<times> string) option" where
  "two_strings n1 n2 body =
     (case members_of body of
        None \<Rightarrow> None
      | Some ms \<Rightarrow>
     (case (string_field n1 ms, string_field n2 ms) of
        (Some x, Some y) \<Rightarrow> Some (x, y)
      | _ \<Rightarrow> None))"

subsection \<open>The structs of the handlers\<close>

definition register_body :: "string \<Rightarrow> register_request option" where
  "register_body body =
     (case members_of body of
        None \<Rightarrow> None
      | Some ms \<Rightarrow>
     (case (string_field ''username'' ms, string_field ''password'' ms, string_field ''email'' ms) of
        (Some u, Some p, Some e) \<Rightarrow> Some \<lparr>rr_Username = u, rr_Password = p, rr_Email = e\<rparr>
      | _ \<Rightarrow> None))"

definition login_body :: "string \<Rightarrow> login_request option" where
  "login_body body = map_option (\<lambda>(u, p). \<lparr>lr_Username = u, lr_Password = p\<rparr>) (two_strings ''username'' ''password'' body)"

definition refresh_body :: "string \<Rightarrow> string option" where
  "refresh_body = one_string ''refreshToken''"

definition admin_login_body :: "string \<Rightarrow> admin_login_request option" where
  "admin_login_body body =
     map_option (\<lambda>(u, p). \<lparr>al_Username = u, al_Password = p\<rparr>) (two_strings ''username'' ''password'' body)"

definition status_body :: "string \<Rightarrow> string option" where
  "status_body = one_string ''status''"

definition profile_body :: "string \<Rightarrow> profile_update option" where
  "profile_body body =
     (case members_of body of
        None \<Rightarrow> None
      | Some ms \<Rightarrow>
     (case (field as_pointer ''displayName'' ms None, field as_pointer ''avatarUrl'' ms None) of
        (Some d, Some a) \<Rightarrow> Some \<lparr>pr_DisplayName = d, pr_AvatarURL = a\<rparr>
      | _ \<Rightarrow> None))"

definition friend_body :: "string \<Rightarrow> string option" where
  "friend_body = one_string ''to_user_id''"

definition block_body :: "string \<Rightarrow> (string \<times> string) option" where
  "block_body = two_strings ''user_id'' ''reason''"

definition room_body :: "string \<Rightarrow> create_room_request option" where
  "room_body body =
     (case members_of body of
        None \<Rightarrow> None
      | Some ms \<Rightarrow>
     (case (string_field ''type'' ms, string_field ''name'' ms, string_field ''metadata'' ms) of
        (Some t, Some n, Some m) \<Rightarrow> Some \<lparr>crr_type = t, crr_name = n, crr_metadata = m\<rparr>
      | _ \<Rightarrow> None))"

definition code_body :: "string \<Rightarrow> string option" where
  "code_body = one_string ''code''"

definition score_body :: "string \<Rightarrow> f64 option" where
  "score_body body = (case members_of body of None \<Rightarrow> None | Some ms \<Rightarrow> field as_float ''score'' ms (Fin 0))"

subsection \<open>What clients send is what handlers read\<close>

lemma is_field_same [simp]: "is_field n n"
  by (simp add: is_field_def)

text \<open>An object with exactly the fields of a struct gives them back.\<close>

lemma members_of_print: "list_all (\<lambda>(k, v). utf8_ok k \<and> json_wf 9999 v) ms \<Longrightarrow> members_of (json_print (JObj ms)) = Some ms"
  using json_round_trip(1) [of "JObj ms"] by (simp add: members_of_def del: json_print.simps)

lemma as_string_simps [simp]: "as_string (JStr s) x = Some s" "as_string JNull x = Some x"
  by (simp_all add: as_string_def)

text \<open>The last member with the name of a field decides, whatever precedes it.\<close>

lemma field_append:
  "field rd name (ms @ ns) x = (case field rd name ms x of None \<Rightarrow> None | Some y \<Rightarrow> field rd name ns y)"
  by (induction rd name ms x rule: field.induct) (auto split: option.splits)

lemma field_last:
  assumes "is_field name k" and "field rd name ms x = Some y"
  shows "field rd name (ms @ [(k, v)]) x = rd v y"
  using assms by (simp add: field_append split: option.split)

lemma field_none: "list_all (\<lambda>(k, v). \<not> is_field name k) ms \<Longrightarrow> field rd name ms x = Some x"
  by (induction ms) auto

text \<open>A score is never infinite and always a number.\<close>

lemma score_body_finite: "score_body body = Some x \<Longrightarrow> \<exists>q. x = Fin q"
proof -
  have "\<exists>q. y = Fin q" if "field as_float name ms (Fin r) = Some y" for name ms r y
    using that
    by (induction ms arbitrary: r) (auto simp: as_float_def split: if_splits option.splits json.splits)
  then show "score_body body = Some x \<Longrightarrow> \<exists>q. x = Fin q" by (auto simp: score_body_def split: option.splits)
qed

subsection \<open>Round trip\<close>

text \<open>The names of the fields of one struct are different also when folded.\<close>

lemma names_differ:
  "\<not> is_field ''username'' ''password''" "\<not> is_field ''username'' ''email''" "\<not> is_field ''password'' ''username''"
  "\<not> is_field ''password'' ''email''" "\<not> is_field ''email'' ''username''" "\<not> is_field ''email'' ''password''"
  "\<not> is_field ''displayName'' ''avatarUrl''" "\<not> is_field ''avatarUrl'' ''displayName''"
  "\<not> is_field ''user_id'' ''reason''" "\<not> is_field ''reason'' ''user_id''"
  "\<not> is_field ''type'' ''name''" "\<not> is_field ''type'' ''metadata''" "\<not> is_field ''name'' ''type''"
  "\<not> is_field ''name'' ''metadata''" "\<not> is_field ''metadata'' ''type''" "\<not> is_field ''metadata'' ''name''"
  by code_simp+

text \<open>Members that a struct with these fields ignores.\<close>

definition ignored :: "string list \<Rightarrow> (string \<times> json) list \<Rightarrow> bool" where
  "ignored names ms \<longleftrightarrow> list_all (\<lambda>(k, v). utf8_ok k \<and> json_wf 9999 v \<and> list_all (\<lambda>n. \<not> is_field n k) names) ms"

lemma ignored_field: "ignored names ms \<Longrightarrow> n \<in> set names \<Longrightarrow> field rd n (ms @ ns) x = field rd n ns x"
proof -
  assume "ignored names ms" "n \<in> set names"
  then have "list_all (\<lambda>(k, v). \<not> is_field n k) ms" by (auto simp: ignored_def list_all_iff)
  then show ?thesis by (simp add: field_append field_none)
qed

lemma ignored_wf: "ignored names ms \<Longrightarrow> list_all (\<lambda>(k, v). utf8_ok k \<and> json_wf 9999 v) ms"
  by (auto simp: ignored_def list_all_iff)

lemma utf8_ok_ascii: "list_all (\<lambda>c. of_char c < (128::nat)) s \<Longrightarrow> utf8_ok s"
proof (induction s)
  case (Cons c s)
  then have "rune_len (c # s) = 1" by (simp add: rune_len_ascii)
  with Cons show ?case by (subst utf8_ok.simps) simp
qed (simp add: utf8_ok.simps)



end
