(* ===== verification/Api.thy ===== *)
theory Api
  imports Bodies Startup
begin

text \<open>
  The program as one system: an HTTP call from its bytes to its answer, through the router, the
  middleware around the route and the handler, and the frames of the chat protocol, on one world.
  The router is a parameter. A call is one whose handler ends within its deadline; what \<open>Timeout\<close> does
  after the deadline is in \<open>Middleware\<close>.
\<close>

subsection \<open>A call\<close>

datatype api_data =
    Auth_D auth_data | Users_D users_data | Platform_D platform_data | Board_D board_data
  | Admin_D admin_data | Social_D social_data | Health_D "string \<rightharpoonup> string"

text \<open>
  What comes over the wire, what the clocks and the source of randomness give to the code on its way,
  and what the server of WeChat replies. The route parameters and the context values of
  \<open>hc_request\<close> are not used.
\<close>

record http_call =
  hc_method :: string
  hc_path :: string
  hc_request :: request
  hc_body :: string
  hc_id_bytes :: bytes
  hc_duration :: string
  hc_verify_at :: int
  hc_limit_at :: int
  hc_draws :: draws
  hc_salt :: bytes
  hc_admin_from :: int
  hc_admin_issued :: int
  hc_state_nanos :: int
  hc_recent_at :: int
  hc_exchange_at :: int
  hc_get_token :: "string \<Rightarrow> token_reply json_reply"
  hc_get_user :: "string \<Rightarrow> user_reply json_reply"

definition incoming :: "http_call \<Rightarrow> (string \<Rightarrow> string) \<Rightarrow> request" where
  "incoming x ps = (hc_request x)\<lparr>rq_param := ps, rq_user := None, rq_session := None, rq_role := None\<rparr>"

subsection \<open>The table of handlers\<close>

type_synonym 'r http_handler = "request \<Rightarrow> headers \<Rightarrow> 'r chat_world \<Rightarrow> api_data response go_result \<times> 'r chat_world"

definition map_response :: "('a \<Rightarrow> 'b) \<Rightarrow> 'a response \<Rightarrow> 'b response" where
  "map_response f r = \<lparr>rs_status = rs_status r, rs_headers = rs_headers r, rs_body = map_body f (rs_body r)\<rparr>"

definition answers :: "('d \<Rightarrow> api_data) \<Rightarrow> 'd response \<times> 'w \<Rightarrow> api_data response go_result \<times> 'w" where
  "answers f r = (Returns (map_response f (fst r)), snd r)"

definition may_panic :: "('d \<Rightarrow> api_data) \<Rightarrow> 'd response go_result \<times> 'w \<Rightarrow> api_data response go_result \<times> 'w" where
  "may_panic f r = ((case fst r of Returns resp \<Rightarrow> Returns (map_response f resp) | Panics msg \<Rightarrow> Panics msg), snd r)"

definition auth_handlers :: "'r program \<Rightarrow> http_call \<Rightarrow> (string \<times> 'r http_handler) list" where
  "auth_handlers g x =
     [(''auth.register'', \<lambda>rq h w. answers Auth_D (register_h (pg_auth g) (hc_salt x) (register_body (hc_body x)) h w)),
      (''auth.login'', \<lambda>rq h w. answers Auth_D (login_h (pg_auth g) (hc_draws x) (login_body (hc_body x)) h w)),
      (''auth.refresh'', \<lambda>rq h w. answers Auth_D (refresh_h (pg_auth g) (hc_draws x) (refresh_body (hc_body x)) h w)),
      (''auth.logout'', \<lambda>rq h w. answers Auth_D (logout_h (pg_auth g) rq h w))]"

definition users_handlers :: "uuid_lib \<Rightarrow> http_call \<Rightarrow> (string \<times> 'r http_handler) list" where
  "users_handlers U x =
     [(''users.getMe'', \<lambda>rq h w. answers Users_D (getMe_h U rq h w)),
      (''users.updateMe'', \<lambda>rq h w. answers Users_D (updateMe_h U rq (profile_body (hc_body x)) h w)),
      (''users.getUser'', \<lambda>rq h w. answers Users_D (getUser_h U rq h w)),
      (''users.searchUsers'', \<lambda>rq h w. answers Users_D (searchUsers_h U rq h w))]"

definition platforms_handlers :: "uuid_lib \<Rightarrow> registry \<Rightarrow> http_call \<Rightarrow> (string \<times> 'r http_handler) list" where
  "platforms_handlers U reg x =
     [(''platforms.listPlatforms'', \<lambda>rq h w. answers Platform_D (listPlatforms_h reg h, w)),
      (''platforms.getAuthURL'', \<lambda>rq h w. answers Platform_D (getAuthURL_h reg (hc_state_nanos x) rq h, w)),
      (''platforms.callback'', \<lambda>rq h w. may_panic Platform_D (callback_h U reg rq (code_body (hc_body x)) h w)),
      (''platforms.bind'', \<lambda>rq h w. answers Platform_D (bind_h U reg rq (code_body (hc_body x)) h w)),
      (''platforms.unbind'', \<lambda>rq h w. answers Platform_D (unbind_h U rq h w)),
      (''platforms.listBindings'', \<lambda>rq h w. answers Platform_D (listBindings_h U rq h w))]"

definition chat_handlers :: "uuid_lib \<Rightarrow> http_call \<Rightarrow> (string \<times> 'r http_handler) list" where
  "chat_handlers U x =
     [(''chat.listRooms'', \<lambda>rq h w. answers Social_D (listRooms_h U rq h w)),
      (''chat.createRoom'', \<lambda>rq h w. answers Social_D (createRoom_h U rq (room_body (hc_body x)) h w)),
      (''chat.getMessages'', \<lambda>rq h w. answers Social_D (getMessages_h U rq h w))]"

definition leaderboard_handlers :: "'r program \<Rightarrow> http_call \<Rightarrow> (string \<times> 'r http_handler) list" where
  "leaderboard_handlers g x =
     [(''leaderboard.getRanking'', \<lambda>rq h w. answers Board_D (getRanking_h (pg_board g) rq h w)),
      (''leaderboard.submitScore'', \<lambda>rq h w. answers Board_D (submitScore_h (pg_board g) rq (score_body (hc_body x)) h w)),
      (''leaderboard.getMyRank'', \<lambda>rq h w. answers Board_D (getMyRank_h (pg_board g) rq h w))]"

definition admin_handlers :: "uuid_lib \<Rightarrow> 'r program \<Rightarrow> http_call \<Rightarrow> (string \<times> 'r http_handler) list" where
  "admin_handlers U g x =
     [(''admin.Login'', \<lambda>rq h w. answers Admin_D
         (AdminLogin_h (pg_auth g) (hc_admin_from x) (hc_admin_issued x) (admin_login_body (hc_body x)) h w)),
      (''admin.ListUsers'', \<lambda>rq h w. answers Admin_D (ListUsers_h rq h w)),
      (''admin.UpdateUserStatus'', \<lambda>rq h w. answers Admin_D (UpdateUserStatus_h U (status_body (hc_body x)) rq h w)),
      (''admin.ListAuditLogs'', \<lambda>rq h w. answers Admin_D (ListAuditLogs_h rq h w))]"

definition friends_handlers :: "'r program \<Rightarrow> http_call \<Rightarrow> (string \<times> 'r http_handler) list" where
  "friends_handlers g x =
     (let F = pg_friends g in
     [(''friends.SendRequest'', \<lambda>rq h w. answers Social_D (SendRequest_h F rq (friend_body (hc_body x)) h w)),
      (''friends.AcceptRequest'', \<lambda>rq h w. answers Social_D (AcceptRequest_h F rq h w)),
      (''friends.RejectRequest'', \<lambda>rq h w. answers Social_D (RejectRequest_h F rq h w)),
      (''friends.Block'', \<lambda>rq h w. answers Social_D (Block_h F rq (block_body (hc_body x)) h w)),
      (''friends.Unblock'', \<lambda>rq h w. answers Social_D (Unblock_h F rq h w)),
      (''friends.ListBlocked'', \<lambda>rq h w. answers Social_D (ListBlocked_h F rq h w)),
      (''friends.RemoveFriend'', \<lambda>rq h w. answers Social_D (RemoveFriend_h F rq h w)),
      (''friends.ListRecentContacts'', \<lambda>rq h w. answers Social_D (ListRecentContacts_h F (hc_recent_at x) rq h w)),
      (''friends.ListFriends'', \<lambda>rq h w. answers Social_D (ListFriends_h F rq h w)),
      (''friends.ListPendingRequests'', \<lambda>rq h w. answers Social_D (ListPendingRequests_h F rq h w)),
      (''friends.GetOnlineFriends'', \<lambda>rq h w. may_panic Social_D (GetOnlineFriends_h F rq h w))])"

definition http_handlers :: "'r packages \<Rightarrow> 'r program \<Rightarrow> http_call \<Rightarrow> (string \<times> 'r http_handler) list" where
  "http_handlers P g x =
     (let U = pk_uuid P in
      auth_handlers g x @ users_handlers U x
      @ platforms_handlers U (pg_registry g (hc_get_token x) (hc_get_user x) (hc_exchange_at x)) x
      @ chat_handlers U x @ leaderboard_handlers g x @ admin_handlers U g x @ friends_handlers g x
      @ [(''health.ping'', \<lambda>rq h w. answers Health_D (health_ping h, w))])"

subsection \<open>The middleware around a route\<close>

text \<open>
  The world with the lines of the access log. A call ends with an answer, or with a panic that nobody
  recovers and that ends the process.
\<close>

type_synonym 'r api_state = "'r chat_world \<times> log_entry list"

datatype served = Ran "api_data response go_result" | Exited string

type_synonym 'r stage = "request \<Rightarrow> headers \<Rightarrow> 'r api_state \<Rightarrow> served \<times> 'r api_state"

text \<open>A handler under \<open>Timeout\<close> runs in a goroutine of its own, where \<open>Recovery\<close> does not reach.\<close>

primrec apply_guard :: "'r packages \<Rightarrow> 'r program \<Rightarrow> http_call \<Rightarrow> guard \<Rightarrow> 'r stage \<Rightarrow> 'r stage" where
  "apply_guard P g x M_RequestID next_stage = RequestID (hc_id_bytes x) next_stage"
| "apply_guard P g x M_Recovery next_stage = (\<lambda>rq h s.
     case next_stage rq h s of
       (Ran y, s1) \<Rightarrow> (let (resp, s2) = Recovery (\<lambda>_ _ s. (y, s)) rq h s1 in (Ran (Returns resp), s2))
     | (Exited msg, s1) \<Rightarrow> (Exited msg, s1))"
| "apply_guard P g x (M_Timeout d) next_stage = (\<lambda>rq h s.
     case next_stage rq h s of
       (Ran (Panics msg), s1) \<Rightarrow> (Exited msg, s1)
     | (Ran (Returns resp), s1) \<Rightarrow> (Ran (Returns resp), s1)
     | (Exited msg, s1) \<Rightarrow> (Exited msg, s1))"
| "apply_guard P g x M_Logger next_stage = (\<lambda>rq h s.
     case next_stage rq h s of
       (Ran y, s1) \<Rightarrow>
         (let (z, s2) = Logger (hc_method x) (hc_path x) (hc_duration x) (\<lambda>_ _ w. (y, w)) rq h s1 in (Ran z, s2))
     | (Exited msg, s1) \<Rightarrow> (Exited msg, s1))"
| "apply_guard P g x M_AuthGuard next_stage = (\<lambda>rq h s.
     case auth_check (pg_auth g) (hc_verify_at x) rq h of
       Inl resp \<Rightarrow> (Ran (Returns resp), s)
     | Inr rq' \<Rightarrow> next_stage rq' h s)"
| "apply_guard P g x M_RequireAdmin next_stage = (\<lambda>rq h s.
     case admin_check rq h of
       Inl resp \<Rightarrow> (Ran (Returns resp), s)
     | Inr rq' \<Rightarrow> next_stage rq' h s)"
| "apply_guard P g x (M_RateLimit grp cfg) next_stage = (\<lambda>rq h s.
     case rate_check (NewRateLimiter (redisLimiterAdapter (pk_redis P)) cfg) grp (hc_limit_at x) rq h (w_redis (fst s)) of
       (Reject resp, r) \<Rightarrow> (Ran (Returns resp), ((fst s)\<lparr>w_redis := r\<rparr>, snd s))
     | (Pass h', r) \<Rightarrow> next_stage rq h' ((fst s)\<lparr>w_redis := r\<rparr>, snd s))"

definition run_guards :: "'r packages \<Rightarrow> 'r program \<Rightarrow> http_call \<Rightarrow> guard list \<Rightarrow> 'r stage \<Rightarrow> 'r stage" where
  "run_guards P g x gs k = foldr (apply_guard P g x) gs k"

lemma run_guards_simps [simp]:
  "run_guards P g x [] k = k" "run_guards P g x (gd # gs) k = apply_guard P g x gd (run_guards P g x gs k)"
  by (simp_all add: run_guards_def)

definition on_world :: "'r http_handler \<Rightarrow> 'r stage" where
  "on_world k = (\<lambda>rq h s. let (y, w) = k rq h (fst s) in (Ran y, (w, snd s)))"

subsection \<open>The router\<close>

text \<open>
  What the router finds for a method and a path: a route of the table with the values of its
  parameters, or nothing. Then it answers itself (404, or 405 if only the method is wrong), behind
  the middleware of the routers that the path leads into.
\<close>

datatype matched = Found route "string \<Rightarrow> string" | Missed "guard list" "headers \<Rightarrow> api_data response"

type_synonym router = "route list \<Rightarrow> string \<Rightarrow> string \<Rightarrow> matched"

definition root_guards :: "config \<Rightarrow> guard list" where
  "root_guards c = [M_RequestID, M_Recovery, M_Timeout (default_timeout c), M_Logger]"

definition main_table :: "config \<Rightarrow> route list" where
  "main_table c = routes_of [] '''' (main_routes c)"

text \<open>The middleware that only some routes have.\<close>

definition inner_guard :: "guard \<Rightarrow> bool" where
  "inner_guard gd \<longleftrightarrow> gd \<in> {M_AuthGuard, M_RequireAdmin} \<or> (\<exists>grp cfg. gd = M_RateLimit grp cfg)"

locale chi_match =
  fixes rtr :: router and c :: config
  assumes found: "rtr (main_table c) m p = Found r ps \<Longrightarrow> r \<in> set (main_table c) \<and> fst r = m"
    and missed: "rtr (main_table c) m p = Missed gs f \<Longrightarrow>
      (\<exists>inner. gs = root_guards c @ inner \<and> list_all inner_guard inner) \<and> rs_status (f h) \<in> {404, 405} \<and>
      rs_headers (f h) ''X-Request-ID'' = h ''X-Request-ID''"

definition http_serve :: "router \<Rightarrow> 'r packages \<Rightarrow> config \<Rightarrow> http_call \<Rightarrow> 'r api_state \<Rightarrow> served \<times> 'r api_state" where
  "http_serve rtr P c x s =
     (let g = assemble P c in
      case rtr (routes_of [] '''' (pg_routes g)) (hc_method x) (hc_path x) of
        Missed gs f \<Rightarrow>
          run_guards P g x gs (\<lambda>rq h s. (Ran (Returns (f h)), s)) (incoming x (\<lambda>_. '''')) Map.empty s
      | Found (_, _, gs, name) ps \<Rightarrow>
          (case map_of (http_handlers P g x) name of
             None \<Rightarrow> (Exited ''no such handler'', s)
           | Some k \<Rightarrow> run_guards P g x gs (on_world k) (incoming x ps) Map.empty s))"

subsection \<open>A router that splits paths at their slashes\<close>

fun segments :: "string \<Rightarrow> string list" where
  "segments [] = [[]]"
| "segments (c # cs) =
     (if c = CHR ''/'' then [] # segments cs
      else (case segments cs of [] \<Rightarrow> [[c]] | s # ss \<Rightarrow> (c # s) # ss))"

text \<open>The parameters of a path that a pattern matches.\<close>

fun match_path :: "string list \<Rightarrow> string list \<Rightarrow> (string \<times> string) list option" where
  "match_path [] [] = Some []"
| "match_path (p # ps) (s # ss) =
     (case match_path ps ss of
        None \<Rightarrow> None
      | Some b \<Rightarrow>
          if p = s then Some b
          else if p \<noteq> [] \<and> hd p = CHR ''{'' \<and> s \<noteq> [] then Some ((butlast (tl p), s) # b)
          else None)"
| "match_path _ _ = None"

definition params_of :: "(string \<times> string) list \<Rightarrow> string \<Rightarrow> string" where
  "params_of b name = null_string (map_of b name)"

definition not_found :: "headers \<Rightarrow> api_data response" where
  "not_found h = http_Error ''404 page not found'' 404 h"

fun ref_find :: "guard list \<Rightarrow> router" where
  "ref_find gs [] m p = Missed gs not_found"
| "ref_find gs ((m', pat, gs', name) # T) m p =
     (case (if m' = m then match_path (segments pat) (segments p) else None) of
        None \<Rightarrow> ref_find gs T m p
      | Some b \<Rightarrow> Found (m', pat, gs', name) (params_of b))"

lemma ref_find_found: "ref_find gs T m p = Found r ps \<Longrightarrow> r \<in> set T \<and> fst r = m"
  by (induction gs T m p rule: ref_find.induct) (auto split: option.splits if_splits)

lemma ref_find_missed: "ref_find gs T m p = Missed gs' f \<Longrightarrow> gs' = gs \<and> f = not_found"
  by (induction gs T m p rule: ref_find.induct) (auto split: option.splits if_splits)

interpretation ref_match: chi_match "ref_find (root_guards c)" c for c :: config
proof unfold_locales
  show "(\<exists>inner. gs = root_guards c @ inner \<and> list_all inner_guard inner) \<and> rs_status (f h) \<in> {404, 405} \<and>
      rs_headers (f h) ''X-Request-ID'' = h ''X-Request-ID''"
    if "ref_find (root_guards c) (main_table c) m p = Missed gs f" for m p gs f h
    using ref_find_missed [OF that] by (simp add: root_guards_def not_found_def http_Error_def)
qed (rule ref_find_found)

subsection \<open>All that can happen\<close>

text \<open>
  An HTTP call, or an event of the chat server with the reading of the clock that its token validator
  makes. The process ends with the first panic that nobody recovers.
\<close>

datatype sys_event = Http http_call | Tcp int chat_event

definition chat_end :: "'r chat_svc \<Rightarrow> chat_event \<Rightarrow> 'r chat_world \<Rightarrow> string option" where
  "chat_end C ev w =
     (case ev of
        FrameIn p f \<Rightarrow> (case fst (handleMessage C p f w) of Panics msg \<Rightarrow> Some msg | Returns _ \<Rightarrow> None)
      | StreamEnd p \<Rightarrow>
          (case fst (handleDisconnect C p (on_net (drop_conn p) w)) of Panics msg \<Rightarrow> Some msg | Returns _ \<Rightarrow> None)
      | _ \<Rightarrow> None)"

definition sys_step :: "router \<Rightarrow> 'r packages \<Rightarrow> config \<Rightarrow> sys_event \<Rightarrow> 'r api_state \<Rightarrow> string option \<times> 'r api_state" where
  "sys_step rtr P c ev s =
     (case ev of
        Http x \<Rightarrow>
          (case http_serve rtr P c x s of
             (Exited msg, s1) \<Rightarrow> (Some msg, s1)
           | (Ran _, s1) \<Rightarrow> (None, s1))
      | Tcp now ce \<Rightarrow>
          (let C = pg_chat (assemble P c) now
           in (chat_end C ce (fst s), (chat_step C ce (fst s), snd s))))"

fun sys_run :: "router \<Rightarrow> 'r packages \<Rightarrow> config \<Rightarrow> sys_event list \<Rightarrow> 'r api_state \<Rightarrow> string option \<times> 'r api_state" where
  "sys_run rtr P c [] s = (None, s)"
| "sys_run rtr P c (ev # evs) s =
     (case sys_step rtr P c ev s of
        (None, s1) \<Rightarrow> sys_run rtr P c evs s1
      | (Some msg, s1) \<Rightarrow> (Some msg, s1))"

end
