(* ===== verification/Effects.thy ===== *)
theory Effects
  imports Assembly Columns
begin

text \<open>
  What the services do to the world, as calls of the \<open>Querier\<close> interface. The locale \<open>policy\<close> is
  the contract: a set of permitted calls and a property of the world that every permitted call,
  every Redis command and every push to sockets keeps. Every method of every service keeps the
  property as soon as its own writes are permitted; reading is always permitted. So one lemma for a
  method serves every invariant and every rule about who may write what. \<open>table_policy\<close> is the
  contract for a property of the tables alone, which the chat handlers keep too.
\<close>

definition is_read :: "querier_call \<Rightarrow> bool" where
  "is_read q \<longleftrightarrow>
     (case q of
        Q_CountUserCredentials _ \<Rightarrow> True | Q_GetAdminByUsername _ \<Rightarrow> True | Q_GetChatMessages _ _ _ \<Rightarrow> True
      | Q_GetChatRoom _ \<Rightarrow> True | Q_GetCredentialByTypeIdentifier _ _ \<Rightarrow> True | Q_GetCredentialsByUserID _ \<Rightarrow> True
      | Q_GetFriendship _ \<Rightarrow> True | Q_GetFriendshipByUsers _ _ \<Rightarrow> True | Q_GetLeaderboardConfig _ \<Rightarrow> True
      | Q_GetPlatformBinding _ _ \<Rightarrow> True | Q_GetPlatformBindingsByUserID _ \<Rightarrow> True | Q_GetRoomMembers _ \<Rightarrow> True
      | Q_GetSessionByID _ \<Rightarrow> True | Q_GetUserByID _ \<Rightarrow> True | Q_GetUserByUsername _ \<Rightarrow> True
      | Q_IsBlockedBy _ _ \<Rightarrow> True | Q_ListAllBlockRelations \<Rightarrow> True | Q_ListAuditLogs _ _ \<Rightarrow> True
      | Q_ListBlockedUsers _ \<Rightarrow> True | Q_ListFriends _ \<Rightarrow> True | Q_ListLeaderboardConfigs \<Rightarrow> True
      | Q_ListPendingRequests _ \<Rightarrow> True | Q_ListRoomsByUser _ \<Rightarrow> True | Q_SearchUsers _ _ _ \<Rightarrow> True
      | _ \<Rightarrow> False)"

text \<open>The database after a list of calls, all of them permitted.\<close>

definition reached :: "(querier_call \<Rightarrow> bool) \<Rightarrow> db \<Rightarrow> db \<Rightarrow> bool" where
  "reached A d d' \<longleftrightarrow> (\<exists>qs. list_all A qs \<and> d' = fold run_query qs d)"

lemma reached_refl [simp]: "reached A d d"
  unfolding reached_def by (rule exI [of _ "[]"]) simp

lemma reached_step: "A q \<Longrightarrow> reached A d d' \<Longrightarrow> reached A d (run_query q d')"
  unfolding reached_def by (elim exE conjE, rule_tac x = "qs @ [q]" in exI) simp

lemma reached_trans: "reached A a b \<Longrightarrow> reached A b c \<Longrightarrow> reached A a c"
  unfolding reached_def by (elim exE conjE, rule_tac x = "qs @ qsa" in exI) simp

lemma reached_mono: "reached A a b \<Longrightarrow> (\<And>q. A q \<Longrightarrow> B q) \<Longrightarrow> reached B a b"
  unfolding reached_def by (metis list.pred_mono_strong)

lemma reached_inv:
  assumes "reached A d d'" and "P d" and "\<And>q d. A q \<Longrightarrow> P d \<Longrightarrow> P (run_query q d)"
  shows "P d'"
proof -
  from assms(1) obtain qs where "list_all A qs" and d': "d' = fold run_query qs d" by (auto simp: reached_def)
  then have "P (fold run_query qs d)" using assms(2) by (induction qs arbitrary: d) (simp_all add: assms(3))
  then show ?thesis by (simp add: d')
qed

subsection \<open>The contract\<close>

text \<open>Pushing to sockets changes no identity, no room and no registration of a connection.\<close>

definition sends :: "(tcp_server \<Rightarrow> tcp_server) \<Rightarrow> bool" where
  "sends f \<longleftrightarrow> (\<forall>s. same_ids s (f s))"

definition notifier_sends :: "('r, tcp_server) friends_svc \<Rightarrow> bool" where
  "notifier_sends F \<longleftrightarrow> (\<forall>n. fs_notifier F = Some n \<longrightarrow>
     (\<forall>a b. sends (n_NotifyBlocked n a b) \<and> sends (n_NotifyFriendRemoved n a b)) \<and>
     (\<forall>a b ids. sends (n_NotifyOnline n a b ids) \<and> sends (n_NotifyOffline n a ids)))"

lemma wired_notifier_sends: "notifier_sends (wired_friends P U R)"
  by (simp add: notifier_sends_def sends_def wired_friends_def notifier_same)
     (simp add: ChatPresenceNotifier_def NotifyBlocked_def NotifyFriendRemoved_def)

locale policy =
  fixes A :: "querier_call \<Rightarrow> bool" and holds :: "('r, tcp_server) world \<Rightarrow> bool"
  assumes closed: "A q \<Longrightarrow> holds w \<Longrightarrow> holds (w\<lparr>w_db := run_query q (w_db w)\<rparr>)"
    and reads: "is_read q \<Longrightarrow> A q"
    and redis_free [simp]: "holds (w\<lparr>w_redis := r\<rparr>) = holds w"
    and closed_sends: "sends f \<Longrightarrow> holds w \<Longrightarrow> holds (w\<lparr>w_net := f (w_net w)\<rparr>)"
begin

definition kept :: "'a query \<Rightarrow> bool" where
  "kept q \<longleftrightarrow> (\<forall>w. holds w \<longrightarrow> holds (snd (on_db q w)))"

lemma keeps_call: "A q \<Longrightarrow> (\<And>d. snd (f d) = run_query q d) \<Longrightarrow> kept f"
  by (simp add: kept_def on_db_def split_beta closed)

lemma keeps_writes:
  "A (Q_AddRoomMember i j s) \<Longrightarrow> kept (AddRoomMember_sql i j s)"
  "A (Q_CreateAuditLog p) \<Longrightarrow> kept (CreateAuditLog_sql p)"
  "A (Q_CreateBlockRelation i j os) \<Longrightarrow> kept (CreateBlockRelation_sql i j os)"
  "A (Q_CreateChatMessage i j s t) \<Longrightarrow> kept (CreateChatMessage_sql i j s t)"
  "A (Q_CreateChatRoom s os ot) \<Longrightarrow> kept (CreateChatRoom_sql s os ot)"
  "A (Q_CreateCredential i s t os b) \<Longrightarrow> kept (CreateCredential_sql i s t os b)"
  "A (Q_CreateFriendship i j s) \<Longrightarrow> kept (CreateFriendship_sql i j s)"
  "A (Q_CreatePlatformBinding i s t v x on os) \<Longrightarrow> kept (CreatePlatformBinding_sql i s t v x on os)"
  "A (Q_CreateScore i j y) \<Longrightarrow> kept (CreateScore_sql i j y)"
  "A (Q_CreateUser s os ot) \<Longrightarrow> kept (CreateUser_sql s os ot)"
  "A (Q_DeleteBlockRelation i j) \<Longrightarrow> kept (DeleteBlockRelation_sql i j)"
  "A (Q_DeleteFriendship i) \<Longrightarrow> kept (DeleteFriendship_sql i)"
  "A (Q_DeleteFriendshipByUsers i j) \<Longrightarrow> kept (DeleteFriendshipByUsers_sql i j)"
  "A (Q_DeletePlatformBinding i s) \<Longrightarrow> kept (DeletePlatformBinding_sql i s)"
  "A (Q_RemoveRoomMember i j) \<Longrightarrow> kept (RemoveRoomMember_sql i j)"
  "A (Q_UpdateFriendshipStatus i s) \<Longrightarrow> kept (UpdateFriendshipStatus_sql i s)"
  "A (Q_UpdateUserProfile i os ot ou) \<Longrightarrow> kept (UpdateUserProfile_sql i os ot ou)"
  "A (Q_UpdateUserStatus i s) \<Longrightarrow> kept (UpdateUserStatus_sql i s)"
  by (erule keeps_call, simp)+

lemma keeps_reads: "kept (select f)"
proof -
  have "holds (w\<lparr>w_db := tick (w_db w)\<rparr>)" if "holds w" for w
    using closed [of Q_ListAllBlockRelations w] reads [of Q_ListAllBlockRelations] that
    by (simp add: is_read_def ListAllBlockRelations_sql_def)
  then show ?thesis by (simp add: kept_def on_db_def split_beta)
qed

lemma selects_keep:
  "kept (CountUserCredentials_sql i)" "kept (GetAdminByUsername_sql s)" "kept (GetChatMessages_sql i n m)"
  "kept (GetCredentialByTypeIdentifier_sql s t)" "kept (GetFriendshipByUsers_sql i j)"
  "kept (GetLeaderboardConfig_sql s)" "kept (GetPlatformBinding_sql s t)"
  "kept (GetPlatformBindingsByUserID_sql i)" "kept (GetRoomMembers_sql i)" "kept (GetUserByID_sql i)"
  "kept (IsBlockedBy_sql i j)" "kept ListAllBlockRelations_sql" "kept (ListAuditLogs_sql n m)"
  "kept (ListBlockedUsers_sql i)" "kept (ListFriends_sql i)" "kept (ListPendingRequests_sql i)"
  "kept (ListRoomsByUser_sql i)" "kept (SearchUsers_sql s n m)"
  by (simp_all add: select_sql_defs keeps_reads)

text \<open>
  The rules of the calculus: what has to hold before a program so that \<open>P\<close> holds of the tables
  after it. A program is a function to a value and the new world, or to the new world.
\<close>

lemma wp_bind: "holds (snd m) \<Longrightarrow> (\<And>r w. holds w \<Longrightarrow> holds (snd (f r w))) \<Longrightarrow> holds (snd (case m of (r, w) \<Rightarrow> f r w))"
  by (cases m) simp

lemma wp_identified:
  "(\<And>x y. holds (snd (f x y))) \<Longrightarrow> holds (snd (case (z :: oauth_token \<times> platform_user) of (x, y) \<Rightarrow> f x y))"
  by (cases z) simp

lemma wp_option:
  "(z = None \<Longrightarrow> holds (snd a)) \<Longrightarrow> (\<And>x. z = Some x \<Longrightarrow> holds (snd (b x))) \<Longrightarrow>
    holds (snd (case z of None \<Rightarrow> a | Some x \<Rightarrow> b x))"
  by (cases z) simp_all

lemma wp_sum:
  "(\<And>e. z = Inl e \<Longrightarrow> holds (snd (a e))) \<Longrightarrow> (\<And>x. z = Inr x \<Longrightarrow> holds (snd (b x))) \<Longrightarrow>
    holds (snd (case z of Inl e \<Rightarrow> a e | Inr x \<Rightarrow> b x))"
  by (cases z) simp_all

lemma wp_db_error: "holds (snd a) \<Longrightarrow> holds (snd b) \<Longrightarrow> holds (snd (case e of NoRows \<Rightarrow> a | QueryFailed \<Rightarrow> b))"
  by (cases e) simp_all

lemma wp_bool: "holds (snd a) \<Longrightarrow> holds (snd b) \<Longrightarrow> holds (snd (case c of True \<Rightarrow> a | False \<Rightarrow> b))"
  by (cases c) simp_all

lemma wp_result:
  "(\<And>x. holds (snd (a x))) \<Longrightarrow> (\<And>e. holds (snd (b e))) \<Longrightarrow> holds (snd (case z of Returns x \<Rightarrow> a x | Panics e \<Rightarrow> b e))"
  by (cases z) simp_all

lemma wp_if: "(c \<Longrightarrow> holds (snd a)) \<Longrightarrow> (\<not> c \<Longrightarrow> holds (snd b)) \<Longrightarrow> holds (snd (if c then a else b))"
  by simp

lemma wp_return: "holds w \<Longrightarrow> holds (snd (x, w))"
  by simp

lemma wp_state_bind: "holds (snd m) \<Longrightarrow> (\<And>r w. holds w \<Longrightarrow> holds (f r w)) \<Longrightarrow> holds (case m of (r, w) \<Rightarrow> f r w)"
  by (cases m) simp

lemma wp_state_strings:
  "(\<And>x y. holds (f x y)) \<Longrightarrow> holds (case (z :: string \<times> string) of (x, y) \<Rightarrow> f x y)"
  by (cases z) simp

lemma wp_state_option: "holds a \<Longrightarrow> (\<And>x. z = Some x \<Longrightarrow> holds (b x)) \<Longrightarrow> holds (case z of None \<Rightarrow> a | Some x \<Rightarrow> b x)"
  by (cases z) simp_all

lemma wp_state_sum: "(\<And>e. holds (a e)) \<Longrightarrow> (\<And>x. holds (b x)) \<Longrightarrow> holds (case z of Inl e \<Rightarrow> a e | Inr x \<Rightarrow> b x)"
  by (cases z) simp_all

lemma wp_state_bool: "holds a \<Longrightarrow> holds b \<Longrightarrow> holds (case c of True \<Rightarrow> a | False \<Rightarrow> b)"
  by (cases c) simp_all

lemma wp_state_if: "(c \<Longrightarrow> holds a) \<Longrightarrow> (\<not> c \<Longrightarrow> holds b) \<Longrightarrow> holds (if c then a else b)"
  by simp

lemma wp_db: "kept q \<Longrightarrow> holds w \<Longrightarrow> holds (snd (on_db q w))"
  by (simp add: kept_def)

lemma wp_redis: "holds w \<Longrightarrow> holds (snd (on_redis c w))"
  by (simp add: on_redis_def split_beta)

lemma wp_sends: "sends f \<Longrightarrow> holds w \<Longrightarrow> holds (on_net f w)"
  by (simp add: on_net_def closed_sends)

lemma wp_redis_do: "holds w \<Longrightarrow> holds (redis_do F c w)"
  by (simp add: redis_do_def wp_redis split: option.split)

lemma wp_notify: "(\<And>n. fs_notifier F = Some n \<Longrightarrow> sends (f n)) \<Longrightarrow> holds w \<Longrightarrow> holds (notify F f w)"
  by (simp add: notify_def wp_sends split: option.split)

lemmas wp = wp_bind wp_identified wp_option wp_sum wp_db_error wp_bool wp_result wp_if wp_return wp_state_bind wp_state_strings wp_state_option
  wp_state_sum wp_state_bool wp_state_if wp_redis wp_redis_do wp_notify wp_db selects_keep keeps_writes

subsection \<open>Accounts\<close>

lemma Register_keeps:
  assumes "holds w" and "\<And>s os ot. A (Q_CreateUser s os ot)"
    and "\<And>i s os. A (Q_CreateCredential i ''password'' s os True)"
  shows "holds (snd (Register A' salt req w))"
  unfolding Register_def by (intro wp assms; assumption)

lemma session_keeps:
  assumes "holds w"
  shows "holds (snd (session_Create R u hash ttl n t w))" "holds (snd (session_Get R i w))"
    "holds (snd (session_Revoke R i w))"
  unfolding session_Create_def session_Get_def session_Revoke_def Let_def
  by (intro wp assms; assumption)+

lemma tokens_keep: "holds w \<Longrightarrow> holds (snd (generateTokenPair A' dr u w))"
  unfolding generateTokenPair_def Let_def split_beta' by (intro wp session_keeps; assumption)

lemma login_keeps:
  assumes "holds w"
  shows "holds (snd (Login A' dr req w))" "holds (snd (RefreshToken A' dr token w))" "holds (snd (Logout A' sid w))"
  unfolding Login_def RefreshToken_def Logout_def by (intro wp session_keeps tokens_keep assms; assumption)+

lemma users_keep:
  assumes "holds w"
  shows "holds (snd (GetUser U i w))" "holds (snd (SearchUsers U s pg w))"
    "(\<And>j os ot. uuid_Parse U i = Some j \<Longrightarrow> A (Q_UpdateUserProfile j os ot None)) \<Longrightarrow> holds (snd (UpdateProfile U i req w))"
  unfolding GetUser_def SearchUsers_def UpdateProfile_def by (intro wp assms; assumption)+

lemma admin_keeps:
  assumes "holds w"
  shows "holds (snd (AdminLogin A' t1 t2 req w))" "holds (snd (ListUsers n m w))" "holds (snd (ListAuditLogs n m w))"
    "(\<And>j. uuid_Parse U i = Some j \<Longrightarrow> st \<in> {''active'', ''banned'', ''deleted''} \<Longrightarrow> A (Q_UpdateUserStatus j st)) \<Longrightarrow>
      holds (snd (UpdateUserStatus U i st w))"
    "(\<And>p. ap_operator_id p = (if parse_or_nil U op \<noteq> nil_uuid then Some (parse_or_nil U op) else None) \<Longrightarrow>
      ap_action p = act \<Longrightarrow> A (Q_CreateAuditLog p)) \<Longrightarrow> holds (snd (CreateAuditLog U op act tt ti re ip w))"
proof -
  show "holds (snd (AdminLogin A' t1 t2 req w))" "holds (snd (ListUsers n m w))" "holds (snd (ListAuditLogs n m w))"
    unfolding AdminLogin_def ListUsers_def ListAuditLogs_def by (intro wp assms; assumption)+
  show "holds (snd (UpdateUserStatus U i st w))"
    if "\<And>j. uuid_Parse U i = Some j \<Longrightarrow> st \<in> {''active'', ''banned'', ''deleted''} \<Longrightarrow> A (Q_UpdateUserStatus j st)"
    unfolding UpdateUserStatus_def by (intro wp assms that; simp)
  show "holds (snd (CreateAuditLog U op act tt ti re ip w))"
    if "\<And>p. ap_operator_id p = (if parse_or_nil U op \<noteq> nil_uuid then Some (parse_or_nil U op) else None) \<Longrightarrow>
      ap_action p = act \<Longrightarrow> A (Q_CreateAuditLog p)"
    unfolding CreateAuditLog_def Let_def by (intro wp assms that; simp)
qed

subsection \<open>Platforms and leaderboards\<close>

lemma HandleCallback_keeps:
  assumes "holds w" and "\<And>s os ot. A (Q_CreateUser s os ot)"
    and "\<And>i s t v x on os. A (Q_CreatePlatformBinding i s t v x on os)"
  shows "holds (snd (HandleCallback U reg name code w))"
  unfolding HandleCallback_def create_binding_def by (intro wp assms; assumption)

lemma bindings_keep:
  assumes "holds w"
  shows "(\<And>s t v x on os. A (Q_CreatePlatformBinding (parse_or_nil U i) s t v x on os)) \<Longrightarrow>
      holds (snd (BindPlatform U reg i name code w))"
    "A (Q_DeletePlatformBinding (parse_or_nil U i) name) \<Longrightarrow> holds (snd (UnbindPlatform U i name w))"
    "holds (snd (ListBindings U i w))"
  unfolding BindPlatform_def UnbindPlatform_def ListBindings_def create_binding_def Let_def
  by (intro wp assms; assumption)+

lemma board_keeps:
  assumes "holds w"
  shows "(\<And>b i. uuid_Parse (bs_uuid L) u = Some i \<Longrightarrow> A (Q_CreateScore b i x)) \<Longrightarrow> holds (snd (SubmitScore L code u x w))"
    "holds (snd (GetRanking L code n m w))" "holds (snd (GetUserRank L code u w))"
  unfolding SubmitScore_def GetRanking_def GetUserRank_def by (intro wp assms; assumption)+

subsection \<open>Friends\<close>

lemma wp_fold: "(\<And>x w. holds w \<Longrightarrow> holds (g x w)) \<Longrightarrow> holds w \<Longrightarrow> holds (fold g xs w)"
  by (induction xs arbitrary: w) simp_all

lemma IsBlocked_keeps: "holds w \<Longrightarrow> holds (snd (IsBlocked F a b w))"
  unfolding IsBlocked_def Let_def by (intro wp; assumption)

lemma requests_keep:
  assumes "holds w"
  shows "(\<And>i j. uuid_Parse (fs_uuid F) a = Some i \<Longrightarrow> A (Q_CreateFriendship i j ''pending'')) \<Longrightarrow>
      holds (snd (SendRequest F a b w))"
    "(\<And>i. A (Q_UpdateFriendshipStatus i ''accepted'')) \<Longrightarrow> holds (snd (AcceptRequest F f w))"
    "(\<And>i. A (Q_DeleteFriendship i)) \<Longrightarrow> holds (snd (RejectRequest F f w))"
    "holds (snd (ListFriends F a w))" "holds (snd (ListPendingRequests F a w))"
  unfolding SendRequest_def AcceptRequest_def RejectRequest_def ListFriends_def ListPendingRequests_def
  by (intro wp IsBlocked_keeps assms; assumption)+

lemma blocks_keep:
  assumes "holds w"
  shows "(\<And>i j. uuid_Parse (fs_uuid F) a = Some i \<Longrightarrow> A (Q_DeleteBlockRelation i j)) \<Longrightarrow> holds (snd (Unblock F a b w))"
    "holds (snd (ListBlockedUsers F a w))" "holds (snd (ListRecentContacts F t a n w))"
  unfolding Unblock_def ListBlockedUsers_def ListRecentContacts_def Let_def
  by (intro wp assms; assumption)+

text \<open>\<open>Block\<close> deletes the friendship that it has just read, which is one of the caller.\<close>

lemma unfriend_keeps:
  assumes "holds w" and "\<And>i j. i = b \<or> j = b \<Longrightarrow> A (Q_DeleteFriendshipByUsers i j)"
  shows "holds (case on_db (GetFriendshipByUsers_sql b c) w of
      (Inr existing, w2) \<Rightarrow> snd (on_db (DeleteFriendshipByUsers_sql (fr_user_id existing) (fr_friend_id existing)) w2)
    | (Inl _, w2) \<Rightarrow> w2)"
proof -
  obtain res w2 where o: "on_db (GetFriendshipByUsers_sql b c) w = (res, w2)" by fastforce
  have w2: "holds w2" using wp_db [OF selects_keep(5) [of b c] assms(1)] o by simp
  show ?thesis
  proof (cases res)
    case (Inr f)
    then obtain d where "GetFriendshipByUsers_sql b c (w_db w) = (Inr f, d)" using o by (auto simp: on_db_eq)
    then have "between b c f" unfolding GetFriendshipByUsers_sql_def by (blast dest: select_Inr one_row_filter)
    then have "fr_user_id f = b \<or> fr_friend_id f = b" by (auto simp: between_def)
    then show ?thesis using w2 assms(2) by (simp add: o Inr wp_db keeps_writes)
  qed (simp add: o w2)
qed

lemma notifying_keep:
  assumes "holds w" and "notifier_sends F"
  shows "(\<And>i j. uuid_Parse (fs_uuid F) a = Some i \<Longrightarrow> A (Q_DeleteFriendshipByUsers i j)) \<Longrightarrow> holds (snd (RemoveFriend F a b w))"
    "(\<And>i j os. uuid_Parse (fs_uuid F) a = Some i \<Longrightarrow> A (Q_CreateBlockRelation i j os)) \<Longrightarrow>
      (\<And>i j k. uuid_Parse (fs_uuid F) a = Some k \<Longrightarrow> i = k \<or> j = k \<Longrightarrow> A (Q_DeleteFriendshipByUsers i j)) \<Longrightarrow>
      holds (snd (Block F a b re w))"
proof -
  have n: "sends (n_NotifyBlocked n x y)" "sends (n_NotifyFriendRemoved n x y)" if "fs_notifier F = Some n" for n x y
    using assms(2) that by (simp_all add: notifier_sends_def)
  show "(\<And>i j. uuid_Parse (fs_uuid F) a = Some i \<Longrightarrow> A (Q_DeleteFriendshipByUsers i j)) \<Longrightarrow> holds (snd (RemoveFriend F a b w))"
    unfolding RemoveFriend_def by (intro wp n assms; assumption)
  show "(\<And>i j os. uuid_Parse (fs_uuid F) a = Some i \<Longrightarrow> A (Q_CreateBlockRelation i j os)) \<Longrightarrow>
      (\<And>i j k. uuid_Parse (fs_uuid F) a = Some k \<Longrightarrow> i = k \<or> j = k \<Longrightarrow> A (Q_DeleteFriendshipByUsers i j)) \<Longrightarrow>
      holds (snd (Block F a b re w))"
    unfolding Block_def Let_def by (intro unfriend_keeps wp n assms; assumption)
qed

lemma online_loop_keeps: "holds w \<Longrightarrow> holds (snd (online_loop U R u fs w))"
  by (induction fs arbitrary: w) (auto simp: Let_def split_beta wp_redis)

lemma LoadBlockCache_keeps: "holds w \<Longrightarrow> holds (snd (LoadBlockCache F w))"
  unfolding LoadBlockCache_def by (intro wp wp_fold; assumption?)

lemma GetOnlineFriends_keeps: "holds w \<Longrightarrow> holds (snd (GetOnlineFriends F a w))"
  unfolding GetOnlineFriends_def Let_def by (intro wp online_loop_keeps; assumption)

lemma presence_keeps:
  assumes "holds w" and "notifier_sends F"
  shows "holds (snd (SetOnline F a n w))" "holds (snd (SetOffline F a w))"
proof -
  have n: "sends (n_NotifyOnline nt x y ids)" "sends (n_NotifyOffline nt x ids)" 
    if "(if c then fs_notifier F else None) = Some nt" for c nt x y ids
    using assms(2) that by (simp_all add: notifier_sends_def split: if_splits)
  show "holds (snd (SetOnline F a n w))" "holds (snd (SetOffline F a w))"
    unfolding SetOnline_def SetOffline_def Let_def by (intro wp wp_sends n assms; assumption)+
qed

end

subsection \<open>Chat\<close>

locale table_policy = policy +
  assumes net_free [simp]: "holds (w\<lparr>w_net := s\<rparr>) = holds w"
begin

lemma wp_net: "holds w \<Longrightarrow> holds (on_net f w)"
  by (simp add: on_net_def)

lemma sends_keep [simp]:
  "holds (sendError C p c m w) = holds w" "holds (sendEnvelope C p e w) = holds w"
  "holds (broadcastEnvelope C r e x w) = holds w" "holds (on_conn p f w) = holds w"
  by (simp_all add: sendError_def sendEnvelope_def broadcastEnvelope_def on_conn_def on_net_def split_beta)

lemma wp_send:
  "holds w \<Longrightarrow> holds (sendError C p c m w)" "holds w \<Longrightarrow> holds (sendEnvelope C p e w)"
  "holds w \<Longrightarrow> holds (broadcastEnvelope C r e x w)" "holds w \<Longrightarrow> holds (on_conn p f w)"
  by simp_all

lemma block_loop_keeps:
  "(\<And>a b w. holds w \<Longrightarrow> holds (snd (check a b w))) \<Longrightarrow> holds w \<Longrightarrow> holds (snd (block_loop check u ms w))"
  by (induction ms arbitrary: w) (auto simp: Let_def split_beta)

lemma blocked_in_room_keeps: "holds w \<Longrightarrow> holds (snd (blocked_in_room (wired_chat Pr U R v) u r w))"
  unfolding blocked_in_room_def wired_chat_def Let_def
  by (simp add: split_beta) (intro block_loop_keeps IsBlocked_keeps wp selects_keep; assumption)

text \<open>The writes of a frame are those of the user of its connection.\<close>

lemma handleMessage_keeps:
  assumes "holds w" and "parse_or_nil U (c_UserID (conn_of p w)) = i"
    and "\<And>r. A (Q_AddRoomMember r i ''member'')" and "\<And>r. A (Q_RemoveRoomMember r i)"
    and "\<And>r s t. A (Q_CreateChatMessage r i s t)"
  shows "holds (snd (handleMessage (wired_chat Pr U R v) p f w))"
proof -
  let ?C = "wired_chat Pr U R v"
  have C: "cs_uuid ?C = U" "cs_tokenValidator ?C = Some (\<lambda>token w. (v token, w))"
    "cs_presenceSetter ?C = Some \<lparr>ps_SetOnline = SetOnline (wired_friends Pr U R), ps_SetOffline = SetOffline (wired_friends Pr U R)\<rparr>"
    by (simp_all add: wired_chat_def)
  have join: "holds (handleJoinRoom ?C p e w)" for e
    unfolding handleJoinRoom_def Let_def C assms(2) by (intro wp wp_send assms; assumption)
  have leave: "holds (handleLeaveRoom ?C p e w)" for e
    unfolding handleLeaveRoom_def Let_def C assms(2) by (intro wp wp_send assms; assumption)
  have send: "holds (handleSendMessage ?C p e w)" for e
    unfolding handleSendMessage_def Let_def C assms(2) by (intro wp wp_send blocked_in_room_keeps assms; assumption)
  have invite: "holds (handleInviteRoom ?C p e w)" for e
    unfolding handleInviteRoom_def Let_def C by (intro wp wp_net wp_send assms; assumption)
  have auth: "holds (handleAuth ?C p e w)" for e
    unfolding handleAuth_def Let_def C option.case by (intro wp wp_send assms; simp)
  have beat: "holds (snd (handleHeartbeat ?C p w))"
    unfolding handleHeartbeat_def Let_def C if_distrib [of "case_option _ _"] option.case presence_setter.simps
    by (intro wp wp_send presence_keeps wp_net wired_notifier_sends assms; assumption)
  show ?thesis
    unfolding handleMessage_def by (intro wp beat; (rule join leave send invite auth assms(1))?)
qed

lemma handleDisconnect_keeps: "holds w \<Longrightarrow> holds (snd (handleDisconnect (wired_chat Pr U R v) p w))"
  by (auto simp: handleDisconnect_def Let_def wired_chat_def intro!: wp presence_keeps wired_notifier_sends)

end

end
