(* ===== verification/ApiFacts.thy ===== *)
theory ApiFacts
  imports Api Effects
begin

text \<open>
  What a call may do. \<open>caller\<close> is who makes it, by the token in its header; \<open>permitted\<close> says which
  statements the program may execute for that caller. The middleware around a route decides how
  much its handler knows of the caller, and every handler keeps to what is permitted.
\<close>

subsection \<open>The caller\<close>

definition caller :: "'r auth_svc \<Rightarrow> http_call \<Rightarrow> claims option" where
  "caller A x =
     (case split_space2 (rq_header (hc_request x) ''Authorization'') of
        [scheme, token] \<Rightarrow>
          if equal_fold scheme ''bearer'' then
            (case ValidateToken A (hc_verify_at x) token of Inl _ \<Rightarrow> None | Inr cl \<Rightarrow> Some cl)
          else None
      | _ \<Rightarrow> None)"

lemma unauthorized: "HTTPStatus (errors_New ErrUnauthorized m) = 401" "HTTPStatus (errors_New ErrTokenInvalid m) = 401"
  by (simp_all add: HTTPStatus_def go_defs)

lemma auth_check_caller:
  assumes "rq_header rq ''Authorization'' = rq_header (hc_request x) ''Authorization''"
  shows "case caller A x of
      None \<Rightarrow> \<exists>e. (auth_check A (hc_verify_at x) rq h :: 'd response + request) = Inl (WriteHTTP e h) \<and> HTTPStatus e = 401
    | Some cl \<Rightarrow> (auth_check A (hc_verify_at x) rq h :: 'd response + request) =
        Inr (rq\<lparr>rq_user := Some (cl_UserID cl), rq_session := Some (cl_SessionID cl), rq_role := Some (cl_Role cl)\<rparr>)"
proof (cases "rq_header (hc_request x) ''Authorization'' = []")
  case True
  then show ?thesis using assms unauthorized(1)
    by (auto simp: caller_def auth_check_def split_space2_def)
next
  case False
  then show ?thesis
    using assms unauthorized
    by (auto simp: caller_def auth_check_def Let_def split: list.split sum.split option.split)
qed

subsection \<open>What is permitted\<close>

definition player_may :: "uuid \<Rightarrow> querier_call \<Rightarrow> bool" where
  "player_may i q =
     (case q of
        Q_UpdateUserProfile j _ _ meta \<Rightarrow> j = i \<and> meta = None
      | Q_CreateScore _ j _ \<Rightarrow> j = i
      | Q_DeletePlatformBinding j _ \<Rightarrow> j = i
      | Q_CreateChatRoom _ _ _ \<Rightarrow> True
      | Q_AddRoomMember _ j role \<Rightarrow> j = i \<and> role = ''owner''
      | Q_CreateFriendship j _ status \<Rightarrow> j = i \<and> status = ''pending''
      | Q_UpdateFriendshipStatus _ status \<Rightarrow> status = ''accepted''
      | Q_DeleteFriendship _ \<Rightarrow> True
      | Q_DeleteFriendshipByUsers j k \<Rightarrow> j = i \<or> k = i
      | Q_CreateBlockRelation j _ _ \<Rightarrow> j = i
      | Q_DeleteBlockRelation j _ \<Rightarrow> j = i
      | _ \<Rightarrow> False)"

definition admin_may :: "uuid \<Rightarrow> querier_call \<Rightarrow> bool" where
  "admin_may i q =
     (case q of
        Q_UpdateUserStatus _ status \<Rightarrow> status \<in> {''active'', ''banned'', ''deleted''}
      | Q_CreateAuditLog p \<Rightarrow>
          ap_action p = ''update_user_status'' \<and> ap_operator_id p = (if i \<noteq> nil_uuid then Some i else None)
      | _ \<Rightarrow> False)"

definition anyone_may :: "querier_call \<Rightarrow> bool" where
  "anyone_may q =
     (is_read q \<or>
      (case q of
         Q_CreateUser _ _ _ \<Rightarrow> True
       | Q_CreateCredential _ type _ _ _ \<Rightarrow> type = ''password''
       | Q_CreatePlatformBinding _ _ _ _ _ _ _ \<Rightarrow> True
       | _ \<Rightarrow> False))"

definition permitted :: "uuid_lib \<Rightarrow> claims option \<Rightarrow> querier_call \<Rightarrow> bool" where
  "permitted U who q =
     (anyone_may q \<or>
      (case who of
         None \<Rightarrow> False
       | Some cl \<Rightarrow>
           (let i = parse_or_nil U (cl_UserID cl)
            in player_may i q \<or> (cl_Role cl = ''admin'' \<and> admin_may i q))))"

subsection \<open>What a handler knows\<close>

datatype level = Public | Player | Administrator

fun level_step :: "level \<Rightarrow> guard \<Rightarrow> level" where
  "level_step l M_AuthGuard = Player"
| "level_step l M_RequireAdmin = (if l = Public then Public else Administrator)"
| "level_step l _ = l"

definition level_after :: "guard list \<Rightarrow> level" where
  "level_after gs = foldl level_step Public gs"

definition level_of :: "string \<Rightarrow> level" where
  "level_of name =
     (if name \<in> {''auth.register'', ''auth.login'', ''auth.refresh'', ''auth.logout'', ''platforms.listPlatforms'',
                 ''platforms.getAuthURL'', ''platforms.callback'', ''leaderboard.getRanking'', ''admin.Login'', ''health.ping''}
      then Public
      else if name \<in> {''admin.ListUsers'', ''admin.UpdateUserStatus'', ''admin.ListAuditLogs''} then Administrator
      else Player)"

lemmas route_progs = main_routes_def auth_routes_def users_routes_def platforms_public_def platforms_protected_def chat_routes_def
  leaderboard_public_def leaderboard_protected_def friends_RegisterRoutes_def friends_Routes_def admin_RegisterRoutes_def
  health_routes_def

text \<open>Every route of the table has the middleware its handler needs, and a handler.\<close>

lemma main_table_levels: "(m, p, gs, name) \<in> set (main_table c) \<Longrightarrow> level_after gs = level_of name"
  unfolding main_table_def route_progs Let_def
  by (simp only: routes_of.simps append.simps set_simps insert_iff empty_iff prod.inject, elim disjE conjE FalseE)
     (simp_all add: level_after_def level_of_def)

lemma main_table_guards:
  "(m, p, gs, name) \<in> set (main_table c) \<Longrightarrow>
    \<exists>inner. gs = root_guards c @ inner \<and> list_all inner_guard inner \<and>
    (level_of name \<noteq> Public \<longrightarrow> M_AuthGuard \<in> set inner \<and> M_RequireAdmin \<notin> set (takeWhile (\<lambda>g. g \<noteq> M_AuthGuard) inner))"
  unfolding main_table_def route_progs Let_def
  by (simp only: routes_of.simps append.simps set_simps insert_iff empty_iff prod.inject, elim disjE conjE FalseE)
     (simp_all add: root_guards_def inner_guard_def level_of_def)

lemma main_table_handlers: "(m, p, gs, name) \<in> set (main_table c) \<Longrightarrow> map_of (http_handlers P g x) name \<noteq> None"
  unfolding map_of_eq_None_iff http_handlers_def auth_handlers_def users_handlers_def platforms_handlers_def chat_handlers_def
    leaderboard_handlers_def admin_handlers_def friends_handlers_def main_table_def route_progs Let_def
  by (simp only: routes_of.simps append.simps set_simps insert_iff empty_iff prod.inject, elim disjE conjE FalseE) simp_all

definition knows :: "'r auth_svc \<Rightarrow> http_call \<Rightarrow> level \<Rightarrow> request \<Rightarrow> bool" where
  "knows A x l rq \<longleftrightarrow>
     rq_header rq ''Authorization'' = rq_header (hc_request x) ''Authorization'' \<and>
     (case l of
        Public \<Rightarrow> rq_user rq = None \<and> rq_role rq = None
      | _ \<Rightarrow> (\<exists>cl. caller A x = Some cl \<and> rq_user rq = Some (cl_UserID cl) \<and> rq_role rq = Some (cl_Role cl) \<and>
                (l = Administrator \<longrightarrow> cl_Role cl = ''admin'')))"

lemma knows_incoming: "knows A x Public (incoming x ps)"
  by (simp add: knows_def incoming_def)

lemma knows_id: "knows A x l (rq\<lparr>rq_header := (rq_header rq)(''X-Request-ID'' := v)\<rparr>) = knows A x l rq"
  by (cases l) (simp_all add: knows_def)

lemma knows_auth:
  assumes "knows A x l rq" and "(auth_check A (hc_verify_at x) rq h :: 'd response + request) = Inr rq'"
  shows "knows A x Player rq'"
proof -
  have "rq_header rq ''Authorization'' = rq_header (hc_request x) ''Authorization''" using assms(1) by (simp add: knows_def)
  from auth_check_caller [OF this, of A h, where 'd = 'd] assms show ?thesis by (auto simp: knows_def split: option.splits)
qed

lemma knows_admin:
  assumes "knows A x l rq" and "(admin_check rq h :: 'd response + request) = Inr rq'"
  shows "rq' = rq \<and> knows A x (level_step l M_RequireAdmin) rq"
  using assms by (cases l) (auto simp: admin_check_def knows_def null_string_def split: if_splits)

lemma knows_user:
  assumes "knows A x l rq" and "l \<noteq> Public"
  obtains cl where "caller A x = Some cl" and "UserIDFromContext rq = cl_UserID cl"
    and "l = Administrator \<Longrightarrow> cl_Role cl = ''admin''"
  using assms by (cases l) (auto simp: knows_def UserIDFromContext_def null_string_def)

lemma ends_snd [simp]:
  "snd (respond n f h r) = snd r" "snd (respond_plain n f h r) = snd r" "snd (respond_empty h r') = snd r'"
  "snd (answers g r'') = snd r''" "snd (may_panic g r''') = snd r'''"
  by (auto simp: respond_def respond_plain_def respond_empty_def answers_def may_panic_def split: prod.splits sum.splits)

subsection \<open>Every handler keeps to what is permitted\<close>

lemma parsed: "uuid_Parse U s = Some i \<Longrightarrow> parse_or_nil U s = i"
  by (simp add: parse_or_nil_def)

context policy
begin

definition safe :: "('b \<Rightarrow> bool) \<Rightarrow> ('b \<Rightarrow> headers \<Rightarrow> ('r, tcp_server) world \<Rightarrow> 'c \<times> ('r, tcp_server) world) \<Rightarrow> bool" where
  "safe Q k \<longleftrightarrow> (\<forall>rq h w. Q rq \<longrightarrow> holds w \<longrightarrow> holds (snd (k rq h w)))"

lemma anyone_keeps:
  assumes "\<And>q. anyone_may q \<Longrightarrow> A q" and "holds w"
  shows "holds (snd (register_h A' salt b h w))" "holds (snd (login_h A' dr b2 h w))" "holds (snd (refresh_h A' dr b3 h w))"
    "holds (snd (logout_h A' rq h w))" "holds (snd (AdminLogin_h A' t1 t2 b4 h w))" "holds (snd (getRanking_h L rq h w))"
    "holds (snd (callback_h U reg rq b5 h w))"
proof -
  have a: "A (Q_CreateUser s os ot)" "A (Q_CreateCredential i ''password'' t os v)" "A (Q_CreatePlatformBinding i s t v' x on os)"
    for s os ot i t v v' x on by (rule assms(1), simp add: anyone_may_def)+
  show "holds (snd (register_h A' salt b h w))"
    by (cases b) (simp_all add: register_h_def assms(2) a Register_keeps)
  show "holds (snd (login_h A' dr b2 h w))" "holds (snd (refresh_h A' dr b3 h w))" "holds (snd (logout_h A' rq h w))"
    by (simp_all add: login_h_def refresh_h_def logout_h_def Let_def assms(2) login_keeps split: option.split)
  show "holds (snd (AdminLogin_h A' t1 t2 b4 h w))"
    by (simp add: AdminLogin_h_def assms(2) admin_keeps split: option.split)
  show "holds (snd (getRanking_h L rq h w))"
    by (simp add: getRanking_h_def assms(2) board_keeps)
  show "holds (snd (callback_h U reg rq b5 h w))"
    unfolding callback_h_def by (intro wp HandleCallback_keeps a assms(2))
qed

lemma player_keeps:
  assumes "\<And>q. player_may (parse_or_nil U (UserIDFromContext rq)) q \<Longrightarrow> A q" and "holds w"
    and "fs_uuid F = U" and "notifier_sends F" and "bs_uuid L = U"
  shows "holds (snd (getMe_h U rq h w))" "holds (snd (updateMe_h U rq b h w))" "holds (snd (getUser_h U rq h w))"
    "holds (snd (searchUsers_h U rq h w))" "holds (snd (unbind_h U rq h w))" "holds (snd (listBindings_h U rq h w))"
    "holds (snd (listRooms_h U rq h w))" "holds (snd (createRoom_h U rq b2 h w))" "holds (snd (getMessages_h U rq h w))"
    "holds (snd (submitScore_h L rq b3 h w))" "holds (snd (getMyRank_h L rq h w))"
    "holds (snd (SendRequest_h F rq b4 h w))" "holds (snd (AcceptRequest_h F rq h w))" "holds (snd (RejectRequest_h F rq h w))"
    "holds (snd (Block_h F rq b5 h w))" "holds (snd (Unblock_h F rq h w))" "holds (snd (ListBlocked_h F rq h w))"
    "holds (snd (RemoveFriend_h F rq h w))" "holds (snd (ListRecentContacts_h F t rq h w))"
    "holds (snd (ListFriends_h F rq h w))" "holds (snd (ListPendingRequests_h F rq h w))"
    "holds (snd (GetOnlineFriends_h F rq h w))"
proof -
  let ?i = "parse_or_nil U (UserIDFromContext rq)"
  have a: "A (Q_UpdateUserProfile ?i os ot None)" "A (Q_CreateScore j ?i y)" "A (Q_DeletePlatformBinding ?i s)"
    "A (Q_CreateChatRoom s os ot)" "A (Q_AddRoomMember j ?i ''owner'')" "A (Q_CreateFriendship ?i j ''pending'')"
    "A (Q_UpdateFriendshipStatus j ''accepted'')" "A (Q_DeleteFriendship j)" "A (Q_CreateBlockRelation ?i j os)"
    "A (Q_DeleteBlockRelation ?i j)" for os ot j y s
    by (rule assms(1), simp add: player_may_def)+
  have b: "A (Q_DeleteFriendshipByUsers j k)" if "j = ?i \<or> k = ?i" for j k
    by (rule assms(1)) (use that in \<open>simp add: player_may_def\<close>)
  note keep = users_keep board_keeps bindings_keep requests_keep blocks_keep notifying_keep GetOnlineFriends_keeps
  note p = parsed [of U "UserIDFromContext rq", symmetric]
  show "holds (snd (getMe_h U rq h w))" "holds (snd (getUser_h U rq h w))" "holds (snd (searchUsers_h U rq h w))"
    by (simp_all add: getMe_h_def getUser_h_def searchUsers_h_def keep assms(2))
  show "holds (snd (updateMe_h U rq b h w))"
    using a(1) p by (cases b) (auto simp: updateMe_h_def assms(2) intro!: users_keep)
  show "holds (snd (unbind_h U rq h w))" "holds (snd (listBindings_h U rq h w))"
    by (simp_all add: unbind_h_def listBindings_h_def Let_def bindings_keep a assms(2))
  show "holds (snd (listRooms_h U rq h w))" "holds (snd (createRoom_h U rq b2 h w))" "holds (snd (getMessages_h U rq h w))"
    unfolding listRooms_h_def createRoom_h_def getMessages_h_def Let_def
    by (intro wp a assms(2); assumption)+
  show "holds (snd (submitScore_h L rq b3 h w))" "holds (snd (getMyRank_h L rq h w))"
    using a(2) p
    by (auto simp: submitScore_h_def getMyRank_h_def Let_def assms(2,5) split: option.split intro!: board_keeps)
  show "holds (snd (SendRequest_h F rq b4 h w))"
    using a(6) p by (auto simp: SendRequest_h_def assms(2,3) split: option.split intro!: requests_keep)
  show "holds (snd (AcceptRequest_h F rq h w))" "holds (snd (RejectRequest_h F rq h w))"
    "holds (snd (ListFriends_h F rq h w))" "holds (snd (ListPendingRequests_h F rq h w))"
    by (simp_all add: AcceptRequest_h_def RejectRequest_h_def ListFriends_h_def ListPendingRequests_h_def
        requests_keep a assms(2))
  show "holds (snd (Block_h F rq b5 h w))"
    using a(9) b p by (auto simp: Block_h_def assms(2-4) split: option.split intro!: notifying_keep)
  show "holds (snd (RemoveFriend_h F rq h w))"
    using b p by (auto simp: RemoveFriend_h_def assms(2-4) intro!: notifying_keep)
  show "holds (snd (Unblock_h F rq h w))"
    using a(10) p by (auto simp: Unblock_h_def assms(2,3) intro!: blocks_keep)
  show "holds (snd (ListBlocked_h F rq h w))" "holds (snd (ListRecentContacts_h F t rq h w))"
    by (simp_all add: ListBlocked_h_def ListRecentContacts_h_def blocks_keep assms(2))
  show "holds (snd (GetOnlineFriends_h F rq h w))"
    unfolding GetOnlineFriends_h_def by (intro wp GetOnlineFriends_keeps assms(2))
qed

lemma operator_keeps:
  assumes "\<And>q. anyone_may q \<Longrightarrow> A q" and "\<And>q. admin_may (parse_or_nil U (UserIDFromContext rq)) q \<Longrightarrow> A q" and "holds w"
  shows "holds (snd (ListUsers_h rq h w))" "holds (snd (ListAuditLogs_h rq h w))" "holds (snd (UpdateUserStatus_h U b rq h w))"
proof -
  show "holds (snd (ListUsers_h rq h w))" "holds (snd (ListAuditLogs_h rq h w))"
    by (simp_all add: ListUsers_h_def ListAuditLogs_h_def split_beta admin_keeps assms(3))
  have s: "A (Q_UpdateUserStatus i st)" if "st \<in> {''active'', ''banned'', ''deleted''}" for i st
    by (rule assms(2)) (use that in \<open>simp add: admin_may_def\<close>)
  have l: "A (Q_CreateAuditLog p)"
    if "ap_operator_id p = (if parse_or_nil U (UserIDFromContext rq) \<noteq> nil_uuid then Some (parse_or_nil U (UserIDFromContext rq)) else None)"
      "ap_action p = ''update_user_status''" for p
    by (rule assms(2)) (use that in \<open>simp add: admin_may_def\<close>)
  show "holds (snd (UpdateUserStatus_h U b rq h w))"
    unfolding UpdateUserStatus_h_def Let_def by (intro wp admin_keeps(4,5) s l assms(3); assumption)
qed

text \<open>The services that the handlers of the program run on.\<close>

lemma assemble_board [simp]: "bs_uuid (pg_board (assemble P c)) = pk_uuid P"
  by (simp add: assemble_def Let_def go_defs)

lemma assemble_friends [simp]:
  "fs_uuid (pg_friends (assemble P c)) = pk_uuid P" "notifier_sends (pg_friends (assemble P c))"
  by (simp_all add: assemble_parts wired_notifier_sends) (simp add: wired_friends_def)

lemma handlers_keep:
  fixes P :: "'r packages" and c :: config and x :: http_call
  defines "g \<equiv> assemble P c" and "U \<equiv> pk_uuid P"
  assumes perm: "\<And>q. permitted U (caller (pg_auth g) x) q \<Longrightarrow> A q"
  shows "list_all (\<lambda>(name, k). safe (knows (pg_auth g) x (level_of name)) k) (http_handlers P g x)"
proof -
  let ?ok = "\<lambda>(name, k). safe (knows (pg_auth g) x (level_of name)) k"
  have any: "anyone_may q \<Longrightarrow> A q" for q by (rule perm) (simp add: permitted_def)
  note public = anyone_keeps [OF any]
  have uuid: "bs_uuid (pg_board g) = U" "fs_uuid (pg_friends g) = U" "notifier_sends (pg_friends g)"
    by (simp_all add: g_def U_def)
  have player: "player_may (parse_or_nil U (UserIDFromContext rq)) q \<Longrightarrow> A q" if "knows (pg_auth g) x Player rq" for rq q
    using knows_user [OF that] by (rule perm) (auto simp: permitted_def Let_def)
  have operator: "admin_may (parse_or_nil U (UserIDFromContext rq)) q \<Longrightarrow> A q" if "knows (pg_auth g) x Administrator rq" for rq q
    using knows_user [OF that] by (rule perm) (auto simp: permitted_def Let_def)
  note pk = player_keeps [OF player _ uuid(2,3,1)] and ok = operator_keeps [OF any operator]
  have bind: "holds (snd (bind_h U reg rq b h w))" if "holds w" for reg rq b h w
    unfolding bind_h_def Let_def using that any
    by (auto simp: anyone_may_def split: option.split intro!: bindings_keep)
  have "list_all ?ok (auth_handlers g x)" "list_all ?ok (leaderboard_handlers g x)" "list_all ?ok (admin_handlers U g x)"
    by (simp_all add: auth_handlers_def leaderboard_handlers_def admin_handlers_def level_of_def safe_def public pk ok)
  moreover have "list_all ?ok (users_handlers U x)" "list_all ?ok (chat_handlers U x)" "list_all ?ok (platforms_handlers U reg x)" for reg
    by (simp_all add: users_handlers_def chat_handlers_def platforms_handlers_def level_of_def safe_def public pk bind)
  moreover have "list_all ?ok (friends_handlers g x)"
    by (simp add: friends_handlers_def Let_def level_of_def safe_def pk)
  ultimately show ?thesis
    by (simp add: http_handlers_def Let_def U_def [symmetric] safe_def)
qed

subsection \<open>Through the middleware\<close>

definition safe_stage :: "(request \<Rightarrow> bool) \<Rightarrow> 'r stage \<Rightarrow> bool" where
  "safe_stage Q k \<longleftrightarrow> (\<forall>rq h s. Q rq \<longrightarrow> holds (fst s) \<longrightarrow> holds (fst (snd (k rq h s))))"

lemma guard_keeps:
  assumes "safe_stage (knows (pg_auth g) x (level_step l gd)) k"
  shows "safe_stage (knows (pg_auth g) x l) (apply_guard P g x gd k)"
proof -
  have step: "holds (fst (snd (k rq h s)))" if "knows (pg_auth g) x (level_step l gd) rq" "holds (fst s)" for rq h s
    using assms that unfolding safe_stage_def by blast
  have "holds (fst (snd (apply_guard P g x gd k rq h s)))" if kn: "knows (pg_auth g) x l rq" and s: "holds (fst s)" for rq h s
  proof (cases gd)
    case M_RequestID
    then show ?thesis using step s kn by (simp add: RequestID_def Let_def knows_id)
  next
    case M_Recovery
    then show ?thesis using step [of rq s h] s kn
      by (auto simp: Recovery_def split_beta split: prod.split served.split go_result.split)
  next
    case (M_Timeout d)
    then show ?thesis using step [of rq s h] s kn by (auto split: prod.split served.split go_result.split)
  next
    case M_Logger
    then show ?thesis using step [of rq s h] s kn
      by (auto simp: Logger_def split_beta split: prod.split served.split go_result.split)
  next
    case M_AuthGuard
    then show ?thesis using step s knows_auth [OF kn, where 'd = api_data] by (auto split: sum.split)
  next
    case M_RequireAdmin
    show ?thesis
    proof (cases "admin_check rq h :: api_data response + request")
      case (Inr rq')
      with knows_admin [OF kn Inr] step s M_RequireAdmin show ?thesis by auto
    qed (simp add: M_RequireAdmin s)
  next
    case (M_RateLimit grp cfg)
    then show ?thesis using step s kn by (auto split: prod.split verdict.split)
  qed
  then show ?thesis unfolding safe_stage_def by blast
qed

lemma run_guards_keep:
  "safe_stage (knows (pg_auth g) x (foldl level_step l gs)) k \<Longrightarrow> safe_stage (knows (pg_auth g) x l) (run_guards P g x gs k)"
proof (induction gs arbitrary: l)
  case (Cons gd gs)
  then show ?case using guard_keeps [of g x l gd "run_guards P g x gs k" P] by simp
qed simp

lemma on_world_keeps: "safe Q k \<Longrightarrow> safe_stage Q (on_world k)"
  by (auto simp: safe_def safe_stage_def on_world_def split_beta)

text \<open>One call of the API, through any router that only finds routes of the table.\<close>

lemma http_serve_keeps:
  assumes "chi_match rtr c" and "\<And>q. permitted (pk_uuid P) (caller (pg_auth (assemble P c)) x) q \<Longrightarrow> A q"
    and "holds (fst s)"
  shows "holds (fst (snd (http_serve rtr P c x s)))"
proof -
  let ?g = "assemble P c"
  have T: "routes_of [] [] (pg_routes ?g) = main_table c" by (simp add: assemble_parts main_table_def)
  have run: "holds (fst (snd (run_guards P ?g x gs k (incoming x ps) Map.empty s)))"
    if "safe_stage (knows (pg_auth ?g) x (level_after gs)) k" for gs k ps
    using run_guards_keep [OF that [unfolded level_after_def]] knows_incoming [of "pg_auth ?g" x ps] assms(3)
    unfolding safe_stage_def by blast
  show ?thesis
  proof (cases "rtr (main_table c) (hc_method x) (hc_path x)")
    case (Missed gs f)
    have "safe_stage Q (\<lambda>rq h s. (Ran (Returns (f h)), s))" for Q by (simp add: safe_stage_def)
    from run [OF this] show ?thesis by (simp add: http_serve_def T Missed)
  next
    case (Found r ps)
    obtain m p gs name where r: "r = (m, p, gs, name)" by (cases r)
    from chi_match.found [OF assms(1) Found] have "(m, p, gs, name) \<in> set (main_table c)" unfolding r by blast
    then have level: "level_after gs = level_of name" by (rule main_table_levels)
    show ?thesis
    proof (cases "map_of (http_handlers P ?g x) name")
      case None
      then show ?thesis using assms(3) by (simp add: http_serve_def T Found r)
    next
      case (Some k)
      have "safe (knows (pg_auth ?g) x (level_after gs)) k"
        using handlers_keep [of P c x, OF assms(2)] map_of_SomeD [OF Some] by (auto simp: list_all_iff level)
      from run [OF on_world_keeps [OF this]] show ?thesis by (simp add: http_serve_def T Found r Some)
    qed
  qed
qed

end

subsection \<open>The chat server\<close>

text \<open>What a frame of a connection may do to the tables.\<close>

definition frame_may :: "uuid \<Rightarrow> querier_call \<Rightarrow> bool" where
  "frame_may i q =
     (is_read q \<or>
      (case q of
         Q_AddRoomMember _ j role \<Rightarrow> j = i \<and> role = ''member''
       | Q_RemoveRoomMember _ j \<Rightarrow> j = i
       | Q_CreateChatMessage _ j _ _ \<Rightarrow> j = i
       | _ \<Rightarrow> False))"

context table_policy
begin

text \<open>A frame writes as the user that its connection has when it comes, and the other events only read.\<close>

lemma chat_step_keeps:
  assumes "holds w"
    and "\<And>p f q. ev = FrameIn p f \<Longrightarrow> frame_may (parse_or_nil U (c_UserID (conn_of p w))) q \<Longrightarrow> A q"
  shows "holds (chat_step (wired_chat Pr U R v) ev w)"
proof (cases ev)
  case (FrameIn p f)
  have "holds (snd (handleMessage (wired_chat Pr U R v) p f w))"
    by (intro handleMessage_keeps [OF assms(1) refl] assms(2) [OF FrameIn]) (simp_all add: frame_may_def)
  then show ?thesis by (simp add: FrameIn)
next
  case (StreamEnd p)
  then show ?thesis by (simp add: handleDisconnect_keeps wp_net assms(1))
qed (simp_all add: wp_net assms(1))

text \<open>Whatever happens: who acts, and what the action is permitted.\<close>

lemma sys_step_keeps:
  assumes "chi_match rtr c" and "holds (fst s)"
    and "\<And>x q. ev = Http x \<Longrightarrow> permitted (pk_uuid P) (caller (pg_auth (assemble P c)) x) q \<Longrightarrow> A q"
    and "\<And>now p f q. ev = Tcp now (FrameIn p f) \<Longrightarrow> frame_may (parse_or_nil (pk_uuid P) (c_UserID (conn_of p (fst s)))) q \<Longrightarrow> A q"
  shows "holds (fst (snd (sys_step rtr P c ev s)))"
proof (cases ev)
  case (Http x)
  have "holds (fst (snd (http_serve rtr P c x s)))"
    using assms(1) assms(3) [OF Http] assms(2) by (rule http_serve_keeps)
  then show ?thesis by (auto simp: sys_step_def Http split: prod.split served.split)
next
  case (Tcp now ce)
  have "holds (chat_step (pg_chat (assemble P c) now) ce (fst s))"
    unfolding assemble_parts by (rule chat_step_keeps [OF assms(2)]) (use assms(4) Tcp in blast)
  then show ?thesis by (simp add: sys_step_def Tcp Let_def)
qed

end

subsection \<open>Answers\<close>

text \<open>The header of the request identifier survives every way of answering.\<close>

lemma id_survives [simp]:
  "rs_headers (WriteHTTP e h) ''X-Request-ID'' = h ''X-Request-ID''"
  "rs_headers (writeJSON n d h) ''X-Request-ID'' = h ''X-Request-ID''"
  "rs_headers (writeAppError err h) ''X-Request-ID'' = h ''X-Request-ID''"
  "rs_headers (writeAppError_plain err h) ''X-Request-ID'' = h ''X-Request-ID''"
  "rs_headers (http_Error msg n h) ''X-Request-ID'' = h ''X-Request-ID''"
  "rs_headers (encode_json n d' h) ''X-Request-ID'' = h ''X-Request-ID''"
  "rs_headers (no_content h) ''X-Request-ID'' = h ''X-Request-ID''"
  "rs_headers (bad_body h) ''X-Request-ID'' = h ''X-Request-ID''"
  "rs_headers (login_required h) ''X-Request-ID'' = h ''X-Request-ID''"
  "rs_headers (map_response g r) = rs_headers r"
  by (simp_all add: WriteHTTP_def writeJSON_def writeAppError_def writeAppError_plain_def http_Error_def encode_json_def
      no_content_def bad_body_def login_required_def map_response_def split: go_error.split)

lemma id_survives_respond [simp]:
  "rs_headers (fst (respond n f h r)) ''X-Request-ID'' = h ''X-Request-ID''"
  "rs_headers (fst (respond_plain n f h r)) ''X-Request-ID'' = h ''X-Request-ID''"
  "rs_headers (fst (respond_empty h r')) ''X-Request-ID'' = h ''X-Request-ID''"
  by (auto simp: respond_def respond_plain_def respond_empty_def split: prod.splits sum.splits)

text \<open>A handler of the table answers; only the callback of the platforms may panic.\<close>

definition answering :: "string \<Rightarrow> 'r http_handler \<Rightarrow> bool" where
  "answering name k \<longleftrightarrow> (\<forall>rq h w.
     (case fst (k rq h w) of
        Returns resp \<Rightarrow> rs_headers resp ''X-Request-ID'' = h ''X-Request-ID''
      | Panics _ \<Rightarrow> name = ''platforms.callback''))"

lemma answering_answers:
  "(\<And>rq h w. rs_headers (fst (f rq h w)) ''X-Request-ID'' = h ''X-Request-ID'') \<Longrightarrow> answering name (\<lambda>rq h w. answers g (f rq h w))"
  by (simp add: answering_def answers_def)

lemma plain_handlers_id:
  "rs_headers (fst (register_h A salt b h w)) ''X-Request-ID'' = h ''X-Request-ID''"
  "rs_headers (fst (login_h A dr b2 h w)) ''X-Request-ID'' = h ''X-Request-ID''"
  "rs_headers (fst (refresh_h A dr b3 h w)) ''X-Request-ID'' = h ''X-Request-ID''"
  "rs_headers (fst (logout_h A rq h w)) ''X-Request-ID'' = h ''X-Request-ID''"
  "rs_headers (fst (AdminLogin_h A t1 t2 b4 h w)) ''X-Request-ID'' = h ''X-Request-ID''"
  "rs_headers (fst (ListUsers_h rq h w)) ''X-Request-ID'' = h ''X-Request-ID''"
  "rs_headers (fst (ListAuditLogs_h rq h w)) ''X-Request-ID'' = h ''X-Request-ID''"
  "rs_headers (fst (UpdateUserStatus_h U b5 rq h w)) ''X-Request-ID'' = h ''X-Request-ID''"
  "rs_headers (fst (getMe_h U rq h w)) ''X-Request-ID'' = h ''X-Request-ID''"
  "rs_headers (fst (updateMe_h U rq b6 h w)) ''X-Request-ID'' = h ''X-Request-ID''"
  "rs_headers (fst (getUser_h U rq h w)) ''X-Request-ID'' = h ''X-Request-ID''"
  "rs_headers (fst (searchUsers_h U rq h w)) ''X-Request-ID'' = h ''X-Request-ID''"
  "rs_headers (listPlatforms_h reg h) ''X-Request-ID'' = h ''X-Request-ID''"
  "rs_headers (getAuthURL_h reg n rq h) ''X-Request-ID'' = h ''X-Request-ID''"
  "rs_headers (fst (bind_h U reg rq b7 h w)) ''X-Request-ID'' = h ''X-Request-ID''"
  "rs_headers (fst (unbind_h U rq h w)) ''X-Request-ID'' = h ''X-Request-ID''"
  "rs_headers (fst (listBindings_h U rq h w)) ''X-Request-ID'' = h ''X-Request-ID''"
  "rs_headers (fst (getRanking_h L rq h w)) ''X-Request-ID'' = h ''X-Request-ID''"
  "rs_headers (fst (submitScore_h L rq b8 h w)) ''X-Request-ID'' = h ''X-Request-ID''"
  "rs_headers (fst (getMyRank_h L rq h w)) ''X-Request-ID'' = h ''X-Request-ID''"
  "rs_headers (health_ping h) ''X-Request-ID'' = h ''X-Request-ID''"
  by (auto simp: register_h_def login_h_def refresh_h_def logout_h_def AdminLogin_h_def ListUsers_h_def ListAuditLogs_h_def
      UpdateUserStatus_h_def getMe_h_def updateMe_h_def getUser_h_def searchUsers_h_def listPlatforms_h_def getAuthURL_h_def
      bind_h_def unbind_h_def listBindings_h_def getRanking_h_def submitScore_h_def getMyRank_h_def health_ping_def Let_def
      split: option.split sum.split prod.split)

lemma social_handlers_id:
  "rs_headers (fst (listRooms_h U rq h w)) ''X-Request-ID'' = h ''X-Request-ID''"
  "rs_headers (fst (createRoom_h U rq b h w)) ''X-Request-ID'' = h ''X-Request-ID''"
  "rs_headers (fst (getMessages_h U rq h w)) ''X-Request-ID'' = h ''X-Request-ID''"
  "rs_headers (fst (SendRequest_h F rq b2 h w)) ''X-Request-ID'' = h ''X-Request-ID''"
  "rs_headers (fst (AcceptRequest_h F rq h w)) ''X-Request-ID'' = h ''X-Request-ID''"
  "rs_headers (fst (RejectRequest_h F rq h w)) ''X-Request-ID'' = h ''X-Request-ID''"
  "rs_headers (fst (Block_h F rq b3 h w)) ''X-Request-ID'' = h ''X-Request-ID''"
  "rs_headers (fst (Unblock_h F rq h w)) ''X-Request-ID'' = h ''X-Request-ID''"
  "rs_headers (fst (ListBlocked_h F rq h w)) ''X-Request-ID'' = h ''X-Request-ID''"
  "rs_headers (fst (RemoveFriend_h F rq h w)) ''X-Request-ID'' = h ''X-Request-ID''"
  "rs_headers (fst (ListRecentContacts_h F t rq h w)) ''X-Request-ID'' = h ''X-Request-ID''"
  "rs_headers (fst (ListFriends_h F rq h w)) ''X-Request-ID'' = h ''X-Request-ID''"
  "rs_headers (fst (ListPendingRequests_h F rq h w)) ''X-Request-ID'' = h ''X-Request-ID''"
  by (auto simp: listRooms_h_def createRoom_h_def getMessages_h_def SendRequest_h_def AcceptRequest_h_def RejectRequest_h_def
      Block_h_def Unblock_h_def ListBlocked_h_def RemoveFriend_h_def ListRecentContacts_h_def ListFriends_h_def
      ListPendingRequests_h_def Let_def split: option.split sum.split prod.split)

lemma callback_id: "answering ''platforms.callback'' (\<lambda>rq h w. may_panic f (callback_h U reg rq b h w))"
  by (auto simp: answering_def may_panic_def callback_h_def split: option.split prod.split go_result.split)

lemma wired_online_id:
  assumes "fs_rdb F = Some R"
  shows "answering name (\<lambda>rq h w. may_panic f (GetOnlineFriends_h F rq h w))"
proof -
  have o: "\<exists>res w1. GetOnlineFriends F u w = (Returns res, w1)" for u w
    by (simp add: GetOnlineFriends_def assms split_beta split: option.split sum.split prod.split)
  have "case fst (may_panic f (GetOnlineFriends_h F rq h w)) of
      Returns resp \<Rightarrow> rs_headers resp ''X-Request-ID'' = h ''X-Request-ID'' | Panics _ \<Rightarrow> name = ''platforms.callback''" for rq h w
  proof -
    obtain res w1 where "GetOnlineFriends F (UserIDFromContext rq) w = (Returns res, w1)" using o by blast
    then show ?thesis by (simp add: GetOnlineFriends_h_def may_panic_def)
  qed
  then show ?thesis unfolding answering_def by blast
qed

lemma handlers_answer:
  fixes P :: "'r packages" and c :: config
  shows "list_all (\<lambda>(name, k). answering name k) (http_handlers P (assemble P c) x)"
proof -
  have F: "fs_rdb (pg_friends (assemble P c)) = Some (pk_redis P)" by (simp add: assemble_parts wired_friends_def)
  show ?thesis
    by (simp add: http_handlers_def auth_handlers_def users_handlers_def platforms_handlers_def chat_handlers_def
        leaderboard_handlers_def admin_handlers_def friends_handlers_def Let_def answering_answers plain_handlers_id
        social_handlers_id callback_id wired_online_id [OF F])
qed

subsection \<open>Answers through the middleware\<close>

text \<open>A stage that answers, or panics if it may, writes no line and hands the request identifier on.\<close>

definition passes :: "bool \<Rightarrow> 'r stage \<Rightarrow> bool" where
  "passes panics k \<longleftrightarrow> (\<forall>rq h s.
     snd (snd (k rq h s)) = snd s \<and>
     (case fst (k rq h s) of
        Ran (Returns resp) \<Rightarrow> rs_headers resp ''X-Request-ID'' = h ''X-Request-ID''
      | Ran (Panics _) \<Rightarrow> panics
      | Exited _ \<Rightarrow> False))"

lemma rate_check_id:
  "fst (rate_check L grp now rq h r) = Pass h' \<Longrightarrow> h' ''X-Request-ID'' = h ''X-Request-ID''"
  "fst (rate_check L grp now rq h r) = Reject resp \<Longrightarrow> rs_headers resp ''X-Request-ID'' = h ''X-Request-ID'' \<and> rs_status resp = 429"
  by (auto simp: rate_check_def Let_def split: prod.splits sum.splits if_splits)

lemma check_id:
  "(auth_check A now rq h :: 'd response + request) = Inl resp \<Longrightarrow> rs_headers resp ''X-Request-ID'' = h ''X-Request-ID''"
  "(admin_check rq h :: 'd response + request) = Inl resp \<Longrightarrow> rs_headers resp ''X-Request-ID'' = h ''X-Request-ID''"
  by (auto simp: auth_check_def admin_check_def Let_def split: if_splits list.splits sum.splits)

lemma guard_passes: "passes b k \<Longrightarrow> inner_guard gd \<Longrightarrow> passes b (apply_guard P g x gd k)"
proof -
  assume k: "passes b k" and gd: "inner_guard gd"
  have step: "snd (snd (k rq h s)) = snd s"
    "case fst (k rq h s) of Ran (Returns resp) \<Rightarrow> rs_headers resp ''X-Request-ID'' = h ''X-Request-ID''
      | Ran (Panics _) \<Rightarrow> b | Exited _ \<Rightarrow> False" for rq h s
    using k unfolding passes_def by blast+
  from gd consider "gd = M_AuthGuard" | "gd = M_RequireAdmin" | grp cfg where "gd = M_RateLimit grp cfg"
    by (auto simp: inner_guard_def)
  then show ?thesis
  proof cases
    case 1
    then show ?thesis using step check_id(1) unfolding passes_def by (auto split: sum.split)
  next
    case 2
    then show ?thesis using step check_id(2) unfolding passes_def by (auto split: sum.split)
  next
    case 3
    have "snd (snd (apply_guard P g x gd k rq h s)) = snd s \<and>
        (case fst (apply_guard P g x gd k rq h s) of Ran (Returns resp) \<Rightarrow> rs_headers resp ''X-Request-ID'' = h ''X-Request-ID''
          | Ran (Panics _) \<Rightarrow> b | Exited _ \<Rightarrow> False)" for rq h s
    proof -
      let ?c = "rate_check (NewRateLimiter (redisLimiterAdapter (pk_redis P)) cfg) grp (hc_limit_at x) rq h (w_redis (fst s)) ::
        api_data verdict \<times> _"
      obtain v r where c: "?c = (v, r)" by fastforce
      show ?thesis
      proof (cases v)
        case (Pass h')
        then have "fst ?c = Pass h'" using c by simp
        from rate_check_id(1) [OF this] show ?thesis using step [where rq = rq and h = h' and s = "((fst s)\<lparr>w_redis := r\<rparr>, snd s)"] c Pass
          by (simp add: 3 split: served.splits go_result.splits)
      next
        case (Reject resp)
        then have "fst ?c = Reject resp" using c by simp
        from rate_check_id(2) [OF this] show ?thesis using c Reject by (simp add: 3)
      qed
    qed
    then show ?thesis unfolding passes_def by blast
  qed
qed

lemma run_guards_pass: "list_all inner_guard gs \<Longrightarrow> passes b k \<Longrightarrow> passes b (run_guards P g x gs k)"
  by (induction gs) (simp_all add: guard_passes)

text \<open>The four outer middleware: an identifier, a line in the log, and the end of the process for a panic.\<close>

definition request_id :: "http_call \<Rightarrow> string" where
  "request_id x =
     (let rid = rq_header (hc_request x) ''X-Request-ID'' in if rid = '''' then generateRequestID (hc_id_bytes x) else rid)"

lemma request_id_nonempty: "request_id x \<noteq> ''''"
  by (simp add: request_id_def Let_def generateRequestID_def)

lemma root_guards_answer:
  assumes "passes b k" and "rq_header rq = rq_header (hc_request x)"
    and "run_guards P g x (root_guards c) k rq h s = (out, s')"
  shows "(\<exists>resp. out = Ran (Returns resp) \<and> rs_headers resp ''X-Request-ID'' = Some (request_id x) \<and>
      snd s' = snd s @ [\<lparr>lg_method = hc_method x, lg_path = hc_path x, lg_status = rs_status resp,
        lg_duration = hc_duration x, lg_request_id = request_id x\<rparr>]) \<or>
    (b \<and> (\<exists>msg. out = Exited msg) \<and> snd s' = snd s)"
proof -
  let ?rq = "rq\<lparr>rq_header := (rq_header rq)(''X-Request-ID'' := request_id x)\<rparr>" and ?h = "h(''X-Request-ID'' \<mapsto> request_id x)"
  obtain y s1 where k: "k ?rq ?h s = (y, s1)" by (cases "k ?rq ?h s")
  have p: "snd s1 = snd s" "case y of Ran (Returns resp) \<Rightarrow> rs_headers resp ''X-Request-ID'' = ?h ''X-Request-ID''
      | Ran (Panics _) \<Rightarrow> b | Exited _ \<Rightarrow> False"
    using assms(1) k unfolding passes_def by (metis fst_conv snd_conv)+
  have id: "RequestID (hc_id_bytes x) j rq h s = j ?rq ?h s" for j :: "'a stage"
    by (simp add: RequestID_def request_id_def Let_def assms(2))
  show ?thesis
  proof (cases y)
    case (Ran z)
    then show ?thesis using assms(3) k p
      by (cases z) (auto simp: root_guards_def id Logger_def Recovery_def split: prod.splits)
  next
    case (Exited msg)
    then show ?thesis using p by simp
  qed
qed

lemma run_guards_append: "run_guards P g x (gs @ gs') k = run_guards P g x gs (run_guards P g x gs' k)"
  by (simp add: run_guards_def)

text \<open>Without a verified token, a guarded route writes nothing and answers 401, or 429 if the limiter comes first.\<close>

lemma run_guards_refuse:
  assumes "caller (pg_auth g) x = None" and "M_AuthGuard \<in> set gs" and "M_RequireAdmin \<notin> set (takeWhile (\<lambda>g. g \<noteq> M_AuthGuard) gs)"
    and "list_all inner_guard gs" and "rq_header rq ''Authorization'' = rq_header (hc_request x) ''Authorization''"
  shows "\<exists>resp r. run_guards P g x gs k rq h s = (Ran (Returns resp), ((fst s)\<lparr>w_redis := r\<rparr>, snd s)) \<and> rs_status resp \<in> {401, 429}"
  using assms(2-)
proof (induction gs arbitrary: h s)
  case (Cons gd gs)
  from Cons.prems(3) consider "gd = M_AuthGuard" | "gd = M_RequireAdmin" | grp cfg where "gd = M_RateLimit grp cfg"
    by (auto simp: inner_guard_def)
  then show ?case
  proof cases
    case 1
    have "\<exists>e. (auth_check (pg_auth g) (hc_verify_at x) rq h :: api_data response + request) = Inl (WriteHTTP e h) \<and> HTTPStatus e = 401"
      using auth_check_caller [OF Cons.prems(4), of "pg_auth g" h, where 'd = api_data] assms(1) by simp
    then obtain e where e: "(auth_check (pg_auth g) (hc_verify_at x) rq h :: api_data response + request) = Inl (WriteHTTP e h)"
      "HTTPStatus e = 401" by blast
    show ?thesis by (rule exI [of _ "WriteHTTP e h"], rule exI [of _ "w_redis (fst s)"]) (use e in \<open>simp add: 1 WriteHTTP_def\<close>)
  next
    case 2
    then show ?thesis using Cons.prems(2) by simp
  next
    case 3
    let ?c = "rate_check (NewRateLimiter (redisLimiterAdapter (pk_redis P)) cfg) grp (hc_limit_at x) rq h (w_redis (fst s)) ::
        api_data verdict \<times> _"
    obtain v r where c: "?c = (v, r)" by fastforce
    show ?thesis
    proof (cases v)
      case (Pass h')
      have "M_AuthGuard \<in> set gs" "M_RequireAdmin \<notin> set (takeWhile (\<lambda>g. g \<noteq> M_AuthGuard) gs)" "list_all inner_guard gs"
        using Cons.prems(1-3) 3 by simp_all
      from Cons.IH [OF this Cons.prems(4), of h' "((fst s)\<lparr>w_redis := r\<rparr>, snd s)"] show ?thesis
        by (auto simp: 3 c Pass)
    next
      case (Reject resp)
      then have "fst ?c = Reject resp" using c by simp
      from rate_check_id(2) [OF this] show ?thesis by (auto simp: 3 c Reject)
    qed
  qed
qed simp

end
