(* ===== verification/Histories.thy ===== *)
theory Histories
  imports Columns World "HOL-Library.Sublist"
begin

text \<open>
  Two more facts about every statement of the \<open>Querier\<close> interface: which tables only ever grow, and
  whose rows a statement can touch.
\<close>

subsection \<open>Tables that only grow\<close>

definition appended :: "db \<Rightarrow> db \<Rightarrow> bool" where
  "appended d d' \<longleftrightarrow>
     prefix (audit_logs d) (audit_logs d') \<and> prefix (chat_messages d) (chat_messages d') \<and>
     prefix (leaderboard_scores d) (leaderboard_scores d') \<and> prefix (credentials d) (credentials d') \<and>
     prefix (map u_id (users d)) (map u_id (users d')) \<and> prefix (map u_username (users d)) (map u_username (users d'))"

lemma appended_refl [simp]: "appended d d"
  by (simp add: appended_def)

lemma appended_trans: "appended a b \<Longrightarrow> appended b c \<Longrightarrow> appended a c"
  unfolding appended_def by (meson prefix_order.trans)

lemma appended_stmt: "(\<And>id now d. appended d (snd (f id now d))) \<Longrightarrow> appended d (snd (stmt f d))"
proof -
  assume f: "\<And>id now d. appended d (snd (f id now d))"
  have t: "appended d (tick d)" by (simp add: appended_def)
  show ?thesis by (rule stmt_keeps) (rule appended_trans [OF t f], rule t)
qed

lemma appended_inserts:
  "appended d (snd (AddRoomMember_sql i j s d))" "appended d (snd (CreateAdminUser_sql s t v d))"
  "appended d (snd (CreateAuditLog_sql p d))" "appended d (snd (CreateBlockRelation_sql i j os d))"
  "appended d (snd (CreateChatMessage_sql i j s t d))" "appended d (snd (CreateChatRoom_sql s os ot d))"
  "appended d (snd (CreateCredential_sql i s t os b d))" "appended d (snd (CreateFriendship_sql i j s d))"
  "appended d (snd (CreateLeaderboardConfig_sql s t v on os d))"
  "appended d (snd (CreatePlatformBinding_sql i s t v w on os d))"
  "appended d (snd (CreateScore_sql i j x d))" "appended d (snd (CreateSession_sql i s os ot ou n d))"
  "appended d (snd (CreateUser_sql s os ot d))"
  unfolding insert_defs by (rule appended_stmt, simp add: Let_def appended_def)+

lemma appended_others:
  "appended d (snd (DeleteBlockRelation_sql i j d))" "appended d (snd (DeleteFriendship_sql i d))"
  "appended d (snd (DeleteFriendshipByUsers_sql i j d))"
  "appended d (snd (DeletePlatformBinding_sql i s d))" "appended d (snd (RemoveRoomMember_sql i j d))"
  "appended d (snd (RevokeSession_sql i d))" "appended d (snd (RevokeSessionsByUserID_sql i d))"
  "appended d (snd (UpdateFriendshipStatus_sql i s d))"
  "appended d (snd (UpdateUserProfile_sql i os ot ou d))" "appended d (snd (UpdateUserStatus_sql i s d))"
  "appended d (snd (select f d))"
  unfolding DeleteBlockRelation_sql_def DeleteFriendship_sql_def DeleteFriendshipByUsers_sql_def select_def
    DeletePlatformBinding_sql_def RemoveRoomMember_sql_def RevokeSession_sql_def RevokeSessionsByUserID_sql_def
    UpdateFriendshipStatus_sql_def UpdateUserProfile_sql_def UpdateUserStatus_sql_def revoke_rows_def
  by (rule appended_stmt, simp add: Let_def appended_def split_beta comp_def if_distrib split: list.split cong: if_cong)+

lemma appended_tick: "appended d (tick d)"
  by (simp add: appended_def)

lemma appended_query: "appended d (run_query q d)"
  by (cases q) (simp_all add: appended_inserts appended_others select_sql_defs appended_tick)

subsection \<open>The rows of one user\<close>

text \<open>The account of a user and what bears the user's name: scores, messages, blocks, memberships.\<close>

definition own_rows :: "uuid \<Rightarrow> db \<Rightarrow> user_row list \<times> score_row list \<times> message_row list \<times> block_row list \<times> member_row list" where
  "own_rows i d =
     (filter (\<lambda>u. u_id u = i) (users d), filter (\<lambda>s. sc_user_id s = i) (leaderboard_scores d),
      filter (\<lambda>m. ms_sender_id m = i) (chat_messages d), filter (\<lambda>b. bl_blocker_id b = i) (block_relations d),
      filter (\<lambda>m. me_user_id m = i) (chat_room_members d))"

text \<open>Statements that are not about user \<open>i\<close>.\<close>

definition harmless :: "uuid \<Rightarrow> querier_call \<Rightarrow> bool" where
  "harmless i q \<longleftrightarrow>
     (case q of
        Q_AddRoomMember _ j _ \<Rightarrow> j \<noteq> i | Q_RemoveRoomMember _ j \<Rightarrow> j \<noteq> i | Q_CreateChatMessage _ j _ _ \<Rightarrow> j \<noteq> i
      | Q_CreateScore _ j _ \<Rightarrow> j \<noteq> i | Q_CreateBlockRelation j _ _ \<Rightarrow> j \<noteq> i | Q_DeleteBlockRelation j _ \<Rightarrow> j \<noteq> i
      | Q_UpdateUserProfile j _ _ _ \<Rightarrow> j \<noteq> i | Q_UpdateUserStatus j _ \<Rightarrow> j \<noteq> i
      | _ \<Rightarrow> True)"

definition same_own :: "uuid \<Rightarrow> db \<Rightarrow> db \<Rightarrow> bool" where
  "same_own i d d' \<longleftrightarrow> i \<in> user_ids d' \<and> own_rows i d' = own_rows i d"

lemma same_own_tick: "i \<in> user_ids d \<Longrightarrow> same_own i d (tick d)"
  by (simp add: same_own_def own_rows_def user_ids_def)

lemma same_own_stmt:
  assumes "i \<in> user_ids d" and "\<And>id now d. i \<in> user_ids d \<Longrightarrow> same_own i d (snd (f id now d))"
  shows "same_own i d (snd (stmt f d))"
proof (rule stmt_keeps)
  have t: "same_own i d (tick d)" by (rule same_own_tick [OF assms(1)])
  show "same_own i d (tick d)" by (rule t)
  show "same_own i d (snd (f id now (tick d)))" for id now
    using assms(2) [of "tick d" id now] t by (simp add: same_own_def)
qed

lemma filter_map_other:
  "(\<And>u. u_id (f u) = u_id u) \<Longrightarrow> (\<And>u. u_id u = i \<Longrightarrow> f u = u) \<Longrightarrow>
    filter (\<lambda>u. u_id u = i) (map f us) = filter (\<lambda>u. u_id u = i) us"
  by (induction us) auto

lemma user_ids_map: "(\<And>u. u_id (f u) = u_id u) \<Longrightarrow> u_id ` f ` A = u_id ` A"
  by (force simp: image_iff)

lemma own_inserts:
  assumes "i \<in> user_ids d"
  shows "j \<noteq> i \<Longrightarrow> same_own i d (snd (AddRoomMember_sql r j s d))" "same_own i d (snd (CreateAdminUser_sql s t v d))"
    "same_own i d (snd (CreateAuditLog_sql p d))" "j \<noteq> i \<Longrightarrow> same_own i d (snd (CreateBlockRelation_sql j k os d))"
    "j \<noteq> i \<Longrightarrow> same_own i d (snd (CreateChatMessage_sql r j s t d))" "same_own i d (snd (CreateChatRoom_sql s os ot d))"
    "same_own i d (snd (CreateCredential_sql j s t os b d))" "same_own i d (snd (CreateFriendship_sql j k s d))"
    "same_own i d (snd (CreateLeaderboardConfig_sql s t v on os d))"
    "same_own i d (snd (CreatePlatformBinding_sql j s t v w on os d))"
    "j \<noteq> i \<Longrightarrow> same_own i d (snd (CreateScore_sql r j x d))" "same_own i d (snd (CreateSession_sql j s os ot ou n d))"
    "same_own i d (snd (CreateUser_sql s os ot d))"
  unfolding insert_defs
  by (rule same_own_stmt [OF assms], simp add: Let_def same_own_def own_rows_def user_ids_def; (blast)?)+

lemma own_others:
  assumes "i \<in> user_ids d"
  shows "j \<noteq> i \<Longrightarrow> same_own i d (snd (DeleteBlockRelation_sql j k d))" "same_own i d (snd (DeleteFriendship_sql k d))"
    "same_own i d (snd (DeleteFriendshipByUsers_sql j k d))"
    "same_own i d (snd (DeletePlatformBinding_sql k s d))" "j \<noteq> i \<Longrightarrow> same_own i d (snd (RemoveRoomMember_sql r j d))"
    "same_own i d (snd (RevokeSession_sql k d))" "same_own i d (snd (RevokeSessionsByUserID_sql k d))"
    "same_own i d (snd (UpdateFriendshipStatus_sql k s d))"
    "j \<noteq> i \<Longrightarrow> same_own i d (snd (UpdateUserProfile_sql j os ot ou d))" "j \<noteq> i \<Longrightarrow> same_own i d (snd (UpdateUserStatus_sql j s d))"
    "same_own i d (snd (select f d))"
  unfolding DeleteBlockRelation_sql_def DeleteFriendship_sql_def DeleteFriendshipByUsers_sql_def select_def
    DeletePlatformBinding_sql_def RemoveRoomMember_sql_def RevokeSession_sql_def RevokeSessionsByUserID_sql_def
    UpdateFriendshipStatus_sql_def UpdateUserProfile_sql_def UpdateUserStatus_sql_def revoke_rows_def
  by (rule same_own_stmt [OF assms];
      auto simp: Let_def same_own_def own_rows_def user_ids_def split_beta blocks_def member_of_def image_image filter_map_other
        split: list.split intro!: filter_cong)+

lemma harmless_query: "i \<in> user_ids d \<Longrightarrow> harmless i q \<Longrightarrow> same_own i d (run_query q d)"
  by (cases q) (simp_all add: harmless_def own_inserts own_others select_sql_defs same_own_tick)

end
