(* ===== verification/ApiProps.thy ===== *)
theory ApiProps
  imports ApiFacts Histories StartupProps AdminProps
begin

text \<open>
  The theorems about the whole program: what an HTTP call may write, what no history of calls and
  frames can break, whose data it can touch, and what an answer looks like.
\<close>

subsection \<open>Access control\<close>

interpretation reach: table_policy "\<lambda>q. is_read q \<or> B q" "\<lambda>w. reached (\<lambda>q. is_read q \<or> B q) d0 (w_db w)"
  for B :: "querier_call \<Rightarrow> bool" and d0 :: db
  by unfold_locales (simp_all add: reached_step)


definition anonymous_call :: "string \<Rightarrow> string \<Rightarrow> string \<Rightarrow> http_call" where
  "anonymous_call m p b =
     \<lparr>hc_method = m, hc_path = p,
      hc_request = \<lparr>rq_header = (\<lambda>_. ''''), rq_query = (\<lambda>_. ''''), rq_param = (\<lambda>_. ''''), rq_remote = ''1.2.3.4:5'',
        rq_user = None, rq_session = None, rq_role = None\<rparr>,
      hc_body = b, hc_id_bytes = [], hc_duration = '''', hc_verify_at = 0, hc_limit_at = 0,
      hc_draws = sample_draws, hc_salt = [], hc_admin_from = 0, hc_admin_issued = 0, hc_state_nanos = 0,
      hc_recent_at = 0, hc_exchange_at = 0, hc_get_token = (\<lambda>_. HttpFailed), hc_get_user = (\<lambda>_. HttpFailed)\<rparr>"


subsection \<open>What no history breaks\<close>

interpretation tables: table_policy "\<lambda>_. True" "\<lambda>w. db_wf (w_db w) \<and> db_typed (w_db w) \<and> appended d0 (w_db w)" for d0
proof unfold_locales
  show "db_wf (w_db (w\<lparr>w_db := run_query q (w_db w)\<rparr>)) \<and> db_typed (w_db (w\<lparr>w_db := run_query q (w_db w)\<rparr>)) \<and>
      appended d0 (w_db (w\<lparr>w_db := run_query q (w_db w)\<rparr>))"
    if "db_wf (w_db w) \<and> db_typed (w_db w) \<and> appended d0 (w_db w)" for q and w :: "('a, tcp_server) world"
    using that appended_trans [OF _ appended_query] by (simp add: run_query_wf run_query_typed)
qed simp_all

interpretation sockets: policy "\<lambda>_. True" "\<lambda>w. server_wf (w_net w)"
  using same_ids_server_wf by unfold_locales (auto simp: sends_def)

lemma sys_step_server_wf:
  assumes "chi_match rtr c" and "db_wf (w_db (fst s))" and "server_wf (w_net (fst s))"
  shows "server_wf (w_net (fst (snd (sys_step rtr P c ev s))))"
proof (cases ev)
  case (Http x)
  have "server_wf (w_net (fst (snd (http_serve rtr P c x s))))"
    using assms(1) TrueI assms(3) by (rule sockets.http_serve_keeps)
  then show ?thesis by (auto simp: sys_step_def Http split: prod.split served.split)
next
  case (Tcp now ce)
  have "chat_inv (chat_step (pg_chat (assemble P c) now) ce (fst s))"
    unfolding assemble_parts by (rule wired.chat_step_inv) (simp add: chat_inv_def assms)
  then show ?thesis by (simp add: sys_step_def Tcp Let_def chat_inv_def)
qed

lemma sys_run_keeps:
  assumes "\<And>ev s. I s \<Longrightarrow> I (snd (sys_step rtr P c ev s))" and "I s"
  shows "I (snd (sys_run rtr P c evs s))"
  using assms(2)
proof (induction evs arbitrary: s)
  case (Cons ev evs)
  then show ?case using assms(1) [of s ev]
    by (auto split: prod.split option.split)
qed simp

text \<open>
  C2. Any history of HTTP calls and events of the chat server, in any order, up to a panic that ends
  the process or for ever, with any tokens, bodies and frames, and with statements of the engine
  failing or losing their replies at any point: the tables keep their keys, references and column
  types, the registry of connections stays well formed, and nobody loses history: audit log, chat
  messages, scores and credentials only grow at their end, and no account disappears or changes
  its name.
\<close>

theorem system_keeps_invariants:
  assumes "chi_match rtr c" and "db_wf (w_db w)" and "db_typed (w_db w)" and "server_wf (w_net w)"
    and "sys_run rtr P c evs (w, lines) = (ended, (w', lines'))"
  shows "db_wf (w_db w') \<and> db_typed (w_db w') \<and> server_wf (w_net w') \<and> appended (w_db w) (w_db w')"
proof -
  let ?I = "\<lambda>s. (db_wf (w_db (fst s)) \<and> db_typed (w_db (fst s)) \<and> appended (w_db w) (w_db (fst s))) \<and> server_wf (w_net (fst s))"
  have step: "?I (snd (sys_step rtr P c ev s))" if "?I s" for ev s
  proof
    show "db_wf (w_db (fst (snd (sys_step rtr P c ev s)))) \<and> db_typed (w_db (fst (snd (sys_step rtr P c ev s)))) \<and>
        appended (w_db w) (w_db (fst (snd (sys_step rtr P c ev s))))"
      by (rule tables.sys_step_keeps [OF assms(1)]) (use that in simp_all)
    show "server_wf (w_net (fst (snd (sys_step rtr P c ev s))))"
      by (rule sys_step_server_wf [OF assms(1)]) (use that in simp_all)
  qed
  have "?I (snd (sys_run rtr P c evs (w, lines)))"
    by (rule sys_run_keeps [where I = ?I]) (rule step, assumption, simp add: assms)
  then show ?thesis by (simp add: assms(5))
qed

lemma sample_integrity: "db_wf (w_db (sample_world n))" "db_typed (w_db (sample_world n))"
  by (simp add: sample_world_def sample_wf)
     (simp add: sample_world_def sample_db_def empty_db_def sample_user_def db_typed_def user_typed_def varchar_ok_def char_count_def)

lemma new_server_wf: "server_wf (NewTCPServer a i h)"
  by (simp add: server_wf_def NewTCPServer_def)

text \<open>A stranger registers over HTTP while a client connects to the chat and sends a frame.\<close>

definition sample_events :: "sys_event list" where
  "sample_events =
     [Http (anonymous_call ''POST'' ''/api/v1/auth/register'' ''{\"username\":\"zoe\",\"password\":\"pw\"}''),
      Tcp 0 (Connect 7), Tcp 0 (FrameIn 0 (mk_frame 1 []))]"

theorem system_keeps_invariants_witness:
  "\<exists>ended w' lines'. sys_run (ref_find (root_guards config_defaults)) ref_packages config_defaults sample_events
      (sample_world (NewTCPServer '':9091'' 0 0), []) = (ended, (w', lines')) \<and>
    db_wf (w_db w') \<and> server_wf (w_net w') \<and> appended (w_db (sample_world ())) (w_db w')"
proof -
  let ?w = "sample_world (NewTCPServer '':9091'' 0 0)"
  obtain ended w' lines' where r: "sys_run (ref_find (root_guards config_defaults)) ref_packages config_defaults sample_events
      (?w, []) = (ended, (w', lines'))" by (metis prod.exhaust)
  have "server_wf (w_net ?w)" by (simp add: sample_world_def new_server_wf)
  from system_keeps_invariants [OF ref_match.chi_match_axioms sample_integrity this r] r show ?thesis
    by (auto simp: sample_world_def)
qed

subsection \<open>Whose data\<close>

text \<open>Event \<open>ev\<close> is an action of user \<open>i\<close>, or of an administrator.\<close>

definition acts_as :: "'r packages \<Rightarrow> config \<Rightarrow> sys_event \<Rightarrow> 'r chat_world \<Rightarrow> uuid \<Rightarrow> bool" where
  "acts_as P c ev w i \<longleftrightarrow>
     (case ev of
        Http x \<Rightarrow>
          (case caller (pg_auth (assemble P c)) x of
             None \<Rightarrow> False
           | Some cl \<Rightarrow> parse_or_nil (pk_uuid P) (cl_UserID cl) = i \<or> cl_Role cl = ''admin'')
      | Tcp _ ce \<Rightarrow>
          (case ce of FrameIn p _ \<Rightarrow> parse_or_nil (pk_uuid P) (c_UserID (conn_of p w)) = i | _ \<Rightarrow> False))"

fun absent :: "router \<Rightarrow> 'r packages \<Rightarrow> config \<Rightarrow> uuid \<Rightarrow> sys_event list \<Rightarrow> 'r api_state \<Rightarrow> bool" where
  "absent rtr P c i [] s = True"
| "absent rtr P c i (ev # evs) s = (\<not> acts_as P c ev (fst s) i \<and> absent rtr P c i evs (snd (sys_step rtr P c ev s)))"

interpretation own: table_policy "harmless i" "\<lambda>w. same_own i d0 (w_db w)" for i d0
proof unfold_locales
  show "same_own i d0 (w_db (w\<lparr>w_db := run_query q (w_db w)\<rparr>))" if "harmless i q" "same_own i d0 (w_db w)"
    for q and w :: "('a, tcp_server) world"
    using harmless_query [of i "w_db w" q] that by (simp add: same_own_def)
qed (simp_all add: harmless_def is_read_def split: querier_call.splits)

lemma others_harmless:
  "anyone_may q \<Longrightarrow> harmless i q" "player_may j q \<Longrightarrow> j \<noteq> i \<Longrightarrow> harmless i q" "frame_may j q \<Longrightarrow> j \<noteq> i \<Longrightarrow> harmless i q"
  by (cases q; simp add: anyone_may_def player_may_def frame_may_def harmless_def is_read_def)+

lemma absent_step_own:
  assumes "chi_match rtr c" and "same_own i d0 (w_db (fst s))" and "\<not> acts_as P c ev (fst s) i"
  shows "same_own i d0 (w_db (fst (snd (sys_step rtr P c ev s))))"
proof (rule own.sys_step_keeps [OF assms(1,2)])
  show "harmless i q" if "ev = Http x" "permitted (pk_uuid P) (caller (pg_auth (assemble P c)) x) q" for x q
    using that assms(3) others_harmless(1,2) by (auto simp: acts_as_def permitted_def Let_def split: option.splits)
  show "harmless i q" if "ev = Tcp now (FrameIn p f)" "frame_may (parse_or_nil (pk_uuid P) (c_UserID (conn_of p (fst s)))) q" for now p f q
    using that assms(3) others_harmless(3) by (auto simp: acts_as_def)
qed


lemma anonymous_caller: "caller A (anonymous_call m p b) = None"
  by (simp add: caller_def anonymous_call_def split_space2_def)


subsection \<open>Answers\<close>


lemma no_such_route: "ref_find gs (main_table c) m ''/nowhere'' = Missed gs not_found"
  by (simp add: main_table_def route_progs Let_def)


text \<open>
  C5. A call without a verified token to any route of a player or an administrator is refused before
  its handler runs: the answer is 401, or 429 where the limiter comes first, no statement is
  executed and nothing is sent to the clients of the chat; only the counter of the limiter in Redis may change.
\<close>

theorem unverified_call_refused:
  assumes "chi_match rtr c" and "rtr (main_table c) (hc_method x) (hc_path x) = Found (m, pat, gs, name) ps"
    and "level_of name \<noteq> Public" and "caller (pg_auth (assemble P c)) x = None"
    and "http_serve rtr P c x (w, lines) = (out, (w', lines'))"
  shows "(\<exists>resp. out = Ran (Returns resp) \<and> rs_status resp \<in> {401, 429}) \<and> w_db w' = w_db w \<and> w_net w' = w_net w"
proof -
  let ?g = "assemble P c"
  have T: "routes_of [] [] (pg_routes ?g) = main_table c" by (simp add: assemble_parts main_table_def)
  have mem: "(m, pat, gs, name) \<in> set (main_table c)" using chi_match.found [OF assms(1,2)] by blast
  from main_table_guards [OF mem] assms(3) obtain inner where gs: "gs = root_guards c @ inner" "list_all inner_guard inner"
    "M_AuthGuard \<in> set inner" "M_RequireAdmin \<notin> set (takeWhile (\<lambda>g. g \<noteq> M_AuthGuard) inner)" by blast
  from main_table_handlers [OF mem] obtain k where k: "map_of (http_handlers P ?g x) name = Some k" by blast
  let ?rq = "(incoming x ps)\<lparr>rq_header := (rq_header (incoming x ps))(''X-Request-ID'' := request_id x)\<rparr>"
  have rid: "RequestID (hc_id_bytes x) j (incoming x ps) Map.empty s = j ?rq [''X-Request-ID'' \<mapsto> request_id x] s"
    for j :: "'a stage" and s
    by (simp add: RequestID_def request_id_def Let_def incoming_def)
  have "rq_header ?rq ''Authorization'' = rq_header (hc_request x) ''Authorization''" by (simp add: incoming_def)
  from run_guards_refuse [OF assms(4) gs(3,4,2) this] obtain resp r where
    "run_guards P ?g x inner (on_world k) ?rq [''X-Request-ID'' \<mapsto> request_id x] (w, lines) =
      (Ran (Returns resp), (w\<lparr>w_redis := r\<rparr>, lines))" "rs_status resp \<in> {401, 429}"
    by (metis fst_conv snd_conv)
  then show ?thesis
    using assms(5) by (auto simp: http_serve_def T assms(2) k gs(1) root_guards_def rid Recovery_def Logger_def Let_def)
qed

lemma me_route: "\<exists>gs ps. ref_find g (main_table c) ''GET'' ''/api/v1/users/me'' = Found (''GET'', ''/api/v1/users/me'', gs, ''users.getMe'') ps"
  by (simp add: main_table_def route_progs Let_def)

theorem unverified_call_refused_witness:
  "\<exists>resp s'. http_serve (ref_find (root_guards config_defaults)) ref_packages config_defaults (anonymous_call ''GET'' ''/api/v1/users/me'' '''')
      (sample_world (NewTCPServer '':9091'' 0 0), []) = (Ran (Returns resp), s') \<and> rs_status resp \<in> {401, 429}"
proof -
  let ?x = "anonymous_call ''GET'' ''/api/v1/users/me'' ''''" and ?w = "sample_world (NewTCPServer '':9091'' 0 0)"
  obtain out w' lines' where o: "http_serve (ref_find (root_guards config_defaults)) ref_packages config_defaults ?x (?w, []) =
      (out, (w', lines'))" by (metis prod.exhaust)
  obtain gs ps where "ref_find (root_guards config_defaults) (main_table config_defaults) (hc_method ?x) (hc_path ?x) =
      Found (''GET'', ''/api/v1/users/me'', gs, ''users.getMe'') ps"
    using me_route [of "root_guards config_defaults" config_defaults] by (auto simp: anonymous_call_def)
  moreover have "level_of ''users.getMe'' \<noteq> Public" by (simp add: level_of_def)
  ultimately show ?thesis
    using unverified_call_refused [OF ref_match.chi_match_axioms _ _ anonymous_caller o] o by auto
qed

end
