(* ===== verification/ModuleFiles.thy ===== *)
theory ModuleFiles
  imports StartupProps
begin

text \<open>
  The packages as modules (\<open>module.go\<close> of each): what \<open>NewModule\<close> puts together, the hooks that the
  application calls, and the routes. \<open>Wiring\<close> names the services of the registry by tokens; here the
  registry holds the services themselves, and \<open>build_modules\<close> builds the modules in the order of
  \<open>main\<close>. A pointer that is registered and changed later shows its last value.
\<close>

subsection \<open>Queries and the Redis adapter\<close>

text \<open>The query set holds the connection or the transaction that it executes on.\<close>

record 'd queries =
  q_db :: 'd

definition db_New :: "'d \<Rightarrow> 'd queries" where
  [go_defs]: "db_New db = \<lparr>q_db = db\<rparr>"

definition WithTx :: "'d queries \<Rightarrow> 'd \<Rightarrow> 'd queries" where
  [go_defs]: "WithTx q tx = \<lparr>q_db = tx\<rparr>"

record 'r redis_adapter =
  ra_client :: "'r redis_client"

definition NewRedisAdapter :: "'r redis_client \<Rightarrow> 'r redis_adapter" where
  [go_defs]: "NewRedisAdapter client = \<lparr>ra_client = client\<rparr>"

definition adapter_Set :: "'r redis_adapter \<Rightarrow> string \<Rightarrow> string \<Rightarrow> int \<Rightarrow> ('r, unit) redis_cmd" where
  [go_defs]: "adapter_Set a key value ttl = rc_Set (ra_client a) key value ttl"

definition adapter_Get :: "'r redis_adapter \<Rightarrow> string \<Rightarrow> ('r, string) redis_cmd" where
  [go_defs]: "adapter_Get a key = rc_Get (ra_client a) key"

definition adapter_Del :: "'r redis_adapter \<Rightarrow> string \<Rightarrow> ('r, int) redis_cmd" where
  [go_defs]: "adapter_Del a key = rc_Del (ra_client a) key"

text \<open>What a holder of the interface \<open>RedisClient\<close> of auth sees: the client with the three calls of the adapter.\<close>

definition adapted :: "'r redis_adapter \<Rightarrow> 'r redis_client" where
  "adapted a = (ra_client a)\<lparr>rc_Set := adapter_Set a, rc_Get := adapter_Get a, rc_Del := adapter_Del a\<rparr>"

lemma adapted_client [simp]: "adapted (NewRedisAdapter client) = client"
proof -
  have "adapter_Set \<lparr>ra_client = client\<rparr> = rc_Set client" "adapter_Get \<lparr>ra_client = client\<rparr> = rc_Get client"
    "adapter_Del \<lparr>ra_client = client\<rparr> = rc_Del client"
    by (intro ext, simp add: adapter_Set_def adapter_Get_def adapter_Del_def)+
  then show ?thesis by (simp add: adapted_def NewRedisAdapter_def)
qed

record 'r session_store =
  st_client :: "'r redis_client"
  st_prefix :: string

definition NewSessionStore :: "'r redis_client \<Rightarrow> 'r session_store" where
  [go_defs]: "NewSessionStore client = \<lparr>st_client = client, st_prefix = ''session:''\<rparr>"

lemma session_key_prefix: "session_key i = st_prefix (NewSessionStore client) @ i"
  by (simp add: session_key_def NewSessionStore_def)

record key_manager =
  km_keys :: "jwt_key list"

definition NewKeyManager :: "jwt_key list \<Rightarrow> key_manager" where
  [go_defs]: "NewKeyManager keys = \<lparr>km_keys = keys\<rparr>"

subsection \<open>Services and handlers\<close>

text \<open>The services that hold only the query set, the registry or the auth service besides.\<close>

record user_service =
  us_uuid :: uuid_lib

definition NewUserService :: "uuid_lib \<Rightarrow> user_service" where
  [go_defs]: "NewUserService U = \<lparr>us_uuid = U\<rparr>"

record platform_service =
  pf_uuid :: uuid_lib
  pf_registry :: registry

definition NewPlatformService :: "uuid_lib \<Rightarrow> registry \<Rightarrow> platform_service" where
  [go_defs]: "NewPlatformService U reg = \<lparr>pf_uuid = U, pf_registry = reg\<rparr>"

record 'r admin_service =
  adm_uuid :: uuid_lib
  adm_auth :: "'r auth_svc"

definition NewAdminService :: "uuid_lib \<Rightarrow> 'r auth_svc \<Rightarrow> 'r admin_service" where
  [go_defs]: "NewAdminService U authSvc = \<lparr>adm_uuid = U, adm_auth = authSvc\<rparr>"

text \<open>The handler of a package holds its service.\<close>

record 's handler =
  hd_service :: 's

definition users_NewHandler :: "user_service \<Rightarrow> user_service handler" where
  [go_defs]: "users_NewHandler svc = \<lparr>hd_service = svc\<rparr>"

definition auth_NewHandler :: "'r auth_svc \<Rightarrow> 'r auth_svc handler" where
  [go_defs]: "auth_NewHandler svc = \<lparr>hd_service = svc\<rparr>"

definition platforms_NewHandler :: "platform_service \<Rightarrow> platform_service handler" where
  [go_defs]: "platforms_NewHandler svc = \<lparr>hd_service = svc\<rparr>"

definition chat_NewHandler :: "'r chat_svc \<Rightarrow> 'r chat_svc handler" where
  [go_defs]: "chat_NewHandler svc = \<lparr>hd_service = svc\<rparr>"

definition leaderboard_NewHandler :: "'r board_svc \<Rightarrow> 'r board_svc handler" where
  [go_defs]: "leaderboard_NewHandler svc = \<lparr>hd_service = svc\<rparr>"

definition NewAdminHandler :: "'r admin_service \<Rightarrow> 'r admin_service handler" where
  [go_defs]: "NewAdminHandler svc = \<lparr>hd_service = svc\<rparr>"

definition NewFriendsHandler :: "('r, 'n) friends_svc \<Rightarrow> ('r, 'n) friends_svc handler" where
  [go_defs]: "NewFriendsHandler svc = \<lparr>hd_service = svc\<rparr>"

subsection \<open>Module values\<close>

record 's module_of =
  mo_handler :: "'s handler"
  mo_service :: 's

record platforms_mod = "platform_service module_of" +
  pm_registry :: registry

record 'r admin_mod = "'r admin_service module_of" +
  am_authSvc :: "'r auth_svc"

definition users_NewModule :: "uuid_lib \<Rightarrow> user_service module_of" where
  [go_defs]: "users_NewModule U =
     (let svc = NewUserService U in \<lparr>mo_handler = users_NewHandler svc, mo_service = svc\<rparr>)"

definition auth_NewModule ::
    "uuid_lib \<Rightarrow> jwt_lib \<Rightarrow> bcrypt_lib \<Rightarrow> (string \<Rightarrow> bytes) \<Rightarrow> key_manager \<Rightarrow> 'r session_store \<Rightarrow> 'r auth_svc module_of" where
  [go_defs]: "auth_NewModule U J B sha km sessions =
     (let svc = NewAuthService U J B sha (km_keys km) (st_client sessions)
      in \<lparr>mo_handler = auth_NewHandler svc, mo_service = svc\<rparr>)"

definition auth_Service :: "'r auth_svc module_of \<Rightarrow> 'r auth_svc" where
  [go_defs]: "auth_Service m = mo_service m"

definition platforms_NewModule :: "uuid_lib \<Rightarrow> registry \<Rightarrow> platforms_mod" where
  [go_defs]: "platforms_NewModule U reg =
     (let svc = NewPlatformService U reg
      in \<lparr>mo_handler = platforms_NewHandler svc, mo_service = svc, pm_registry = reg\<rparr>)"

definition leaderboard_NewModule :: "uuid_lib \<Rightarrow> 'r redis_client \<Rightarrow> 'r board_svc module_of" where
  [go_defs]: "leaderboard_NewModule U rdb =
     (let svc = NewLeaderboardService U rdb in \<lparr>mo_handler = leaderboard_NewHandler svc, mo_service = svc\<rparr>)"

definition admin_NewModule :: "uuid_lib \<Rightarrow> 'r auth_svc \<Rightarrow> 'r admin_mod" where
  [go_defs]: "admin_NewModule U authSvc =
     (let svc = NewAdminService U authSvc
      in \<lparr>mo_handler = NewAdminHandler svc, mo_service = svc, am_authSvc = authSvc\<rparr>)"

definition friends_NewModule ::
    "uuid_lib \<Rightarrow> 'r redis_client option \<Rightarrow> 'n notifier option \<Rightarrow> ('r, 'n) friends_svc module_of" where
  [go_defs]: "friends_NewModule U rdb notifier =
     (let svc = NewFriendsService U rdb notifier in \<lparr>mo_handler = NewFriendsHandler svc, mo_service = svc\<rparr>)"

text \<open>\<open>LoadBlockCache\<close> of the module is that of its service.\<close>

definition friends_LoadBlockCache :: "('r, 'n) friends_svc module_of \<Rightarrow> ('r, 'n, unit) svc" where
  [go_defs]: "friends_LoadBlockCache m = LoadBlockCache (mo_service m)"

subsection \<open>Hooks\<close>

datatype 'r any_service =
    UserSvc user_service | AuthSvc "'r auth_svc" | PlatformSvc platform_service | RegistrySvc registry
  | ChatSvc "'r chat_svc" | LeaderboardSvc "'r board_svc" | AdminSvc "'r admin_service"
  | FriendsSvc "('r, tcp_server) friends_svc"

text \<open>The hooks of \<open>go_module\<close> with the one that registers the routes.\<close>

record ('s, 'w) routed_module = "('s, 'w) go_module" +
  rm_RegisterRoutes :: "route_prog list"

definition users_Module :: "user_service module_of \<Rightarrow> ('r any_service, 'w) routed_module" where
  "users_Module m =
     \<lparr>gm_Name = ''users'', gm_Dependencies = [],
      gm_RegisterServices = reg_Register ''users'' (UserSvc (mo_service m)),
      gm_OnStart = Pair None, gm_OnStop = Pair None, rm_RegisterRoutes = users_routes\<rparr>"

definition auth_Module :: "'r auth_svc module_of \<Rightarrow> ('r any_service, 'w) routed_module" where
  "auth_Module m =
     \<lparr>gm_Name = ''auth'', gm_Dependencies = [''users''],
      gm_RegisterServices = reg_Register ''auth'' (AuthSvc (mo_service m)),
      gm_OnStart = Pair None, gm_OnStop = Pair None, rm_RegisterRoutes = auth_routes\<rparr>"

definition platforms_Module :: "platforms_mod \<Rightarrow> ('r any_service, 'w) routed_module" where
  "platforms_Module m =
     \<lparr>gm_Name = ''platforms'', gm_Dependencies = [''auth'', ''users''],
      gm_RegisterServices = (\<lambda>r. reg_Register ''platform-registry'' (RegistrySvc (pm_registry m))
        (reg_Register ''platforms'' (PlatformSvc (mo_service m)) r)),
      gm_OnStart = Pair None, gm_OnStop = Pair None, rm_RegisterRoutes = platforms_RegisterRoutes\<rparr>"

definition chat_Module :: "(string \<Rightarrow> bool) \<Rightarrow> 'r chat_mod \<Rightarrow> ('r any_service, 'r chat_world) routed_module" where
  "chat_Module binds m =
     \<lparr>gm_Name = ''chat'', gm_Dependencies = [],
      gm_RegisterServices = reg_Register ''chat'' (ChatSvc (cm_service m)),
      gm_OnStart = ChatService_Start binds, gm_OnStop = ChatService_Stop, rm_RegisterRoutes = chat_routes\<rparr>"

definition leaderboard_Module :: "'r board_svc module_of \<Rightarrow> ('r any_service, 'w) routed_module" where
  "leaderboard_Module m =
     \<lparr>gm_Name = ''leaderboard'', gm_Dependencies = [],
      gm_RegisterServices = reg_Register ''leaderboard'' (LeaderboardSvc (mo_service m)),
      gm_OnStart = Pair None, gm_OnStop = Pair None, rm_RegisterRoutes = leaderboard_RegisterRoutes\<rparr>"

definition admin_Module :: "'r admin_mod \<Rightarrow> ('r any_service, 'w) routed_module" where
  "admin_Module m =
     \<lparr>gm_Name = ''admin'', gm_Dependencies = [],
      gm_RegisterServices = reg_Register ''admin'' (AdminSvc (mo_service m)),
      gm_OnStart = Pair None, gm_OnStop = Pair None, rm_RegisterRoutes = admin_RegisterRoutes\<rparr>"

definition friends_Module :: "('r, tcp_server) friends_svc module_of \<Rightarrow> ('r any_service, 'w) routed_module" where
  "friends_Module m =
     \<lparr>gm_Name = ''friends'', gm_Dependencies = [],
      gm_RegisterServices = reg_Register ''friends'' (FriendsSvc (mo_service m)),
      gm_OnStart = Pair None, gm_OnStop = Pair None, rm_RegisterRoutes = friends_RegisterRoutes\<rparr>"

text \<open>The module of the health check embeds \<open>BaseModule\<close> and adds its name and its route.\<close>

definition health_Module :: "('s, 'w) routed_module" where
  "health_Module = go_module.extend (BaseModule ''health'') \<lparr>rm_RegisterRoutes = health_routes\<rparr>"

subsection \<open>The modules of main\<close>

definition build_modules ::
    "'r packages \<Rightarrow> (string \<Rightarrow> bool) \<Rightarrow> registry \<Rightarrow> int \<Rightarrow> config \<Rightarrow> ('r any_service, 'r chat_world) routed_module list" where
  "build_modules P binds platformRegistry now c =
     (let U = pk_uuid P; rdb = pk_redis P;
          users = users_NewModule U;
          auth = auth_NewModule U (pk_jwt P) (pk_bcrypt P) (pk_sha256 P) (NewKeyManager (jwt_keys_of c))
            (NewSessionStore (adapted (NewRedisAdapter rdb)));
          platforms = platforms_NewModule U platformRegistry;
          chat = chat_NewModule (pk_proto P) U '':9091'' None None None;
          leaderboard = leaderboard_NewModule U rdb;
          admin = admin_NewModule U (auth_Service auth);
          friends = friends_NewModule U (Some rdb) (Some (chat_PresenceNotifier chat));
          chat1 = SetBlockChecker (friends_BlockChecker (mo_service friends)) chat;
          chat2 = SetPresenceSetter (friends_PresenceSetter (mo_service friends)) chat1;
          chat3 = SetTokenValidator (\<lambda>token w. (tokenValidatorAdapter (auth_Service auth) now token, w)) chat2
      in [users_Module users, auth_Module auth, platforms_Module platforms, chat_Module binds chat3,
          leaderboard_Module leaderboard, admin_Module admin, friends_Module friends])"

lemmas module_defs = users_Module_def auth_Module_def platforms_Module_def chat_Module_def leaderboard_Module_def
  admin_Module_def friends_Module_def users_NewModule_def auth_NewModule_def platforms_NewModule_def leaderboard_NewModule_def
  admin_NewModule_def friends_NewModule_def NewUserService_def NewPlatformService_def NewAdminService_def
  NewKeyManager_def NewSessionStore_def auth_Service_def

lemma build_modules_services:
  fixes P :: "'r packages"
  shows "build_modules P binds reg now c =
    [users_Module (users_NewModule (pk_uuid P)),
     auth_Module \<lparr>mo_handler = auth_NewHandler (pg_auth (assemble P c)), mo_service = pg_auth (assemble P c)\<rparr>,
     platforms_Module (platforms_NewModule (pk_uuid P) reg),
     chat_Module binds \<lparr>cm_service = pg_chat (assemble P c) now, cm_server = pg_tcp (assemble P c),
       cm_notifier = ChatPresenceNotifier (pk_proto P)\<rparr>,
     leaderboard_Module \<lparr>mo_handler = leaderboard_NewHandler (pg_board (assemble P c)), mo_service = pg_board (assemble P c)\<rparr>,
     admin_Module (admin_NewModule (pk_uuid P) (pg_auth (assemble P c))),
     friends_Module \<lparr>mo_handler = NewFriendsHandler (pg_friends (assemble P c)), mo_service = pg_friends (assemble P c)\<rparr>]"
  by (simp add: build_modules_def assemble_def Let_def auth_NewModule_def leaderboard_NewModule_def friends_NewModule_def
      chat_NewModule_def NewSessionStore_def NewKeyManager_def auth_Service_def SetBlockChecker_def SetPresenceSetter_def
      SetTokenValidator_def chat_PresenceNotifier_def)

text \<open>Starting depends only on the hooks.\<close>

lemma truncate_fields [simp]:
  "gm_Name (go_module.truncate m) = gm_Name m" "gm_RegisterServices (go_module.truncate m) = gm_RegisterServices m"
  "gm_OnStart (go_module.truncate m) = gm_OnStart m"
  by (simp_all add: go_module.truncate_def)

lemma start_loop_hooks:
  "map gm_Name ms = map gm_Name ns \<Longrightarrow> map gm_OnStart ms = map gm_OnStart ns \<Longrightarrow> start_loop ms w = start_loop ns w"
  by (induction ms arbitrary: ns w) (auto split: prod.split option.split)

lemma fold_Register_registry: "app_registry (fold app_Register ms a) = app_registry a"
  by (induction ms arbitrary: a) (simp_all add: app_Register_def)

lemma started_registry:
  "app_Start (fold app_Register ms NewApp) w = (err, a, w') \<Longrightarrow>
   app_registry a = fold gm_RegisterServices ms Map.empty \<and> start_loop ms w = (err, w')"
  by (auto simp: app_Start_def fold_Register NewApp_def NewServiceRegistry_def fold_Register_registry Let_def split: prod.splits)

text \<open>
  Building the modules one by one and registering them gives the program that the other theorems are
  about. After \<open>Start\<close>, whether or not the listener opens, the registry holds under each of the eight
  names the service that \<open>assemble\<close> wires, and under any other name \<open>MustResolve\<close> panics. Starting does
  what it does for \<open>main_app\<close>, and each module is registered after the modules that it depends on.
\<close>

theorem registry_holds_wired_services:
  fixes P :: "'r packages" and w :: "'r chat_world"
  assumes "build_modules P binds (pg_registry (assemble P c) get_token get_user now) now c = ms"
    and "app_Start (fold app_Register (map go_module.truncate ms) NewApp) w = (err, a, w')"
  shows "MustResolve ''auth'' (app_registry a) = Returns (AuthSvc (pg_auth (assemble P c))) \<and>
    MustResolve ''chat'' (app_registry a) = Returns (ChatSvc (pg_chat (assemble P c) now)) \<and>
    MustResolve ''friends'' (app_registry a) = Returns (FriendsSvc (pg_friends (assemble P c))) \<and>
    MustResolve ''leaderboard'' (app_registry a) = Returns (LeaderboardSvc (pg_board (assemble P c))) \<and>
    MustResolve ''platform-registry'' (app_registry a) =
      Returns (RegistrySvc (pg_registry (assemble P c) get_token get_user now)) \<and>
    (\<exists>s. MustResolve ''platforms'' (app_registry a) = Returns (PlatformSvc s) \<and>
       pf_registry s = pg_registry (assemble P c) get_token get_user now) \<and>
    (\<exists>s. MustResolve ''admin'' (app_registry a) = Returns (AdminSvc s) \<and> adm_auth s = pg_auth (assemble P c)) \<and>
    (\<exists>s. MustResolve ''users'' (app_registry a) = Returns (UserSvc s)) \<and>
    (\<forall>name s. MustResolve name (app_registry a) = Returns s \<longrightarrow>
       name \<in> {''users'', ''auth'', ''platforms'', ''platform-registry'', ''chat'', ''leaderboard'', ''admin'', ''friends''}) \<and>
    (\<exists>b. app_Start (main_app (ChatService_Start binds) ChatService_Stop) w = (err, b, w') \<and> ModuleNames b = map gm_Name ms) \<and>
    (\<forall>i < length ms. set (gm_Dependencies (ms ! i)) \<subseteq> set (map gm_Name (take i ms)))"
proof -
  let ?p = "assemble P c" and ?app = "main_app (ChatService_Start binds) ChatService_Stop :: (service, 'r chat_world) app"
  note ms = build_modules_services [of P binds "pg_registry (assemble P c) get_token get_user now" now c, unfolded assms(1)]
  note start = started_registry [OF assms(2)]
  have a: "app_registry a = [''users'' \<mapsto> UserSvc (NewUserService (pk_uuid P)), ''auth'' \<mapsto> AuthSvc (pg_auth ?p),
      ''platforms'' \<mapsto> PlatformSvc (NewPlatformService (pk_uuid P) (pg_registry ?p get_token get_user now)),
      ''platform-registry'' \<mapsto> RegistrySvc (pg_registry ?p get_token get_user now), ''chat'' \<mapsto> ChatSvc (pg_chat ?p now),
      ''leaderboard'' \<mapsto> LeaderboardSvc (pg_board ?p), ''admin'' \<mapsto> AdminSvc (NewAdminService (pk_uuid P) (pg_auth ?p)),
      ''friends'' \<mapsto> FriendsSvc (pg_friends ?p)]"
    using start by (simp add: ms module_defs reg_Register_def Let_def)
  have names: "map gm_Name ms = map gm_Name (app_modules ?app)"
    and hooks: "map gm_OnStart ms = map gm_OnStart (app_modules ?app)"
    by (simp_all add: ms main_app_def app_Register_def NewApp_def module_defs users_module_def auth_module_def platforms_module_def
        chat_module_def leaderboard_module_def admin_module_def friends_module_def BaseModule_def)
  have "start_loop (app_modules ?app) w = (err, w')"
    using start start_loop_hooks [of "map go_module.truncate ms" "app_modules ?app" w] names hooks by (simp add: comp_def)
  then have "app_Start ?app w = (err, ?app\<lparr>app_registry := fold gm_RegisterServices (app_modules ?app) (app_registry ?app)\<rparr>, w')"
    by (simp add: app_Start_def)
  then have "\<exists>b. app_Start ?app w = (err, b, w') \<and> ModuleNames b = map gm_Name ms"
    by (auto simp: names ModuleNames_def)
  moreover have "\<forall>i < length ms. set (gm_Dependencies (ms ! i)) \<subseteq> set (map gm_Name (take i ms))"
    by (simp add: ms module_defs All_less_Suc numeral_nat)
  ultimately show ?thesis
    by (simp add: a MustResolve_def NewPlatformService_def NewAdminService_def split: option.split)
qed

theorem registry_holds_wired_services_witness:
  "\<exists>err a w'. app_Start (fold app_Register (map go_module.truncate (build_modules ref_packages (\<lambda>_. False)
      (pg_registry (assemble ref_packages config_defaults) (\<lambda>_. HttpFailed) (\<lambda>_. HttpFailed) 0) 0 config_defaults)) NewApp)
      (sample_world (NewTCPServer '''' 0 0)) = (err, a, w') \<and>
    MustResolve ''friends'' (app_registry a) = Returns (FriendsSvc (pg_friends (assemble ref_packages config_defaults)))"
proof -
  let ?ms = "build_modules ref_packages (\<lambda>_. False) (pg_registry (assemble ref_packages config_defaults) (\<lambda>_. HttpFailed) (\<lambda>_. HttpFailed) 0) 0 config_defaults"
  obtain err a w' where r: "app_Start (fold app_Register (map go_module.truncate ?ms) NewApp) (sample_world (NewTCPServer '''' 0 0)) = (err, a, w')"
    by (metis prod.exhaust)
  from registry_holds_wired_services [OF refl r] show ?thesis unfolding r by simp
qed

end
