(* ===== verification/Answers.thy ===== *)
theory Answers
  imports Bodies LimiterProps "HOL-Library.Char_ord" "HOL-Library.List_Lexorder"
begin

text \<open>
  The bytes of error answers. \<open>WriteHTTP\<close> leaves the text to \<open>encoding/json\<close>, which writes the members
  of a struct in its order and those of a map sorted by key, and leaves out empty members with
  \<open>omitempty\<close>; a client reads back what was meant. The limiter builds its text itself, around a
  header that the client chooses.
\<close>

subsection \<open>AppError as JSON\<close>

text \<open>A detail is a text here, as in \<open>Errors\<close>.\<close>

definition details_json :: "(string \<rightharpoonup> string) \<Rightarrow> json" where
  "details_json m = JObj (map (\<lambda>k. (k, JStr (the (m k)))) (sorted_list_of_set (dom m)))"

definition app_error_json :: "app_error \<Rightarrow> json" where
  "app_error_json e = JObj
     ([(''code'', JStr (ae_code e)), (''message'', JStr (ae_message e))]
      @ (if ae_details e = Map.empty then [] else [(''details'', details_json (ae_details e))])
      @ (if ae_request_id e = '''' then [] else [(''requestId'', JStr (ae_request_id e))]))"

definition error_body :: "app_error \<Rightarrow> string" where
  "error_body e = json_print (JObj [(''ok'', JBool False), (''error'', app_error_json e)])"

definition ascii_error :: "app_error \<Rightarrow> bool" where
  "ascii_error e \<longleftrightarrow> ascii (ae_code e) \<and> ascii (ae_message e) \<and> ascii (ae_request_id e) \<and>
     finite (dom (ae_details e)) \<and> (\<forall>k v. ae_details e k = Some v \<longrightarrow> ascii k \<and> ascii v)"

text \<open>The member of an object with a name, as a reader that takes the first one finds it.\<close>

definition member_of_json :: "string \<Rightarrow> json \<Rightarrow> json option" where
  "member_of_json k v = (case v of JObj ms \<Rightarrow> map_of ms k | _ \<Rightarrow> None)"

lemma utf8_ascii: "ascii s \<Longrightarrow> utf8_ok s"
  by (rule utf8_ok_ascii) (simp add: ascii_def list_all_iff)

lemma details_wf:
  assumes "ascii_error e"
  shows "json_wf 9998 (details_json (ae_details e))"
  using assms by (fastforce simp: details_json_def ascii_error_def list_all_iff utf8_ascii domIff)


definition quoted_error :: app_error where
  "quoted_error = WithRequestID ''a\"b'' (WithDetail ''field'' ''<x>'' (errors_New ErrBadRequest ''invalid''))"


subsection \<open>The text of the limiter\<close>

text \<open>Texts that JSON writes as they are.\<close>

definition plain_text :: "string \<Rightarrow> bool" where
  "plain_text s \<longleftrightarrow> list_all (\<lambda>c. of_char c < (128::nat) \<and> json_char c = [c]) s"

lemma plain_text_simps [simp]:
  "plain_text []" "plain_text (c # s) \<longleftrightarrow> of_char c < (128::nat) \<and> json_char c = [c] \<and> plain_text s"
  "plain_text (s @ t) \<longleftrightarrow> plain_text s \<and> plain_text t"
  by (auto simp: plain_text_def)

lemma plain_text_written: "plain_text s \<Longrightarrow> json_string s = CHR 0x22 # s @ [CHR 0x22] \<and> utf8_ok s"
proof -
  assume p: "plain_text s"
  then have "concat (map json_char s) = s" by (induction s) (auto simp: plain_text_def)
  moreover have "utf8_ok s" by (rule utf8_ok_ascii) (use p in \<open>simp add: plain_text_def list_all_iff\<close>)
  ultimately show ?thesis by (simp add: json_string_def)
qed

lemma plain_dec_nat: "plain_text (dec_nat n)"
proof -
  have "\<forall>c \<in> set ''0123456789''. of_char c < (128::nat) \<and> json_char c = [c]" by (simp add: json_char_def)
  then show ?thesis using dec_nat_digits [of n] unfolding plain_text_def list_all_iff by blast
qed

lemma plain_dec_int: "plain_text (dec_int i)"
  by (simp add: dec_int_def plain_dec_nat) (simp add: json_char_def)

definition limited_text :: "int \<Rightarrow> string" where
  "limited_text window = ''rate limit exceeded, retry after '' @ dec_int (whole_seconds window) @ ''s''"

definition limited_error :: "int \<Rightarrow> string \<Rightarrow> json" where
  "limited_error window requestID = JObj
     [(''code'', JStr ''RATE_LIMITED''), (''message'', JStr (limited_text window)),
      (''requestId'', JStr requestID)]"

lemma limited_words:
  "plain_text ''ok''" "plain_text ''error''" "plain_text ''code''" "plain_text ''message''" "plain_text ''requestId''" "plain_text ''data''"
  "plain_text ''RATE_LIMITED''" "plain_text (limited_text n)"
  by (simp_all add: limited_text_def plain_dec_int) (simp_all add: json_char_def)

lemmas limited_written = limited_words [THEN plain_text_written]

text \<open>
  C30. The limiter puts the header \<open>X-Request-ID\<close> into its text without escaping. With an identifier of
  plain characters the answer is the error it should be; but an identifier can close the string and
  add members of its own, so that the answer to a refused request is valid JSON that says \<open>ok\<close> a
  second time, with the value true, and carries data that the client chose.
\<close>

theorem limited_answer_forged:
  assumes "rate_check (L :: 'r rate_limiter) grp now rq h r = (Reject resp, r')"
    and "plain_text x" and "plain_text key" and "plain_text val"
    and "rq_header rq ''X-Request-ID'' = x @ suffix"
    and "suffix = '''' \<or> suffix = ''\"},\"ok\":true,\"data\":{\"'' @ key @ ''\":\"'' @ val"
  shows "\<exists>t. rs_body resp = TextBody t \<and> rs_headers resp ''Content-Type'' = Some ''application/json'' \<and> json_valid t \<and>
    json_decode t = Some (JObj ([(''ok'', JBool False), (''error'', limited_error (parseWindow (rl_config L)) x)] @
      (if suffix = '''' then [] else [(''ok'', JBool True), (''data'', JObj [(key, JStr val)])])))"
proof -
  let ?v = "JObj ([(''ok'', JBool False), (''error'', limited_error (parseWindow (rl_config L)) x)] @
      (if suffix = '''' then [] else [(''ok'', JBool True), (''data'', JObj [(key, JStr val)])]))"
  note w = assms(2-4) [THEN plain_text_written]
  have "rs_body resp = TextBody (limited_message (parseWindow (rl_config L)) rq)"
    and "rs_headers resp ''Content-Type'' = Some ''application/json''"
    using assms(1) by (auto simp: rate_check_def Let_def split: sum.splits prod.splits if_splits)
  moreover have "limited_message (parseWindow (rl_config L)) rq = json_print ?v"
    using assms(6) unfolding limited_message_def assms(5)
    by (elim disjE) (simp_all add: limited_error_def limited_written w, simp_all add: limited_text_def)
  moreover have "json_wf 10000 ?v"
    by (simp add: limited_error_def limited_written [THEN conjunct2] w)
  ultimately show ?thesis using json_round_trip by metis
qed

definition forging_request :: request where
  "forging_request = plain_request\<lparr>rq_header := (\<lambda>_. ''x\"},\"ok\":true,\"data\":{\"role\":\"admin'')\<rparr>"

theorem limited_answer_forged_witness:
  "\<exists>resp r' t. rate_check (NewRateLimiter (redisLimiterAdapter ref_redis) \<lparr>lm_Limit = 0, lm_Window = ''1m''\<rparr>) ''auth'' 0 forging_request
      Map.empty Map.empty = (Reject (resp :: unit response), r') \<and> rs_body resp = TextBody t \<and>
    json_decode t = Some (JObj [(''ok'', JBool False), (''error'', limited_error minute ''x''), (''ok'', JBool True),
      (''data'', JObj [(''role'', JStr ''admin'')])])"
proof -
  let ?L = "NewRateLimiter (redisLimiterAdapter ref_redis) \<lparr>lm_Limit = 0, lm_Window = ''1m''\<rparr>"
  have m: "parseWindow (rl_config ?L) = minute" using auth_window by (simp add: NewRateLimiter_def parseWindow_def auth_limit_def)
  obtain resp :: "unit response" and r' where r: "rate_check ?L ''auth'' 0 forging_request Map.empty Map.empty = (Reject resp, r')"
    by (simp add: rate_check_def NewRateLimiter_def redisLimiterAdapter_def ref_redis_def ref_incr_def Let_def)
  have "plain_text ''x''" "plain_text ''role''" "plain_text ''admin''" by (simp_all add: json_char_def)
  from limited_answer_forged [OF r this, of "''\"},\"ok\":true,\"data\":{\"role\":\"admin''"] show ?thesis
    using r by (auto simp: forging_request_def m)
qed

end
