(* ===== verification/Threads.thy ===== *)
theory Threads
  imports World
begin

text \<open>
  Requests run at the same time: \<open>net/http\<close> starts a goroutine for each. What they share is the
  database, Redis and the sockets, and each statement, command or push is atomic there. A thread is
  what is left to do of a call: its result, or one atomic step on the state with the thread that
  follows, which depends on the reply. A pool is a list of threads on one state, and a schedule
  says whose turn it is.
\<close>

subsection \<open>Threads\<close>

datatype ('s, 'a) thread = Done 'a | Step "'s \<Rightarrow> ('s, 'a) thread \<times> 's"

text \<open>One atomic operation, whose result decides how to go on.\<close>

definition ask :: "('s \<Rightarrow> 'b \<times> 's) \<Rightarrow> ('b \<Rightarrow> ('s, 'a) thread) \<Rightarrow> ('s, 'a) thread" where
  "ask oper k = Step (\<lambda>s. let (x, s') = oper s in (k x, s'))"

lemma ask_step: "Step f = ask oper k \<Longrightarrow> f s = (t, s') \<Longrightarrow> \<exists>x. oper s = (x, s') \<and> t = k x"
  by (auto simp: ask_def Let_def split: prod.splits)

text \<open>An atomic operation without a result that is looked at.\<close>

definition act :: "('s \<Rightarrow> 's) \<Rightarrow> ('s, 'a) thread \<Rightarrow> ('s, 'a) thread" where
  "act f t = Step (\<lambda>s. (t, f s))"

primrec and_then :: "('s, 'a) thread \<Rightarrow> ('a \<Rightarrow> ('s, 'b) thread) \<Rightarrow> ('s, 'b) thread" where
  "and_then (Done a) k = k a"
| "and_then (Step f) k = Step (\<lambda>s. map_prod (\<lambda>t. and_then t k) id (f s))"

text \<open>A thread that nobody interrupts.\<close>

primrec alone :: "('s, 'a) thread \<Rightarrow> 's \<Rightarrow> 'a \<times> 's" where
  "alone (Done a) = (\<lambda>s. (a, s))"
| "alone (Step f) = (\<lambda>s. let (g, s') = map_prod alone id (f s) in g s')"

lemma alone_ask [simp]: "alone (ask oper k) s = (let (x, s') = oper s in alone (k x) s')"
  by (simp add: ask_def split_beta)

lemma alone_act [simp]: "alone (act f t) s = alone t (f s)"
  by (simp add: act_def)

lemma alone_and_then [simp]: "alone (and_then t k) s = (let (a, s') = alone t s in alone (k a) s')"
proof (induction t arbitrary: s)
  case (Step f)
  obtain t s' where f: "f s = (t, s')" by fastforce
  have "t \<in> Basic_BNFs.fsts (f s)" by (simp add: f)
  from Step [OF rangeI this] show ?case by (simp add: f)
qed simp

subsection \<open>Pools and schedules\<close>

type_synonym ('s, 'a) pool = "('s, 'a) thread list \<times> 's"

text \<open>Thread \<open>i\<close> makes its next step, if there is one.\<close>

fun turn :: "nat \<Rightarrow> ('s, 'a) pool \<Rightarrow> ('s, 'a) pool" where
  "turn i (ts, s) =
     (if i < length ts then
        (case ts ! i of
           Done _ \<Rightarrow> (ts, s)
         | Step f \<Rightarrow> (let (t, s') = f s in (ts[i := t], s')))
      else (ts, s))"

definition run_pool :: "nat list \<Rightarrow> ('s, 'a) pool \<Rightarrow> ('s, 'a) pool" where
  "run_pool is p = fold turn is p"

lemma run_pool_simps [simp]: "run_pool [] p = p" "run_pool (i # is) p = run_pool is (turn i p)"
  by (simp_all add: run_pool_def)

lemma run_pool_append: "run_pool (is @ js) p = run_pool js (run_pool is p)"
  by (simp add: run_pool_def)

text \<open>The runs of schedules are the runs of this relation: any thread may go on at any time.\<close>

inductive pool_step :: "('s, 'a) pool \<Rightarrow> ('s, 'a) pool \<Rightarrow> bool" where
  moves: "i < length ts \<Longrightarrow> ts ! i = Step f \<Longrightarrow> f s = (t, s') \<Longrightarrow> pool_step (ts, s) (ts[i := t], s')"

inductive_cases pool_stepE: "pool_step (ts, s) q"

lemma turn_steps: "pool_step\<^sup>*\<^sup>* p (turn i p)"
  by (cases p) (auto split: thread.split prod.split intro!: moves)

theorem schedules_are_runs:
  fixes p q :: "('s, 'a) pool"
  shows "pool_step\<^sup>*\<^sup>* p q \<longleftrightarrow> (\<exists>is. run_pool is p = q)"
proof
  assume "pool_step\<^sup>*\<^sup>* p q"
  then show "\<exists>is. run_pool is p = q"
  proof (induction rule: rtranclp_induct)
    case base
    show ?case by (rule exI [of _ "[]"]) simp
  next
    case (step q r)
    then obtain "is" where "run_pool is p = q" by blast
    moreover obtain i where "turn i q = r" using step.hyps(2)
    proof (cases rule: pool_step.cases)
      case (moves i ts f s t s')
      then show ?thesis by (intro that [of i]) simp
    qed
    ultimately have "run_pool (is @ [i]) p = r" by (simp add: run_pool_append)
    then show ?case by blast
  qed
next
  assume "\<exists>is. run_pool is p = q"
  then obtain "is" where "run_pool is p = q" by blast
  moreover have "pool_step\<^sup>*\<^sup>* p (run_pool is p)" for p :: "('s, 'a) pool"
    by (induction "is" arbitrary: p) (simp, simp only: run_pool_simps, metis rtranclp_trans turn_steps)
  ultimately show "pool_step\<^sup>*\<^sup>* p q" by blast
qed

lemma turn_cases:
  assumes "turn i (ts, s) = (ts', s')"
  obtains "ts' = ts" and "s' = s"
  | f t where "i < length ts" and "ts ! i = Step f" and "f s = (t, s')" and "ts' = ts[i := t]"
  using assms by (auto split: if_splits thread.splits prod.splits)

lemma turn_ask: "i < length ts \<Longrightarrow> ts ! i = ask oper k \<Longrightarrow> oper s = (x, s') \<Longrightarrow> turn i (ts, s) = (ts[i := k x], s')"
  by (simp add: ask_def)

lemma length_turn [simp]: "length (fst (turn i p)) = length (fst p)"
  by (cases p) (auto split: thread.split prod.split)

lemma length_run_pool [simp]: "length (fst (run_pool is p)) = length (fst p)"
  by (induction "is" arbitrary: p) simp_all

lemma run_pool_inv:
  assumes "\<And>i p. P p \<Longrightarrow> P (turn i p)" and "P p"
  shows "P (run_pool is p)"
  using assms(2) by (induction "is" arbitrary: p) (simp_all add: assms(1))

text \<open>Giving the threads their turns one after the other, often enough, ends every run.\<close>

lemma run_pool_alone:
  assumes "i < length ts"
  shows "\<exists>n. run_pool (replicate n i) (ts, s) = (ts[i := Done (fst (alone (ts ! i) s))], snd (alone (ts ! i) s))"
proof -
  have "\<exists>n. run_pool (replicate n i) (ts, s) = (ts[i := Done (fst (alone t s))], snd (alone t s))"
    if "i < length ts" and "ts ! i = t" for t ts s
    using that
  proof (induction t arbitrary: ts s)
    case (Done a)
    then have "ts[i := Done a] = ts" using list_update_id [of ts i] by simp
    then show ?case by (intro exI [of _ 0]) simp
  next
    case (Step f)
    obtain t s' where f: "f s = (t, s')" by fastforce
    have "t \<in> Basic_BNFs.fsts (f s)" by (simp add: f)
    from Step.IH [OF rangeI this, of "ts[i := t]" s'] Step.prems f obtain n where
      "run_pool (replicate n i) (ts[i := t], s') = (ts[i := Done (fst (alone t s'))], snd (alone t s'))" by auto
    with Step.prems f show ?case by (intro exI [of _ "Suc n"]) simp
  qed
  from this [OF assms refl] show ?thesis .
qed

definition finished :: "('s, 'a) thread \<Rightarrow> bool" where
  "finished t \<longleftrightarrow> (\<exists>a. t = Done a)"

theorem pools_end: "\<exists>is. list_all finished (fst (run_pool is p))"
proof -
  have "\<exists>is. list_all finished (take k (fst (run_pool is p)))" for k
  proof (induction k)
    case (Suc k)
    then obtain "is" where "is": "list_all finished (take k (fst (run_pool is p)))" by blast
    obtain ts s where p: "run_pool is p = (ts, s)" by fastforce
    show ?case
    proof (cases "k < length ts")
      case True
      then obtain n where "run_pool (replicate n k) (ts, s) = (ts[k := Done (fst (alone (ts ! k) s))], snd (alone (ts ! k) s))"
        using run_pool_alone [OF True, of s] by blast
      then have "fst (run_pool (is @ replicate n k) p) = ts[k := Done (fst (alone (ts ! k) s))]"
        by (simp add: run_pool_append p)
      with "is" p True show ?thesis
        by (intro exI [of _ "is @ replicate n k"]) (simp add: take_Suc_conv_app_nth, simp add: finished_def)
    qed (use "is" p in \<open>auto intro!: exI [of _ "is"]\<close>)
  qed simp
  from this [of "length (fst p)"] show ?thesis by simp
qed

subsection \<open>Interference\<close>

text \<open>
  What the other threads may do to the state is a relation: each of their steps respects it
  (\<open>obeys\<close>). A thread \<open>holds_up\<close> a statement about its result if no such steps before, between and
  after its own can spoil it.
\<close>

primrec obeys :: "('s \<Rightarrow> 's \<Rightarrow> bool) \<Rightarrow> ('s, 'a) thread \<Rightarrow> bool" where
  "obeys R (Done a) = True"
| "obeys R (Step f) = (\<forall>s. let (ok, s') = map_prod (obeys R) id (f s) in ok \<and> R s s')"

lemma obeys_Step [simp]: "obeys R (Step f) \<longleftrightarrow> (\<forall>s t s'. f s = (t, s') \<longrightarrow> obeys R t \<and> R s s')"
  by (simp add: split_beta) (metis fst_conv snd_conv prod.collapse)

declare obeys.simps(2) [simp del]

lemma obeys_ask: "obeys R (ask oper k) \<longleftrightarrow> (\<forall>s x s'. oper s = (x, s') \<longrightarrow> obeys R (k x) \<and> R s s')"
  by (simp add: ask_def split_beta) (metis fst_conv snd_conv prod.collapse)

lemma obeys_ask_parts: "obeys R (ask oper k) \<longleftrightarrow> (\<forall>s. obeys R (k (fst (oper s))) \<and> R s (snd (oper s)))"
  by (simp add: ask_def split_beta obeys.simps(2) del: obeys_Step)

lemma obeys_act: "obeys R (act f t) \<longleftrightarrow> obeys R t \<and> (\<forall>s. R s (f s))"
  by (auto simp: act_def)

lemma obeys_and_then: "obeys R t \<Longrightarrow> (\<And>a. obeys R (k a)) \<Longrightarrow> obeys R (and_then t k)"
proof (induction t)
  case (Step f)
  show ?case
  proof (simp, intro allI impI)
    fix s u s'
    assume "map_prod (\<lambda>t. and_then t k) id (f s) = (u, s')"
    then obtain t where t: "f s = (t, s')" "u = and_then t k" by (cases "f s") simp
    have "t \<in> Basic_BNFs.fsts (f s)" by (simp add: t(1))
    moreover have "obeys R t \<and> R s s'" using Step.prems(1) t(1) unfolding obeys_Step by blast
    ultimately show "obeys R u \<and> R s s'" using Step.IH [OF rangeI] Step.prems(2) t(2) by blast
  qed
qed simp

lemma obeys_cases:
  "obeys R a \<Longrightarrow> (\<And>x. obeys R (f x)) \<Longrightarrow> obeys R (case_option a f v)"
  "(\<And>x. obeys R (g x)) \<Longrightarrow> (\<And>x. obeys R (h x)) \<Longrightarrow> obeys R (case_sum g h u)"
  "obeys R a \<Longrightarrow> obeys R b \<Longrightarrow> obeys R (case e of NoRows \<Rightarrow> a | QueryFailed \<Rightarrow> b)"
  "obeys R a \<Longrightarrow> obeys R b \<Longrightarrow> obeys R (case c of True \<Rightarrow> a | False \<Rightarrow> b)"
  "obeys R a \<Longrightarrow> obeys R b \<Longrightarrow> obeys R (if c then a else b)"
  "obeys R (Done x)"
  by (simp_all split: option.split sum.split db_error.split bool.split)

locale interference =
  fixes R :: "'s \<Rightarrow> 's \<Rightarrow> bool"
  assumes no_step: "R s s"
    and more_steps: "R s t \<Longrightarrow> R t u \<Longrightarrow> R s u"
begin

primrec holds_up :: "('a \<Rightarrow> 's \<Rightarrow> bool) \<Rightarrow> ('s, 'a) thread \<Rightarrow> 's \<Rightarrow> bool" where
  "holds_up Q (Done a) = (\<lambda>s. \<forall>s'. R s s' \<longrightarrow> Q a s')"
| "holds_up Q (Step f) = (\<lambda>s. \<forall>s'. R s s' \<longrightarrow> (let (g, s'') = map_prod (holds_up Q) id (f s') in g s''))"

lemma holds_up_Step [simp]:
  "holds_up Q (Step f) s \<longleftrightarrow> (\<forall>s' t s''. R s s' \<longrightarrow> f s' = (t, s'') \<longrightarrow> holds_up Q t s'')"
  by (auto simp: split_beta)

lemma holds_up_ask:
  "holds_up Q (ask oper k) s \<longleftrightarrow> (\<forall>s' x s''. R s s' \<longrightarrow> oper s' = (x, s'') \<longrightarrow> holds_up Q (k x) s'')"
  by (auto simp: ask_def split_beta)

lemma holds_up_others: "holds_up Q t s \<Longrightarrow> R s s' \<Longrightarrow> holds_up Q t s'"
  by (cases t) (auto intro: more_steps simp del: holds_up.simps(2))

lemma holds_up_cases:
  "(b \<Longrightarrow> holds_up Q t s) \<Longrightarrow> (\<not> b \<Longrightarrow> holds_up Q u s) \<Longrightarrow> holds_up Q (if b then t else u) s"
  "(\<And>x. v = Inl x \<Longrightarrow> holds_up Q (g x) s) \<Longrightarrow> (\<And>y. v = Inr y \<Longrightarrow> holds_up Q (h y) s) \<Longrightarrow> holds_up Q (case_sum g h v) s"
  by (simp_all split: sum.split)

lemma holds_up_weaken:
  "holds_up P t s \<Longrightarrow> (\<And>a s. P a s \<Longrightarrow> Q a s) \<Longrightarrow> holds_up Q t s"
proof (induction t arbitrary: s)
  case (Step f)
  show ?case unfolding holds_up_Step
  proof (intro allI impI)
    fix s' t s''
    assume r: "R s s'" and f: "f s' = (t, s'')"
    then have "t \<in> Basic_BNFs.fsts (f s')" by simp
    moreover have "holds_up P t s''" using Step.prems(1) r f unfolding holds_up_Step by blast
    ultimately show "holds_up Q t s''" using Step.IH [OF rangeI] Step.prems(2) by blast
  qed
qed simp

lemma holds_up_and_then:
  "holds_up (\<lambda>a. holds_up Q (k a)) t s \<Longrightarrow> holds_up Q (and_then t k) s"
proof (induction t arbitrary: s)
  case (Done a)
  then show ?case using no_step by simp
next
  case (Step f)
  show ?case unfolding and_then.simps holds_up_Step
  proof (intro allI impI)
    fix s' u s''
    assume r: "R s s'" and "map_prod (\<lambda>t. and_then t k) id (f s') = (u, s'')"
    then obtain t where t: "f s' = (t, s'')" "u = and_then t k" by (cases "f s'") simp
    have "t \<in> Basic_BNFs.fsts (f s')" by (simp add: t(1))
    moreover have "holds_up (\<lambda>a. holds_up Q (k a)) t s''" using Step.prems r t(1) unfolding holds_up_Step by blast
    ultimately show "holds_up Q u s''" using Step.IH [OF rangeI] t(2) by blast
  qed
qed

text \<open>The rule for pools: one thread that holds up its statement, others that respect the relation.\<close>

lemma pool_rule:
  assumes "i < length ts" and "holds_up Q (ts ! i) s"
    and "\<And>j. j < length ts \<Longrightarrow> j \<noteq> i \<Longrightarrow> obeys R (ts ! j)"
    and "run_pool is (ts, s) = (ts', s')" and "ts' ! i = Done a"
  shows "Q a s'"
proof -
  let ?P = "\<lambda>p. i < length (fst p) \<and> holds_up Q (fst p ! i) (snd p) \<and>
    (\<forall>j < length (fst p). j \<noteq> i \<longrightarrow> obeys R (fst p ! j))"
  have "?P (turn j p)" if p: "?P p" for j p
  proof -
    obtain us u where pu: "p = (us, u)" by fastforce
    obtain us' u' where q: "turn j (us, u) = (us', u')" by fastforce
    then show ?thesis
    proof (cases rule: turn_cases)
      case (2 f t)
      show ?thesis
      proof (cases "j = i")
        case True
        have "holds_up Q (Step f) u" using p 2 pu True by simp
        then have "holds_up Q t u'" using 2(3) no_step unfolding holds_up_Step by blast
        with p 2 pu q True show ?thesis by simp
      next
        case False
        have "obeys R (Step f)" using p 2(1,2) pu False by fastforce
        then have "obeys R t" "R u u'" using 2(3) unfolding obeys_Step by blast+
        with p 2 pu q False holds_up_others show ?thesis by (auto simp: nth_list_update)
      qed
    qed (use p pu q in simp)
  qed
  from run_pool_inv [of ?P, OF this, of "(ts, s)" "is"] assms
  have "holds_up Q (Done a) s'" by simp
  then show ?thesis using no_step by simp
qed

end

end
