(* ===== verification/Concurrency.thy ===== *)
theory Concurrency
  imports Threads Platforms Leaderboard Limiter
begin

text \<open>
  The services as threads: the operations that look before they leap, cut at every statement,
  command and push. A thread that runs alone is the service, which the last theorem says. A handler
  holds no state of its own that others see, so this is all that other goroutines can notice.
\<close>

subsection \<open>Friends\<close>

definition IsBlocked_t :: "('r, 'n) friends_svc \<Rightarrow> string \<Rightarrow> string \<Rightarrow> (('r, 'n) world, go_error + bool) thread" where
  "IsBlocked_t F targetUserID byUserID =
     (let lookup =
        (case uuid_Parse (fs_uuid F) targetUserID of
           None \<Rightarrow> Done (Inl (app_err ErrBadRequest ''invalid target user id''))
         | Some tid \<Rightarrow>
        (case uuid_Parse (fs_uuid F) byUserID of
           None \<Rightarrow> Done (Inl (app_err ErrBadRequest ''invalid by user id''))
         | Some bid \<Rightarrow>
             ask (on_db (IsBlockedBy_sql tid bid)) (\<lambda>found.
               case found of
                 Inl NoRows \<Rightarrow> Done (Inr False)
               | Inl QueryFailed \<Rightarrow> Done (Inl (app_err ErrInternal ''failed to check block relation''))
               | Inr _ \<Rightarrow> Done (Inr True))))
      in case fs_rdb F of
           None \<Rightarrow> lookup
         | Some R \<Rightarrow>
             ask (on_redis (rc_SIsMember R (blocked_key targetUserID) byUserID)) (\<lambda>cached.
               case cached of Inr isMember \<Rightarrow> Done (Inr isMember) | Inl _ \<Rightarrow> lookup))"

text \<open>\<open>SendRequest\<close> from its last statement, from the one before, and from the start.\<close>

definition insert_request_t :: "uuid \<Rightarrow> uuid \<Rightarrow> (('r, 'n) world, go_error + friendship_row) thread" where
  "insert_request_t from to =
     ask (on_db (CreateFriendship_sql from to ''pending'')) (\<lambda>created.
       case created of
         Inl _ \<Rightarrow> Done (Inl (app_err ErrInternal ''failed to create friend request''))
       | Inr friendship \<Rightarrow> Done (Inr friendship))"

definition check_request_t :: "uuid \<Rightarrow> uuid \<Rightarrow> (('r, 'n) world, go_error + friendship_row) thread" where
  "check_request_t from to =
     ask (on_db (GetFriendshipByUsers_sql from to)) (\<lambda>existing.
       case existing of
         Inr _ \<Rightarrow> Done (Inl (app_err ErrConflict ''friendship already exists''))
       | Inl _ \<Rightarrow> insert_request_t from to)"

definition SendRequest_t :: "('r, 'n) friends_svc \<Rightarrow> string \<Rightarrow> string \<Rightarrow> (('r, 'n) world, go_error + friendship_row) thread" where
  "SendRequest_t F fromUserID toUserID =
     (case uuid_Parse (fs_uuid F) fromUserID of
        None \<Rightarrow> Done (Inl (app_err ErrBadRequest ''invalid from user ID''))
      | Some from \<Rightarrow>
     (case uuid_Parse (fs_uuid F) toUserID of
        None \<Rightarrow> Done (Inl (app_err ErrBadRequest ''invalid to user ID''))
      | Some to \<Rightarrow>
     (if from = to then Done (Inl (app_err ErrBadRequest ''cannot send friend request to yourself''))
      else and_then (IsBlocked_t F toUserID fromUserID) (\<lambda>blocked.
        case blocked of
          Inl e \<Rightarrow> Done (Inl e)
        | Inr True \<Rightarrow> Done (Inl (app_err ErrForbidden ''you are blocked by this user''))
        | Inr False \<Rightarrow> check_request_t from to))))"

lemmas request_defs = SendRequest_t_def check_request_t_def insert_request_t_def

definition Block_t :: "('r, 'n) friends_svc \<Rightarrow> string \<Rightarrow> string \<Rightarrow> string \<Rightarrow> (('r, 'n) world, go_error + unit) thread" where
  "Block_t F blockerID blockedID reason =
     (case uuid_Parse (fs_uuid F) blockerID of
        None \<Rightarrow> Done (Inl (app_err ErrBadRequest ''invalid blocker id''))
      | Some bid \<Rightarrow>
     (case uuid_Parse (fs_uuid F) blockedID of
        None \<Rightarrow> Done (Inl (app_err ErrBadRequest ''invalid blocked id''))
      | Some blid \<Rightarrow>
     (if blockerID = blockedID then Done (Inl (app_err ErrBadRequest ''cannot block yourself''))
      else
        ask (on_db (CreateBlockRelation_sql bid blid (null_if_empty reason))) (\<lambda>created.
          case created of
            Inl _ \<Rightarrow> Done (Inl (app_err ErrInternal ''failed to create block relation''))
          | Inr _ \<Rightarrow>
              (let publish =
                 act (redis_do F (\<lambda>R. rc_SAdd R (blocked_key blockerID) blockedID))
                   (act (notify F (\<lambda>n. n_NotifyBlocked n blockedID blockerID)) (Done (Inr ())))
               in ask (on_db (GetFriendshipByUsers_sql bid blid)) (\<lambda>existing.
                    case existing of
                      Inr f \<Rightarrow>
                        ask (on_db (DeleteFriendshipByUsers_sql (fr_user_id f) (fr_friend_id f))) (\<lambda>_. publish)
                    | Inl _ \<Rightarrow> publish))))))"

definition Unblock_t :: "('r, 'n) friends_svc \<Rightarrow> string \<Rightarrow> string \<Rightarrow> (('r, 'n) world, go_error + unit) thread" where
  "Unblock_t F blockerID blockedID =
     (case uuid_Parse (fs_uuid F) blockerID of
        None \<Rightarrow> Done (Inl (app_err ErrBadRequest ''invalid blocker id''))
      | Some bid \<Rightarrow>
     (case uuid_Parse (fs_uuid F) blockedID of
        None \<Rightarrow> Done (Inl (app_err ErrBadRequest ''invalid blocked id''))
      | Some blid \<Rightarrow>
          ask (on_db (DeleteBlockRelation_sql bid blid)) (\<lambda>deleted.
            case deleted of
              Inl _ \<Rightarrow> Done (Inl (app_err ErrInternal ''failed to delete block relation''))
            | Inr _ \<Rightarrow>
                act (redis_do F (\<lambda>R. rc_SRem R (blocked_key blockerID) blockedID)) (Done (Inr ())))))"

lemma IsBlocked_alone: "alone (IsBlocked_t F a b) w = IsBlocked F a b w"
  unfolding IsBlocked_t_def IsBlocked_def Let_def
  by (cases "fs_rdb F"; cases "uuid_Parse (fs_uuid F) a"; cases "uuid_Parse (fs_uuid F) b")
     (auto split: prod.split sum.split db_error.split)

lemma SendRequest_alone: "alone (SendRequest_t F a b) w = SendRequest F a b w"
  unfolding request_defs SendRequest_def
  by (auto simp: IsBlocked_alone split: option.split prod.split sum.split bool.split)

lemma Block_alone: "alone (Block_t F a b c) w = Block F a b c w"
  unfolding Block_t_def Block_def Let_def by (auto split: option.split prod.split sum.split)

lemma Unblock_alone: "alone (Unblock_t F a b) w = Unblock F a b w"
  unfolding Unblock_t_def Unblock_def by (auto split: option.split prod.split sum.split)

subsection \<open>Accounts and sessions\<close>

text \<open>The second half of \<open>Register\<close>, after the row of the user has been inserted.\<close>

definition add_password :: "'r auth_svc \<Rightarrow> string \<Rightarrow> string \<Rightarrow> user_row \<Rightarrow> (('r, 'n) world, go_error + string) thread" where
  "add_password A name hash user =
     ask (on_db (CreateCredential_sql (u_id user) ''password'' name (Some hash) True)) (\<lambda>created.
       case created of
         Inl _ \<Rightarrow> Done (Inl (PlainErr ''create credential''))
       | Inr _ \<Rightarrow> Done (Inr (uuid_String (as_uuid A) (u_id user))))"

definition Register_t :: "'r auth_svc \<Rightarrow> bytes \<Rightarrow> register_request \<Rightarrow> (('r, 'n) world, go_error + string) thread" where
  "Register_t A salt req =
     (if rr_Username req = '''' \<or> rr_Password req = ''''
      then Done (Inl (app_err ErrBadRequest ''username and password are required''))
      else
     (case bc_Generate (as_bcrypt A) salt (rr_Password req) of
        Inl _ \<Rightarrow> Done (Inl (PlainErr ''hash password''))
      | Inr hash \<Rightarrow>
          ask (on_db (CreateUser_sql (rr_Username req) (null_if_empty (rr_Email req)) (Some (rr_Username req)))) (\<lambda>created.
            case created of
              Inl _ \<Rightarrow> Done (Inl (app_err ErrConflict ''username or email already exists''))
            | Inr user \<Rightarrow> add_password A (rr_Username req) hash user)))"

text \<open>Reading, deleting and writing a session is one command each; making the tokens needs none.\<close>

definition RefreshToken_t :: "'r auth_svc \<Rightarrow> draws \<Rightarrow> string \<Rightarrow> (('r, 'n) world, go_error + token_pair) thread" where
  "RefreshToken_t A dr refreshToken =
     ask (session_Get (as_redis A) refreshToken) (\<lambda>stored.
       case stored of
         Inl _ \<Rightarrow> Done (Inl (app_err ErrSessionRevoked ''invalid or expired refresh token''))
       | Inr session \<Rightarrow>
           ask (session_Revoke (as_redis A) (ss_ID session)) (\<lambda>revoked.
             case revoked of
               Inl _ \<Rightarrow> Done (Inl (app_err ErrInternal ''failed to revoke old session''))
             | Inr _ \<Rightarrow> ask (generateTokenPair A dr (ss_UserID session)) Done))"

lemma Register_alone: "alone (Register_t A salt req) w = Register A salt req w"
  unfolding Register_t_def Register_def add_password_def by (auto split: prod.split sum.split)

lemma RefreshToken_alone: "alone (RefreshToken_t A dr t) w = RefreshToken A dr t w"
  unfolding RefreshToken_t_def RefreshToken_def by (auto split: prod.split sum.split)

subsection \<open>Platforms and scores\<close>

text \<open>\<open>UnbindPlatform\<close> from its last statement, from its second, and from the start.\<close>

definition delete_binding_t :: "uuid \<Rightarrow> string \<Rightarrow> (('r, 'n) world, go_error + unit) thread" where
  "delete_binding_t uid platformName =
     ask (on_db (DeletePlatformBinding_sql uid platformName)) (\<lambda>deleted.
       case deleted of Inl _ \<Rightarrow> Done (Inl (PlainErr ''delete binding'')) | Inr _ \<Rightarrow> Done (Inr ()))"

definition check_last_t :: "uuid \<Rightarrow> string \<Rightarrow> binding_row list \<Rightarrow> (('r, 'n) world, go_error + unit) thread" where
  "check_last_t uid platformName bindings =
     ask (on_db (CountUserCredentials_sql uid)) (\<lambda>count.
       let credCount = (case count of Inl _ \<Rightarrow> 0 | Inr n \<Rightarrow> n);
           otherBindings = length (filter (\<lambda>b. pb_platform b \<noteq> platformName) bindings)
       in if credCount = 0 \<and> otherBindings = 0
          then Done (Inl (app_err ErrLastCredential ''cannot unbind last credential, set a password first''))
          else delete_binding_t uid platformName)"

definition UnbindPlatform_t :: "uuid_lib \<Rightarrow> string \<Rightarrow> string \<Rightarrow> (('r, 'n) world, go_error + unit) thread" where
  "UnbindPlatform_t U userID platformName =
     (let uid = parse_or_nil U userID in
      ask (on_db (GetPlatformBindingsByUserID_sql uid)) (\<lambda>found.
        case found of
          Inl _ \<Rightarrow> Done (Inl (app_err ErrPlatformNotBound ''no platform bindings found''))
        | Inr bindings \<Rightarrow>
            if \<not> list_ex (\<lambda>b. pb_platform b = platformName) bindings
            then Done (Inl (app_err ErrPlatformNotBound ''platform not bound''))
            else check_last_t uid platformName bindings))"

lemmas unbind_defs = UnbindPlatform_t_def check_last_t_def delete_binding_t_def

definition SubmitScore_t :: "'r board_svc \<Rightarrow> string \<Rightarrow> string \<Rightarrow> f64 \<Rightarrow> (('r, 'n) world, go_error + unit) thread" where
  "SubmitScore_t L boardCode userID score =
     (if invalid_score score then Done (Inl (app_err ErrBadRequest ''invalid score value''))
      else
     (case uuid_Parse (bs_uuid L) userID of
        None \<Rightarrow> Done (Inl (app_err ErrBadRequest ''invalid user id''))
      | Some uid \<Rightarrow>
          ask (on_db (GetLeaderboardConfig_sql boardCode)) (\<lambda>found.
            case found of
              Inl _ \<Rightarrow> Done (Inl (app_err ErrNotFound ''leaderboard not found''))
            | Inr board \<Rightarrow>
                ask (on_db (CreateScore_sql (lb_id board) uid score)) (\<lambda>created.
                  case created of
                    Inl _ \<Rightarrow> Done (Inl (PlainErr ''create score''))
                  | Inr _ \<Rightarrow>
                      ask (on_redis (rc_ZAdd (bs_redis L) (board_key (lb_code board)) score userID)) (\<lambda>_. Done (Inr ()))))))"

lemma UnbindPlatform_alone: "alone (UnbindPlatform_t U u p) w = UnbindPlatform U u p w"
  unfolding unbind_defs UnbindPlatform_def Let_def by (auto split: prod.split sum.split)

lemma SubmitScore_alone: "alone (SubmitScore_t L b u x) w = SubmitScore L b u x w"
  unfolding SubmitScore_t_def SubmitScore_def by (auto split: prod.split sum.split option.split)

subsection \<open>The rate limiter\<close>

definition limit_verdict :: "limit_config \<Rightarrow> request \<Rightarrow> headers \<Rightarrow> int \<Rightarrow> 'd verdict" where
  "limit_verdict cfg rq h count =
     (let lmt = lm_Limit cfg;
          remaining = (let k = to_i64 (lmt - count) in if k < 0 then 0 else k);
          h1 = h(''X-RateLimit-Limit'' \<mapsto> dec_int lmt, ''X-RateLimit-Remaining'' \<mapsto> dec_int remaining)
      in if lmt < count then
           Reject \<lparr>rs_status = 429,
                   rs_headers = h1(''Retry-After'' \<mapsto> dec_int (whole_seconds (parseWindow cfg)),
                                   ''Content-Type'' \<mapsto> ''application/json''),
                   rs_body = TextBody (limited_message (parseWindow cfg) rq)\<rparr>
         else Pass h1)"

definition rate_check_t ::
    "'r rate_limiter \<Rightarrow> string \<Rightarrow> int \<Rightarrow> request \<Rightarrow> headers \<Rightarrow> ('r, 'd verdict) thread" where
  "rate_check_t L grp now rq h =
     (let window = parseWindow (rl_config L);
          key = limit_key window grp now rq
      in ask (lc_Incr (rl_client L) key) (\<lambda>reply.
           case reply of
             Inl _ \<Rightarrow> Done (Pass h)
           | Inr count \<Rightarrow>
               if count = 1 then
                 ask (lc_Expire (rl_client L) key (to_i64 (window * 2)))
                   (\<lambda>_. Done (limit_verdict (rl_config L) rq h count))
               else Done (limit_verdict (rl_config L) rq h count)))"

lemma rate_check_alone: "alone (rate_check_t L grp now rq h) r = rate_check L grp now rq h r"
  unfolding rate_check_t_def rate_check_def limit_verdict_def Let_def
  by (auto split: prod.split sum.split)


end
