(* ===== verification/RacesLimiter.thy ===== *)
theory RacesLimiter
  imports Concurrency LimiterProps
begin

text \<open>
  The rate limiter under concurrent requests. Every request that has counted itself holds a ticket,
  the reply of its \<open>INCR\<close>; the tickets of a key are different and have no gaps, whatever the order of
  the steps, so the number of requests that pass does not depend on the schedule.
\<close>

definition passed :: "('s, 'd verdict) thread \<Rightarrow> bool" where
  "passed t \<longleftrightarrow> (\<exists>h. t = Done (Pass h))"

lemma passed_simps [simp]:
  "passed (Done v) = is_pass v" "\<not> passed (ask oper k)"
  by (auto simp: passed_def ask_def elim: is_pass.elims)

lemma limit_verdict_pass [simp]: "is_pass (limit_verdict cfg rq h n) \<longleftrightarrow> n \<le> lm_Limit cfg"
  by (simp add: limit_verdict_def Let_def)

text \<open>What arrives: the reading of the clock, the request and the headers.\<close>

type_synonym arrival = "int \<times> request \<times> headers"

definition arrival_key :: "limit_config \<Rightarrow> string \<Rightarrow> arrival \<Rightarrow> string" where
  "arrival_key cfg grp a = (case a of (now, rq, h) \<Rightarrow> limit_key (parseWindow cfg) grp now rq)"

definition check_of :: "'r limiter_client \<Rightarrow> limit_config \<Rightarrow> string \<Rightarrow> arrival \<Rightarrow> ('r, unit verdict) thread" where
  "check_of L cfg grp a = (case a of (now, rq, h) \<Rightarrow> rate_check_t \<lparr>rl_client = L, rl_config = cfg\<rparr> grp now rq h)"

definition verdict_of :: "limit_config \<Rightarrow> arrival \<Rightarrow> nat \<Rightarrow> unit verdict" where
  "verdict_of cfg a n = (case a of (now, rq, h) \<Rightarrow> limit_verdict cfg rq h (int n))"

definition expiring :: "'r limiter_client \<Rightarrow> limit_config \<Rightarrow> string \<Rightarrow> arrival \<Rightarrow> nat \<Rightarrow> ('r, unit verdict) thread" where
  "expiring L cfg grp a n =
     ask (lc_Expire L (arrival_key cfg grp a) (to_i64 (parseWindow cfg * 2))) (\<lambda>_. Done (verdict_of cfg a n))"

lemma check_of_unfold:
  "check_of L cfg grp a = ask (lc_Incr L (arrival_key cfg grp a)) (\<lambda>reply.
     case reply of
       Inl _ \<Rightarrow> Done (Pass (snd (snd a)))
     | Inr count \<Rightarrow>
         if count = 1 then expiring L cfg grp a (nat count) else Done (limit_verdict cfg (fst (snd a)) (snd (snd a)) count))"
  by (cases a) (auto simp: check_of_def rate_check_t_def expiring_def arrival_key_def verdict_of_def Let_def
      intro!: arg_cong [where f = "ask _"] split: sum.split)

lemma verdict_of_pass [simp]: "is_pass (verdict_of cfg a n) \<longleftrightarrow> int n \<le> lm_Limit cfg"
  by (simp add: verdict_of_def split: prod.split)

subsection \<open>Tickets\<close>

text \<open>Who holds a ticket for a key; the numbers from \<open>c k + 1\<close> to \<open>m k\<close> are given out once each.\<close>

definition holders :: "(nat \<Rightarrow> string) \<Rightarrow> (nat \<Rightarrow> nat option) \<Rightarrow> nat \<Rightarrow> string \<Rightarrow> nat set" where
  "holders key tk n k = {i. i < n \<and> key i = k \<and> tk i \<noteq> None}"

definition tickets :: "(nat \<Rightarrow> string) \<Rightarrow> (nat \<Rightarrow> nat option) \<Rightarrow> nat \<Rightarrow> (string \<Rightarrow> nat) \<Rightarrow> (string \<Rightarrow> nat) \<Rightarrow> bool" where
  "tickets key tk n c m \<longleftrightarrow> (\<forall>k. c k \<le> m k \<and> bij_betw (\<lambda>i. the (tk i)) (holders key tk n k) {c k<..m k})"

lemma tickets_start: "tickets key (\<lambda>_. None) n c c"
  by (simp add: tickets_def holders_def bij_betw_def)

lemma tickets_next:
  assumes "tickets key tk n c m" and "i < n" and "tk i = None"
  shows "tickets key (tk(i \<mapsto> Suc (m (key i)))) n c (m(key i := Suc (m (key i))))"
  unfolding tickets_def
proof (intro allI conjI)
  fix k
  let ?tk = "tk(i \<mapsto> Suc (m (key i)))" and ?m = "m(key i := Suc (m (key i)))"
  have b: "c k \<le> m k" "bij_betw (\<lambda>i. the (tk i)) (holders key tk n k) {c k<..m k}"
    using assms(1) by (simp_all add: tickets_def)
  show "c k \<le> ?m k" using b(1) by auto
  have i: "i \<notin> holders key tk n k" using assms(3) by (simp add: holders_def)
  have same: "bij_betw (\<lambda>i. the (?tk i)) (holders key tk n k) {c k<..m k}"
  proof -
    have "the (?tk j) = the (tk j)" if "j \<in> holders key tk n k" for j using that i by (cases "j = i") simp_all
    from bij_betw_cong [of "holders key tk n k" "\<lambda>i. the (?tk i)" "\<lambda>i. the (tk i)", OF this] b(2) show ?thesis by simp
  qed
  show "bij_betw (\<lambda>i. the (?tk i)) (holders key ?tk n k) {c k<..?m k}"
  proof (cases "key i = k")
    case True
    have "holders key ?tk n k = insert i (holders key tk n k)" using True assms(2) by (auto simp: holders_def)
    moreover have "{c k<..?m k} = insert (Suc (m k)) {c k<..m k}" using True b(1) by auto
    ultimately show ?thesis using notIn_Un_bij_betw [OF i _ same] True by simp
  next
    case False
    then have "holders key ?tk n k = holders key tk n k" by (auto simp: holders_def)
    then show ?thesis using same False by simp
  qed
qed

text \<open>How many holders of a key have a number up to a limit.\<close>

lemma numbers_up_to: "{x \<in> {c<..m}. int x \<le> l} = {c<..min m (c + nat (l - int c))}" for c m :: nat
proof (cases "int c \<le> l")
  case True
  then obtain d where "l = int (c + d)" using zero_le_imp_eq_int [of "l - int c"] by (metis add_diff_cancel_left' diff_ge_0_iff_ge diff_add_cancel add.commute of_nat_add)
  then show ?thesis by auto
qed auto

lemma tickets_count:
  assumes "tickets key tk n c m"
  shows "card {i \<in> holders key tk n k. int (the (tk i)) \<le> l} = min (m k - c k) (nat (l - int (c k)))"
proof -
  let ?f = "\<lambda>i. the (tk i)" and ?H = "holders key tk n k"
  have b: "bij_betw ?f ?H {c k<..m k}" using assms by (simp add: tickets_def)
  have "card {i \<in> ?H. int (?f i) \<le> l} = card (?f ` {i \<in> ?H. int (?f i) \<le> l})"
    by (rule card_image [symmetric]) (rule inj_on_subset [OF bij_betw_imp_inj_on [OF b]], blast)
  also have "?f ` {i \<in> ?H. int (?f i) \<le> l} = {x \<in> {c k<..m k}. int x \<le> l}"
  proof -
    have "?f ` {i \<in> ?H. int (?f i) \<le> l} = {x \<in> ?f ` ?H. int x \<le> l}" by blast
    then show ?thesis by (simp only: bij_betw_imp_surj_on [OF b])
  qed
  also have "\<dots> = {c k<..min (m k) (c k + nat (l - int (c k)))}"
    by (rule numbers_up_to)
  also have "card \<dots> = min (m k - c k) (nat (l - int (c k)))" by simp
  finally show ?thesis .
qed

lemma tickets_all:
  assumes "tickets key tk n c m"
  shows "card (holders key tk n k) = m k - c k"
  using assms bij_betw_same_card [of "\<lambda>i. the (tk i)" "holders key tk n k" "{c k<..m k}"] by (simp add: tickets_def)

subsection \<open>The pool\<close>

definition phase :: "'r limiter_client \<Rightarrow> limit_config \<Rightarrow> string \<Rightarrow> arrival \<Rightarrow> nat option \<Rightarrow> ('r, unit verdict) thread \<Rightarrow> bool" where
  "phase L cfg grp a tk t \<longleftrightarrow>
     (case tk of
        None \<Rightarrow> t = check_of L cfg grp a
      | Some n \<Rightarrow> t = expiring L cfg grp a n \<or> t = Done (verdict_of cfg a n))"

lemma phase_simps [simp]:
  "phase L cfg grp a None t \<longleftrightarrow> t = check_of L cfg grp a"
  "phase L cfg grp a (Some n) t \<longleftrightarrow> t = expiring L cfg grp a n \<or> t = Done (verdict_of cfg a n)"
  by (simp_all add: phase_def)

lemma phase_passed: "phase L cfg grp a tk t \<Longrightarrow> passed t \<Longrightarrow> \<exists>n. tk = Some n \<and> int n \<le> lm_Limit cfg"
  by (cases tk) (auto simp: check_of_unfold expiring_def)

lemma phase_finished: "phase L cfg grp a tk t \<Longrightarrow> finished t \<Longrightarrow> \<exists>n. tk = Some n \<and> t = Done (verdict_of cfg a n)"
  by (cases tk) (auto simp: check_of_unfold expiring_def finished_def ask_def)

context limiter_store
begin

definition pool_inv :: "limit_config \<Rightarrow> string \<Rightarrow> arrival list \<Rightarrow> (string \<Rightarrow> nat) \<Rightarrow> ('r, unit verdict) pool \<Rightarrow> bool" where
  "pool_inv cfg grp as c p \<longleftrightarrow>
     (\<exists>tk m. tickets (\<lambda>i. arrival_key cfg grp (as ! i)) tk (length as) c m \<and> counts (K (snd p)) m \<and>
       length (fst p) = length as \<and> (\<forall>i < length as. phase L cfg grp (as ! i) (tk i) (fst p ! i)))"

lemma pool_inv_turn:
  assumes "\<And>k r c. counter (K r) k = Some c \<Longrightarrow> 0 \<le> c \<Longrightarrow> c < 2 ^ 62 \<Longrightarrow> \<exists>n r'. lc_Incr L k r = (Inr n, r')"
    and "second \<le> to_i64 (parseWindow cfg * 2)" and "\<And>k. c k + length as < 2 ^ 62" and "pool_inv cfg grp as c p"
  shows "pool_inv cfg grp as c (turn i p)"
proof -
  obtain ts r where p: "p = (ts, r)" by fastforce
  let ?key = "\<lambda>i. arrival_key cfg grp (as ! i)"
  obtain tk m where I: "tickets ?key tk (length as) c m" "counts (K r) m" "length ts = length as"
    "\<And>i. i < length as \<Longrightarrow> phase L cfg grp (as ! i) (tk i) (ts ! i)"
    using assms(4) unfolding pool_inv_def p by auto
  obtain ts' r' where q: "turn i (ts, r) = (ts', r')" by fastforce
  then show ?thesis
  proof (cases rule: turn_cases)
    case 1
    with q p assms(4) show ?thesis by simp
  next
    case (2 f t)
    have i: "i < length as" using 2(1) I(3) by simp
    note ph = I(4) [OF i, unfolded 2(2)]
    show ?thesis
    proof (cases "tk i")
      case None
      have f: "f = (\<lambda>r. case lc_Incr L (?key i) r of (reply, r1) \<Rightarrow>
          ((case reply of Inl _ \<Rightarrow> Done (Pass (snd (snd (as ! i))))
            | Inr count \<Rightarrow> if count = 1 then expiring L cfg grp (as ! i) (nat count)
                else Done (limit_verdict cfg (fst (snd (as ! i))) (snd (snd (as ! i))) count)), r1))"
        using ph None by (simp add: check_of_unfold ask_def)
      have k: "?key i \<in> limiter_keys" by (simp add: arrival_key_def split: prod.split)
      then have cn: "counter (K r) (?key i) = Some (int (m (?key i)))" using I(2) by (simp add: counts_def)
      have "card (holders ?key tk (length as) (?key i)) \<le> length as"
        using card_mono [of "{..<length as}" "holders ?key tk (length as) (?key i)"] by (auto simp: holders_def)
      then have small: "m (?key i) < 2 ^ 62" using tickets_all [OF I(1), of "?key i"] assms(3) [of "?key i"] by linarith
      then have small': "int (m (?key i)) < 2 ^ 62" by (simp add: nat_less_real_le)
      obtain n r1 where n: "lc_Incr L (?key i) r = (Inr n, r1)" using assms(1) [OF cn] small' by auto
      have n': "n = int (Suc (m (?key i)))" using incr_counts [OF n cn] by simp
      have t: "t = (if n = 1 then expiring L cfg grp (as ! i) (Suc (m (?key i))) else Done (verdict_of cfg (as ! i) (Suc (m (?key i)))))"
        "r' = r1" using 2(3) n' by (auto simp: f n verdict_of_def split: prod.split)
      have "counts (K r1) (m(?key i := Suc (m (?key i))))"
        using I(2) k small' by (auto simp: counts_def incr_stores [OF n] n' counter_stored)
      moreover note tickets_next [OF I(1) i None]
      moreover have "phase L cfg grp (as ! j) ((tk(i \<mapsto> Suc (m (?key i)))) j) (ts' ! j)" if "j < length as" for j
        using I(4) [OF that] t that I(3) 2(4) by (auto simp: nth_list_update)
      ultimately show ?thesis
        unfolding pool_inv_def p q using I(3) 2(4) t(2) by fastforce
    next
      case (Some n)
      then have f: "Step f = expiring L cfg grp (as ! i) n" using ph by simp
      then have "t = Done (verdict_of cfg (as ! i) n)" and "lc_Expire L (?key i) (to_i64 (parseWindow cfg * 2)) r = (fst (lc_Expire L (?key i) (to_i64 (parseWindow cfg * 2)) r), r')"
        using 2(3) by (auto simp: expiring_def ask_def split_beta)
      then have t: "t = Done (verdict_of cfg (as ! i) n)" and "K r' = K r" using expire_keeps [OF assms(2)] by blast+
      moreover have "phase L cfg grp (as ! j) (tk j) (ts' ! j)" if "j < length as" for j
        using I(4) [OF that] that I(3) 2(4) Some t by (cases "i = j") auto
      ultimately show ?thesis unfolding pool_inv_def p q using I 2(4) by auto
    qed
  qed
qed

lemma pool_passes:
  assumes "pool_inv cfg grp as c (ts, r)"
  shows "card {i. i < length as \<and> arrival_key cfg grp (as ! i) = k \<and> passed (ts ! i)} \<le> nat (lm_Limit cfg - int (c k))"
    and "list_all finished ts \<Longrightarrow> card {i. i < length as \<and> arrival_key cfg grp (as ! i) = k \<and> passed (ts ! i)} =
      min (card {i. i < length as \<and> arrival_key cfg grp (as ! i) = k}) (nat (lm_Limit cfg - int (c k)))"
proof -
  let ?key = "\<lambda>i. arrival_key cfg grp (as ! i)"
  obtain tk m where I: "tickets ?key tk (length as) c m" "length ts = length as"
    "\<And>i. i < length as \<Longrightarrow> phase L cfg grp (as ! i) (tk i) (ts ! i)"
    using assms unfolding pool_inv_def by auto
  let ?H = "holders ?key tk (length as) k" and ?P = "{i. i < length as \<and> ?key i = k \<and> passed (ts ! i)}"
  let ?L = "{i \<in> ?H. int (the (tk i)) \<le> lm_Limit cfg}"
  have fin: "finite ?H" by (simp add: holders_def)
  have "?P \<subseteq> ?L" using phase_passed [OF I(3)] by (fastforce simp: holders_def)
  from card_mono [OF _ this] fin show "card ?P \<le> nat (lm_Limit cfg - int (c k))"
    using tickets_count [OF I(1), of k "lm_Limit cfg"] by simp
  assume "list_all finished ts"
  then have f: "\<exists>n. tk i = Some n \<and> ts ! i = Done (verdict_of cfg (as ! i) n)" if "i < length as" for i
    using phase_finished [OF I(3) [OF that]] that I(2) by (simp add: list_all_length)
  then have H: "?H = {i. i < length as \<and> ?key i = k}" by (auto simp: holders_def)
  have "passed (ts ! i) \<longleftrightarrow> int (the (tk i)) \<le> lm_Limit cfg" if "i < length as" for i using f [OF that] by auto
  then have "?P = ?L" unfolding H by blast
  then show "card ?P = min (card {i. i < length as \<and> ?key i = k}) (nat (lm_Limit cfg - int (c k)))"
    using tickets_count [OF I(1), of k "lm_Limit cfg"] tickets_all [OF I(1), of k] by (simp add: H)
qed

end

subsection \<open>Property\<close>

lemma pool_inv_start:
  assumes "limiter_store L K" and "counts (K r) c"
  shows "limiter_store.pool_inv L K cfg grp as c (map (check_of L cfg grp) as, r)"
  using tickets_start [of "\<lambda>i. arrival_key cfg grp (as ! i)" "length as" c] assms(2)
  by (auto simp: limiter_store.pool_inv_def [OF assms(1)] intro!: exI [of _ "\<lambda>_. None"] exI [of _ c])

text \<open>
  C7. The limit does not depend on the order in which concurrent requests are served. Any number of
  requests, from any clients, are checked at the same time, with their \<open>INCR\<close> and \<open>EXPIRE\<close> commands
  interleaved in any way, while Redis answers: at no time have more requests of a key passed than
  its limit leaves, and once all are decided, exactly that many have passed, or all of them.
\<close>

theorem limit_holds_under_concurrency:
  fixes r :: 'r
  assumes "redis R K" and "incr_answers R K" and "second \<le> to_i64 (parseWindow cfg * 2)"
    and "counts (K r) c" and "\<And>k. c k + length as < 2 ^ 62"
    and "run_pool is (map (\<lambda>(now, rq, h). rate_check_t (NewRateLimiter (redisLimiterAdapter R) cfg) grp now rq h) as, r) = (ts, r')"
  shows "card {i. i < length as \<and> arrival_key cfg grp (as ! i) = k \<and> passed (ts ! i)} \<le> nat (lm_Limit cfg - int (c k)) \<and>
    (list_all finished (ts :: ('r, unit verdict) thread list) \<longrightarrow>
      card {i. i < length as \<and> arrival_key cfg grp (as ! i) = k \<and> passed (ts ! i)} =
      min (card {i. i < length as \<and> arrival_key cfg grp (as ! i) = k}) (nat (lm_Limit cfg - int (c k))))"
proof -
  let ?L = "redisLimiterAdapter R"
  note store = redis.limiter_store_adapter [OF assms(1)]
  have answers: "\<exists>n r'. lc_Incr ?L k r = (Inr n, r')" if "counter (K r) k = Some c" "0 \<le> c" "c < 2 ^ 62" for k r c
    using assms(2) that by (auto simp: incr_answers_def redisLimiterAdapter_def)
  have "limiter_store.pool_inv ?L K cfg grp as c (run_pool is (map (check_of ?L cfg grp) as, r))"
    by (rule run_pool_inv [OF limiter_store.pool_inv_turn [OF store answers assms(3,5)] pool_inv_start [OF store assms(4)]])
  moreover have "map (check_of ?L cfg grp) as = map (\<lambda>(now, rq, h). rate_check_t (NewRateLimiter ?L cfg) grp now rq h) as"
    by (auto simp: check_of_def NewRateLimiter_def)
  ultimately have inv: "limiter_store.pool_inv ?L K cfg grp as c (ts, r')" using assms(6) by simp
  show ?thesis using limiter_store.pool_passes [OF store inv, of k] by blast
qed

text \<open>Twelve logins of one client at the same time: some schedule ends, and ten pass.\<close>

theorem limit_holds_under_concurrency_witness:
  "\<exists>is ts r'. run_pool is (map (\<lambda>(now, rq, h). rate_check_t (NewRateLimiter (redisLimiterAdapter ref_redis) auth_limit)
       ''auth'' now rq h) (replicate 12 (0, plain_request, Map.empty)), Map.empty) = (ts :: (keyspace, unit verdict) thread list, r') \<and>
     list_all finished ts \<and> card {i. i < 12 \<and> passed (ts ! i)} = 10"
proof -
  let ?as = "replicate 12 (0, plain_request, Map.empty) :: arrival list"
  let ?p = "(map (\<lambda>(now, rq, h). rate_check_t (NewRateLimiter (redisLimiterAdapter ref_redis) auth_limit) ''auth'' now rq h) ?as,
    Map.empty) :: (keyspace, unit verdict) pool"
  obtain "is" where f: "list_all finished (fst (run_pool is ?p))" using pools_end by blast
  obtain ts r' where r: "run_pool is ?p = (ts, r')" by fastforce
  have small: "0 + length ?as < 2 ^ 62" by simp
  note limit_holds_under_concurrency [OF redis_ref.redis_axioms ref_incr_answers auth_ttl counts_empty small r,
      of "limit_key minute ''auth'' 0 plain_request"]
  moreover have "arrival_key auth_limit ''auth'' (?as ! i) = limit_key minute ''auth'' 0 plain_request" if "i < 12" for i
    using that by (simp add: arrival_key_def auth_window)
  then have "{i. i < length ?as \<and> arrival_key auth_limit ''auth'' (?as ! i) = limit_key minute ''auth'' 0 plain_request \<and> P i} =
      {i. i < 12 \<and> P i}" for P by auto
  moreover from this [of "\<lambda>_. True"]
  have "card {i. i < length ?as \<and> arrival_key auth_limit ''auth'' (?as ! i) = limit_key minute ''auth'' 0 plain_request} = 12"
    by simp
  ultimately have "card {i. i < 12 \<and> passed (ts ! i)} = 10" using f r by (simp add: auth_limit_def)
  with f r show ?thesis by auto
qed

end
