(* ===== verification/RacesAccounts.thy ===== *)
theory RacesAccounts
  imports Concurrency PlatformsProps AuthProps Histories
begin

text \<open>
  Accounts and logins under concurrent requests: what a service still guarantees while others
  execute statements between its own, and where looking before leaping is not enough.
\<close>

subsection \<open>Threads as callers of the database\<close>

text \<open>A step that executes one of the calls \<open>A\<close>, or none.\<close>

definition calls :: "(querier_call \<Rightarrow> bool) \<Rightarrow> ('r, 'n) world \<Rightarrow> ('r, 'n) world \<Rightarrow> bool" where
  "calls A w w' \<longleftrightarrow> w_db w' = w_db w \<or> (\<exists>q. A q \<and> w_db w' = run_query q (w_db w))"

lemma calls_query: "A q \<Longrightarrow> snd (f (w_db w)) = run_query q (w_db w) \<Longrightarrow> calls A w (snd (on_db f w))"
  by (auto simp: calls_def)

lemma calls_same: "w_db w' = w_db w \<Longrightarrow> calls A w w'"
  by (simp add: calls_def)

lemma asks_query:
  "A q \<Longrightarrow> (\<And>d. snd (f d) = run_query q d) \<Longrightarrow> (\<And>x. obeys (calls A) (k x)) \<Longrightarrow> obeys (calls A) (ask (on_db f) k)"
  by (simp only: obeys_ask_parts calls_query simp_thms HOL.all_simps)

lemma asks_statement:
  "A (Q_CreateFriendship a b s) \<Longrightarrow> (\<And>x. obeys (calls A) (k1 x)) \<Longrightarrow> obeys (calls A) (ask (on_db (CreateFriendship_sql a b s)) k1)"
  "A (Q_CreateBlockRelation a b os) \<Longrightarrow> (\<And>x. obeys (calls A) (k2 x)) \<Longrightarrow> obeys (calls A) (ask (on_db (CreateBlockRelation_sql a b os)) k2)"
  "A (Q_DeleteBlockRelation a b) \<Longrightarrow> (\<And>x. obeys (calls A) (k3 x)) \<Longrightarrow> obeys (calls A) (ask (on_db (DeleteBlockRelation_sql a b)) k3)"
  "A (Q_DeleteFriendshipByUsers a b) \<Longrightarrow> (\<And>x. obeys (calls A) (k4 x)) \<Longrightarrow> obeys (calls A) (ask (on_db (DeleteFriendshipByUsers_sql a b)) k4)"
  "A (Q_DeletePlatformBinding a s) \<Longrightarrow> (\<And>x. obeys (calls A) (k5 x)) \<Longrightarrow> obeys (calls A) (ask (on_db (DeletePlatformBinding_sql a s)) k5)"
  "A (Q_CreateScore a b y) \<Longrightarrow> (\<And>x. obeys (calls A) (k6 x)) \<Longrightarrow> obeys (calls A) (ask (on_db (CreateScore_sql a b y)) k6)"
  "A (Q_CreateUser s os ot) \<Longrightarrow> (\<And>x. obeys (calls A) (k7 x)) \<Longrightarrow> obeys (calls A) (ask (on_db (CreateUser_sql s os ot)) k7)"
  "A (Q_CreateCredential a s t os v) \<Longrightarrow> (\<And>x. obeys (calls A) (k8 x)) \<Longrightarrow> obeys (calls A) (ask (on_db (CreateCredential_sql a s t os v)) k8)"
  "A (Q_GetPlatformBindingsByUserID a) \<Longrightarrow> (\<And>x. obeys (calls A) (k9 x)) \<Longrightarrow> obeys (calls A) (ask (on_db (GetPlatformBindingsByUserID_sql a)) k9)"
  "A (Q_CountUserCredentials a) \<Longrightarrow> (\<And>x. obeys (calls A) (k10 x)) \<Longrightarrow> obeys (calls A) (ask (on_db (CountUserCredentials_sql a)) k10)"
  "A (Q_GetFriendshipByUsers a b) \<Longrightarrow> (\<And>x. obeys (calls A) (k11 x)) \<Longrightarrow> obeys (calls A) (ask (on_db (GetFriendshipByUsers_sql a b)) k11)"
  "A (Q_IsBlockedBy a b) \<Longrightarrow> (\<And>x. obeys (calls A) (k12 x)) \<Longrightarrow> obeys (calls A) (ask (on_db (IsBlockedBy_sql a b)) k12)"
  "A (Q_GetLeaderboardConfig s) \<Longrightarrow> (\<And>x. obeys (calls A) (k13 x)) \<Longrightarrow> obeys (calls A) (ask (on_db (GetLeaderboardConfig_sql s)) k13)"
  by (erule asks_query, simp, assumption)+

lemma asks_elsewhere: "(\<And>w. w_db (snd (f w)) = w_db w) \<Longrightarrow> (\<And>x. obeys (calls A) (k x)) \<Longrightarrow> obeys (calls A) (ask f k)"
  by (simp only: obeys_ask_parts calls_same simp_thms HOL.all_simps)

lemma asks_redis: "(\<And>x. obeys (calls A) (k x)) \<Longrightarrow> obeys (calls A) (ask (on_redis c) k)"
  by (rule asks_elsewhere) simp_all

lemma acts_elsewhere:
  "obeys (calls A) t \<Longrightarrow> obeys (calls A) (act (redis_do F c) t)" "obeys (calls A) t \<Longrightarrow> obeys (calls A) (act (notify F' n) t)"
  by (auto simp: obeys_act redis_do_def notify_def intro!: calls_same split: option.split)

lemma asks_session:
  fixes k1 :: "go_error + session \<Rightarrow> (('r, 'n) world, 'a) thread" and k2 :: "go_error + unit \<Rightarrow> (('r, 'n) world, 'a) thread"
    and k3 :: "go_error + token_pair \<Rightarrow> (('r, 'n) world, 'a) thread"
  shows "(\<And>x. obeys (calls A) (k1 x)) \<Longrightarrow> obeys (calls A) (ask (session_Get R i) k1)"
  "(\<And>x. obeys (calls A) (k2 x)) \<Longrightarrow> obeys (calls A) (ask (session_Revoke R i) k2)"
  "(\<And>x. obeys (calls A) (k3 x)) \<Longrightarrow> obeys (calls A) (ask (generateTokenPair A' dr u) k3)"
proof -
  note tables = session_ops_db(2,3) [OF surjective_pairing] generateTokenPair_db [OF surjective_pairing]
  show "(\<And>x. obeys (calls A) (k1 x)) \<Longrightarrow> obeys (calls A) (ask (session_Get R i) k1)"
    "(\<And>x. obeys (calls A) (k2 x)) \<Longrightarrow> obeys (calls A) (ask (session_Revoke R i) k2)"
    "(\<And>x. obeys (calls A) (k3 x)) \<Longrightarrow> obeys (calls A) (ask (generateTokenPair A' dr u) k3)"
    by (rule asks_elsewhere, rule tables, assumption)+
qed

lemmas thread_calls = asks_statement asks_redis acts_elsewhere asks_session obeys_and_then obeys_cases

lemma obeys_mono: "obeys R t \<Longrightarrow> (\<And>s s'. R s s' \<Longrightarrow> S s s') \<Longrightarrow> obeys S t"
proof (induction t)
  case (Step f)
  show ?case unfolding obeys_Step
  proof (intro allI impI)
    fix s t s'
    assume f: "f s = (t, s')"
    then have "t \<in> Basic_BNFs.fsts (f s)" by simp
    moreover have "obeys R t \<and> R s s'" using Step.prems(1) f unfolding obeys_Step by blast
    ultimately show "obeys S t \<and> S s s'" using Step.IH [OF rangeI] Step.prems(2) by blast
  qed
qed simp

text \<open>Every service is a caller of the statements that its code names.\<close>

lemma friends_call:
  assumes "\<And>a b. A (Q_IsBlockedBy a b)" "\<And>a b. A (Q_GetFriendshipByUsers a b)" "\<And>a b s. A (Q_CreateFriendship a b s)"
    "\<And>a b s. A (Q_CreateBlockRelation a b s)" "\<And>a b. A (Q_DeleteFriendshipByUsers a b)" "\<And>a b. A (Q_DeleteBlockRelation a b)"
  shows "obeys (calls A) (IsBlocked_t F s t)" "obeys (calls A) (SendRequest_t F s t)"
    "obeys (calls A) (Block_t F s t u)" "obeys (calls A) (Unblock_t F s t)"
  unfolding request_defs IsBlocked_t_def Block_t_def Unblock_t_def Let_def by (intro thread_calls assms)+

lemma accounts_call:
  assumes "\<And>s t v. A (Q_CreateUser s t v)" "\<And>i s t v b. A (Q_CreateCredential i s t v b)"
    "\<And>u. A (Q_GetPlatformBindingsByUserID u)" "\<And>u. A (Q_CountUserCredentials u)" "\<And>s. A (Q_GetLeaderboardConfig s)"
    "\<And>a b x. A (Q_CreateScore a b x)"
  shows "obeys (calls A) (Register_t A' salt req)" "obeys (calls A) (RefreshToken_t A' dr token)"
    "obeys (calls A) (SubmitScore_t L s t x)"
    "A (Q_DeletePlatformBinding (parse_or_nil U userID) name) \<Longrightarrow> obeys (calls A) (UnbindPlatform_t U userID name)"
  unfolding Register_t_def add_password_def RefreshToken_t_def SubmitScore_t_def unbind_defs Let_def
  by (intro thread_calls assms; assumption)+

subsection \<open>The last way to log in\<close>

definition has_credential :: "uuid \<Rightarrow> db \<Rightarrow> bool" where
  "has_credential u d \<longleftrightarrow> (\<exists>c \<in> set (credentials d). cr_user_id c = u)"

definition bound_to :: "uuid \<Rightarrow> string \<Rightarrow> db \<Rightarrow> bool" where
  "bound_to u p d \<longleftrightarrow> (\<exists>b \<in> set (platform_bindings d). pb_user_id b = u \<and> pb_platform b = p)"

text \<open>A change of the world that takes no credential and no platform away from a user.\<close>

definition keeps_logins :: "uuid \<Rightarrow> ('r, 'n) world \<Rightarrow> ('r, 'n) world \<Rightarrow> bool" where
  "keeps_logins u w w' \<longleftrightarrow>
     (has_credential u (w_db w) \<longrightarrow> has_credential u (w_db w')) \<and> (\<forall>p. bound_to u p (w_db w) \<longrightarrow> bound_to u p (w_db w'))"

interpretation logins: interference "keeps_logins u" for u :: uuid
  by unfold_locales (auto simp: keeps_logins_def)

definition same_bindings :: "db \<Rightarrow> db \<Rightarrow> bool" where
  "same_bindings d d' \<longleftrightarrow> platform_bindings d' = platform_bindings d"

lemma same_bindings_stmt: "(\<And>id now d. same_bindings d (snd (f id now d))) \<Longrightarrow> same_bindings d (snd (stmt f d))"
  by (rule stmt_keeps) (simp_all add: same_bindings_def)

lemma same_bindings_inserts:
  "same_bindings d (snd (AddRoomMember_sql i j s d))" "same_bindings d (snd (CreateAdminUser_sql s t v d))"
  "same_bindings d (snd (CreateAuditLog_sql pa d))" "same_bindings d (snd (CreateBlockRelation_sql i j os d))"
  "same_bindings d (snd (CreateChatMessage_sql i j s t d))" "same_bindings d (snd (CreateChatRoom_sql s os ot d))"
  "same_bindings d (snd (CreateCredential_sql i s t os b d))" "same_bindings d (snd (CreateFriendship_sql i j s d))"
  "same_bindings d (snd (CreateLeaderboardConfig_sql s t v on os d))" "same_bindings d (snd (CreateScore_sql i j x d))"
  "same_bindings d (snd (CreateSession_sql i s os ot ou n d))" "same_bindings d (snd (CreateUser_sql s os ot d))"
  unfolding insert_defs by (rule same_bindings_stmt, simp add: Let_def same_bindings_def)+

lemma same_bindings_others:
  "same_bindings d (snd (DeleteBlockRelation_sql i j d))" "same_bindings d (snd (DeleteFriendship_sql i d))"
  "same_bindings d (snd (DeleteFriendshipByUsers_sql i j d))" "same_bindings d (snd (RemoveRoomMember_sql i j d))"
  "same_bindings d (snd (RevokeSession_sql i d))" "same_bindings d (snd (RevokeSessionsByUserID_sql i d))"
  "same_bindings d (snd (UpdateFriendshipStatus_sql i s d))"
  "same_bindings d (snd (UpdateUserProfile_sql i os ot ou d))" "same_bindings d (snd (UpdateUserStatus_sql i s d))"
  "same_bindings d (snd (select f d))"
  unfolding DeleteBlockRelation_sql_def DeleteFriendship_sql_def DeleteFriendshipByUsers_sql_def select_def
    RemoveRoomMember_sql_def RevokeSession_sql_def RevokeSessionsByUserID_sql_def
    UpdateFriendshipStatus_sql_def UpdateUserProfile_sql_def UpdateUserStatus_sql_def revoke_rows_def
  by (rule same_bindings_stmt, simp add: Let_def same_bindings_def split: list.split)+

lemma bound_stmt: "bound_to u p d \<Longrightarrow> (\<And>id now d. bound_to u p d \<Longrightarrow> bound_to u p (snd (f id now d))) \<Longrightarrow> bound_to u p (snd (stmt f d))"
  by (rule stmt_keeps) (simp_all add: bound_to_def)

lemma bound_changes:
  assumes "bound_to u p d"
  shows "bound_to u p (snd (CreatePlatformBinding_sql i s t v w on os d))"
    and "j \<noteq> u \<Longrightarrow> bound_to u p (snd (DeletePlatformBinding_sql j s d))"
  unfolding CreatePlatformBinding_sql_def DeletePlatformBinding_sql_def
  by (rule bound_stmt [OF assms], fastforce simp: Let_def bound_to_def)+

lemma same_bound: "same_bindings d d' \<Longrightarrow> bound_to u p d \<Longrightarrow> bound_to u p d'"
  by (simp add: bound_to_def same_bindings_def)

text \<open>Only one statement removes bindings.\<close>

lemma bindings_kept:
  assumes "\<forall>p. q \<noteq> Q_DeletePlatformBinding u p" and "bound_to u p d"
  shows "bound_to u p (run_query q d)"
  using assms
  by (cases q) (auto simp: bound_changes select_sql_defs intro: same_bound [OF _ assms(2)] same_bindings_inserts same_bindings_others
      simp del: select_state)

lemma credentials_kept: "has_credential u d \<Longrightarrow> has_credential u (run_query q d)"
  using appended_query [of d q] by (auto simp: has_credential_def appended_def prefix_def)

lemma calls_keep_logins: "calls (\<lambda>q. \<forall>p. q \<noteq> Q_DeletePlatformBinding u p) w w' \<Longrightarrow> keeps_logins u w w'"
  by (auto simp: calls_def keeps_logins_def credentials_kept bindings_kept)

definition can_log_in :: "uuid \<Rightarrow> string \<Rightarrow> ('r, 'n) world \<Rightarrow> bool" where
  "can_log_in u name w \<longleftrightarrow> has_credential u (w_db w) \<or> (\<exists>p. p \<noteq> name \<and> bound_to u p (w_db w))"

lemma can_log_in_kept: "can_log_in u name w \<Longrightarrow> keeps_logins u w w' \<Longrightarrow> can_log_in u name w'"
  by (auto simp: can_log_in_def keeps_logins_def)

lemma select_reply: "select f d = (Inr x, d') \<Longrightarrow> f d' = Inr x"
  using select_Inr [of f d x d'] select_state_eq [of f d "Inr x" d'] by simp

lemma holds_up_error: "logins.holds_up u (\<lambda>a w. a = Inr () \<longrightarrow> P w) (Done (Inl e)) w"
  by simp

lemma delete_holds_up:
  assumes "can_log_in u name w"
  shows "logins.holds_up u (\<lambda>a w. a = Inr () \<longrightarrow> can_log_in u name w) (delete_binding_t u name) w"
  unfolding delete_binding_t_def logins.holds_up_ask
proof (intro allI impI)
  fix w1 x w2
  assume "keeps_logins u w w1" and o: "on_db (DeletePlatformBinding_sql u name) w1 = (x, w2)"
  with assms have "can_log_in u name w1" by (blast intro: can_log_in_kept)
  moreover have "can_log_in u name w1 \<longrightarrow> can_log_in u name w2" if "x = Inr y" for y
    using o unfolding that on_db_eq DeletePlatformBinding_sql_def
    by (auto dest!: stmt_Inr simp: Let_def can_log_in_def has_credential_def bound_to_def) blast
  ultimately show "logins.holds_up u (\<lambda>a w. a = Inr () \<longrightarrow> can_log_in u name w)
      (case x of Inl _ \<Rightarrow> Done (Inl (PlainErr ''delete binding'')) | Inr _ \<Rightarrow> Done (Inr ())) w2"
    by (cases x) (auto intro: can_log_in_kept)
qed

lemma counted_credential:
  "on_db (CountUserCredentials_sql u) w = (Inr n, w') \<Longrightarrow> n \<noteq> 0 \<Longrightarrow> has_credential u (w_db w')"
proof -
  assume "on_db (CountUserCredentials_sql u) w = (Inr n, w')" and "n \<noteq> 0"
  then have "filter (\<lambda>c. cr_user_id c = u) (credentials (w_db w')) \<noteq> []"
    unfolding on_db_eq CountUserCredentials_sql_def by (auto dest!: select_reply)
  then show ?thesis by (auto simp: has_credential_def filter_empty_conv)
qed

lemma check_holds_up:
  assumes "\<And>b. b \<in> set bs \<Longrightarrow> bound_to u (pb_platform b) (w_db w)"
  shows "logins.holds_up u (\<lambda>a w. a = Inr () \<longrightarrow> can_log_in u name w) (check_last_t u name bs) w"
  unfolding check_last_t_def logins.holds_up_ask Let_def
proof (intro allI impI)
  fix w1 count w2
  assume k: "keeps_logins u w w1" and o: "on_db (CountUserCredentials_sql u) w1 = (count, w2)"
  have "bound_to u (pb_platform b) (w_db w2)" if "b \<in> set bs" for b
    using that assms k o
    by (auto simp: keeps_logins_def bound_to_def on_db_eq CountUserCredentials_sql_def dest!: select_state_eq)
  then have log_in: "can_log_in u name w2"
    if "\<not> ((case count of Inl _ \<Rightarrow> 0 | Inr n \<Rightarrow> n) = 0 \<and> length (filter (\<lambda>b. pb_platform b \<noteq> name) bs) = 0)"
    using that counted_credential [of u w1 _ w2] o by (cases count) (auto simp: can_log_in_def filter_empty_conv)
  show "logins.holds_up u (\<lambda>a w. a = Inr () \<longrightarrow> can_log_in u name w)
      (if (case count of Inl _ \<Rightarrow> 0 | Inr n \<Rightarrow> n) = 0 \<and> length (filter (\<lambda>b. pb_platform b \<noteq> name) bs) = 0
       then Done (Inl (app_err ErrLastCredential ''cannot unbind last credential, set a password first''))
       else delete_binding_t u name) w2"
    by (rule logins.holds_up_cases, rule holds_up_error, rule delete_holds_up, rule log_in)
qed

lemma unbind_holds_up:
  fixes w :: "('r, 'n) world"
  shows "logins.holds_up (parse_or_nil U userID) (\<lambda>a w. a = Inr () \<longrightarrow> can_log_in (parse_or_nil U userID) name w)
    (UnbindPlatform_t U userID name) w"
  unfolding UnbindPlatform_t_def Let_def logins.holds_up_ask
proof (intro allI impI)
  fix w1 w2 :: "('r, 'n) world" and found
  assume o: "on_db (GetPlatformBindingsByUserID_sql (parse_or_nil U userID)) w1 = (found, w2)"
  have bound: "bound_to (parse_or_nil U userID) (pb_platform b) (w_db w2)" if "found = Inr bs" "b \<in> set bs" for bs b
    using o that unfolding on_db_eq GetPlatformBindingsByUserID_sql_def
    by (auto simp: bound_to_def dest!: select_reply)
  show "logins.holds_up (parse_or_nil U userID) (\<lambda>a w. a = Inr () \<longrightarrow> can_log_in (parse_or_nil U userID) name w) (case found of
      Inl _ \<Rightarrow> Done (Inl (app_err ErrPlatformNotBound ''no platform bindings found''))
    | Inr bindings \<Rightarrow>
        if \<not> list_ex (\<lambda>b. pb_platform b = name) bindings
        then Done (Inl (app_err ErrPlatformNotBound ''platform not bound''))
        else check_last_t (parse_or_nil U userID) name bindings) w2"
    by (rule logins.holds_up_cases, rule holds_up_error, rule logins.holds_up_cases, rule holds_up_error,
        rule check_holds_up, rule bound)
qed

text \<open>
  C8. Unbinding is safe among all other requests: while it runs, other threads may execute any calls of
  the database between its statements, except those that unbind a platform of the same user. When
  it has succeeded, then and after any further steps of the others, the user has a credential or
  is bound to another platform.
\<close>

theorem unbind_safe_among_others:
  fixes ts :: "(('r, 'n) world, go_error + unit) thread list"
  assumes "i < length ts" and "ts ! i = UnbindPlatform_t U userID name"
    and "\<And>j. j < length ts \<Longrightarrow> j \<noteq> i \<Longrightarrow>
      obeys (calls (\<lambda>q. \<forall>p. q \<noteq> Q_DeletePlatformBinding (parse_or_nil U userID) p)) (ts ! j)"
    and "run_pool is (ts, w) = (ts', w')" and "ts' ! i = Done (Inr ())"
  shows "has_credential (parse_or_nil U userID) (w_db w') \<or>
    (\<exists>p. p \<noteq> name \<and> bound_to (parse_or_nil U userID) p (w_db w'))"
proof -
  let ?u = "parse_or_nil U userID"
  have "obeys (keeps_logins ?u) (ts ! j)" if "j < length ts" "j \<noteq> i" for j
    using assms(3) [OF that] by (rule obeys_mono) (rule calls_keep_logins)
  from logins.pool_rule [OF assms(1) unbind_holds_up [of U userID name w, folded assms(2)] this assms(4,5)]
  show ?thesis by (simp add: can_log_in_def)
qed

text \<open>Two bindings, no credential; meanwhile another user is unbound and a friend is blocked.\<close>

definition two_bindings :: "'n \<Rightarrow> (keyspace, 'n) world" where
  "two_bindings n = sample_world n\<lparr>w_db := sample_db\<lparr>platform_bindings := map (\<lambda>p.
     \<lparr>pb_id = 0, pb_user_id = 1, pb_platform = p, pb_platform_user_id = ''x'', pb_access_token = '''', pb_refresh_token = '''',
      pb_expires_at = None, pb_metadata = None, pb_created_at = 0, pb_updated_at = 0\<rparr>) [''wechat'', ''steam'']\<rparr>\<rparr>"

lemma sample_ids: "uuid_String ref_uuid (1 :: uuid) \<noteq> uuid_String ref_uuid 2"
  by (simp add: uuid_ref.string_inject)

lemma unbind_two:
  "run_pool [0, 0, 0] (UnbindPlatform_t ref_uuid (uuid_String ref_uuid 1) ''wechat'' # ts, two_bindings n) =
    (Done (Inr ()) # ts, (two_bindings n)\<lparr>w_db := (w_db (two_bindings n))\<lparr>db_calls := 3, platform_bindings :=
      filter (\<lambda>b. pb_platform b \<noteq> ''wechat'') (platform_bindings (w_db (two_bindings n)))\<rparr>\<rparr>)"
  by (simp add: unbind_defs ask_def on_db_def GetPlatformBindingsByUserID_sql_def CountUserCredentials_sql_def
      DeletePlatformBinding_sql_def select_def stmt_def Let_def uuid_ref.parse_or_nil_string one_row_def two_bindings_def
      sample_env_def)

theorem unbind_safe_among_others_witness:
  "\<exists>ts' w'. run_pool [1, 0, 1, 0, 1, 0, 1]
      ([UnbindPlatform_t ref_uuid (uuid_String ref_uuid 1) ''wechat'', UnbindPlatform_t ref_uuid (uuid_String ref_uuid 2) ''wechat''],
       two_bindings ()) = (ts', w') \<and> ts' ! 0 = Done (Inr ()) \<and> (has_credential 1 (w_db w') \<or> bound_to 1 ''steam'' (w_db w'))"
proof -
  let ?t = "\<lambda>i :: uuid. UnbindPlatform_t ref_uuid (uuid_String ref_uuid i) ''wechat'' :: ((keyspace, unit) world, go_error + unit) thread"
  obtain ts' w' where r: "run_pool [1, 0, 1, 0, 1, 0, 1] ([?t 1, ?t 2], two_bindings ()) = (ts', w')" by fastforce
  then have d: "ts' ! 0 = Done (Inr ())" and p: "bound_to 1 q (w_db w') \<longrightarrow> q \<in> {''wechat'', ''steam''}" for q
    by (auto simp: unbind_defs ask_def on_db_def GetPlatformBindingsByUserID_sql_def CountUserCredentials_sql_def
      DeletePlatformBinding_sql_def select_def stmt_def Let_def uuid_ref.parse_or_nil_string one_row_def two_bindings_def
      sample_env_def bound_to_def)
  have "obeys (calls (\<lambda>q. \<forall>p. q \<noteq> Q_DeletePlatformBinding (parse_or_nil ref_uuid (uuid_String ref_uuid 1)) p)) ([?t 1, ?t 2] ! j)"
    if "j < length [?t 1, ?t 2]" "j \<noteq> 0" for j
  proof -
    have "j = 1" using that by simp
    then show ?thesis by (simp add: accounts_call uuid_ref.parse_or_nil_string)
  qed
  from unbind_safe_among_others [OF _ _ this r d] p show ?thesis
    using r d by (auto simp: uuid_ref.parse_or_nil_string)
qed

text \<open>The statements of \<open>UnbindPlatform\<close> without faults.\<close>

lemma unbind_statements_nf:
  assumes "no_faults d"
  shows "GetPlatformBindingsByUserID_sql u d = (Inr (filter (\<lambda>b. pb_user_id b = u) (platform_bindings d)), tick d)"
    and "\<not> has_credential u d \<Longrightarrow> CountUserCredentials_sql u d = (Inr 0, tick d)"
    and "bound_to u p d \<Longrightarrow> \<exists>b. DeletePlatformBinding_sql u p d =
      (Inr b, (tick d)\<lparr>platform_bindings := filter (\<lambda>b. \<not> (pb_user_id b = u \<and> pb_platform b = p)) (platform_bindings d)\<rparr>)"
  using assms
  by (auto simp: GetPlatformBindingsByUserID_sql_def CountUserCredentials_sql_def DeletePlatformBinding_sql_def select_nf stmt_nf
      Let_def one_row_cases has_credential_def bound_to_def filter_empty_conv)

lemma both_unbound:
  assumes "no_faults d" and "p \<noteq> q" and "bound_to u p d" and "bound_to u q d"
  shows "\<exists>b c d1 d2. DeletePlatformBinding_sql u p d = (Inr b, d1) \<and> DeletePlatformBinding_sql u q d1 = (Inr c, d2) \<and>
    credentials d2 = credentials d \<and> (\<forall>x. bound_to u x d2 \<longleftrightarrow> bound_to u x d \<and> x \<noteq> p \<and> x \<noteq> q)"
proof -
  let ?d1 = "(tick d)\<lparr>platform_bindings := filter (\<lambda>b. \<not> (pb_user_id b = u \<and> pb_platform b = p)) (platform_bindings d)\<rparr>"
  obtain b where b: "DeletePlatformBinding_sql u p d = (Inr b, ?d1)" using unbind_statements_nf(3) [OF assms(1,3)] by blast
  have "no_faults ?d1" using assms(1) by (simp add: no_faults_def)
  moreover have "bound_to u q ?d1" using assms(2,4) by (auto simp: bound_to_def)
  ultimately obtain c where c: "DeletePlatformBinding_sql u q ?d1 = (Inr c, (tick ?d1)\<lparr>platform_bindings :=
      filter (\<lambda>b. \<not> (pb_user_id b = u \<and> pb_platform b = q)) (platform_bindings ?d1)\<rparr>)"
    using unbind_statements_nf(3) by blast
  show ?thesis by (intro exI conjI, rule b, rule c) (auto simp: bound_to_def)
qed

text \<open>
  C27. Without that proviso it is not safe: a user without a credential who is bound to two platforms and
  unbinds both at the same time can succeed twice, since both requests look before either deletes,
  and can then never log in again. Nothing has to fail for this.
\<close>

theorem concurrent_unbinds_lock_out:
  assumes "no_faults (w_db w)" and "parse_or_nil U userID = u" and "p \<noteq> q"
    and "\<not> has_credential u (w_db w)" and "\<And>x. bound_to u x (w_db w) \<longleftrightarrow> x = p \<or> x = q"
  shows "\<exists>is w'. run_pool is ([UnbindPlatform_t U userID p, UnbindPlatform_t U userID q], w) =
      ([Done (Inr ()), Done (Inr ())], w') \<and>
    \<not> has_credential u (w_db w') \<and> (\<forall>x. \<not> bound_to u x (w_db w'))"
proof -
  let ?d = "tick (tick (tick (tick (w_db w))))"
  let ?bs = "filter (\<lambda>b. pb_user_id b = u) (platform_bindings (w_db w))"
  have t: "has_credential u (d\<lparr>db_calls := n\<rparr>) = has_credential u d" "bound_to u x (d\<lparr>db_calls := n\<rparr>) = bound_to u x d" for d x n
    by (simp_all add: has_credential_def bound_to_def)
  obtain b c d1 d2 where d: "DeletePlatformBinding_sql u p ?d = (Inr b, d1)" "DeletePlatformBinding_sql u q d1 = (Inr c, d2)"
    "credentials d2 = credentials ?d" "\<And>x. bound_to u x d2 \<longleftrightarrow> bound_to u x ?d \<and> x \<noteq> p \<and> x \<noteq> q"
    using both_unbound [of ?d p q u] assms by (auto simp: t)
  have bs: "list_ex (\<lambda>b. pb_platform b = p) ?bs" "list_ex (\<lambda>b. pb_platform b = q) ?bs"
    "filter (\<lambda>b. pb_platform b \<noteq> p) ?bs \<noteq> []" "filter (\<lambda>b. pb_platform b \<noteq> q) ?bs \<noteq> []"
    using assms(3) assms(5) [of p] assms(5) [of q] by (auto simp: bound_to_def list_ex_iff filter_empty_conv)
  have "run_pool [0, 1, 0, 1, 0, 1] ([UnbindPlatform_t U userID p, UnbindPlatform_t U userID q], w) =
      ([Done (Inr ()), Done (Inr ())], w\<lparr>w_db := d2\<rparr>)"
    using bs assms(1-4) d(1,2)
    by (simp add: unbind_defs ask_def on_db_def unbind_statements_nf t del: filter_filter)
  moreover have "\<not> has_credential u d2" using assms(4) d(3) by (simp add: has_credential_def)
  ultimately show ?thesis using d(4) assms(5) by (auto simp: t intro!: exI [of _ "[0, 1, 0, 1, 0, 1]"])
qed

lemma two_bindings_simps:
  "no_faults (w_db (two_bindings n))" "\<not> has_credential 1 (w_db (two_bindings n))"
  "bound_to 1 x (w_db (two_bindings n)) \<longleftrightarrow> x = ''wechat'' \<or> x = ''steam''"
  by (auto simp: two_bindings_def no_faults_def sample_defs has_credential_def bound_to_def)

theorem concurrent_unbinds_lock_out_witness:
  "\<exists>is w'. run_pool is ([UnbindPlatform_t ref_uuid (uuid_String ref_uuid 1) ''wechat'',
       UnbindPlatform_t ref_uuid (uuid_String ref_uuid 1) ''steam''], two_bindings ()) = ([Done (Inr ()), Done (Inr ())], w') \<and>
     (\<forall>x. \<not> bound_to 1 x (w_db w'))"
  using concurrent_unbinds_lock_out [of "two_bindings ()" ref_uuid "uuid_String ref_uuid 1" 1 "''wechat''" "''steam''"]
  by (auto simp: two_bindings_simps uuid_ref.parse_or_nil_string)

subsection \<open>One account for a name\<close>

text \<open>
  A registration that has inserted its user is about to store the password or has ended; the others
  have not started or have failed.
\<close>

definition waiting :: "'r auth_svc \<Rightarrow> string \<Rightarrow> (('r, 'n) world, go_error + string) thread \<Rightarrow> bool" where
  "waiting A name t \<longleftrightarrow> (\<exists>salt req. rr_Username req = name \<and> t = Register_t A salt req) \<or> (\<exists>e. t = Done (Inl e))"

definition inserted :: "'r auth_svc \<Rightarrow> string \<Rightarrow> (('r, 'n) world, go_error + string) thread \<Rightarrow> bool" where
  "inserted A name t \<longleftrightarrow> (\<exists>hash u. t = add_password A name hash u) \<or> (\<exists>r. t = Done r)"

definition name_taken :: "string \<Rightarrow> ('r, 'n) world \<Rightarrow> bool" where
  "name_taken name w \<longleftrightarrow> name \<in> u_username ` set (users (w_db w))"

lemma name_stays: "name_taken name w \<Longrightarrow> calls A w w' \<Longrightarrow> name_taken name w'"
proof -
  have "u_username ` set (users d) \<subseteq> u_username ` set (users (run_query q d))" for q d
  proof -
    have "prefix (map u_username (users d)) (map u_username (users (run_query q d)))"
      using appended_query [of d q] by (simp add: appended_def)
    from set_mono_prefix [OF this] show ?thesis by simp
  qed
  note grows = subsetD [OF this]
  assume "name_taken name w" and "calls A w w'"
  then show "name_taken name w'" unfolding name_taken_def calls_def by (elim disjE exE conjE) (simp, simp add: grows)
qed

text \<open>A registration inserts its user only if nobody has the name, and then somebody has it.\<close>

lemma waiting_step:
  assumes "waiting A name (Step f)" and "f w = (t, w')"
  shows "waiting A name t \<or> (inserted A name t \<and> \<not> name_taken name w \<and> name_taken name w')"
proof -
  obtain salt req where r: "rr_Username req = name" "Step f = Register_t A salt req"
    using assms(1) by (auto simp: waiting_def)
  obtain hash where h: "Step f = ask (on_db (CreateUser_sql name (null_if_empty (rr_Email req)) (Some name))) (\<lambda>created.
      case created of
        Inl _ \<Rightarrow> Done (Inl (app_err ErrConflict ''username or email already exists''))
      | Inr user \<Rightarrow> add_password A name hash user)"
    using r by (auto simp: Register_t_def split: if_splits sum.splits)
  obtain created where c: "on_db (CreateUser_sql name (null_if_empty (rr_Email req)) (Some name)) w = (created, w')"
    "t = (case created of Inl _ \<Rightarrow> Done (Inl (app_err ErrConflict ''username or email already exists''))
          | Inr user \<Rightarrow> add_password A name hash user)"
    using ask_step [OF h assms(2)] by blast
  show ?thesis
  proof (cases created)
    case (Inr user)
    with c(1) have "\<not> name_taken name w" "name_taken name w'"
      by (auto simp: on_db_eq CreateUser_sql_def name_taken_def Let_def dest!: stmt_Inr split: if_splits)
    with c(2) Inr show ?thesis by (auto simp: inserted_def)
  qed (simp add: c(2) waiting_def)
qed

lemma inserted_step: "inserted A name (Step f) \<Longrightarrow> f w = (t, w') \<Longrightarrow> inserted A name t"
  by (auto simp: inserted_def add_password_def ask_def split_beta split: sum.split)

definition one_owner :: "'r auth_svc \<Rightarrow> string \<Rightarrow> nat \<Rightarrow> (('r, 'n) world, go_error + string) pool \<Rightarrow> bool" where
  "one_owner A name n p \<longleftrightarrow> n \<le> length (fst p) \<and> list_all (obeys (calls (\<lambda>_. True))) (fst p) \<and>
     ((\<forall>i < n. waiting A name (fst p ! i)) \<or>
      (\<exists>k < n. inserted A name (fst p ! k) \<and> name_taken name (snd p) \<and> (\<forall>i < n. i \<noteq> k \<longrightarrow> waiting A name (fst p ! i))))"

lemma one_owner_turn:
  assumes "one_owner A name n p"
  shows "one_owner A name n (turn j p)"
proof -
  obtain ts w where p: "p = (ts, w)" by fastforce
  obtain ts' w' where q: "turn j (ts, w) = (ts', w')" by fastforce
  then show ?thesis
  proof (cases rule: turn_cases)
    case (2 f t)
    have "obeys (calls (\<lambda>_. True)) (ts ! j)" using assms 2(1) p by (simp add: one_owner_def list_all_length)
    then have "obeys (calls (\<lambda>_. True)) (Step f)" unfolding 2(2) .
    then have o: "obeys (calls (\<lambda>_. True)) t" "calls (\<lambda>_. True) w w'" using 2(3) unfolding obeys_Step by blast+
    have ts': "list_all (obeys (calls (\<lambda>_. True))) ts'" and n: "n \<le> length ts'"
      using assms o(1) p 2(1,4) by (auto simp: one_owner_def list_all_length nth_list_update)
    note stays = name_stays [OF _ o(2)]
    from assms p consider
        (free) "\<And>i. i < n \<Longrightarrow> waiting A name (ts ! i)"
      | (owned) k where "k < n" "inserted A name (ts ! k)" "name_taken name w" "\<And>i. i < n \<Longrightarrow> i \<noteq> k \<Longrightarrow> waiting A name (ts ! i)"
      by (auto simp: one_owner_def)
    then show ?thesis
    proof cases
      case free
      show ?thesis
      proof (cases "j < n \<and> \<not> waiting A name t")
        case True
        then have "inserted A name t" "name_taken name w'" using waiting_step [where f = f, OF _ 2(3)] free [of j] 2(2) by auto
        then show ?thesis using free True ts' n 2(1,4) p q by (auto simp: one_owner_def nth_list_update intro!: exI [of _ j])
      next
        case False
        then show ?thesis using free ts' n 2(1,4) p q by (auto simp: one_owner_def nth_list_update)
      qed
    next
      case owned
      have "waiting A name t" if "j < n" "j \<noteq> k" using waiting_step [where f = f and A = A and name = name, OF _ 2(3)] owned(3) owned(4) [of j] that 2(2) by simp
      moreover have "inserted A name t" if "j = k" using inserted_step [where f = f, OF _ 2(3)] owned(2) that 2(2) by simp
      ultimately show ?thesis using owned stays ts' n 2(1,4) p q
        by (auto simp: one_owner_def nth_list_update intro!: exI [of _ k])
    qed
  qed (use assms p q in simp)
qed

text \<open>
  C10. However many clients register the same name at the same time, whatever else other threads do to the
  database meanwhile, and whatever statements fail: at most one of the registrations succeeds.
\<close>

theorem one_name_one_account:
  assumes "list_all (\<lambda>(salt, req). rr_Username req = name) regs" and "list_all (obeys (calls (\<lambda>_. True))) others"
    and "run_pool is (map (\<lambda>(salt, req). Register_t A salt req) regs @ others, w) = (ts, w')"
  shows "card {i. i < length regs \<and> (\<exists>userID. ts ! i = Done (Inr userID))} \<le> 1"
proof -
  let ?ts = "map (\<lambda>(salt, req). Register_t A salt req) regs @ others" and ?n = "length regs"
  have "waiting A name (?ts ! i)" if "i < ?n" for i
    using assms(1) that unfolding waiting_def by (cases "regs ! i") (fastforce simp: nth_append list_all_length)
  moreover have "list_all (obeys (calls (\<lambda>_. True))) ?ts" using assms(2) by (auto simp: list_all_iff accounts_call)
  ultimately have "one_owner A name ?n (?ts, w)" by (simp add: one_owner_def)
  from run_pool_inv [of "one_owner A name ?n", OF one_owner_turn this, of "is"] assms(3)
  have o: "one_owner A name ?n (ts, w')" by simp
  have no: "\<not> waiting A name (Done (Inr x))" for x :: string and name
    by (auto simp: waiting_def Register_t_def ask_def split: if_splits sum.splits)
  from o obtain k where "\<forall>i < ?n. i \<noteq> k \<longrightarrow> waiting A name (ts ! i)" unfolding one_owner_def fst_conv by blast
  with no have "{i. i < ?n \<and> (\<exists>userID. ts ! i = Done (Inr userID))} \<subseteq> {k}" by fastforce
  from card_mono [OF _ this] show ?thesis by simp
qed

text \<open>Two registrations of one name: some schedule ends, and then at least one of them was refused.\<close>

theorem one_name_one_account_witness:
  "\<exists>is ts w'. run_pool is ([Register_t sample_auth [] zoe, Register_t sample_auth [] zoe], sample_world ()) = (ts, w') \<and>
     list_all finished ts \<and> (\<exists>e. ts ! 0 = Done (Inl e) \<or> ts ! 1 = Done (Inl e))"
proof -
  let ?p = "([Register_t sample_auth [] zoe, Register_t sample_auth [] zoe], sample_world ())"
  obtain "is" where f: "list_all finished (fst (run_pool is ?p))" using pools_end by blast
  obtain ts w' where r: "run_pool is ?p = (ts, w')" by fastforce
  have n: "length ts = 2" using length_run_pool [of "is" ?p] r by simp
  have "list_all (\<lambda>(salt, req). rr_Username req = ''zoe'') [([], zoe), ([], zoe)]" by (simp add: zoe_def)
  from one_name_one_account [OF this, of "[]" "is" sample_auth "sample_world ()" ts w'] r
  have one: "card {i. i < 2 \<and> (\<exists>userID. ts ! i = Done (Inr userID))} \<le> 1" by (simp add: numeral_2_eq_2)
  have "\<exists>e. ts ! 0 = Done (Inl e) \<or> ts ! 1 = Done (Inl e)"
  proof (rule ccontr)
    assume no: "\<not> ?thesis"
    have "\<exists>userID. ts ! i = Done (Inr userID)" if "i < 2" for i
    proof -
      have "finished (ts ! i)" using f r n that by (simp add: list_all_length)
      then obtain x where "ts ! i = Done x" by (auto simp: finished_def)
      moreover have "i = 0 \<or> i = 1" using that by auto
      ultimately show ?thesis using no by (cases x) auto
    qed
    then have "{i. i < 2 \<and> (\<exists>userID. ts ! i = Done (Inr userID))} = {0, 1}" by auto
    with one show False by simp
  qed
  with f r show ?thesis by auto
qed

end
