(* ===== verification/RacesFriends.thy ===== *)
theory RacesFriends
  imports Concurrency FriendsProps
begin

text \<open>
  Friends under concurrent requests: a block holds whatever other requests do meanwhile, while a
  friend request and a block that look before they write, or write in two places, can be overtaken.
\<close>

subsection \<open>A block among other requests\<close>

text \<open>User \<open>b\<close> has blocked user \<open>a\<close>, in the table and in the cache.\<close>

definition shut_out :: "uuid_lib \<Rightarrow> ('r \<Rightarrow> keyspace) \<Rightarrow> uuid \<Rightarrow> uuid \<Rightarrow> ('r, 'n) world \<Rightarrow> bool" where
  "shut_out U K a b w \<longleftrightarrow> db_blocks (w_db w) b a \<and>
     uuid_String U a \<in> set_members (K (w_redis w) (blocked_key (uuid_String U b)))"

definition keeps_block :: "uuid_lib \<Rightarrow> ('r \<Rightarrow> keyspace) \<Rightarrow> uuid \<Rightarrow> uuid \<Rightarrow> ('r, 'n) world \<Rightarrow> ('r, 'n) world \<Rightarrow> bool" where
  "keeps_block U K a b w w' \<longleftrightarrow> (shut_out U K a b w \<longrightarrow> shut_out U K a b w')"

interpretation blocked: interference "keeps_block U K a b"
  for U :: uuid_lib and K :: "'r \<Rightarrow> keyspace" and a b :: uuid
  by unfold_locales (auto simp: keeps_block_def)

text \<open>Steps that keep a block.\<close>

lemma asks_db_block:
  "(\<And>d. db_blocks d b a \<Longrightarrow> db_blocks (snd (f d)) b a) \<Longrightarrow> (\<And>x. obeys (keeps_block U K a b) (k x)) \<Longrightarrow>
   obeys (keeps_block U K a b) (ask (on_db f) k)"
  by (simp add: obeys_ask_parts keeps_block_def shut_out_def)

lemma asks_redis_block:
  "(\<And>r. uuid_String U a \<in> set_members (K r (blocked_key (uuid_String U b))) \<Longrightarrow>
     uuid_String U a \<in> set_members (K (snd (c r)) (blocked_key (uuid_String U b)))) \<Longrightarrow>
   (\<And>x. obeys (keeps_block U K a b) (k x)) \<Longrightarrow> obeys (keeps_block U K a b) (ask (on_redis c) k)"
  by (simp add: obeys_ask_parts keeps_block_def shut_out_def)

lemma acts_redis_block:
  "fs_rdb F = Some R \<Longrightarrow> (\<And>r. uuid_String U a \<in> set_members (K r (blocked_key (uuid_String U b))) \<Longrightarrow>
     uuid_String U a \<in> set_members (K (snd (c R r)) (blocked_key (uuid_String U b)))) \<Longrightarrow>
   obeys (keeps_block U K a b) t \<Longrightarrow> obeys (keeps_block U K a b) (act (redis_do F c) t)"
  by (simp add: obeys_act keeps_block_def shut_out_def redis_do_def)

lemma acts_notify_block:
  "obeys (keeps_block U K a b) t \<Longrightarrow> obeys (keeps_block U K a b) (act (notify F n) t)"
  by (auto simp: obeys_act keeps_block_def shut_out_def)

lemma blocks_stmt:
  "(\<And>id now d. db_blocks d b a \<Longrightarrow> db_blocks (snd (f id now d)) b a) \<Longrightarrow> db_blocks d b a \<Longrightarrow> db_blocks (snd (stmt f d)) b a"
  by (rule stmt_keeps) simp_all

lemma statements_keep_block:
  assumes "db_blocks d b a"
  shows "db_blocks (snd (CreateFriendship_sql i j s d)) b a" "db_blocks (snd (DeleteFriendshipByUsers_sql i j d)) b a"
    "db_blocks (snd (CreateBlockRelation_sql i j os d)) b a" "db_blocks (snd (GetFriendshipByUsers_sql i j d)) b a"
    "db_blocks (snd (IsBlockedBy_sql i j d)) b a" "\<not> (i = b \<and> j = a) \<Longrightarrow> db_blocks (snd (DeleteBlockRelation_sql i j d)) b a"
  unfolding CreateFriendship_sql_def DeleteFriendshipByUsers_sql_def CreateBlockRelation_sql_def GetFriendshipByUsers_sql_def
    IsBlockedBy_sql_def DeleteBlockRelation_sql_def select_def
  by (rule blocks_stmt [OF _ assms], fastforce simp: Let_def db_blocks_def blocks_def)+

context friends_cached
begin

lemma set_commands_keep_block:
  assumes "x \<in> set_members (K r k)"
  shows "x \<in> set_members (K (snd (rc_SIsMember R l v r)) k)"
    and "x \<in> set_members (K (snd (rc_SAdd R l v r)) k)"
    and "\<not> (l = k \<and> v = x) \<Longrightarrow> x \<in> set_members (K (snd (rc_SRem R l v r)) k)"
proof -
  show "x \<in> set_members (K (snd (rc_SIsMember R l v r)) k)"
    using assms sismember_keeps [of l v r] by (metis prod.collapse)
  obtain y r' where a: "rc_SAdd R l v r = (y, r')" by fastforce
  then have "K r' = K r \<or> K r' = (K r)(l \<mapsto> RSet (insert v (set_members (K r l))))"
    by (cases y) (auto dest: sadd_ok sadd_err)
  with assms a show "x \<in> set_members (K (snd (rc_SAdd R l v r)) k)" by auto
  obtain y r' where a: "rc_SRem R l v r = (y, r')" by fastforce
  then have "K r' = K r \<or> K r' = (K r)(l := set_or_none (set_members (K r l) - {v}))"
    by (cases y) (auto dest: srem_ok srem_err)
  with assms a show "\<not> (l = k \<and> v = x) \<Longrightarrow> x \<in> set_members (K (snd (rc_SRem R l v r)) k)"
    by auto
qed

lemmas block_steps = asks_db_block asks_redis_block acts_redis_block [OF F_rdb] acts_notify_block obeys_and_then obeys_cases
  statements_keep_block(1-5) set_commands_keep_block(1,2)

lemma friends_keep_block:
  "obeys (keeps_block U K a b) (IsBlocked_t F s t)" "obeys (keeps_block U K a b) (SendRequest_t F s t)"
  "obeys (keeps_block U K a b) (Block_t F s t reason)"
  unfolding request_defs IsBlocked_t_def Block_t_def Let_def F_rdb option.case by (intro block_steps refl; assumption?)+

lemma unblock_others_keep_block:
  assumes "\<not> (uuid_Parse U s = Some b \<and> uuid_Parse U t = Some a)"
  shows "obeys (keeps_block U K a b) (Unblock_t F s t)"
  using assms unfolding Unblock_t_def
  by (auto simp: F_uuid parse_string split: option.split intro!: block_steps statements_keep_block(6) set_commands_keep_block(3))

text \<open>No step of the others between its own makes \<open>IsBlocked\<close> answer that nothing is in the way.\<close>

lemma IsBlocked_holds_up:
  assumes "shut_out U K a b w"
  shows "blocked.holds_up U K a b (\<lambda>x w. shut_out U K a b w \<and> x \<noteq> Inr False) (IsBlocked_t F (uuid_String U b) (uuid_String U a)) w"
proof -
  let ?H = "blocked.holds_up U K a b (\<lambda>x w. shut_out U K a b w \<and> x \<noteq> Inr False)"
  let ?found = "\<lambda>found. case found of
          Inl NoRows \<Rightarrow> Done (Inr False)
        | Inl QueryFailed \<Rightarrow> Done (Inl (app_err ErrInternal ''failed to check block relation''))
        | Inr _ \<Rightarrow> Done (Inr True)"
  have kept: "shut_out U K a b v'" if "keeps_block U K a b v v'" "shut_out U K a b v" for v v' :: "('r, 'n) world"
    using that by (simp add: keeps_block_def)
  have ends: "?H (Done x) v" if "shut_out U K a b v" "x \<noteq> Inr False" for x and v :: "('r, 'n) world"
    using that kept by auto
  have lookup: "?H (ask (on_db (IsBlockedBy_sql b a)) ?found) v" if s: "shut_out U K a b v" for v :: "('r, 'n) world"
    unfolding blocked.holds_up_ask
  proof (intro allI impI)
    fix v1 found v2
    assume "keeps_block U K a b v v1" and q: "on_db (IsBlockedBy_sql b a) v1 = (found, v2)"
    then have s1: "shut_out U K a b v1" using kept s by blast
    then have "found \<noteq> Inl NoRows" using q IsBlockedBy_NoRows [of b a "w_db v1"] by (auto simp: on_db_eq shut_out_def)
    moreover have "shut_out U K a b v2"
      using s1 q statements_keep_block(5) [of "w_db v1" b a b a] by (auto simp: on_db_eq shut_out_def)
    ultimately show "?H (?found found) v2" by (auto intro: kept split: sum.split db_error.split)
  qed
  have "?H (ask (on_redis (rc_SIsMember R (blocked_key (uuid_String U b)) (uuid_String U a)))
      (\<lambda>cached. case cached of Inr isMember \<Rightarrow> Done (Inr isMember) | Inl _ \<Rightarrow> ask (on_db (IsBlockedBy_sql b a)) ?found)) w"
    unfolding blocked.holds_up_ask
  proof (intro allI impI)
    fix w1 cached w2
    assume "keeps_block U K a b w w1"
      and q: "on_redis (rc_SIsMember R (blocked_key (uuid_String U b)) (uuid_String U a)) w1 = (cached, w2)"
    then have s1: "shut_out U K a b w1" using kept assms by blast
    then have "shut_out U K a b w2" "cached \<noteq> Inr False"
      using q sismember_keeps sismember_ok by (fastforce simp: on_redis_eq shut_out_def)+
    then show "?H (case cached of Inr isMember \<Rightarrow> Done (Inr isMember) | Inl _ \<Rightarrow> ask (on_db (IsBlockedBy_sql b a)) ?found) w2"
      by (cases cached) (auto intro: kept lookup)
  qed
  then show ?thesis by (simp add: IsBlocked_t_def Let_def F_rdb F_uuid parse_string)
qed

lemma SendRequest_holds_up:
  assumes "shut_out U K a b w"
  shows "blocked.holds_up U K a b (\<lambda>x _. \<exists>e. x = Inl e) (SendRequest_t F (uuid_String U a) (uuid_String U b)) w"
proof -
  let ?next = "\<lambda>blocked. case blocked of
          Inl e \<Rightarrow> Done (Inl e)
        | Inr True \<Rightarrow> Done (Inl (app_err ErrForbidden ''you are blocked by this user''))
        | Inr False \<Rightarrow> check_request_t a b"
  have "blocked.holds_up U K a b (\<lambda>x. blocked.holds_up U K a b (\<lambda>x _. \<exists>e. x = Inl e) (?next x))
      (IsBlocked_t F (uuid_String U b) (uuid_String U a)) w"
    by (rule blocked.holds_up_weaken [OF IsBlocked_holds_up [OF assms]]) (auto split: sum.split bool.split)
  then show ?thesis
    by (simp add: SendRequest_t_def F_uuid parse_string blocked.holds_up_and_then)
qed

end

text \<open>
  C9. While \<open>b\<close> has \<open>a\<close> blocked, no friend request of \<open>a\<close> to \<open>b\<close> gets through, whatever the schedule and
  whatever statements and commands fail: other threads may do anything that keeps the block. All
  calls of \<open>IsBlocked\<close>, \<open>SendRequest\<close> and \<open>Block\<close> do, and \<open>Unblock\<close> does for any other two users.
\<close>

theorem blocked_request_never_succeeds:
  assumes "friends_cached R K U F" and "shut_out U K a b w"
    and "i < length ts" and "ts ! i = SendRequest_t F (uuid_String U a) (uuid_String U b)"
    and "\<And>j. j < length ts \<Longrightarrow> j \<noteq> i \<Longrightarrow> obeys (keeps_block U K a b) (ts ! j)"
    and "run_pool is (ts, w) = (ts', w')" and "ts' ! i = Done res"
  shows "(\<exists>e. res = Inl e) \<and>
    obeys (keeps_block U K a b) (IsBlocked_t F s t) \<and> obeys (keeps_block U K a b) (SendRequest_t F s t) \<and>
    obeys (keeps_block U K a b) (Block_t F s t reason) \<and>
    (uuid_Parse U s = Some b \<and> uuid_Parse U t = Some a \<or> obeys (keeps_block U K a b) (Unblock_t F s t))"
  using blocked.pool_rule [OF assms(3) friends_cached.SendRequest_holds_up [OF assms(1,2), folded assms(4)] assms(5-7)]
    friends_cached.friends_keep_block [OF assms(1)] friends_cached.unblock_others_keep_block [OF assms(1)]
  by blast

text \<open>Bob has blocked ann; her request runs beside a request of eve to bob.\<close>

definition blocked_world :: "'n \<Rightarrow> (keyspace, 'n) world" where
  "blocked_world n = (sample_world n)
     \<lparr>w_db := sample_db\<lparr>block_relations :=
        [\<lparr>bl_id = 9, bl_blocker_id = 2, bl_blocked_id = 1, bl_reason = None, bl_created_at = 0\<rparr>]\<rparr>,
      w_redis := [blocked_key (uuid_String ref_uuid 2) \<mapsto> RSet {uuid_String ref_uuid 1}]\<rparr>"

theorem blocked_request_never_succeeds_witness:
  "\<exists>ts' w' e f. run_pool [1, 1, 0, 1] ([SendRequest_t ref_friends (uuid_String ref_uuid 1) (uuid_String ref_uuid 2),
       SendRequest_t ref_friends (uuid_String ref_uuid 3) (uuid_String ref_uuid 2)], blocked_world ()) = (ts', w') \<and>
     ts' ! 0 = Done (Inl e) \<and> ts' ! 1 = Done (Inr f)"
proof -
  let ?t = "\<lambda>i :: uuid. SendRequest_t ref_friends (uuid_String ref_uuid i) (uuid_String ref_uuid 2)
    :: ((keyspace, unit) world, go_error + friendship_row) thread"
  obtain ts' w' where r: "run_pool [1, 1, 0, 1] ([?t 1, ?t 3], blocked_world ()) = (ts', w')" by fastforce
  have out: "shut_out ref_uuid (\<lambda>r. r) 1 2 (blocked_world ())"
    by (simp add: shut_out_def blocked_world_def db_blocks_def blocks_def)
  have others: "obeys (keeps_block ref_uuid (\<lambda>r. r) 1 2) ([?t 1, ?t 3] ! j)" if "j < length [?t 1, ?t 3]" "j \<noteq> 0" for j
  proof -
    have "j = 1" using that by simp
    then show ?thesis by (simp add: friends_ref.friends_keep_block)
  qed
  have "\<exists>res f. ts' ! 0 = Done res \<and> ts' ! 1 = Done (Inr f)"
    using r by (auto simp: request_defs IsBlocked_t_def ask_def on_db_def on_redis_def ref_friends_def ref_redis_def
        uuid_ref.parse_string blocked_world_def uuid_ref.string_inject GetFriendshipByUsers_nf related_def
        CreateFriendship_sql_def stmt_nf user_ids_def varchar_ok_def char_count_def Let_def no_faults_def sample_defs)
  with r blocked_request_never_succeeds [OF friends_ref.friends_cached_axioms out _ _ others r, of 0] show ?thesis
    by auto
qed

subsection \<open>Where a request overtakes another\<close>

lemma request_turns:
  assumes "i < length ts"
  shows "ts ! i = SendRequest_t F s t \<Longrightarrow> uuid_Parse (fs_uuid F) s = Some a \<Longrightarrow> uuid_Parse (fs_uuid F) t = Some b \<Longrightarrow>
      a \<noteq> b \<Longrightarrow> fs_rdb F = Some R \<Longrightarrow> rc_SIsMember R (blocked_key t) s (w_redis w) = (Inr False, r) \<Longrightarrow>
      turn i (ts, w) = (ts[i := check_request_t a b], w\<lparr>w_redis := r\<rparr>)"
    and "ts ! i = check_request_t a b \<Longrightarrow> no_faults (w_db w) \<Longrightarrow> \<not> related (w_db w) a b \<Longrightarrow>
      turn i (ts, w) = (ts[i := insert_request_t a b], w\<lparr>w_db := tick (w_db w)\<rparr>)"
    and "ts ! i = insert_request_t a b \<Longrightarrow> CreateFriendship_sql a b ''pending'' (w_db w) = (Inr f, d) \<Longrightarrow>
      turn i (ts, w) = (ts[i := Done (Inr f)], w\<lparr>w_db := d\<rparr>)"
  using assms
  by (simp_all add: SendRequest_t_def check_request_t_def insert_request_t_def IsBlocked_t_def ask_def on_db_def on_redis_def
      GetFriendshipByUsers_nf)

text \<open>
  C28. Two users who send each other a friend request at the same time can both succeed and leave two rows
  for the same pair, since both requests look for a row before either inserts one and the table has
  no unique index. Nothing has to fail for this.
\<close>

theorem concurrent_requests_duplicate:
  assumes "uuid_Parse (fs_uuid F) s = Some a" and "uuid_Parse (fs_uuid F) t = Some b" and "a \<noteq> b"
    and "fs_rdb F = Some R" and "rc_SIsMember R (blocked_key t) s (w_redis w) = (Inr False, r)"
    and "rc_SIsMember R (blocked_key s) t r = (Inr False, r')"
    and "no_faults (w_db w)" and "{a, b} \<subseteq> user_ids (w_db w)" and "\<not> related (w_db w) a b"
    and "\<And>n. env_fresh (db_env (w_db w)) n \<notin> fr_id ` set (friendships (w_db w))"
    and "env_fresh (db_env (w_db w)) (db_calls (w_db w) + 2) \<noteq> env_fresh (db_env (w_db w)) (db_calls (w_db w) + 3)"
  shows "\<exists>is f g w'. run_pool is ([SendRequest_t F s t, SendRequest_t F t s], w) =
      ([Done (Inr f), Done (Inr g)], w') \<and> \<not> unique_pairs (w_db w')"
proof -
  let ?d = "tick (tick (w_db w))"
  have v: "varchar_ok 16 ''pending''" by (simp add: varchar_ok_def char_count_def)
  have rel: "\<not> related (w_db w) b a" using assms(9) by (auto simp: related_def between_def)
  have ids: "user_ids ?d = user_ids (w_db w)" by (simp add: user_ids_frame)
  obtain f where f: "CreateFriendship_sql a b ''pending'' ?d = (Inr f, (tick ?d)\<lparr>friendships := friendships ?d @ [f]\<rparr>)"
    "fr_user_id f = a" "fr_friend_id f = b" "fr_id f = env_fresh (db_env ?d) (db_calls ?d)"
    using CreateFriendship_nf [of ?d a b "''pending''"] assms(7,8,10) v ids by auto
  define d1 where "d1 = (tick ?d)\<lparr>friendships := friendships ?d @ [f]\<rparr>"
  have "no_faults d1" "user_ids d1 = user_ids (w_db w)" using assms(7) by (simp_all add: d1_def no_faults_def user_ids_frame)
  moreover have "env_fresh (db_env d1) (db_calls d1) \<notin> fr_id ` set (friendships d1)"
    using assms(10,11) f(4) by (simp add: d1_def eval_nat_numeral)
  ultimately obtain g where g: "CreateFriendship_sql b a ''pending'' d1 = (Inr g, (tick d1)\<lparr>friendships := friendships d1 @ [g]\<rparr>)"
    "fr_user_id g = b" "fr_friend_id g = a"
    using CreateFriendship_nf [of d1 b a "''pending''"] assms(8) v by auto
  have calls: "related ((w_db w)\<lparr>db_calls := n\<rparr>) x y = related (w_db w) x y" for x y n by (simp add: related_def)
  have f1: "CreateFriendship_sql a b ''pending'' ((w_db w)\<lparr>db_calls := Suc (Suc (db_calls (w_db w)))\<rparr>) = (Inr f, d1)"
    using f(1) by (simp add: d1_def)
  have "turn 0 (turn 1 (turn 0 ([SendRequest_t F s t, SendRequest_t F t s], w))) =
      ([insert_request_t a b, check_request_t b a], w\<lparr>w_redis := r', w_db := tick (w_db w)\<rparr>)"
    using assms(1-7,9) by (simp add: request_turns del: turn.simps)
  moreover have "turn 1 (turn 0 (turn 1 ([insert_request_t a b, check_request_t b a], w\<lparr>w_redis := r', w_db := tick (w_db w)\<rparr>))) =
      ([Done (Inr f), Done (Inr g)], w\<lparr>w_redis := r', w_db := (tick d1)\<lparr>friendships := friendships d1 @ [g]\<rparr>\<rparr>)"
    using assms(7) rel f1 g(1) by (simp add: request_turns calls del: turn.simps)
  ultimately have "run_pool [0, 1, 0, 1, 0, 1] ([SendRequest_t F s t, SendRequest_t F t s], w) =
      ([Done (Inr f), Done (Inr g)], w\<lparr>w_redis := r', w_db := (tick d1)\<lparr>friendships := friendships d1 @ [g]\<rparr>\<rparr>)"
    by (simp del: turn.simps)
  moreover have "\<not> unique_pairs ((tick d1)\<lparr>friendships := friendships d1 @ [g]\<rparr>)"
    using f(2,3) g(2,3) by (auto simp: unique_pairs_def pair_def d1_def)
  ultimately show ?thesis by (intro exI conjI) (assumption, simp)
qed

theorem concurrent_requests_duplicate_witness:
  "\<exists>is f g w'. run_pool is ([SendRequest_t ref_friends (uuid_String ref_uuid 1) (uuid_String ref_uuid 2),
       SendRequest_t ref_friends (uuid_String ref_uuid 2) (uuid_String ref_uuid 1)], sample_world ()) =
      ([Done (Inr f), Done (Inr g)], w') \<and> \<not> unique_pairs (w_db w')"
  by (rule concurrent_requests_duplicate [of _ _ 1 _ 2 ref_redis _ Map.empty Map.empty])
    (simp_all add: ref_friends_def uuid_ref.parse_string ref_redis_def related_def sample_env_def)

text \<open>
  C29. A user who blocks another and takes it back at the same time (two requests of one client) can end
  with a block that only the cache knows: when the deletion runs between the insertion of the row
  and the update of the cache, both succeed, the table has no block, and every check that Redis
  answers says blocked until somebody unblocks again.
\<close>

theorem concurrent_block_unblock_diverge:
  fixes F :: "('r, 'n) friends_svc"
  assumes "friends_cached R K U F" and "sets_available R K" and "cache_coherent U K w"
    and "no_faults (w_db w)" and "{a, b} \<subseteq> user_ids (w_db w)" and "a \<noteq> b" and "\<not> db_blocks (w_db w) a b"
    and "env_fresh (db_env (w_db w)) (db_calls (w_db w)) \<notin> bl_id ` set (block_relations (w_db w))"
  shows "\<exists>is w'. run_pool is ([Block_t F (uuid_String U a) (uuid_String U b) reason,
       Unblock_t F (uuid_String U a) (uuid_String U b)], w) = ([Done (Inr ()), Done (Inr ())], w') \<and>
    \<not> db_blocks (w_db w') a b \<and> uuid_String U b \<in> set_members (K (w_redis w') (blocked_key (uuid_String U a))) \<and>
    \<not> cache_coherent U K w'"
proof -
  note F = friends_cached.F_uuid [OF assms(1)] friends_cached.F_rdb [OF assms(1)]
  note lib = friends_cached.axioms(2) [OF assms(1)]
  let ?s = "uuid_String U a" and ?t = "uuid_String U b"
  let ?k = "blocked_key ?s"
  let ?B = "Block_t F ?s ?t reason" and ?U = "Unblock_t F ?s ?t"
  have st: "?s \<noteq> ?t" using assms(6) by (simp add: uuid_pkg.string_inject [OF lib])
  obtain x where x: "CreateBlockRelation_sql a b (null_if_empty reason) (w_db w) =
      (Inr x, (tick (w_db w))\<lparr>block_relations := block_relations (w_db w) @ [x]\<rparr>)" "blocks a b x"
    using CreateBlockRelation_nf [OF assms(4,5,7,8)] by blast
  define d1 where "d1 = (tick (w_db w))\<lparr>block_relations := block_relations (w_db w) @ [x]\<rparr>"
  define d2 where "d2 = (tick d1)\<lparr>block_relations := filter (\<lambda>r. \<not> blocks a b r) (block_relations d1)\<rparr>"
  have "no_faults d1" using assms(4) by (simp add: d1_def no_faults_def)
  then obtain y where y: "DeleteBlockRelation_sql a b d1 = (Inr y, d2)"
    using x(2) by (auto simp: DeleteBlockRelation_sql_def stmt_nf one_row_cases d1_def d2_def)
  obtain m r1 where m: "rc_SRem R ?k ?t (w_redis w) = (m, r1)" by fastforce
  define w2 where "w2 = w\<lparr>w_db := d2, w_redis := r1\<rparr>"
  define w3 where "w3 = notify F (\<lambda>n. n_NotifyBlocked n ?t ?s) (redis_do F (\<lambda>R. rc_SAdd R ?k ?t) (drop_friendship a b w2))"
  let ?publish = "act (redis_do F (\<lambda>R. rc_SAdd R ?k ?t)) (act (notify F (\<lambda>n. n_NotifyBlocked n ?t ?s)) (Done (Inr ()) :: (('r, 'n) world, go_error + unit) thread))"
  let ?rest = "ask (on_db (GetFriendshipByUsers_sql a b)) (\<lambda>existing. case existing of
      Inr f \<Rightarrow> ask (on_db (DeleteFriendshipByUsers_sql (fr_user_id f) (fr_friend_id f))) (\<lambda>_. ?publish)
    | Inl _ \<Rightarrow> ?publish)"
  have "turn 0 ([?B, ?U], w) = ([?rest, ?U], w\<lparr>w_db := d1\<rparr>)"
    using x(1) st
    by (simp add: Block_t_def F(1) uuid_pkg.parse_string [OF lib] ask_def [of _ "case_sum _ (\<lambda>_. ask _ _)"] on_db_def [of "CreateBlockRelation_sql _ _ _"] Let_def d1_def)
  moreover have "run_pool [1, 1] ([?rest, ?U], w\<lparr>w_db := d1\<rparr>) = ([?rest, Done (Inr ())], w2)"
    using y m
    by (simp add: Unblock_t_def F uuid_pkg.parse_string [OF lib] ask_def [of "on_db (DeleteBlockRelation_sql _ _)"]
        act_def [of "redis_do F _" "Done _"] on_db_def [of "DeleteBlockRelation_sql _ _"] on_redis_def redis_do_def w2_def)
  ultimately have overtaken: "run_pool [0, 1, 1] ([?B, ?U], w) = ([?rest, Done (Inr ())], w2)"
    by (simp del: turn.simps)
  have ends: "alone ?rest w2 = (Inr (), w3)"
    by (auto simp: w3_def drop_friendship_def split: prod.split sum.split)
  have "\<exists>n. run_pool (replicate n 0) ([t, Done (Inr ())], w2) = ([Done (Inr ()), Done (Inr ())], w3)"
    if "alone t w2 = (Inr (), w3)" for t
    using run_pool_alone [of 0 "[t, Done (Inr ())]" w2] that by simp
  from this [OF ends] obtain n where
    "run_pool (replicate n 0) ([?rest, Done (Inr ())], w2) = ([Done (Inr ()), Done (Inr ())], w3)" by blast
  with overtaken have "run_pool ([0, 1, 1] @ replicate n 0) ([?B, ?U], w) = ([Done (Inr ()), Done (Inr ())], w3)"
    by (simp only: run_pool_append)
  moreover have none: "\<not> db_blocks (w_db w3) a b"
    by (simp add: w3_def db_blocks_def drop_friendship_keeps w2_def d2_def)
  moreover have "?t \<in> set_members (K (w_redis w3) ?k)"
  proof -
    have h: "holds_set (K (w_redis w) ?k)" using assms(3) by (simp add: cache_coherent_def)
    then have "holds_set (K r1 ?k)" using friends_cached.SRem_available [OF assms(1,2) _ m] by simp
    from friends_cached.SAdd_available [OF assms(1,2) this prod.collapse [symmetric]] show ?thesis
      by (simp add: w3_def redis_do_def F(2) drop_friendship_keeps w2_def)
  qed
  ultimately show ?thesis by (meson cache_coherent_def)
qed

theorem concurrent_block_unblock_diverge_witness:
  "\<exists>is w'. run_pool is ([Block_t ref_friends (uuid_String ref_uuid 1) (uuid_String ref_uuid 2) '''',
       Unblock_t ref_friends (uuid_String ref_uuid 1) (uuid_String ref_uuid 2)], sample_world ()) =
      ([Done (Inr ()), Done (Inr ())], w') \<and> \<not> db_blocks (w_db w') 1 2 \<and>
     uuid_String ref_uuid 2 \<in> set_members (w_redis w' (blocked_key (uuid_String ref_uuid 1))) \<and>
     \<not> cache_coherent ref_uuid (\<lambda>r. r) w'"
  by (rule concurrent_block_unblock_diverge [OF friends_ref.friends_cached_axioms ref_sets_available sample_coherent])
    (simp_all add: db_blocks_def)

end
