(* ===== verification/Spec2Isabelle.thy ===== *)
theory Spec2Isabelle
  imports Columns FriendsProps SocialProps AuthProps PlatformsProps LeaderboardProps AdminProps MiddlewareProps StartupProps ApiProps
    ModuleFiles Answers RacesLimiter RacesAccounts RacesFriends
begin

text \<open>
  A model of the game backend in Go, and the theorems that say what it does right and where it does
  not.

  \<^bold>\<open>The program.\<close> One process serves HTTP (chi) and a chat protocol over TCP, on top of PostgreSQL
  (through the generated query set \<open>internal/db\<close>) and Redis. Its modules, wired by
  \<open>cmd/server/main.go\<close>, are users, auth, platforms, chat, leaderboard, admin and friends. A
  service call is a function from the \<open>world\<close> (database, Redis, network) to its result and the new
  world; every error and early return of the code is a branch of the model. A history is a list of calls.

  \<^bold>\<open>Foundations.\<close>
  \<^item> \<open>Prelude\<close>: types, printers, integer widths, list lemmas, the locale \<open>invariant_system\<close>.
  \<^item> \<open>GoStd\<close>, \<open>GoTime\<close>: what is used of \<open>strconv\<close>, \<open>strings\<close> and \<open>time\<close>. \<open>ParseDuration\<close> runs on fuel, one
    unit for every character; \<open>duration_loop_fuel\<close> shows that this is enough.
  \<^item> \<open>Errors\<close>: \<open>internal/core/errors\<close>, requests and responses.
  \<^item> \<open>Schema\<close>, \<open>SqlAccounts\<close>, \<open>SqlSocial\<close>, \<open>Integrity\<close>: the tables of \<open>migrations/\<close>, every statement of
    \<open>internal/db\<close> with the constraints the engine enforces, and the proof that no sequence of
    statements, failing or not, breaks keys or references. The engine may fail any statement and
    chooses fresh identifiers and times (\<open>db_env\<close>).
  \<^item> \<open>Columns\<close>: the \<open>VARCHAR\<close> lengths and the \<open>JSONB\<close> columns of every table, kept by every statement.
  \<^item> \<open>Json\<close>, \<open>JsonFacts\<close>: \<open>encoding/json\<close> as far as the program reads and writes texts: the scanner with its
    limit on nesting, the repair of UTF-8, numbers as rationals, and the proof that reading inverts
    printing. The parser runs on fuel, \<open>2 n + 2\<close> for a text of \<open>n\<close> bytes; \<open>json_fuel\<close> shows that this is enough.
  \<^item> \<open>Externals\<close>, \<open>World\<close>: the packages the program calls. Each is a record of functions and a locale with its
    documented laws: \<open>uuid_pkg\<close>, \<open>redis\<close> (a command that fails may have been executed), and in \<open>Auth\<close>
    \<open>jwt_pkg\<close> and \<open>bcrypt_pkg\<close>. The reference instances that satisfy the laws serve the witnesses.

  \<^bold>\<open>Components.\<close>
  \<^item> \<open>Codec\<close>, \<open>Envelope\<close>, \<open>Server\<close>, \<open>Chat\<close>, \<open>ChatFacts\<close>, \<open>ChatProps\<close>: \<open>internal/chat\<close>. The frame codec (exact
    inverse, streams), the registry of connections on a heap, all message handlers, the read loop,
    and the invariant of the server through any interleaving of frames, timers and disconnects. The
    interface \<open>chat_env\<close> is what the service needs of its collaborators.
  \<^item> \<open>Friends\<close>, \<open>FriendsFacts\<close>, \<open>FriendRequests\<close>, \<open>FriendSystem\<close>, \<open>FriendsProps\<close>: \<open>internal/friends\<close>. The cache of
    blocks in step with its table (locales \<open>block_checker\<close>, \<open>friends_cached\<close>), one friendship row
    for a pair, presence.
  \<^item> \<open>SocialHttp\<close>, \<open>SocialProps\<close>: the HTTP handlers of friends and chat.
  \<^item> \<open>Session\<close>, \<open>Auth\<close>, \<open>AuthFacts\<close>, \<open>AuthProps\<close>: \<open>internal/auth\<close>. The store of sessions with its JSON text (locale
    \<open>session_store\<close>, provided by \<open>redis\<close>), keys and tokens, the service, the guards, the handlers;
    the locale \<open>auth_env\<close> gathers what the service runs on.
  \<^item> \<open>Platforms\<close>, \<open>PlatformsProps\<close>: \<open>internal/platforms\<close>, with the WeChat provider over a parameter for
    the remote server.
  \<^item> \<open>Leaderboard\<close>, \<open>LeaderboardProps\<close>: \<open>internal/leaderboard\<close>, ranking in a sorted set.
  \<^item> \<open>Users\<close>, \<open>Admin\<close>, \<open>AdminProps\<close>: \<open>internal/users\<close> and \<open>internal/admin\<close>, together with logging in and the
    audit log.
  \<^item> \<open>Limiter\<close>, \<open>LimiterProps\<close>: the rate limiter of \<open>internal/core/middleware\<close>, which refines a table of
    counters (locale \<open>limiter_store\<close>, provided by \<open>redis\<close>).
  \<^item> \<open>Middleware\<close>, \<open>MiddlewareProps\<close>: request identifiers, recovery, logging, and \<open>Timeout\<close> as a step relation of
    two goroutines on one response writer, with a function that computes its runs. Runs are bounded
    by \<open>2 n + 9\<close> steps for a handler of \<open>n\<close> operations.
  \<^item> \<open>AppCore\<close>, \<open>Config\<close>, \<open>Wiring\<close>, \<open>WiringProps\<close>: \<open>internal/core/app.go\<close>, \<open>registry.go\<close>, \<open>module.go\<close>,
    \<open>config\<close>, and from \<open>main.go\<close> and the \<open>module.go\<close> files the keys, the modules and the table of
    routes with the middleware around each (locale \<open>chi_router\<close>).
  \<^item> \<open>Assembly\<close>, \<open>Startup\<close>, \<open>StartupProps\<close>: the constructors and late setters of the services and of the chat
    module, \<open>auth/otp.go\<close>, logger, pool, cache, HTTP server, and \<open>main\<close> from the configuration to the exit code.
  \<^item> \<open>ModuleFiles\<close>: the \<open>module.go\<close> files with the constructors of services, handlers, stores and adapters, the
    Redis adapter of auth and the query set; the modules of \<open>main\<close> hold the services that \<open>assemble\<close> wires.
  \<^item> \<open>Bodies\<close>: the structs that the handlers decode from the bodies of requests. \<open>Answers\<close>: the bytes of the error
    answers, which can be read back, except that the limiter lets a client forge its text.

  \<^bold>\<open>The whole program.\<close>
  \<^item> \<open>Effects\<close>: which statements every service may execute and to whom it may write, as a predicate on
    worlds that the operations keep (locales \<open>policy\<close> and \<open>table_policy\<close>): one proof for each
    operation, instantiated with the permissions of a caller, with invariants, and with rows of a user.
  \<^item> \<open>Histories\<close>: tables that only grow at their end, and the rows of one user.
  \<^item> \<open>Api\<close>, \<open>ApiFacts\<close>, \<open>ApiProps\<close>: an HTTP call from its bytes through router, middleware and handler to its
    answer (\<open>http_serve\<close>), the frames of the chat beside it (\<open>sys_step\<close>, \<open>sys_run\<close>), and the theorems
    about access control, all histories, and answers. The router is a parameter of the locale
    \<open>chi_match\<close>, and a simple router that satisfies it serves the witnesses.
  \<^item> \<open>Samples\<close>: the concrete states of the witnesses.

  \<^bold>\<open>Requests at the same time.\<close> \<open>net/http\<close> runs every request in a goroutine of its own.
  \<^item> \<open>Threads\<close>: a thread is a result or one atomic step with the thread that follows; a pool is a list of
    threads on one state, and a schedule a list of turns (the runs of the relation \<open>pool_step\<close>). Every
    pool can be run to its end. The locale \<open>interference\<close> is about a thread among others whose steps
    respect a relation: what it holds up, it holds up in every pool.
  \<^item> \<open>Concurrency\<close>: the operations that look before they write or write in two places (friend requests, blocks,
    registration, refreshing, unbinding, submissions, the limiter) as threads, cut at every statement,
    command and push. Run alone they are the services of the other theories.
  \<^item> \<open>RacesLimiter\<close>: the limit holds exactly under every schedule; each \<open>INCR\<close> hands out a ticket.
  \<^item> \<open>RacesAccounts\<close>: a name belongs to one account and an unbinding leaves a way to log in, whatever other
    requests do; but two unbindings of one user can lock that user out.
  \<^item> \<open>RacesFriends\<close>: a block holds under every schedule; two requests can create two rows for a pair, and a
    block and its removal can leave the cache and the table different.

  \<^bold>\<open>What is shown.\<close> Integrity of the tables and of the registry of connections through all histories;
  refinement of the block table by its cache, of a table of counters by the rate limiter, and of a
  handler by the handler under \<open>Timeout\<close> within the deadline; the round trips of frames, of
  sessions and of registering and logging in; exact functional behaviour of requests, blocks,
  messages, rankings and submissions; who may do what (what any HTTP call may write, guards, routes,
  history of rooms, banned accounts); that other users cannot change the rows of a user; that
  every request under \<open>Timeout\<close> ends and every call is answered and logged. A part of the theorems proves defects: the
  published signing secret, the doubled prefix of the friends routes, the refresh token that never
  works, the block check in the wrong direction, the panic that ends the process, the limiter
  that trusts a header, the answers mixed after the deadline, and three races of requests that look
  before they write.

  \<^bold>\<open>Bounds.\<close> Numbers of type \<open>int\<close> and \<open>int64\<close> have 64 bits; conversions to 32 bits keep the low bits.
  Scores are rationals, infinities or not a number, without rounding. Redis keys do not expire by
  themselves: the laws speak of the time between two commands. The limiter's theorem asks for
  counters below \<open>2 ^ 62\<close>. The calls of \<open>Api\<close> end within their deadline; what happens after it is in \<open>Middleware\<close>.

  \<^bold>\<open>Not modelled.\<close> The JSON text of successful responses (a response keeps the value); the protobuf encoding (a
  parameter) and the generated \<open>*.pb.go\<close> code beyond types and accessors; the drivers of PostgreSQL and
  Redis, the sockets, the lines of the log other than those of the access log, migrations (which
  nothing runs) and the tests; data races inside one Go statement, except those of \<open>Timeout\<close>. A
  statement, a Redis command and a push are one atomic step. The operations that \<open>Concurrency\<close> does not
  name, and the whole calls of \<open>Api\<close>, run one at a time.
\<close>

end
